(* ===== verification/AexPrelude.thy ===== *)
theory AexPrelude
  imports Main "HOL-Library.Word" "HOL-Library.Sublist"
begin

text \<open>
  Shared vocabulary of the development: the result monad of fallible Rust functions
  (\<open>Result<T, E>\<close> is the sum type \<open>'e + 'a\<close>, with \<open>Inl\<close> the error and the question mark
  operator \<open>bindE\<close>), the state-passing monad of the request handlers, Rust strings and
  byte vectors, decimal printing of integers, and line-based texts.

  A Rust \<open>String\<close> is an Isabelle \<open>string\<close> holding its UTF-8 bytes, so \<open>len\<close> is
  \<open>length\<close>; the ASCII predicates below read one byte, and a byte of 128 or more belongs to a
  non-ASCII character.  A \<open>Vec<u8>\<close> is a list of 8-bit words.
\<close>

named_theorems result_simps
named_theorems step_iffs
named_theorems keeps_rules

type_synonym byte = "8 word"
type_synonym bytes = "byte list"
type_synonym i64 = "64 word"
type_synonym u64 = "64 word"
type_synonym u8 = "8 word"

section \<open>Results\<close>

fun bindE :: "'e + 'a \<Rightarrow> ('a \<Rightarrow> 'e + 'b) \<Rightarrow> 'e + 'b" where
  "bindE (Inl e) f = Inl e"
| "bindE (Inr a) f = f a"

definition ensure :: "bool \<Rightarrow> 'e \<Rightarrow> 'e + unit" where
  "ensure c e = (if c then Inr () else Inl e)"

fun map_err :: "('e \<Rightarrow> 'f) \<Rightarrow> 'e + 'a \<Rightarrow> 'f + 'a" where
  "map_err g (Inl e) = Inl (g e)"
| "map_err g (Inr a) = Inr a"

fun is_ok :: "'e + 'a \<Rightarrow> bool" where
  "is_ok (Inl e) = False"
| "is_ok (Inr a) = True"

fun ok_or :: "'e \<Rightarrow> 'a option \<Rightarrow> 'e + 'a" where
  "ok_or e None = Inl e"
| "ok_or e (Some a) = Inr a"

lemma bindE_Inr_iff [step_iffs]: "bindE m f = Inr b \<longleftrightarrow> (\<exists>a. m = Inr a \<and> f a = Inr b)"
  by (cases m) auto

lemma bindE_Inl_iff [step_iffs]:
  "bindE m f = Inl e \<longleftrightarrow> m = Inl e \<or> (\<exists>a. m = Inr a \<and> f a = Inl e)"
  by (cases m) auto

lemma ensure_Inr_iff [step_iffs]: "ensure c e = Inr u \<longleftrightarrow> c"
  by (simp add: ensure_def)

lemma ensure_Inl_iff [step_iffs]: "ensure c e = Inl e' \<longleftrightarrow> \<not> c \<and> e' = e"
  by (auto simp: ensure_def)

lemma map_err_Inr_iff [step_iffs]: "map_err g m = Inr a \<longleftrightarrow> m = Inr a"
  by (cases m) auto

lemma map_err_Inl_iff [step_iffs]: "map_err g m = Inl e \<longleftrightarrow> (\<exists>d. m = Inl d \<and> e = g d)"
  by (cases m) auto

lemma ok_or_Inr_iff [step_iffs]: "ok_or e m = Inr a \<longleftrightarrow> m = Some a"
  by (cases m) auto

lemma ok_or_Inl_iff [step_iffs]: "ok_or e m = Inl e' \<longleftrightarrow> m = None \<and> e' = e"
  by (cases m) auto

lemma is_ok_iff: "is_ok m \<longleftrightarrow> (\<exists>a. m = Inr a)"
  by (cases m) auto

lemma bindE_assoc: "bindE (bindE m f) g = bindE m (\<lambda>x. bindE (f x) g)"
  by (cases m) auto

lemma bindE_ensure [result_simps]: "bindE (ensure c e) f = (if c then f () else Inl e)"
  by (simp add: ensure_def)

section \<open>State-passing actions\<close>

text \<open>
  A handler runs on the whole server state; an early return keeps every effect made before it.
\<close>

type_synonym ('s, 'e, 'a) action = "'s \<Rightarrow> ('e + 'a) \<times> 's"

definition returnS :: "'a \<Rightarrow> ('s, 'e, 'a) action" where
  "returnS a = (\<lambda>s. (Inr a, s))"

definition throwS :: "'e \<Rightarrow> ('s, 'e, 'a) action" where
  "throwS e = (\<lambda>s. (Inl e, s))"

definition bindS :: "('s, 'e, 'a) action \<Rightarrow> ('a \<Rightarrow> ('s, 'e, 'b) action) \<Rightarrow> ('s, 'e, 'b) action" where
  "bindS m f = (\<lambda>s. case m s of (Inl e, s') \<Rightarrow> (Inl e, s') | (Inr a, s') \<Rightarrow> f a s')"

definition liftS :: "'e + 'a \<Rightarrow> ('s, 'e, 'a) action" where
  "liftS r = (\<lambda>s. (r, s))"

definition ensureS :: "bool \<Rightarrow> 'e \<Rightarrow> ('s, 'e, unit) action" where
  "ensureS c e = liftS (ensure c e)"

definition getS :: "('s \<Rightarrow> 'a) \<Rightarrow> ('s, 'e, 'a) action" where
  "getS g = (\<lambda>s. (Inr (g s), s))"

definition modifyS :: "('s \<Rightarrow> 's) \<Rightarrow> ('s, 'e, unit) action" where
  "modifyS g = (\<lambda>s. (Inr (), g s))"

definition mapErrS :: "('e \<Rightarrow> 'f) \<Rightarrow> ('s, 'e, 'a) action \<Rightarrow> ('s, 'f, 'a) action" where
  "mapErrS g m = (\<lambda>s. case m s of (r, s') \<Rightarrow> (map_err g r, s'))"

text \<open>A \<open>match\<close> on the result of a call, with an arm for the error and one for the value.\<close>

definition matchS :: "('s, 'e, 'a) action \<Rightarrow> ('e \<Rightarrow> ('s, 'f, 'b) action) \<Rightarrow> ('a \<Rightarrow> ('s, 'f, 'b) action)
    \<Rightarrow> ('s, 'f, 'b) action" where
  "matchS m on_err on_ok = (\<lambda>s. case m s of (Inl e, s') \<Rightarrow> on_err e s' | (Inr a, s') \<Rightarrow> on_ok a s')"

text \<open>Run an action and turn its outcome into a value, when the caller inspects or drops it.\<close>

definition tryS :: "('s, 'e, 'a) action \<Rightarrow> ('s, 'f, 'e + 'a) action" where
  "tryS m = (\<lambda>s. case m s of (r, s') \<Rightarrow> (Inr r, s'))"

lemma returnS_apply [simp]: "returnS a s = (Inr a, s)" by (simp add: returnS_def)
lemma throwS_apply [simp]: "throwS e s = (Inl e, s)" by (simp add: throwS_def)
lemma liftS_apply [simp]: "liftS r s = (r, s)" by (simp add: liftS_def)
lemma getS_apply [simp]: "getS g s = (Inr (g s), s)" by (simp add: getS_def)
lemma modifyS_apply [simp]: "modifyS g s = (Inr (), g s)" by (simp add: modifyS_def)
lemma ensureS_apply [simp]: "ensureS c e s = (if c then Inr () else Inl e, s)"
  by (simp add: ensureS_def ensure_def)
lemma tryS_apply: "tryS m s = (Inr (fst (m s)), snd (m s))"
  by (simp add: tryS_def split: prod.splits)
lemma mapErrS_apply: "mapErrS g m s = (map_err g (fst (m s)), snd (m s))"
  by (simp add: mapErrS_def split: prod.splits)

lemma bindS_returnS [simp]: "bindS (returnS a) f = f a"
  by (simp add: bindS_def fun_eq_iff)

lemma bindS_getS [simp]: "bindS (getS g) f s = f (g s) s"
  by (simp add: bindS_def)

lemma bindS_modifyS [simp]: "bindS (modifyS g) f s = f () (g s)"
  by (simp add: bindS_def)

lemma bindS_throwS [simp]: "bindS (throwS e) f = throwS e"
  by (simp add: bindS_def fun_eq_iff)

lemma bindS_ensureS [simp]: "bindS (ensureS c e) f s = (if c then f () s else (Inl e, s))"
  by (simp add: bindS_def)

lemma bindS_liftS: "bindS (liftS r) f s = (case r of Inl e \<Rightarrow> (Inl e, s) | Inr a \<Rightarrow> f a s)"
  by (simp add: bindS_def split: sum.splits)

lemma bindS_assoc: "bindS (bindS m f) g = bindS m (\<lambda>x. bindS (f x) g)"
  by (auto simp: bindS_def fun_eq_iff split: sum.splits prod.splits)

lemma bindS_step: "m s = (Inr a, s1) \<Longrightarrow> bindS m f s = f a s1"
  by (simp add: bindS_def)

lemma bindS_stop: "m s = (Inl e, s1) \<Longrightarrow> bindS m f s = (Inl e, s1)"
  by (simp add: bindS_def)

lemma bindS_Inr_iff [step_iffs]:
  "bindS m f s = (Inr b, s') \<longleftrightarrow> (\<exists>a s1. m s = (Inr a, s1) \<and> f a s1 = (Inr b, s'))"
  by (auto simp: bindS_def split: sum.splits prod.splits)

lemma bindS_Inl_iff [step_iffs]:
  "bindS m f s = (Inl e, s') \<longleftrightarrow>
     m s = (Inl e, s') \<or> (\<exists>a s1. m s = (Inr a, s1) \<and> f a s1 = (Inl e, s'))"
  by (auto simp: bindS_def split: sum.splits prod.splits)

lemma mapErrS_Inr_iff [step_iffs]: "mapErrS g m s = (Inr a, s') \<longleftrightarrow> m s = (Inr a, s')"
  by (cases "m s"; cases "fst (m s)") (auto simp: mapErrS_apply)

lemma tryS_iff [step_iffs]: "tryS m s = (Inr r, s') \<longleftrightarrow> m s = (r, s')"
  by (cases "m s") (auto simp: tryS_apply)

lemma matchS_iff [step_iffs]:
  "matchS m g f s = (x, s') \<longleftrightarrow>
     (\<exists>e s1. m s = (Inl e, s1) \<and> g e s1 = (x, s')) \<or> (\<exists>a s1. m s = (Inr a, s1) \<and> f a s1 = (x, s'))"
  by (cases "m s"; cases "fst (m s)") (auto simp: matchS_def)

text \<open>
  \<open>keeps P m\<close>: the action \<open>m\<close> preserves the state predicate \<open>P\<close> on every outcome, errors
  included.  Its rules decompose a handler into its calls.
\<close>

definition keeps :: "('s \<Rightarrow> bool) \<Rightarrow> ('s, 'e, 'a) action \<Rightarrow> bool" where
  "keeps P m \<longleftrightarrow> (\<forall>s. P s \<longrightarrow> P (snd (m s)))"

lemma keepsI: "(\<And>s. P s \<Longrightarrow> P (snd (m s))) \<Longrightarrow> keeps P m"
  by (simp add: keeps_def)

lemma keepsD: "keeps P m \<Longrightarrow> P s \<Longrightarrow> P (snd (m s))"
  by (simp add: keeps_def)

lemma keepsE: "keeps P m \<Longrightarrow> m s = (r, s') \<Longrightarrow> P s \<Longrightarrow> P s'"
  by (auto simp: keeps_def dest: spec [of _ s])

lemma keeps_bindS [keeps_rules]: "keeps P m \<Longrightarrow> (\<And>a. keeps P (f a)) \<Longrightarrow> keeps P (bindS m f)"
  by (fastforce simp: keeps_def bindS_def split: sum.splits prod.splits)

lemma keeps_bindS_outcome:
  assumes "keeps P m" and "\<And>a. (\<exists>s s1. m s = (Inr a, s1)) \<Longrightarrow> keeps P (f a)"
  shows "keeps P (bindS m f)"
proof (rule keepsI)
  fix s assume P: "P s"
  obtain r s1 where ms: "m s = (r, s1)" by fastforce
  from keepsE [OF assms(1) ms P] have "P s1" .
  moreover have "r = Inr a \<Longrightarrow> P (snd (f a s1))" for a
    using assms(2) ms \<open>P s1\<close> by (auto dest: keepsD)
  ultimately show "P (snd (bindS m f s))"
    by (cases r) (simp_all add: ms bindS_def)
qed

lemma keeps_matchS [keeps_rules]:
  "keeps P m \<Longrightarrow> (\<And>e. keeps P (g e)) \<Longrightarrow> (\<And>a. keeps P (f a)) \<Longrightarrow> keeps P (matchS m g f)"
  by (fastforce simp: keeps_def matchS_def split: sum.splits prod.splits)

lemma keeps_returnS [keeps_rules]: "keeps P (returnS a)" by (simp add: keeps_def)
lemma keeps_throwS [keeps_rules]: "keeps P (throwS e)" by (simp add: keeps_def)
lemma keeps_liftS [keeps_rules]: "keeps P (liftS r)" by (simp add: keeps_def)
lemma keeps_ensureS [keeps_rules]: "keeps P (ensureS c e)" by (simp add: keeps_def)
lemma keeps_getS [keeps_rules]: "keeps P (getS g)" by (simp add: keeps_def)
lemma keeps_tryS [keeps_rules]: "keeps P m \<Longrightarrow> keeps P (tryS m)" by (simp add: keeps_def tryS_apply)
lemma keeps_mapErrS [keeps_rules]: "keeps P m \<Longrightarrow> keeps P (mapErrS g m)" by (simp add: keeps_def mapErrS_apply)
lemma keeps_if [keeps_rules]:
  "(c \<Longrightarrow> keeps P m) \<Longrightarrow> (\<not> c \<Longrightarrow> keeps P n) \<Longrightarrow> keeps P (if c then m else n)"
  by simp
lemma keeps_case_option [keeps_rules]:
  "(x = None \<Longrightarrow> keeps P m) \<Longrightarrow> (\<And>a. x = Some a \<Longrightarrow> keeps P (f a)) \<Longrightarrow>
   keeps P (case x of None \<Rightarrow> m | Some a \<Rightarrow> f a)"
  by (cases x) auto
lemma keeps_case_sum [keeps_rules]:
  "(\<And>e. x = Inl e \<Longrightarrow> keeps P (g e)) \<Longrightarrow> (\<And>a. x = Inr a \<Longrightarrow> keeps P (f a)) \<Longrightarrow>
   keeps P (case x of Inl e \<Rightarrow> g e | Inr a \<Rightarrow> f a)"
  by (cases x) auto
lemma keeps_modifyS [keeps_rules]: "(\<And>s. P s \<Longrightarrow> P (g s)) \<Longrightarrow> keeps P (modifyS g)"
  by (simp add: keeps_def)

section \<open>Characters and strings\<close>

definition code :: "char \<Rightarrow> nat" where
  "code c = of_char c"

definition is_ascii :: "char \<Rightarrow> bool" where
  "is_ascii c \<longleftrightarrow> code c < 128"

definition is_ascii_control :: "char \<Rightarrow> bool" where
  "is_ascii_control c \<longleftrightarrow> code c < 32 \<or> code c = 127"

definition is_ascii_digit :: "char \<Rightarrow> bool" where
  "is_ascii_digit c \<longleftrightarrow> 48 \<le> code c \<and> code c \<le> 57"

definition is_ascii_lowercase :: "char \<Rightarrow> bool" where
  "is_ascii_lowercase c \<longleftrightarrow> 97 \<le> code c \<and> code c \<le> 122"

definition is_ascii_uppercase :: "char \<Rightarrow> bool" where
  "is_ascii_uppercase c \<longleftrightarrow> 65 \<le> code c \<and> code c \<le> 90"

definition is_ascii_alphanumeric :: "char \<Rightarrow> bool" where
  "is_ascii_alphanumeric c \<longleftrightarrow> is_ascii_digit c \<or> is_ascii_lowercase c \<or> is_ascii_uppercase c"

definition is_ascii_hexdigit :: "char \<Rightarrow> bool" where
  "is_ascii_hexdigit c \<longleftrightarrow> is_ascii_digit c \<or> (97 \<le> code c \<and> code c \<le> 102)
     \<or> (65 \<le> code c \<and> code c \<le> 70)"

text \<open>\<open>char::is_whitespace\<close> on an ASCII character: tab, LF, VT, FF, CR and space.\<close>

definition is_ascii_space :: "char \<Rightarrow> bool" where
  "is_ascii_space c \<longleftrightarrow> (9 \<le> code c \<and> code c \<le> 13) \<or> code c = 32"

definition to_ascii_lowercase_char :: "char \<Rightarrow> char" where
  "to_ascii_lowercase_char c = (if is_ascii_uppercase c then char_of (code c + 32) else c)"

definition to_ascii_lowercase :: "string \<Rightarrow> string" where
  "to_ascii_lowercase s = map to_ascii_lowercase_char s"

abbreviation LF :: char where "LF \<equiv> CHR 0x0A"
abbreviation CR :: char where "CR \<equiv> CHR 0x0D"
abbreviation NUL :: char where "NUL \<equiv> CHR 0x00"

lemmas char_class_defs = code_def is_ascii_def is_ascii_control_def is_ascii_digit_def
  is_ascii_lowercase_def is_ascii_uppercase_def is_ascii_alphanumeric_def is_ascii_hexdigit_def
  is_ascii_space_def

lemma code_less_256 [simp]: "code c < 256"
  using of_char_Char by (simp add: code_def)

lemma code_inj: "code c = code d \<Longrightarrow> c = d"
  by (simp add: code_def)

lemma code_char_of [simp]: "code (char_of (n::nat)) = n mod 256"
  by (simp add: code_def)

text \<open>\<open>str::strip_prefix\<close>, \<open>str::split_once\<close> on one character, \<open>str::starts_with\<close>.\<close>

fun strip_prefix :: "string \<Rightarrow> string \<Rightarrow> string option" where
  "strip_prefix [] s = Some s"
| "strip_prefix (p # ps) [] = None"
| "strip_prefix (p # ps) (c # s) = (if p = c then strip_prefix ps s else None)"

fun split_once :: "char \<Rightarrow> string \<Rightarrow> (string \<times> string) option" where
  "split_once d [] = None"
| "split_once d (c # s) =
     (if c = d then Some ([], s) else map_option (\<lambda>(a, b). (c # a, b)) (split_once d s))"

definition starts_with :: "string \<Rightarrow> string \<Rightarrow> bool" where
  "starts_with s p \<longleftrightarrow> strip_prefix p s \<noteq> None"

lemma strip_prefix_Some_iff: "strip_prefix p s = Some r \<longleftrightarrow> s = p @ r"
  by (induction p s rule: strip_prefix.induct) auto

lemma starts_with_iff: "starts_with s p \<longleftrightarrow> (\<exists>r. s = p @ r)"
  by (auto simp: starts_with_def strip_prefix_Some_iff)

lemma split_once_Some_iff:
  "split_once d s = Some (a, b) \<longleftrightarrow> s = a @ d # b \<and> d \<notin> set a"
proof (induction d s arbitrary: a rule: split_once.induct)
  case (2 d c s)
  show ?case
  proof (cases a)
    case (Cons x xs)
    then show ?thesis using 2 [of xs] by (cases "c = d") auto
  qed auto
qed simp

lemma split_once_None_iff: "split_once d s = None \<longleftrightarrow> d \<notin> set s"
  by (induction d s rule: split_once.induct) auto

lemma split_once_append [simp]: "d \<notin> set a \<Longrightarrow> split_once d (a @ d # b) = Some (a, b)"
  by (simp add: split_once_Some_iff)

text \<open>
  The loop \<open>for (i, c) in s.chars().enumerate()\<close> that stops at the first offending character:
  its index and the rest of the string from there.  Everything before the first offending
  character is ASCII wherever this is used, so the character index is the byte index.
\<close>

fun first_bad :: "(char \<Rightarrow> bool) \<Rightarrow> nat \<Rightarrow> string \<Rightarrow> (nat \<times> string) option" where
  "first_bad bad i [] = None"
| "first_bad bad i (c # s) = (if bad c then Some (i, c # s) else first_bad bad (Suc i) s)"

lemma first_bad_None_iff: "first_bad bad i s = None \<longleftrightarrow> (\<forall>c \<in> set s. \<not> bad c)"
  by (induction bad i s rule: first_bad.induct) auto

lemma first_bad_Some_iff:
  "first_bad bad i s = Some (k, r) \<longleftrightarrow>
     (\<exists>pre c t. s = pre @ r \<and> r = c # t \<and> bad c \<and> (\<forall>d \<in> set pre. \<not> bad d) \<and> k = i + length pre)"
proof (induction bad i s rule: first_bad.induct)
  case (2 bad i c s)
  show ?case
  proof (cases "bad c")
    case True
    have "\<not> (\<exists>d. d \<in> set pre)" if "c # s = pre @ r" "\<forall>d \<in> set pre. \<not> bad d" for pre
      using that True by (cases pre) auto
    then show ?thesis using True by (fastforce simp: Cons_eq_append_conv)
  next
    case False
    with 2 show ?thesis by (fastforce simp: Cons_eq_append_conv)
  qed
qed simp

text \<open>
  \<open>{:?}\<close> of a character.  An ASCII control character without a short escape is written as a
  lower-case hexadecimal escape.  A non-ASCII character is written as its UTF-8 bytes, the case
  of a printable one (only the text of an error message depends on it).
\<close>

definition hex_digit :: "nat \<Rightarrow> char" where
  "hex_digit n = (if n < 10 then char_of (48 + n) else char_of (87 + n))"

definition utf8_len :: "char \<Rightarrow> nat" where
  "utf8_len c = (if code c < 192 then 1 else if code c < 224 then 2 else if code c < 240 then 3 else 4)"

fun debug_char :: "string \<Rightarrow> string" where
  "debug_char [] = []"
| "debug_char (c # s) = CHR 0x27 # (
     if code c = 0 then [CHR 0x5C, CHR ''0'']
     else if code c = 9 then [CHR 0x5C, CHR ''t'']
     else if code c = 10 then [CHR 0x5C, CHR ''n'']
     else if code c = 13 then [CHR 0x5C, CHR ''r'']
     else if code c = 39 \<or> code c = 92 then [CHR 0x5C, c]
     else if is_ascii_control c then CHR 0x5C # ''u{'' @
       (if code c < 16 then [hex_digit (code c)] else [hex_digit (code c div 16), hex_digit (code c mod 16)])
       @ ''}''
     else take (utf8_len c) (c # s)) @ [CHR 0x27]"

section \<open>Decimal text of integers\<close>

definition digit :: "nat \<Rightarrow> char" where
  "digit n = char_of (48 + n)"

fun show_nat :: "nat \<Rightarrow> string" where
  "show_nat n = (if n < 10 then [digit n] else show_nat (n div 10) @ [digit (n mod 10)])"

declare show_nat.simps [simp del]

definition show_int :: "int \<Rightarrow> string" where
  "show_int i = (if i < 0 then CHR ''-'' # show_nat (nat (- i)) else show_nat (nat i))"

definition show_i64 :: "i64 \<Rightarrow> string" where
  "show_i64 w = show_int (sint w)"

definition show_u64 :: "u64 \<Rightarrow> string" where
  "show_u64 w = show_nat (unat w)"

definition read_nat :: "string \<Rightarrow> nat" where
  "read_nat s = foldl (\<lambda>n c. 10 * n + (code c - 48)) 0 s"

lemma code_digit: "n < 10 \<Longrightarrow> code (digit n) = 48 + n"
  by (simp add: digit_def)

lemma is_ascii_digit_digit: "n < 10 \<Longrightarrow> is_ascii_digit (digit n)"
  by (simp add: is_ascii_digit_def code_digit)

lemma show_nat_digits: "c \<in> set (show_nat n) \<Longrightarrow> is_ascii_digit c"
proof (induction n rule: show_nat.induct)
  case (1 n)
  then show ?case
    by (subst (asm) (2) show_nat.simps) (auto simp: is_ascii_digit_digit split: if_splits)
qed

lemma show_nat_not_Nil [simp]: "show_nat n \<noteq> []"
  by (subst show_nat.simps) simp

lemma read_nat_show_nat [simp]: "read_nat (show_nat n) = n"
proof (induction n rule: show_nat.induct)
  case (1 n)
  then show ?case
    by (subst show_nat.simps) (auto simp: read_nat_def code_digit)
qed

lemma show_nat_inj [simp]: "show_nat m = show_nat n \<longleftrightarrow> m = n"
  by (metis read_nat_show_nat)

lemma minus_not_digit [simp]: "\<not> is_ascii_digit (CHR ''-'')"
  by (simp add: is_ascii_digit_def code_def)

lemma show_nat_not_minus [simp]:
  "show_nat n \<noteq> CHR ''-'' # s" "CHR ''-'' # s \<noteq> show_nat n"
  by (metis list.set_intros(1) minus_not_digit show_nat_digits)+

lemma show_int_inj [simp]: "show_int i = show_int j \<longleftrightarrow> i = j"
  by (auto simp: show_int_def)

lemma show_i64_inj [simp]: "show_i64 v = show_i64 w \<longleftrightarrow> v = w"
  by (auto simp: show_i64_def intro: signed_word_eqI)

lemma show_u64_inj [simp]: "show_u64 v = show_u64 w \<longleftrightarrow> v = w"
  by (auto simp: show_u64_def intro: word_unat_eq_iff [THEN iffD2])

section \<open>Byte vectors\<close>

definition as_bytes :: "string \<Rightarrow> bytes" where
  "as_bytes s = map of_char s"

lemma unat_of_char [simp]: "unat (of_char c :: byte) = code c"
proof -
  have "(of_char c :: byte) = of_nat (code c)" by (simp add: code_def of_nat_of_char)
  then show ?thesis by (simp add: unat_of_nat)
qed

lemma of_char_byte_inj [simp]: "(of_char c :: byte) = of_char d \<longleftrightarrow> c = d"
  by (metis code_inj unat_of_char)

lemma as_bytes_inj [simp]: "as_bytes s = as_bytes t \<longleftrightarrow> s = t"
  unfolding as_bytes_def by (rule inj_map_eq_map) (simp add: inj_def)

lemma length_as_bytes [simp]: "length (as_bytes s) = length s"
  by (simp add: as_bytes_def)

lemma as_bytes_append [simp]: "as_bytes (s @ t) = as_bytes s @ as_bytes t"
  by (simp add: as_bytes_def)

section \<open>Line-based texts\<close>

text \<open>A text of lines, LF between two lines and none after the last one.\<close>

fun join_lines :: "string list \<Rightarrow> string" where
  "join_lines [] = []"
| "join_lines [l] = l"
| "join_lines (l # m # ls) = l @ LF # join_lines (m # ls)"

definition line_safe :: "string \<Rightarrow> bool" where
  "line_safe s \<longleftrightarrow> LF \<notin> set s"

lemma line_safe_append [simp]: "line_safe (s @ t) \<longleftrightarrow> line_safe s \<and> line_safe t"
  by (auto simp: line_safe_def)

lemma line_safe_Cons [simp]: "line_safe (c # s) \<longleftrightarrow> c \<noteq> LF \<and> line_safe s"
  by (auto simp: line_safe_def)

lemma line_safe_Nil [simp]: "line_safe []"
  by (simp add: line_safe_def)

lemma digit_not_LF: "is_ascii_digit c \<Longrightarrow> c \<noteq> LF"
  by (auto simp: is_ascii_digit_def code_def)

lemma line_safe_show_nat [simp]: "line_safe (show_nat n)"
  using show_nat_digits digit_not_LF by (fastforce simp: line_safe_def)

lemma line_safe_show_int [simp]: "line_safe (show_int i)"
  by (simp add: show_int_def)

lemma line_safe_show_i64 [simp]: "line_safe (show_i64 w)"
  by (simp add: show_i64_def)

lemma line_safe_show_u64 [simp]: "line_safe (show_u64 w)"
  by (simp add: show_u64_def)

lemma join_lines_Cons: "ls \<noteq> [] \<Longrightarrow> join_lines (l # ls) = l @ LF # join_lines ls"
  by (cases ls) auto

lemma split_once_join_lines:
  "line_safe l \<Longrightarrow> ls \<noteq> [] \<Longrightarrow> split_once LF (join_lines (l # ls)) = Some (l, join_lines ls)"
  by (simp add: join_lines_Cons line_safe_def)

lemma join_lines_inj:
  assumes "list_all line_safe xs" "list_all line_safe ys" "xs \<noteq> []" "ys \<noteq> []"
    and "join_lines xs = join_lines ys"
  shows "xs = ys"
  using assms
proof (induction xs arbitrary: ys)
  case (Cons x xs)
  from Cons.prems obtain y ys' where ys: "ys = y # ys'" by (cases ys) auto
  have split: "split_once LF (join_lines (z # zs)) =
      (if zs = [] then None else Some (z, join_lines zs))" if "line_safe z" for z zs
    using that split_once_join_lines [of z zs]
    by (cases zs) (auto simp: split_once_None_iff line_safe_def)
  have xsafe: "line_safe x" and ysafe: "line_safe y" using Cons.prems ys by auto
  have eq: "join_lines (x # xs) = join_lines (y # ys')" using Cons.prems ys by simp
  then have "(if xs = [] then None else Some (x, join_lines xs))
      = (if ys' = [] then None else Some (y, join_lines ys'))"
    using split [OF xsafe] split [OF ysafe] by metis
  then show ?case
    using Cons.IH [of ys'] Cons.prems ys eq by (auto split: if_splits)
qed simp

section \<open>Octets\<close>

lemma octet_bound: "unat (x :: 8 word) < 256"
proof -
  have "unat x < 2 ^ LENGTH(8)" by (rule unsigned_less)
  then show ?thesis by simp
qed

end
