(* ===== verification/CoreTypes.thy ===== *)
theory CoreTypes
  imports AexPrelude
begin

text \<open>
  The core error type and identifiers (\<open>aex-core/src/error.rs\<close>, \<open>aex-core/src/types.rs\<close>):
  agent identifiers with their validation and scheme, the parser of W3C DID URIs and transfer
  identifiers.  The lemmas characterise the accepted identifiers, show that parsing a DID URI
  inverts printing it, and relate the scheme of an identifier to its parsed method.
\<close>

datatype core_error =
    InvalidAgentId string
  | UnknownIdentityScheme
  | SignatureInvalid
  | SignatureFormat string
  | KeyUnavailable string
  | NotFound string
  | Io string
  | Crypto string
  | Internal string

fun core_error_text :: "core_error \<Rightarrow> string" where
  "core_error_text (InvalidAgentId m) = ''invalid agent_id: '' @ m"
| "core_error_text UnknownIdentityScheme = ''unknown identity scheme''"
| "core_error_text SignatureInvalid = ''signature verification failed''"
| "core_error_text (SignatureFormat m) = ''signature format invalid: '' @ m"
| "core_error_text (KeyUnavailable m) = ''key unavailable: '' @ m"
| "core_error_text (NotFound m) = ''not found: '' @ m"
| "core_error_text (Io m) = ''I/O error: '' @ m"
| "core_error_text (Crypto m) = ''crypto error: '' @ m"
| "core_error_text (Internal m) = ''internal error: '' @ m"

section \<open>Agent identifiers\<close>

definition MAX_AGENT_ID_LEN :: nat where
  "MAX_AGENT_ID_LEN = 256"

datatype AgentId = AgentId (as_str: string)

definition bad_agent_id_char :: "char \<Rightarrow> bool" where
  "bad_agent_id_char c \<longleftrightarrow> \<not> is_ascii c \<or> is_ascii_control c \<or> is_ascii_space c"

definition validate_agent_id :: "string \<Rightarrow> core_error + unit" where
  "validate_agent_id s =
     (if s = [] then Inl (InvalidAgentId ''empty'')
      else if length s > MAX_AGENT_ID_LEN then
        Inl (InvalidAgentId (''length '' @ show_nat (length s) @ '' > '' @ show_nat MAX_AGENT_ID_LEN))
      else case first_bad bad_agent_id_char 0 s of
        Some (i, r) \<Rightarrow> Inl (InvalidAgentId (''invalid char at '' @ show_nat i @ '': '' @ debug_char r))
      | None \<Rightarrow>
          if CHR '':'' \<notin> set s then
            Inl (InvalidAgentId (''missing scheme separator '' @ [CHR 0x27] @ '':'' @ [CHR 0x27]))
          else Inr ())"

definition AgentId_new :: "string \<Rightarrow> core_error + AgentId" where
  "AgentId_new s = bindE (validate_agent_id s) (\<lambda>_. Inr (AgentId s))"

datatype IdScheme = SpizeNative | DidSpize | DidEthr | DidWeb | DidKey | Unknown

definition scheme :: "AgentId \<Rightarrow> IdScheme" where
  "scheme a =
     (if starts_with (as_str a) ''spize:'' then SpizeNative
      else if starts_with (as_str a) ''did:spize:'' then DidSpize
      else if starts_with (as_str a) ''did:ethr:'' then DidEthr
      else if starts_with (as_str a) ''did:web:'' then DidWeb
      else if starts_with (as_str a) ''did:key:'' then DidKey
      else Unknown)"

section \<open>DID URIs\<close>

record DidUri =
  did_method :: string
  method_specific_id :: string
  did_fragment :: "string option"

definition method_char :: "char \<Rightarrow> bool" where
  "method_char c \<longleftrightarrow> is_ascii_lowercase c \<or> is_ascii_digit c"

definition DidUri_parse :: "string \<Rightarrow> DidUri option" where
  "DidUri_parse s =
     Option.bind (strip_prefix ''did:'' s) (\<lambda>rest.
     Option.bind (split_once (CHR '':'') rest) (\<lambda>(method, after_method).
     if method = [] then None
     else if \<not> list_all method_char method then None
     else
       let (msi, fragment) =
         (case split_once (CHR ''#'') after_method of
            Some (i, frag) \<Rightarrow> (i, Some frag)
          | None \<Rightarrow> (after_method, None))
       in if msi = [] then None
          else if fragment = Some [] then None
          else Some \<lparr>did_method = method, method_specific_id = msi, did_fragment = fragment\<rparr>))"

definition as_did_uri :: "AgentId \<Rightarrow> DidUri option" where
  "as_did_uri a = DidUri_parse (as_str a)"

section \<open>Transfer identifiers\<close>

text \<open>
  \<open>TransferId::new\<close> prefixes a freshly drawn UUID in its simple form; the draw comes from the
  \<open>uuid\<close> crate and is the argument.
\<close>

datatype TransferId = TransferId (transfer_id_str: string)

definition TransferId_new :: "string \<Rightarrow> TransferId" where
  "TransferId_new uuid_simple = TransferId (''tx_'' @ uuid_simple)"

section \<open>Accepted identifiers\<close>

definition valid_agent_id :: "string \<Rightarrow> bool" where
  "valid_agent_id s \<longleftrightarrow> length s \<le> MAX_AGENT_ID_LEN \<and> CHR '':'' \<in> set s
     \<and> list_all (\<lambda>c. 33 \<le> code c \<and> code c \<le> 126) s"

lemma bad_agent_id_char_iff: "bad_agent_id_char c \<longleftrightarrow> \<not> (33 \<le> code c \<and> code c \<le> 126)"
  unfolding bad_agent_id_char_def is_ascii_def is_ascii_control_def is_ascii_space_def
  by presburger

lemma validate_agent_id_Inr_iff [step_iffs]: "validate_agent_id s = Inr u \<longleftrightarrow> valid_agent_id s"
  using first_bad_None_iff [of bad_agent_id_char 0 s]
  by (cases "first_bad bad_agent_id_char 0 s")
    (auto simp: validate_agent_id_def valid_agent_id_def bad_agent_id_char_iff list_all_iff)

lemma AgentId_new_Inr_iff [step_iffs]:
  "AgentId_new s = Inr a \<longleftrightarrow> valid_agent_id s \<and> a = AgentId s"
  by (auto simp: AgentId_new_def step_iffs)

lemma AgentId_new_error: "AgentId_new s = Inl e \<Longrightarrow> \<exists>m. e = InvalidAgentId m"
  by (auto simp: AgentId_new_def validate_agent_id_def step_iffs split: if_splits option.splits)

lemma valid_agent_id_line_safe: "valid_agent_id s \<Longrightarrow> line_safe s"
  by (auto simp: valid_agent_id_def list_all_iff line_safe_def code_def)

section \<open>DID URIs: printing and parsing\<close>

definition did_uri_text :: "DidUri \<Rightarrow> string" where
  "did_uri_text d = ''did:'' @ did_method d @ '':'' @ method_specific_id d
     @ (case did_fragment d of None \<Rightarrow> [] | Some f \<Rightarrow> CHR ''#'' # f)"

definition well_formed_did :: "DidUri \<Rightarrow> bool" where
  "well_formed_did d \<longleftrightarrow> did_method d \<noteq> [] \<and> list_all method_char (did_method d)
     \<and> method_specific_id d \<noteq> [] \<and> CHR ''#'' \<notin> set (method_specific_id d)
     \<and> did_fragment d \<noteq> Some []"

lemma method_char_no_colon: "list_all method_char m \<Longrightarrow> CHR '':'' \<notin> set m"
  by (auto simp: list_all_iff method_char_def is_ascii_lowercase_def is_ascii_digit_def code_def)

lemma DidUri_parse_Some_iff:
  "DidUri_parse s = Some d \<longleftrightarrow> well_formed_did d \<and> s = did_uri_text d"
proof
  assume "DidUri_parse s = Some d"
  then obtain rest meth aft where
    rest: "s = ''did:'' @ rest" and sp: "split_once (CHR '':'') rest = Some (meth, aft)"
    and m: "meth \<noteq> []" "list_all method_char meth"
    and d: "(let (msi, fragment) = (case split_once (CHR ''#'') aft of
            Some (i, frag) \<Rightarrow> (i, Some frag) | None \<Rightarrow> (aft, None))
       in if msi = [] then None else if fragment = Some [] then None
          else Some \<lparr>did_method = meth, method_specific_id = msi, did_fragment = fragment\<rparr>) = Some d"
    by (auto simp: DidUri_parse_def bind_eq_Some_conv strip_prefix_Some_iff split: if_splits)
  from sp have r: "rest = meth @ CHR '':'' # aft" by (simp add: split_once_Some_iff)
  show "well_formed_did d \<and> s = did_uri_text d"
  proof (cases "split_once (CHR ''#'') aft")
    case None
    with d m rest r show ?thesis
      by (auto simp: well_formed_did_def did_uri_text_def split_once_None_iff split: if_splits)
  next
    case (Some p)
    obtain i frag where p: "p = (i, frag)" by (cases p)
    with Some have "aft = i @ CHR ''#'' # frag \<and> CHR ''#'' \<notin> set i"
      by (simp add: split_once_Some_iff)
    with d m rest r Some p show ?thesis
      by (auto simp: well_formed_did_def did_uri_text_def split: if_splits)
  qed
next
  assume wf: "well_formed_did d \<and> s = did_uri_text d"
  then have nc: "CHR '':'' \<notin> set (did_method d)"
    by (simp add: well_formed_did_def method_char_no_colon)
  have hash: "CHR ''#'' \<notin> set (method_specific_id d)" using wf by (simp add: well_formed_did_def)
  show "DidUri_parse s = Some d"
  proof (cases "did_fragment d")
    case None
    then show ?thesis
      using wf nc hash
      by (simp add: DidUri_parse_def did_uri_text_def well_formed_did_def
          split_once_None_iff [THEN iffD2])
  next
    case (Some f)
    then show ?thesis
      using wf nc hash
      by (simp add: DidUri_parse_def did_uri_text_def well_formed_did_def)
  qed
qed

text \<open>
  The scheme test reads prefixes, the parser reads the whole identifier: on an identifier that
  parses, both agree on the method.
\<close>

lemma starts_with_did_text:
  assumes "CHR '':'' \<notin> set p" and "well_formed_did d"
  shows "starts_with (did_uri_text d) (''did:'' @ p @ '':'') \<longleftrightarrow> did_method d = p"
proof -
  have nc: "CHR '':'' \<notin> set (did_method d)"
    using assms by (simp add: well_formed_did_def method_char_no_colon)
  have "(\<exists>r. did_method d @ CHR '':'' # t = p @ CHR '':'' # r) \<longleftrightarrow> did_method d = p" for t
    by (metis assms(1) nc option.inject prod.inject split_once_append)
  then show ?thesis by (simp add: starts_with_iff did_uri_text_def)
qed

fun scheme_of_method :: "string \<Rightarrow> IdScheme" where
  "scheme_of_method m =
     (if m = ''spize'' then DidSpize else if m = ''ethr'' then DidEthr
      else if m = ''web'' then DidWeb else if m = ''key'' then DidKey else Unknown)"

lemma scheme_of_parsed_did:
  assumes "as_did_uri a = Some d"
  shows "scheme a = scheme_of_method (did_method d)"
proof -
  from assms have wf: "well_formed_did d" and s: "as_str a = did_uri_text d"
    by (auto simp: as_did_uri_def DidUri_parse_Some_iff)
  have "\<not> starts_with (did_uri_text d) ''spize:''"
    by (auto simp: starts_with_iff did_uri_text_def)
  with wf show ?thesis
    using starts_with_did_text [of "''spize''" d] starts_with_did_text [of "''ethr''" d]
      starts_with_did_text [of "''web''" d] starts_with_did_text [of "''key''" d]
    by (simp add: scheme_def s)
qed

end
