(* ===== verification/ApiErrors.thy ===== *)
theory ApiErrors
  imports CoreTypes
begin

text \<open>
  The HTTP error type of the control plane (\<open>aex-control-plane/src/error.rs\<close>): status, code
  and public message of an error, the conversions from core and database errors, and the map
  from failures to runbook pages.  A \<open>sqlx::Error\<close> is \<open>RowNotFound\<close>, a database error with its
  SQLSTATE and constraint, or another failure of the connection.
\<close>

datatype ApiError =
    BadRequest string
  | Unauthorized string
  | ApiNotFound string
  | Conflict string
  | ApiInternal string

datatype sqlx_error =
    RowNotFound
  | DatabaseError (sqlstate: string) (violated: "string option")
  | OtherSqlx string

fun api_status :: "ApiError \<Rightarrow> nat" where
  "api_status (BadRequest _) = 400"
| "api_status (Unauthorized _) = 401"
| "api_status (ApiNotFound _) = 404"
| "api_status (Conflict _) = 409"
| "api_status (ApiInternal _) = 500"

fun api_code :: "ApiError \<Rightarrow> string" where
  "api_code (BadRequest _) = ''bad_request''"
| "api_code (Unauthorized _) = ''unauthorized''"
| "api_code (ApiNotFound _) = ''not_found''"
| "api_code (Conflict _) = ''conflict''"
| "api_code (ApiInternal _) = ''internal_error''"

fun public_message :: "ApiError \<Rightarrow> string" where
  "public_message (BadRequest m) = m"
| "public_message (Unauthorized m) = m"
| "public_message (ApiNotFound m) = m"
| "public_message (Conflict m) = m"
| "public_message (ApiInternal _) = ''internal server error''"

text \<open>\<open>From<aex_core::Error>\<close> and \<open>From<sqlx::Error>\<close>.\<close>

fun from_core :: "core_error \<Rightarrow> ApiError" where
  "from_core (InvalidAgentId m) = BadRequest (''invalid agent_id: '' @ m)"
| "from_core UnknownIdentityScheme = BadRequest ''unknown identity scheme''"
| "from_core SignatureInvalid = Unauthorized ''signature verification failed''"
| "from_core (SignatureFormat m) = BadRequest (''bad signature: '' @ m)"
| "from_core (KeyUnavailable m) = ApiInternal (''key unavailable: '' @ m)"
| "from_core (NotFound m) = ApiNotFound m"
| "from_core (Io e) = ApiInternal e"
| "from_core (Crypto m) = BadRequest (''crypto error: '' @ m)"
| "from_core (Internal m) = ApiInternal m"

text \<open>The boxed source of an internal error is kept as its text.\<close>

fun sqlx_text :: "sqlx_error \<Rightarrow> string" where
  "sqlx_text RowNotFound = ''no rows returned by a query that expected to return at least one row''"
| "sqlx_text (DatabaseError c _) = ''error returned from database: '' @ c"
| "sqlx_text (OtherSqlx m) = m"

definition from_sqlx :: "sqlx_error \<Rightarrow> ApiError" where
  "from_sqlx err = (case err of RowNotFound \<Rightarrow> ApiNotFound ''row not found'' | other \<Rightarrow> ApiInternal (sqlx_text other))"

section \<open>Runbooks\<close>

definition RUNBOOK_BASE_URL :: string where
  "RUNBOOK_BASE_URL = ''https://github.com/icaroholding/aex/blob/master/docs/runbooks''"

definition known_slugs :: "string list" where
  "known_slugs = [''agent-already-exists'', ''agent-not-found'', ''agent-not-registered-or-revoked'',
     ''clock-skew'', ''conflict'', ''endpoint-unreachable'', ''internal-error'', ''malformed-nonce'',
     ''nonce-replay'', ''rotation-race'', ''signature-invalid'', ''transfer-not-found'',
     ''unauthorized'', ''wrong-recipient'']"

definition runbook_page :: "string \<Rightarrow> string" where
  "runbook_page slug =
     (if slug \<in> set known_slugs then RUNBOOK_BASE_URL @ ''/'' @ slug @ ''.md'' else [])"

fun contains_str :: "string \<Rightarrow> string \<Rightarrow> bool" where
  "contains_str [] p \<longleftrightarrow> p = []"
| "contains_str (c # s) p \<longleftrightarrow> prefix p (c # s) \<or> contains_str s p"

definition runbook_url :: "string \<Rightarrow> string \<Rightarrow> string option" where
  "runbook_url cd message =
     (let m = to_ascii_lowercase message in
      if cd = ''unauthorized'' then
        if contains_str m ''no active key for agent'' then Some (runbook_page ''agent-not-registered-or-revoked'')
        else if contains_str m ''concurrent'' \<or> contains_str m ''rotated concurrently'' then Some (runbook_page ''rotation-race'')
        else if contains_str m ''signature'' then Some (runbook_page ''signature-invalid'')
        else if contains_str m ''recipient'' then Some (runbook_page ''wrong-recipient'')
        else Some (runbook_page ''unauthorized'')
      else if cd = ''conflict'' then
        if contains_str m ''nonce'' then Some (runbook_page ''nonce-replay'')
        else if contains_str m ''already registered'' then Some (runbook_page ''agent-already-exists'')
        else if contains_str m ''rotation'' \<or> contains_str m ''key rotated concurrently'' then Some (runbook_page ''rotation-race'')
        else Some (runbook_page ''conflict'')
      else if cd = ''bad_request'' then
        if contains_str m ''issued_at'' \<or> contains_str m ''clock skew'' then Some (runbook_page ''clock-skew'')
        else if contains_str m ''reachable_at'' \<or> contains_str m ''no endpoints reachable''
             \<or> contains_str m ''tunnel_url'' \<or> contains_str m ''did not respond 200'' then Some (runbook_page ''endpoint-unreachable'')
        else if contains_str m ''nonce'' then Some (runbook_page ''malformed-nonce'')
        else None
      else if cd = ''not_found'' then
        if contains_str m ''agent'' then Some (runbook_page ''agent-not-found'')
        else if contains_str m ''transfer'' then Some (runbook_page ''transfer-not-found'')
        else None
      else if cd = ''internal_error'' then Some (runbook_page ''internal-error'')
      else None)"

record ErrorBody =
  eb_code :: string
  eb_message :: string
  eb_runbook_url :: "string option"

definition into_response :: "ApiError \<Rightarrow> nat \<times> ErrorBody" where
  "into_response e =
     (api_status e, \<lparr>eb_code = api_code e, eb_message = public_message e,
        eb_runbook_url = runbook_url (api_code e) (public_message e)\<rparr>)"

section \<open>Lemmas\<close>

lemma contains_str_iff: "contains_str s p \<longleftrightarrow> sublist p s"
  by (induction s p rule: contains_str.induct) (auto simp: sublist_Cons_right)

definition known_page :: "string \<Rightarrow> bool" where
  "known_page u \<longleftrightarrow> (\<exists>slug \<in> set known_slugs. u = RUNBOOK_BASE_URL @ ''/'' @ slug @ ''.md'')"

lemma known_pages: "list_all (\<lambda>slug. known_page (runbook_page slug)) known_slugs"
  by (auto simp: list_all_iff known_page_def runbook_page_def)

lemmas known_page_facts [simp] = known_pages [unfolded known_slugs_def list.pred_inject]

lemma runbook_url_known: "runbook_url cd m = Some u \<Longrightarrow> known_page u"
  using known_page_facts
  by (auto simp only: runbook_url_def Let_def option.inject option.distinct split: if_split_asm)

lemma runbook_url_code:
  "runbook_url (api_code e) (public_message e) = None \<Longrightarrow> api_status e \<in> {400, 404}"
  by (cases e) (auto simp: runbook_url_def Let_def split: if_splits)

end
