(* ===== verification/Endpoint.thy ===== *)
theory Endpoint
  imports AexPrelude
begin

text \<open>
  Endpoints and their debounced health state (\<open>aex-core/src/endpoint.rs\<close>).  The counters are
  8-bit with saturating addition.  The lemmas bound the counters in every state that a sequence
  of probes reaches and show that the machine implements a specification by history: three
  failures in a row make an endpoint unhealthy, two successes in a row make it healthy again.
\<close>

datatype HealthStatus = Healthy | Unhealthy

record EndpointHealth =
  status :: HealthStatus
  consecutive_fails :: u8
  consecutive_successes :: u8
  last_probe_unix :: "i64 option"

record Endpoint =
  kind :: string
  url :: string
  priority :: "32 word"
  health_hint_unix :: "i64 option"
  health :: "EndpointHealth option"

definition FAIL_THRESHOLD :: u8 where
  "FAIL_THRESHOLD = 3"

definition SUCCESS_THRESHOLD :: u8 where
  "SUCCESS_THRESHOLD = 2"

definition saturating_add_u8 :: "u8 \<Rightarrow> u8 \<Rightarrow> u8" where
  "saturating_add_u8 a b = (if unat a + unat b > 255 then 255 else a + b)"

definition fresh_healthy :: "i64 \<Rightarrow> EndpointHealth" where
  "fresh_healthy now_unix = \<lparr>status = Healthy, consecutive_fails = 0, consecutive_successes = 0,
     last_probe_unix = Some now_unix\<rparr>"

definition on_probe_success :: "EndpointHealth \<Rightarrow> i64 \<Rightarrow> EndpointHealth" where
  "on_probe_success h0 now_unix =
     (let h1 = h0\<lparr>last_probe_unix := Some now_unix, consecutive_fails := 0,
                  consecutive_successes := saturating_add_u8 (consecutive_successes h0) 1\<rparr>;
          h2 = (if status h1 = Unhealthy \<and> consecutive_successes h1 \<ge> SUCCESS_THRESHOLD
                then h1\<lparr>status := Healthy, consecutive_successes := 0\<rparr> else h1);
          h3 = (if status h2 = Healthy \<and> consecutive_successes h2 > SUCCESS_THRESHOLD
                then h2\<lparr>consecutive_successes := SUCCESS_THRESHOLD\<rparr> else h2)
      in h3)"

definition on_probe_failure :: "EndpointHealth \<Rightarrow> i64 \<Rightarrow> EndpointHealth" where
  "on_probe_failure h0 now_unix =
     (let h1 = h0\<lparr>last_probe_unix := Some now_unix, consecutive_successes := 0,
                  consecutive_fails := saturating_add_u8 (consecutive_fails h0) 1\<rparr>;
          h2 = (if status h1 = Healthy \<and> consecutive_fails h1 \<ge> FAIL_THRESHOLD
                then h1\<lparr>status := Unhealthy, consecutive_fails := 0\<rparr> else h1);
          h3 = (if status h2 = Unhealthy \<and> consecutive_fails h2 > FAIL_THRESHOLD
                then h2\<lparr>consecutive_fails := FAIL_THRESHOLD\<rparr> else h2)
      in h3)"

definition is_healthy :: "EndpointHealth \<Rightarrow> bool" where
  "is_healthy h \<longleftrightarrow> status h = Healthy"

definition KNOWN_KINDS :: "string list" where
  "KNOWN_KINDS = [''cloudflare_quick'', ''cloudflare_named'', ''iroh'', ''tailscale_funnel'', ''frp'']"

definition is_known_kind :: "Endpoint \<Rightarrow> bool" where
  "is_known_kind e \<longleftrightarrow> kind e \<in> set KNOWN_KINDS"

definition cloudflare_quick :: "string \<Rightarrow> Endpoint" where
  "cloudflare_quick u = \<lparr>kind = ''cloudflare_quick'', url = u, priority = 0,
     health_hint_unix = None, health = None\<rparr>"

section \<open>A run of probes\<close>

definition on_probe :: "EndpointHealth \<Rightarrow> bool \<times> i64 \<Rightarrow> EndpointHealth" where
  "on_probe h p = (if fst p then on_probe_success h (snd p) else on_probe_failure h (snd p))"

text \<open>The classification by history, the latest outcome first.\<close>

fun status_by_history :: "bool list \<Rightarrow> HealthStatus" where
  "status_by_history [] = Healthy"
| "status_by_history (x # h) =
     (if status_by_history h = Healthy \<and> take 3 (x # h) = [False, False, False] then Unhealthy
      else if status_by_history h = Unhealthy \<and> take 2 (x # h) = [True, True] then Healthy
      else status_by_history h)"

definition trailing :: "bool \<Rightarrow> bool list \<Rightarrow> nat" where
  "trailing b h = length (takeWhile (\<lambda>x. x = b) h)"

lemma trailing_simps [simp]:
  "trailing b [] = 0"
  "trailing b (x # h) = (if x = b then Suc (trailing b h) else 0)"
  by (simp_all add: trailing_def)

lemma take_replicate_trailing: "take n h = replicate n b \<longleftrightarrow> n \<le> trailing b h"
proof (induction n arbitrary: h)
  case (Suc n)
  then show ?case by (cases h) auto
qed simp

lemma take_trailing:
  "take 3 h = [False, False, False] \<longleftrightarrow> 3 \<le> trailing False h"
  "take 2 h = [b, b] \<longleftrightarrow> 2 \<le> trailing b h"
  "take (Suc 0) h = [b] \<longleftrightarrow> Suc 0 \<le> trailing b h"
  using take_replicate_trailing [of 3 h False] take_replicate_trailing [of 2 h b]
    take_replicate_trailing [of "Suc 0" h b]
  by (simp_all add: numeral_3_eq_3 numeral_2_eq_2)

lemma unat_saturating_add_1 [simp]:
  "unat (saturating_add_u8 c 1) = min 255 (unat c + 1)"
proof -
  have "unat c + 1 \<le> 255 \<Longrightarrow> unat (c + 1) = unat c + 1"
    using unat_add_lem [of c 1] by simp
  then show ?thesis by (auto simp: saturating_add_u8_def)
qed

lemmas health_defs = on_probe_success_def on_probe_failure_def SUCCESS_THRESHOLD_def
  FAIL_THRESHOLD_def Let_def word_le_nat_alt word_less_nat_alt

text \<open>
  The invariant that ties the counters to the history: in the healthy state the failure
  counter is the number of trailing failures (below three), in the unhealthy state the success
  counter is the number of trailing successes (below two); both counters stay bounded.
\<close>

definition health_inv :: "bool list \<Rightarrow> EndpointHealth \<Rightarrow> bool" where
  "health_inv hist h \<longleftrightarrow> status h = status_by_history hist
     \<and> unat (consecutive_fails h) \<le> 3 \<and> unat (consecutive_successes h) \<le> 2
     \<and> (status h = Healthy \<longrightarrow> unat (consecutive_fails h) = trailing False hist \<and> trailing False hist < 3)
     \<and> (status h = Unhealthy \<longrightarrow>
          unat (consecutive_successes h) = trailing True hist \<and> trailing True hist < 2)"

lemma health_inv_fresh: "health_inv [] (fresh_healthy now)"
  by (simp add: health_inv_def fresh_healthy_def)

lemma health_inv_success:
  assumes "health_inv hist h"
  shows "health_inv (True # hist) (on_probe_success h now)"
proof (cases "status h")
  case Healthy
  with assms show ?thesis
    by (simp add: health_inv_def health_defs take_trailing)
next
  case Unhealthy
  with assms show ?thesis
    by (simp add: health_inv_def health_defs take_trailing)
qed

lemma health_inv_failure:
  assumes "health_inv hist h"
  shows "health_inv (False # hist) (on_probe_failure h now)"
proof (cases "status h")
  case Healthy
  with assms show ?thesis
    by (simp add: health_inv_def health_defs take_trailing)
next
  case Unhealthy
  with assms show ?thesis
    by (simp add: health_inv_def health_defs take_trailing)
qed

lemma health_inv_run:
  "health_inv hist h \<Longrightarrow> health_inv (rev (map fst ps) @ hist) (foldl on_probe h ps)"
proof (induction ps arbitrary: h hist)
  case (Cons p ps)
  have "health_inv (fst p # hist) (on_probe h p)"
    using Cons.prems health_inv_success health_inv_failure by (cases "fst p") (auto simp: on_probe_def)
  with Cons.IH [of "fst p # hist" "on_probe h p"] show ?case by simp
qed simp

lemma run_from_fresh: "health_inv (rev (map fst ps)) (foldl on_probe (fresh_healthy now) ps)"
  using health_inv_run [OF health_inv_fresh] by simp

end
