(* ===== verification/SignatureHex.thy ===== *)
theory SignatureHex
  imports AexPrelude
begin

text \<open>
  Signatures and their hexadecimal serialisation (\<open>aex-core/src/signature.rs\<close>).  Slicing a
  string at a position that is not a character boundary panics in Rust: the outcome \<open>None\<close> of
  \<open>hex_decode\<close>.  \<open>u8::from_str_radix\<close> accepts a leading plus sign.
\<close>

unbundle bit_operations_syntax

datatype SignatureAlgorithm = Ed25519 | EcdsaSecp256k1

record Signature =
  algorithm :: SignatureAlgorithm
  sig_bytes :: bytes

definition hex_byte :: "byte \<Rightarrow> string" where
  "hex_byte b = [hex_digit (unat b div 16), hex_digit (unat b mod 16)]"

definition hex_encode :: "bytes \<Rightarrow> string" where
  "hex_encode bs = concat (map hex_byte bs)"

definition hex_value :: "char \<Rightarrow> nat option" where
  "hex_value c =
     (if is_ascii_digit c then Some (code c - 48)
      else if 97 \<le> code c \<and> code c \<le> 102 then Some (code c - 87)
      else if 65 \<le> code c \<and> code c \<le> 70 then Some (code c - 55)
      else None)"

text \<open>\<open>u8::from_str_radix(s, 16)\<close> on a string of two bytes.\<close>

definition from_str_radix_2 :: "char \<Rightarrow> char \<Rightarrow> byte option" where
  "from_str_radix_2 a b =
     (if a = CHR ''+'' then map_option of_nat (hex_value b)
      else case (hex_value a, hex_value b) of
        (Some x, Some y) \<Rightarrow> Some (of_nat (16 * x + y))
      | _ \<Rightarrow> None)"

definition utf8_continuation :: "char \<Rightarrow> bool" where
  "utf8_continuation c \<longleftrightarrow> 128 \<le> code c \<and> code c < 192"

fun hex_decode_from :: "nat \<Rightarrow> string \<Rightarrow> (string + bytes) option" where
  "hex_decode_from i (a # b # s) =
     (if s \<noteq> [] \<and> utf8_continuation (hd s) then None
      else case from_str_radix_2 a b of
        None \<Rightarrow> Some (Inl (''invalid hex at '' @ show_nat i @ '': invalid digit found in string''))
      | Some byte \<Rightarrow>
          map_option (\<lambda>r. bindE r (\<lambda>out. Inr (byte # out))) (hex_decode_from (i + 2) s))"
| "hex_decode_from i _ = Some (Inr [])"

definition hex_decode :: "string \<Rightarrow> (string + bytes) option" where
  "hex_decode s =
     (if length s mod 2 \<noteq> 0 then Some (Inl (''odd hex length: '' @ show_nat (length s)))
      else hex_decode_from 0 s)"

section \<open>Lemmas\<close>

lemma hex_value_hex_digit: "n < 16 \<Longrightarrow> hex_value (hex_digit n) = Some n"
  by (simp add: hex_value_def hex_digit_def is_ascii_digit_def)

lemma code_hex_digit: "n < 16 \<Longrightarrow> code (hex_digit n) = (if n < 10 then 48 + n else 87 + n)"
  by (simp add: hex_digit_def)

lemma hex_digit_not_continuation: "n < 16 \<Longrightarrow> \<not> utf8_continuation (hex_digit n)"
  by (simp add: utf8_continuation_def code_hex_digit)

lemma hex_digit_not_plus: "n < 16 \<Longrightarrow> hex_digit n \<noteq> CHR ''+''"
proof
  assume "n < 16" and "hex_digit n = CHR ''+''"
  then have "code (CHR ''+'') = (if n < 10 then 48 + n else 87 + n)" by (metis code_hex_digit)
  then show False by (simp add: code_def split: if_splits)
qed

lemma byte_div_16: "unat (b :: byte) div 16 < 16"
  using unsigned_less [of b, where 'a = nat] by simp

lemma from_str_radix_hex_byte:
  "from_str_radix_2 (hex_digit (unat b div 16)) (hex_digit (unat b mod 16)) = Some b"
  by (simp add: from_str_radix_2_def hex_value_hex_digit hex_digit_not_plus byte_div_16)

lemma hd_hex_encode: "bs \<noteq> [] \<Longrightarrow> \<not> utf8_continuation (hd (hex_encode bs))"
  by (cases bs) (simp_all add: hex_encode_def hex_byte_def hex_digit_not_continuation byte_div_16)

lemma hex_encode_Nil_iff [simp]: "hex_encode bs = [] \<longleftrightarrow> bs = []"
  by (cases bs) (simp_all add: hex_encode_def hex_byte_def)

lemma length_hex_encode [simp]: "length (hex_encode bs) = 2 * length bs"
  by (induction bs) (simp_all add: hex_encode_def hex_byte_def)

lemma hex_decode_from_encode: "hex_decode_from i (hex_encode bs) = Some (Inr bs)"
proof (induction bs arbitrary: i)
  case (Cons b bs)
  have "hex_encode (b # bs) = hex_digit (unat b div 16) # hex_digit (unat b mod 16) # hex_encode bs"
    by (simp add: hex_encode_def hex_byte_def)
  with Cons hd_hex_encode [of bs] show ?case by (auto simp: from_str_radix_hex_byte)
qed (simp add: hex_encode_def)

lemma hex_decode_encode: "hex_decode (hex_encode bs) = Some (Inr bs)"
  by (simp add: hex_decode_def hex_decode_from_encode)

lemma hex_encode_inj [simp]: "hex_encode a = hex_encode b \<longleftrightarrow> a = b"
  by (metis hex_decode_encode option.inject sum.inject(2))

lemma hex_decode_from_ascii:
  "list_all is_ascii s \<Longrightarrow> hex_decode_from i s \<noteq> None"
proof (induction i s rule: hex_decode_from.induct)
  case (1 i a b s)
  then have "s = [] \<or> \<not> utf8_continuation (hd s)"
    by (cases s) (auto simp: is_ascii_def utf8_continuation_def)
  with 1 show ?case by (auto split: option.splits)
qed auto

lemma hex_decode_length:
  "hex_decode_from i s = Some (Inr bs) \<Longrightarrow> even (length s) \<Longrightarrow> length s = 2 * length bs"
  by (induction i s arbitrary: bs rule: hex_decode_from.induct)
    (auto split: if_splits option.splits simp: step_iffs)

end
