(* ===== verification/Platform.thy ===== *)
theory Platform
  imports AexPrelude SignatureHex
begin

text \<open>
  The code that the program calls and that is not part of it: the \<open>sha2\<close>, \<open>hex\<close>,
  \<open>ed25519-dalek\<close>, \<open>serde_json\<close> and \<open>time\<close> crates.  Their functions are the fields of the
  record \<open>platform\<close>, an argument of every definition that uses them; what the program relies on
  is stated by the predicates below.  \<open>demo_platform\<close> is a concrete instance on which witnesses
  are evaluated.
\<close>

text \<open>A point in time (\<open>OffsetDateTime\<close>, UTC): nanoseconds since the Unix epoch.\<close>

type_synonym instant = int

record platform =
  json_lit :: "string \<Rightarrow> string"
  sha256 :: "bytes \<Rightarrow> bytes"
  hex_enc :: "bytes \<Rightarrow> string"
  hex_dec :: "string \<Rightarrow> string + bytes"
  rfc3339 :: "instant \<Rightarrow> string + string"
  unix_timestamp :: "instant \<Rightarrow> i64"
  ed25519_key_error :: "bytes \<Rightarrow> string option"
  ed25519_verify :: "bytes \<Rightarrow> bytes \<Rightarrow> bytes \<Rightarrow> bool"

text \<open>\<open>VerifyingKey::from_bytes\<close> accepts the bytes.\<close>

definition ed25519_key_ok :: "platform \<Rightarrow> bytes \<Rightarrow> bool" where
  "ed25519_key_ok P pk \<longleftrightarrow> ed25519_key_error P pk = None"

abbreviation DQ :: char where "DQ \<equiv> CHR 0x22"

definition is_lower_hexdigit :: "char \<Rightarrow> bool" where
  "is_lower_hexdigit c \<longleftrightarrow> is_ascii_digit c \<or> (97 \<le> code c \<and> code c \<le> 102)"

text \<open>\<open>hex::encode\<close> writes two lower-case digits per byte and \<open>hex::decode\<close> inverts it.\<close>

definition hex_laws :: "platform \<Rightarrow> bool" where
  "hex_laws P \<longleftrightarrow> (\<forall>b. hex_dec P (hex_enc P b) = Inr b \<and> length (hex_enc P b) = 2 * length b
     \<and> list_all is_lower_hexdigit (hex_enc P b))"

text \<open>A SHA-256 digest has 32 bytes.\<close>

definition digest_laws :: "platform \<Rightarrow> bool" where
  "digest_laws P \<longleftrightarrow> (\<forall>b. length (sha256 P b) = 32)"

text \<open>A JSON string literal of hexadecimal digits is the digits between quotes.\<close>

definition json_laws :: "platform \<Rightarrow> bool" where
  "json_laws P \<longleftrightarrow> (\<forall>s. list_all is_lower_hexdigit s \<longrightarrow> json_lit P s = DQ # s @ [DQ])"

section \<open>A concrete platform\<close>

definition demo_sha256 :: "bytes \<Rightarrow> bytes" where
  "demo_sha256 b = replicate 31 0xa5 @ [of_nat (length b)]"

definition demo_sign :: "bytes \<Rightarrow> bytes \<Rightarrow> bytes" where
  "demo_sign pk msg = pk @ demo_sha256 msg"

definition demo_hex_dec :: "string \<Rightarrow> string + bytes" where
  "demo_hex_dec s = (case hex_decode s of Some r \<Rightarrow> r | None \<Rightarrow> Inl ''invalid character'')"

definition demo_platform :: platform where
  "demo_platform = \<lparr>
     json_lit = (\<lambda>s. DQ # s @ [DQ]),
     sha256 = demo_sha256,
     hex_enc = hex_encode,
     hex_dec = demo_hex_dec,
     rfc3339 = (\<lambda>t. Inr (show_int t)),
     unix_timestamp = (\<lambda>t. of_int (t div 1000000000)),
     ed25519_key_error = (\<lambda>pk. if length pk = 32 then None else Some ''signature error''),
     ed25519_verify = (\<lambda>pk msg sig. sig = demo_sign pk msg)\<rparr>"

lemma hex_digit_lower: "n < 16 \<Longrightarrow> is_lower_hexdigit (hex_digit n)"
  by (auto simp: is_lower_hexdigit_def is_ascii_digit_def code_hex_digit)

lemma hex_encode_lower: "list_all is_lower_hexdigit (hex_encode b)"
  by (induction b) (simp_all add: hex_encode_def hex_byte_def hex_digit_lower byte_div_16)

lemma demo_hex_laws: "hex_laws demo_platform"
  by (simp add: hex_laws_def demo_platform_def demo_hex_dec_def hex_decode_encode hex_encode_lower)

lemma demo_digest_laws: "digest_laws demo_platform"
  by (simp add: digest_laws_def demo_platform_def demo_sha256_def)

lemma demo_json_laws: "json_laws demo_platform"
  by (simp add: json_laws_def demo_platform_def)

lemmas demo_laws = demo_hex_laws demo_digest_laws demo_json_laws

end
