(* ===== verification/AuditLog.thy ===== *)
theory AuditLog
  imports Platform "HOL-Library.Char_ord" "HOL-Library.List_Lexorder"
begin

text \<open>
  The hash-chained audit log (\<open>aex-audit/src\<close>): events and their canonical bytes, the
  in-memory log, the file log over a text of JSON lines and the Rekor wrapper.  The locale
  \<open>audit_log\<close> is the contract of the \<open>AuditLog\<close> trait: after any sequence of appends the chain
  verifies, receipts carry the new head, a failed append changes nothing.  The tamper-evidence
  lemmas say that two verifying chains with the same head agree on all hashed bytes, or exhibit
  a hash collision or a preimage of the genesis value.
\<close>

section \<open>Events\<close>

text \<open>
  \<open>serde_json::Value\<close>.  A number is held as the text that \<open>serde_json\<close> prints for it; an
  object is the list of its members.
\<close>

datatype json =
    JNull
  | JBool bool
  | JNumber string
  | JString string
  | JArray "json list"
  | JObject "(string \<times> json) list"

datatype AuditError =
    AuditIo string
  | Serialization string
  | ChainBroken u64 string string
  | HashMismatch u64 string string
  | InvalidEvent string

datatype EventKind =
    AgentRegistered
  | AgentRevoked
  | TransferInitiated
  | TransferPolicyDecision
  | TransferScannerVerdict
  | TransferAccepted
  | TransferDelivered
  | TransferRejected
  | TransferExpired
  | DeferredDecisionRequested
  | SignedDecisionReceipt

fun event_kind_str :: "EventKind \<Rightarrow> string" where
  "event_kind_str AgentRegistered = ''agent_registered''"
| "event_kind_str AgentRevoked = ''agent_revoked''"
| "event_kind_str TransferInitiated = ''transfer_initiated''"
| "event_kind_str TransferPolicyDecision = ''transfer_policy_decision''"
| "event_kind_str TransferScannerVerdict = ''transfer_scanner_verdict''"
| "event_kind_str TransferAccepted = ''transfer_accepted''"
| "event_kind_str TransferDelivered = ''transfer_delivered''"
| "event_kind_str TransferRejected = ''transfer_rejected''"
| "event_kind_str TransferExpired = ''transfer_expired''"
| "event_kind_str DeferredDecisionRequested = ''deferred_decision_requested''"
| "event_kind_str SignedDecisionReceipt = ''signed_decision_receipt''"

record Event =
  ev_kind :: EventKind
  actor :: string
  subject :: string
  payload :: json

fun join_with :: "string \<Rightarrow> string list \<Rightarrow> string" where
  "join_with sep [] = []"
| "join_with sep [s] = s"
| "join_with sep (s # t # ss) = s @ sep @ join_with sep (t # ss)"

lemma size_member_sort [termination_simp]:
  "(k, v) \<in> set kvs \<Longrightarrow> size v < Suc (size_list (size_prod (\<lambda>x. 0) size) kvs)"
  by (induction kvs) auto

function write_canonical :: "platform \<Rightarrow> json \<Rightarrow> string" where
  "write_canonical P JNull = ''null''"
| "write_canonical P (JBool b) = (if b then ''true'' else ''false'')"
| "write_canonical P (JNumber n) = n"
| "write_canonical P (JString s) = json_lit P s"
| "write_canonical P (JArray xs) = ''['' @ join_with '','' (map (write_canonical P) xs) @ '']''"
| "write_canonical P (JObject kvs) =
     ''{'' @ join_with '','' (map (\<lambda>kv. json_lit P (fst kv) @ '':'' @ write_canonical P (snd kv))
       (sort_key fst kvs)) @ ''}''"
  by pat_completeness auto
termination
  by (relation "measure (\<lambda>(P, v). size v)")
    (auto simp: less_Suc_eq_le intro: size_list_estimation' size_member_sort [simplified])

fun is_object :: "json \<Rightarrow> bool" where
  "is_object (JObject kvs) = True"
| "is_object _ = False"

definition jkey :: "string \<Rightarrow> string" where
  "jkey k = DQ # k @ [DQ] @ '':''"

definition canonical_bytes :: "platform \<Rightarrow> Event \<Rightarrow> instant \<Rightarrow> string \<Rightarrow> AuditError + bytes" where
  "canonical_bytes P e ts prev_hash =
     bindE (ensure (is_object (payload e)) (InvalidEvent ''payload must be a JSON object'')) (\<lambda>_.
     bindE (map_err (\<lambda>m. InvalidEvent (''ts format: '' @ m)) (rfc3339 P ts)) (\<lambda>ts_str.
     Inr (as_bytes (''{'' @ jkey ''kind'' @ [DQ] @ event_kind_str (ev_kind e) @ [DQ]
       @ '','' @ jkey ''actor'' @ json_lit P (actor e)
       @ '','' @ jkey ''subject'' @ json_lit P (subject e)
       @ '','' @ jkey ''payload'' @ write_canonical P (payload e)
       @ '','' @ jkey ''ts'' @ json_lit P ts_str
       @ '','' @ jkey ''prev'' @ json_lit P prev_hash @ ''}''))))"

definition compute_hash :: "platform \<Rightarrow> Event \<Rightarrow> instant \<Rightarrow> string \<Rightarrow> AuditError + string" where
  "compute_hash P e ts prev_hash =
     bindE (canonical_bytes P e ts prev_hash) (\<lambda>b. Inr (hex_enc P (sha256 P b)))"

record StoredEvent =
  se_position :: u64
  se_event_id :: string
  se_timestamp :: instant
  se_prev_hash :: string
  se_this_hash :: string
  se_event :: Event

definition verify_hash :: "platform \<Rightarrow> StoredEvent \<Rightarrow> AuditError + unit" where
  "verify_hash P se =
     bindE (compute_hash P (se_event se) (se_timestamp se) (se_prev_hash se)) (\<lambda>recomputed.
     ensure (recomputed = se_this_hash se)
       (HashMismatch (se_position se) (se_this_hash se) recomputed))"

record EventReceipt =
  er_event_id :: string
  er_position :: u64
  er_timestamp :: instant
  er_chain_head :: string

definition receipt_of :: "StoredEvent \<Rightarrow> EventReceipt" where
  "receipt_of e = \<lparr>er_event_id = se_event_id e, er_position = se_position e,
     er_timestamp = se_timestamp e, er_chain_head = se_this_hash e\<rparr>"

definition GENESIS_HEAD :: string where
  "GENESIS_HEAD = replicate 64 (CHR ''0'')"

section \<open>The in-memory log\<close>

text \<open>
  The timestamp and the UUID that \<open>append\<close> draws are its arguments \<open>now\<close> and \<open>uuid\<close>; the lock
  serialises the callers, so an append is one step.
\<close>

record MemoryAuditLog =
  mem_events :: "StoredEvent list"

definition MemoryAuditLog_new :: MemoryAuditLog where
  "MemoryAuditLog_new = \<lparr>mem_events = []\<rparr>"

definition last_hash :: "StoredEvent list \<Rightarrow> string" where
  "last_hash evs = (if evs = [] then GENESIS_HEAD else se_this_hash (last evs))"

definition MemoryAuditLog_append ::
  "platform \<Rightarrow> instant \<Rightarrow> string \<Rightarrow> Event \<Rightarrow> (MemoryAuditLog, AuditError, EventReceipt) action" where
  "MemoryAuditLog_append P now uuid event =
     bindS (getS mem_events) (\<lambda>events.
     let prev_hash = last_hash events in
     bindS (liftS (compute_hash P event now prev_hash)) (\<lambda>this_hash.
     let stored = \<lparr>se_position = of_nat (length events), se_event_id = ''evt_'' @ uuid,
                   se_timestamp = now, se_prev_hash = prev_hash, se_this_hash = this_hash,
                   se_event = event\<rparr> in
     bindS (modifyS (\<lambda>l. l\<lparr>mem_events := mem_events l @ [stored]\<rparr>)) (\<lambda>_.
     returnS (receipt_of stored))))"

definition MemoryAuditLog_current_head :: "MemoryAuditLog \<Rightarrow> AuditError + string" where
  "MemoryAuditLog_current_head l = Inr (last_hash (mem_events l))"

fun verify_from :: "platform \<Rightarrow> nat \<Rightarrow> string \<Rightarrow> StoredEvent list \<Rightarrow> AuditError + unit" where
  "verify_from P i expected_prev [] = Inr ()"
| "verify_from P i expected_prev (ev # evs) =
     (if se_prev_hash ev \<noteq> expected_prev then
        Inl (ChainBroken (of_nat i) expected_prev (se_prev_hash ev))
      else bindE (verify_hash P ev) (\<lambda>_. verify_from P (Suc i) (se_this_hash ev) evs))"

definition MemoryAuditLog_verify_chain :: "platform \<Rightarrow> MemoryAuditLog \<Rightarrow> AuditError + unit" where
  "MemoryAuditLog_verify_chain P l = verify_from P 0 GENESIS_HEAD (mem_events l)"

definition MemoryAuditLog_len :: "MemoryAuditLog \<Rightarrow> AuditError + u64" where
  "MemoryAuditLog_len l = Inr (of_nat (length (mem_events l)))"

section \<open>The file log\<close>

text \<open>
  The file is its text.  \<open>parse_row\<close> and \<open>print_row\<close> are \<open>serde_json::from_str\<close> and
  \<open>serde_json::to_vec\<close> at the row type.  The outcome of a write is the argument \<open>io\<close>:
  \<open>None\<close> when everything was written and flushed, \<open>Some (n, m)\<close> when the operating system
  reports the error \<open>m\<close> after the first \<open>n\<close> bytes.
\<close>

record FileAuditLog =
  fl_file :: string
  fl_head :: string
  fl_len :: u64

fun split_lines :: "string \<Rightarrow> string \<Rightarrow> string list" where
  "split_lines acc [] = (if acc = [] then [] else [rev acc])"
| "split_lines acc (c # s) = (if c = LF then rev acc # split_lines [] s else split_lines (c # acc) s)"

definition strip_cr :: "string \<Rightarrow> string" where
  "strip_cr l = (if l \<noteq> [] \<and> last l = CR then butlast l else l)"

text \<open>The white-space characters beyond ASCII that \<open>str::trim\<close> removes, by their UTF-8 bytes.\<close>

definition space2 :: "nat \<Rightarrow> nat \<Rightarrow> bool" where
  "space2 a b \<longleftrightarrow> a = 0xC2 \<and> (b = 0x85 \<or> b = 0xA0)"

definition space3 :: "nat \<Rightarrow> nat \<Rightarrow> nat \<Rightarrow> bool" where
  "space3 a b c \<longleftrightarrow> (a, b, c) = (0xE1, 0x9A, 0x80) \<or> (a, b, c) = (0xE3, 0x80, 0x80)
     \<or> (a, b, c) = (0xE2, 0x81, 0x9F)
     \<or> a = 0xE2 \<and> b = 0x80 \<and> (0x80 \<le> c \<and> c \<le> 0x8A \<or> c = 0xA8 \<or> c = 0xA9 \<or> c = 0xAF)"

fun is_blank :: "string \<Rightarrow> bool" where
  "is_blank [] = True"
| "is_blank (a # s) =
     (if is_ascii_space a then is_blank s
      else case s of
        [] \<Rightarrow> False
      | b # t \<Rightarrow>
          if space2 (code a) (code b) then is_blank t
          else (case t of [] \<Rightarrow> False
                | c # u \<Rightarrow> if space3 (code a) (code b) (code c) then is_blank u else False))"

fun replay_lines :: "platform \<Rightarrow> (string \<Rightarrow> string + StoredEvent) \<Rightarrow> string \<Rightarrow> u64 \<Rightarrow> string list
    \<Rightarrow> AuditError + string \<times> u64" where
  "replay_lines P parse_row head len [] = Inr (head, len)"
| "replay_lines P parse_row head len (l # ls) =
     (if is_blank l then replay_lines P parse_row head len ls
      else bindE (map_err Serialization (parse_row l)) (\<lambda>stored.
        if se_prev_hash stored \<noteq> head then Inl (ChainBroken len head (se_prev_hash stored))
        else bindE (verify_hash P stored) (\<lambda>_.
          replay_lines P parse_row (se_this_hash stored) (len + 1) ls)))"

definition replay :: "platform \<Rightarrow> (string \<Rightarrow> string + StoredEvent) \<Rightarrow> string option
    \<Rightarrow> AuditError + string \<times> u64" where
  "replay P parse_row file =
     (case file of
        None \<Rightarrow> Inr (GENESIS_HEAD, 0)
      | Some text \<Rightarrow> replay_lines P parse_row GENESIS_HEAD 0 (map strip_cr (split_lines [] text)))"

definition FileAuditLog_open :: "platform \<Rightarrow> (string \<Rightarrow> string + StoredEvent) \<Rightarrow> string option
    \<Rightarrow> AuditError + FileAuditLog" where
  "FileAuditLog_open P parse_row file =
     bindE (replay P parse_row file) (\<lambda>(head, len).
     Inr \<lparr>fl_file = (case file of Some text \<Rightarrow> text | None \<Rightarrow> []), fl_head = head, fl_len = len\<rparr>)"

definition write_all :: "(nat \<times> string) option \<Rightarrow> string \<Rightarrow> (FileAuditLog, AuditError, unit) action" where
  "write_all io line =
     (case io of
        None \<Rightarrow> modifyS (\<lambda>l. l\<lparr>fl_file := fl_file l @ line\<rparr>)
      | Some (n, m) \<Rightarrow>
          bindS (modifyS (\<lambda>l. l\<lparr>fl_file := fl_file l @ take n line\<rparr>)) (\<lambda>_. throwS (AuditIo m)))"

definition FileAuditLog_append ::
  "platform \<Rightarrow> (StoredEvent \<Rightarrow> string + string) \<Rightarrow> (nat \<times> string) option \<Rightarrow> instant \<Rightarrow> string \<Rightarrow> Event
   \<Rightarrow> (FileAuditLog, AuditError, EventReceipt) action" where
  "FileAuditLog_append P print_row io now uuid event =
     bindS (getS fl_head) (\<lambda>prev_hash.
     bindS (getS fl_len) (\<lambda>len.
     bindS (liftS (compute_hash P event now prev_hash)) (\<lambda>this_hash.
     let stored = \<lparr>se_position = len, se_event_id = ''evt_'' @ uuid, se_timestamp = now,
                   se_prev_hash = prev_hash, se_this_hash = this_hash, se_event = event\<rparr> in
     bindS (liftS (map_err Serialization (print_row stored))) (\<lambda>line.
     bindS (write_all io (line @ [LF])) (\<lambda>_.
     bindS (modifyS (\<lambda>l. l\<lparr>fl_head := this_hash, fl_len := fl_len l + 1\<rparr>)) (\<lambda>_.
     returnS \<lparr>er_event_id = se_event_id stored, er_position = se_position stored,
              er_timestamp = now, er_chain_head = this_hash\<rparr>))))))"

definition FileAuditLog_current_head :: "FileAuditLog \<Rightarrow> AuditError + string" where
  "FileAuditLog_current_head l = Inr (fl_head l)"

definition FileAuditLog_verify_chain :: "platform \<Rightarrow> (string \<Rightarrow> string + StoredEvent) \<Rightarrow> FileAuditLog
    \<Rightarrow> AuditError + unit" where
  "FileAuditLog_verify_chain P parse_row l =
     bindE (replay P parse_row (Some (fl_file l))) (\<lambda>(head, len).
     ensure (head = fl_head l \<and> len = fl_len l) (ChainBroken len (fl_head l) head))"

definition FileAuditLog_len :: "FileAuditLog \<Rightarrow> AuditError + u64" where
  "FileAuditLog_len l = Inr (fl_len l)"

section \<open>The Rekor wrapper\<close>

record RekorReceipt =
  rr_submission_id :: string
  rr_chain_head :: string
  rr_position :: u64
  rr_submitted_at :: instant

text \<open>
  A \<open>dyn RekorSubmitter\<close> is its method, over the type of its state; the time and the UUID are inputs.
  The stub remembers every receipt, the logging one writes what it is given.
\<close>

type_synonym 'r submitter = "instant \<Rightarrow> string \<Rightarrow> string \<Rightarrow> u64 \<Rightarrow> ('r, AuditError, RekorReceipt) action"

definition StubRekorSubmitter_submit :: "RekorReceipt list submitter" where
  "StubRekorSubmitter_submit now uuid chain_head position =
     (let receipt = \<lparr>rr_submission_id = ''stub_'' @ uuid, rr_chain_head = chain_head,
                     rr_position = position, rr_submitted_at = now\<rparr> in
      bindS (modifyS (\<lambda>received. received @ [receipt])) (\<lambda>_. returnS receipt))"

definition StubRekorSubmitter_history :: "RekorReceipt list \<Rightarrow> RekorReceipt list" where
  "StubRekorSubmitter_history received = received"

definition LoggingRekorSubmitter_submit :: "(string \<times> u64) list submitter" where
  "LoggingRekorSubmitter_submit now uuid chain_head position =
     bindS (modifyS (\<lambda>traced. traced @ [(chain_head, position)])) (\<lambda>_.
     returnS \<lparr>rr_submission_id = ''log_'' @ uuid, rr_chain_head = chain_head, rr_position = position, rr_submitted_at = now\<rparr>)"

text \<open>The state of the wrapper is the inner log and the submitter.\<close>

definition rekor_append :: "('l, AuditError, EventReceipt) action \<Rightarrow> ('l \<times> 'r, AuditError, EventReceipt) action" where
  "rekor_append inner_append = (\<lambda>(inner, received).
     case inner_append inner of (r, inner') \<Rightarrow> (r, (inner', received)))"

text \<open>
  The head and the length are read one after the other, each under the lock of the inner log;
  \<open>meanwhile\<close> is what other tasks do to the log between the two reads.
\<close>

definition rekor_submit_now ::
  "('l \<Rightarrow> AuditError + string) \<Rightarrow> ('l \<Rightarrow> AuditError + u64) \<Rightarrow> 'r submitter \<Rightarrow> ('l \<Rightarrow> 'l) \<Rightarrow> instant \<Rightarrow> string
   \<Rightarrow> ('l \<times> 'r, AuditError, RekorReceipt) action" where
  "rekor_submit_now current_head len submit meanwhile now uuid = (\<lambda>(inner, received).
     case current_head inner of
       Inl e \<Rightarrow> (Inl e, (inner, received))
     | Inr head \<Rightarrow>
         (let inner' = meanwhile inner in
          case len inner' of
            Inl e \<Rightarrow> (Inl e, (inner', received))
          | Inr n \<Rightarrow> (case submit now uuid head n received of (r, received') \<Rightarrow> (r, (inner', received')))))"

text \<open>One round of the submission loop: a failing head skips it, a failing length counts as 0.\<close>

definition rekor_tick ::
  "('l \<Rightarrow> AuditError + string) \<Rightarrow> ('l \<Rightarrow> AuditError + u64) \<Rightarrow> 'r submitter \<Rightarrow> ('l \<Rightarrow> 'l) \<Rightarrow> instant \<Rightarrow> string
   \<Rightarrow> 'l \<times> 'r \<Rightarrow> 'l \<times> 'r" where
  "rekor_tick current_head len submit meanwhile now uuid = (\<lambda>(inner, received).
     case current_head inner of
       Inl e \<Rightarrow> (inner, received)
     | Inr head \<Rightarrow>
         let inner' = meanwhile inner; n = (case len inner' of Inr n \<Rightarrow> n | Inl e \<Rightarrow> 0) in
         (inner', snd (submit now uuid head n received)))"

section \<open>Chains\<close>

fun chain_ok :: "platform \<Rightarrow> string \<Rightarrow> StoredEvent list \<Rightarrow> bool" where
  "chain_ok P prev [] = True"
| "chain_ok P prev (e # es) \<longleftrightarrow> se_prev_hash e = prev
     \<and> compute_hash P (se_event e) (se_timestamp e) prev = Inr (se_this_hash e)
     \<and> chain_ok P (se_this_hash e) es"

definition head_from :: "string \<Rightarrow> StoredEvent list \<Rightarrow> string" where
  "head_from prev evs = (if evs = [] then prev else se_this_hash (last evs))"

lemma head_from_simps [simp]:
  "head_from p [] = p"
  "head_from p (e # es) = head_from (se_this_hash e) es"
  "head_from p (es @ [e]) = se_this_hash e"
  by (simp_all add: head_from_def)

lemma last_hash_head_from: "last_hash evs = head_from GENESIS_HEAD evs"
  by (simp add: last_hash_def head_from_def)

lemma verify_hash_Inr_iff:
  "verify_hash P e = Inr u \<longleftrightarrow>
     compute_hash P (se_event e) (se_timestamp e) (se_prev_hash e) = Inr (se_this_hash e)"
  by (auto simp: verify_hash_def step_iffs)

lemma verify_from_Inr_iff: "verify_from P i prev evs = Inr u \<longleftrightarrow> chain_ok P prev evs"
  by (induction P i prev evs rule: verify_from.induct) (auto simp: step_iffs verify_hash_Inr_iff)

lemma chain_ok_append:
  "chain_ok P prev (es @ fs) \<longleftrightarrow> chain_ok P prev es \<and> chain_ok P (head_from prev es) fs"
  by (induction es arbitrary: prev) auto

section \<open>The contract of an audit log\<close>

locale audit_log =
  fixes append :: "instant \<Rightarrow> string \<Rightarrow> Event \<Rightarrow> ('l, AuditError, EventReceipt) action"
    and current_head :: "'l \<Rightarrow> AuditError + string"
    and verify_chain :: "'l \<Rightarrow> AuditError + unit"
    and log_len :: "'l \<Rightarrow> AuditError + u64"
    and log_inv :: "'l \<Rightarrow> bool"
    and log_events :: "'l \<Rightarrow> StoredEvent list"
  assumes inv_verifies: "log_inv l \<Longrightarrow> verify_chain l = Inr ()"
    and inv_head: "log_inv l \<Longrightarrow> current_head l = Inr (last_hash (log_events l))"
    and inv_len: "log_inv l \<Longrightarrow> log_len l = Inr (of_nat (length (log_events l)))"
    and append_ok: "log_inv l \<Longrightarrow> append now uuid ev l = (Inr r, l') \<Longrightarrow>
        log_inv l' \<and> (\<exists>se. log_events l' = log_events l @ [se] \<and> r = receipt_of se \<and> se_event se = ev
          \<and> se_prev_hash se = last_hash (log_events l) \<and> se_position se = of_nat (length (log_events l)))"
    and append_err: "log_inv l \<Longrightarrow> append now uuid ev l = (Inl e, l') \<Longrightarrow> l' = l"
begin

lemma append_keeps: "keeps log_inv (append now uuid ev)"
proof (rule keepsI)
  fix l assume "log_inv l"
  then show "log_inv (snd (append now uuid ev l))"
    by (cases "append now uuid ev l"; cases "fst (append now uuid ev l)")
      (auto dest: append_ok append_err)
qed

lemma append_receipt:
  assumes "log_inv l" and "append now uuid ev l = (Inr r, l')"
  shows "current_head l' = Inr (er_chain_head r) \<and> er_position r = of_nat (length (log_events l))
    \<and> length (log_events l') = Suc (length (log_events l))"
  using append_ok [OF assms] by (auto simp: inv_head last_hash_def receipt_of_def)

lemma append_extends:
  "log_inv l \<Longrightarrow> append now uuid ev l = (x, l') \<Longrightarrow> \<exists>new. log_events l' = log_events l @ new"
  by (cases x) (auto dest: append_ok append_err)

text \<open>A history of appends, each with its clock reading and UUID; failed ones are skipped.\<close>

primrec run :: "(instant \<times> string \<times> Event) list \<Rightarrow> 'l \<Rightarrow> 'l" where
  "run [] l = l"
| "run (a # as) l = run as (snd (append (fst a) (fst (snd a)) (snd (snd a)) l))"

lemma run_inv: "log_inv l \<Longrightarrow> log_inv (run as l)"
  by (induction as arbitrary: l) (auto intro: keepsD [OF append_keeps])

lemma run_verifies: "log_inv l \<Longrightarrow> verify_chain (run as l) = Inr ()"
  by (simp add: inv_verifies run_inv)

lemma run_extends: "log_inv l \<Longrightarrow> \<exists>new. log_events (run as l) = log_events l @ new"
proof (induction as arbitrary: l)
  case (Cons a as)
  let ?l1 = "snd (append (fst a) (fst (snd a)) (snd (snd a)) l)"
  have "log_inv ?l1" using Cons.prems by (rule keepsD [OF append_keeps])
  then obtain new where "log_events (run as ?l1) = log_events ?l1 @ new" using Cons.IH by blast
  moreover obtain old where "log_events ?l1 = log_events l @ old"
    using append_extends [OF Cons.prems] by (metis prod.collapse)
  ultimately show ?case by simp
qed simp

end

text \<open>The in-memory log.\<close>

definition mem_inv :: "platform \<Rightarrow> MemoryAuditLog \<Rightarrow> bool" where
  "mem_inv P l \<longleftrightarrow> chain_ok P GENESIS_HEAD (mem_events l)"

lemma MemoryAuditLog_append_cases:
  "MemoryAuditLog_append P now uuid ev l =
     (case compute_hash P ev now (last_hash (mem_events l)) of
        Inl e \<Rightarrow> (Inl e, l)
      | Inr h \<Rightarrow>
          let se = \<lparr>se_position = of_nat (length (mem_events l)), se_event_id = ''evt_'' @ uuid,
                   se_timestamp = now, se_prev_hash = last_hash (mem_events l), se_this_hash = h,
                   se_event = ev\<rparr>
          in (Inr (receipt_of se), l\<lparr>mem_events := mem_events l @ [se]\<rparr>))"
  by (simp add: MemoryAuditLog_append_def Let_def bindS_liftS split: sum.splits)

interpretation mem: audit_log "MemoryAuditLog_append P" MemoryAuditLog_current_head
  "MemoryAuditLog_verify_chain P" MemoryAuditLog_len "mem_inv P" mem_events for P
proof unfold_locales
  show "mem_inv P l \<Longrightarrow> MemoryAuditLog_verify_chain P l = Inr ()" for l :: MemoryAuditLog
    by (simp add: mem_inv_def MemoryAuditLog_verify_chain_def verify_from_Inr_iff)
qed (auto simp: MemoryAuditLog_current_head_def MemoryAuditLog_len_def MemoryAuditLog_append_cases
    mem_inv_def chain_ok_append last_hash_head_from Let_def split: sum.splits)

lemma mem_inv_new [simp]: "mem_inv P MemoryAuditLog_new"
  by (simp add: mem_inv_def MemoryAuditLog_new_def)

section \<open>Tamper evidence\<close>

definition hashed_bytes :: "platform \<Rightarrow> StoredEvent \<Rightarrow> AuditError + bytes" where
  "hashed_bytes P e = canonical_bytes P (se_event e) (se_timestamp e) (se_prev_hash e)"

definition hash_shape :: "string \<Rightarrow> bool" where
  "hash_shape h \<longleftrightarrow> length h = 64 \<and> list_all is_lower_hexdigit h"

definition platform_laws :: "platform \<Rightarrow> bool" where
  "platform_laws P \<longleftrightarrow> hex_laws P \<and> digest_laws P \<and> json_laws P"

lemma hash_shape_genesis: "hash_shape GENESIS_HEAD"
  by (simp add: hash_shape_def GENESIS_HEAD_def is_lower_hexdigit_def is_ascii_digit_def code_def
      list_all_iff)

lemma compute_hash_Inr_iff:
  "compute_hash P e ts prev = Inr h \<longleftrightarrow> (\<exists>b. canonical_bytes P e ts prev = Inr b \<and> h = hex_enc P (sha256 P b))"
  by (auto simp: compute_hash_def step_iffs)

lemma hash_shape_digest: "platform_laws P \<Longrightarrow> hash_shape (hex_enc P (sha256 P b))"
  by (simp add: platform_laws_def hash_shape_def hex_laws_def digest_laws_def)

lemma hash_shape_head:
  "platform_laws P \<Longrightarrow> chain_ok P prev es \<Longrightarrow> hash_shape prev \<Longrightarrow> hash_shape (head_from prev es)"
  by (induction es arbitrary: prev) (auto simp: compute_hash_Inr_iff hash_shape_digest)

lemma hex_enc_inj: "platform_laws P \<Longrightarrow> hex_enc P a = hex_enc P b \<Longrightarrow> a = b"
  by (metis hex_laws_def platform_laws_def sum.inject(2))

lemma canonical_bytes_suffix:
  assumes "canonical_bytes P e t p = Inr b"
  shows "\<exists>A. b = as_bytes (A @ json_lit P p @ ''}'')"
proof -
  from assms obtain A where "b = as_bytes ((A @ json_lit P p) @ ''}'')"
    unfolding canonical_bytes_def append_assoc [symmetric] by (auto simp only: step_iffs)
  then show ?thesis by (auto simp only: append_assoc)
qed

lemma canonical_bytes_prev:
  assumes "platform_laws P" "hash_shape p" "hash_shape q"
    and "canonical_bytes P e t p = Inr b" "canonical_bytes P f u q = Inr b"
  shows "p = q"
proof -
  have lit: "json_lit P x = DQ # x @ [DQ]" if "hash_shape x" for x
    using that assms(1) by (simp add: platform_laws_def json_laws_def hash_shape_def)
  obtain A where A: "b = as_bytes (A @ (DQ # p @ [DQ]) @ ''}'')"
    using canonical_bytes_suffix [OF assms(4)] by (auto simp only: lit [OF assms(2)])
  obtain B where "b = as_bytes (B @ (DQ # q @ [DQ]) @ ''}'')"
    using canonical_bytes_suffix [OF assms(5)] by (auto simp only: lit [OF assms(3)])
  then have "A @ (DQ # p @ [DQ]) @ ''}'' = B @ (DQ # q @ [DQ]) @ ''}''" 
    using A by (metis as_bytes_inj)
  moreover have "length p = length q" using assms(2,3) by (simp add: hash_shape_def)
  ultimately show ?thesis by simp
qed

definition messages :: "platform \<Rightarrow> StoredEvent list \<Rightarrow> bytes set" where
  "messages P es = {b. \<exists>e \<in> set es. hashed_bytes P e = Inr b}"

lemma messages_append [simp]: "messages P (es @ [e]) = messages P es \<union> {b. hashed_bytes P e = Inr b}"
  by (auto simp: messages_def)

text \<open>
  Two chains with the same head hash the same messages, unless two of these messages collide or
  one of them hashes to the genesis head.
\<close>

lemma chains_agree:
  assumes laws: "platform_laws P"
    and no_collision: "inj_on (sha256 P) M"
    and no_genesis: "\<And>a. a \<in> M \<Longrightarrow> hex_enc P (sha256 P a) \<noteq> GENESIS_HEAD"
  shows "messages P es \<subseteq> M \<Longrightarrow> messages P fs \<subseteq> M \<Longrightarrow> chain_ok P GENESIS_HEAD es \<Longrightarrow> chain_ok P GENESIS_HEAD fs \<Longrightarrow>
    head_from GENESIS_HEAD es = head_from GENESIS_HEAD fs \<Longrightarrow>
    map (hashed_bytes P) es = map (hashed_bytes P) fs"
proof (induction es arbitrary: fs rule: rev_induct)
  case Nil
  then show ?case
    using no_genesis [THEN not_sym]
    by (cases fs rule: rev_cases) (auto simp: chain_ok_append compute_hash_Inr_iff hashed_bytes_def)
next
  case (snoc e es)
  show ?case
  proof (cases fs rule: rev_cases)
    case Nil
    then show ?thesis
      using snoc.prems no_genesis [THEN not_sym] by (auto simp: chain_ok_append compute_hash_Inr_iff hashed_bytes_def)
  next
    case (snoc gs f)
    let ?p = "head_from GENESIS_HEAD es" and ?q = "head_from GENESIS_HEAD gs"
    have es: "chain_ok P GENESIS_HEAD es" and gs: "chain_ok P GENESIS_HEAD gs"
      and pe: "se_prev_hash e = ?p" and pf: "se_prev_hash f = ?q"
      using snoc.prems snoc by (auto simp: chain_ok_append)
    obtain a b where a: "canonical_bytes P (se_event e) (se_timestamp e) ?p = Inr a"
        "se_this_hash e = hex_enc P (sha256 P a)"
      and b: "canonical_bytes P (se_event f) (se_timestamp f) ?q = Inr b"
        "se_this_hash f = hex_enc P (sha256 P b)"
      using snoc.prems snoc by (auto simp: chain_ok_append compute_hash_Inr_iff)
    have "a \<in> M" "b \<in> M"
      using snoc.prems(1,2) snoc a(1) b(1) pe pf by (auto simp: hashed_bytes_def)
    moreover have "sha256 P a = sha256 P b"
      using snoc.prems(5) a(2) b(2) snoc hex_enc_inj [OF laws] by simp
    ultimately have "a = b" using no_collision by (simp add: inj_onD)
    moreover from this have "?p = ?q"
      using canonical_bytes_prev [OF laws _ _ a(1)] b(1) es gs
      by (simp add: hash_shape_head [OF laws] hash_shape_genesis)
    ultimately show ?thesis
      using snoc.IH [OF _ _ es gs] snoc.prems(1,2) snoc a(1) b(1) pe pf by (simp add: hashed_bytes_def)
  qed
qed

end
