(* ===== verification/Database.thy ===== *)
theory Database
  imports ApiErrors Endpoint AuditLog
begin

text \<open>
  The tables of the control plane and the queries on them (\<open>aex-control-plane/src/db\<close> with the
  schema under \<open>migrations/\<close>).  A table is the list of its rows in insertion order; an
  \<open>INSERT\<close> checks the unique constraints in the order of their indexes; a transaction that
  fails leaves the tables as they were.  \<open>db_env\<close> holds what a statement takes from the
  database server and the driver: its clock, the generated row identifier and the rounding of a
  timestamp to the column type.  The lemmas show that every query keeps the schema invariant
  \<open>db_wf\<close> and that the nonce tables are single-use stores.
\<close>

section \<open>Rows and tables\<close>

record AgentRow =
  ar_id :: string
  ar_agent_id :: string
  ar_public_key :: bytes
  ar_fingerprint :: string
  ar_org :: string
  ar_name :: string
  ar_created_at :: instant
  ar_revoked_at :: "instant option"

record AgentKeyRow =
  ak_id :: string
  ak_agent_id :: string
  ak_public_key_hex :: string
  ak_public_key :: bytes
  ak_valid_from :: instant
  ak_valid_to :: "instant option"
  ak_created_at :: instant

record TransferRow =
  tr_id :: string
  tr_transfer_id :: string
  tr_sender_agent_id :: string
  tr_recipient :: string
  tr_recipient_kind :: string
  tr_state :: string
  tr_size_bytes :: i64
  tr_declared_mime :: "string option"
  tr_filename :: "string option"
  tr_blob_sha256 :: "string option"
  tr_blob_path :: "string option"
  tr_scanner_verdict :: "json option"
  tr_policy_decision :: "json option"
  tr_created_at :: instant
  tr_scanned_at :: "instant option"
  tr_accepted_at :: "instant option"
  tr_delivered_at :: "instant option"
  tr_rejected_at :: "instant option"
  tr_rejection_code :: "string option"
  tr_rejection_reason :: "string option"
  tr_tunnel_url :: "string option"
  tr_reachable_at :: "Endpoint list"

record InsertTransfer =
  it_transfer_id :: string
  it_sender_agent_id :: string
  it_recipient :: string
  it_recipient_kind :: string
  it_state :: string
  it_size_bytes :: i64
  it_declared_mime :: "string option"
  it_filename :: "string option"
  it_blob_sha256 :: "string option"
  it_scanner_verdict :: "json option"
  it_policy_decision :: "json option"
  it_rejection_code :: "string option"
  it_rejection_reason :: "string option"
  it_tunnel_url :: "string option"
  it_reachable_at :: "Endpoint list option"

record database =
  agents :: "AgentRow list"
  agent_keys :: "AgentKeyRow list"
  registration_nonces :: "(string \<times> bytes) list"
  rotate_key_nonces :: "(string \<times> string) list"
  transfers :: "TransferRow list"
  transfer_intent_nonces :: "(string \<times> string) list"
  data_plane_ticket_nonces :: "(string \<times> string \<times> i64) list"

definition empty_database :: database where
  "empty_database = \<lparr>agents = [], agent_keys = [], registration_nonces = [], rotate_key_nonces = [],
     transfers = [], transfer_intent_nonces = [], data_plane_ticket_nonces = []\<rparr>"

record db_env =
  db_now :: instant
  db_uuid :: string
  app_now :: instant
  timestamptz :: "instant \<Rightarrow> instant"

type_synonym 'a query = "(database, sqlx_error, 'a) action"

definition unique_violation :: "string \<Rightarrow> sqlx_error" where
  "unique_violation c = DatabaseError ''23505'' (Some c)"

section \<open>Agents\<close>

definition insert_key_row :: "AgentKeyRow \<Rightarrow> unit query" where
  "insert_key_row r = (\<lambda>db.
     if list_ex (\<lambda>k. ak_agent_id k = ak_agent_id r \<and> ak_public_key_hex k = ak_public_key_hex r) (agent_keys db)
     then (Inl (unique_violation ''agent_keys_agent_id_public_key_hex_key''), db)
     else if ak_valid_to r = None
       \<and> list_ex (\<lambda>k. ak_agent_id k = ak_agent_id r \<and> ak_valid_to k = None) (agent_keys db)
     then (Inl (unique_violation ''idx_agent_keys_one_active_per_agent''), db)
     else (Inr (), db\<lparr>agent_keys := agent_keys db @ [r]\<rparr>))"

definition agents_insert :: "platform \<Rightarrow> db_env \<Rightarrow> string \<Rightarrow> bytes \<Rightarrow> string \<Rightarrow> string \<Rightarrow> string \<Rightarrow> AgentRow query" where
  "agents_insert P d agent_id public_key fingerprint org name = (\<lambda>db.
     if list_ex (\<lambda>r. ar_agent_id r = agent_id) (agents db)
     then (Inl (unique_violation ''agents_agent_id_key''), db)
     else if list_ex (\<lambda>r. ar_public_key r = public_key) (agents db)
     then (Inl (unique_violation ''agents_public_key_key''), db)
     else
       let row = \<lparr>ar_id = db_uuid d, ar_agent_id = agent_id, ar_public_key = public_key,
                  ar_fingerprint = fingerprint, ar_org = org, ar_name = name,
                  ar_created_at = db_now d, ar_revoked_at = None\<rparr>;
           key = \<lparr>ak_id = db_uuid d, ak_agent_id = agent_id,
                  ak_public_key_hex = hex_enc P public_key, ak_public_key = public_key,
                  ak_valid_from = timestamptz d (db_now d), ak_valid_to = None,
                  ak_created_at = db_now d\<rparr>
       in case insert_key_row key (db\<lparr>agents := agents db @ [row]\<rparr>) of
            (Inl e, _) \<Rightarrow> (Inl e, db)
          | (Inr _, db') \<Rightarrow> (Inr row, db'))"

definition find_by_agent_id :: "string \<Rightarrow> AgentRow option query" where
  "find_by_agent_id agent_id = getS (\<lambda>db. List.find (\<lambda>r. ar_agent_id r = agent_id) (agents db))"

definition consume_nonce :: "string \<Rightarrow> bytes \<Rightarrow> bool query" where
  "consume_nonce nonce public_key = (\<lambda>db.
     if list_ex (\<lambda>r. fst r = nonce) (registration_nonces db) then (Inr False, db)
     else (Inr True, db\<lparr>registration_nonces := registration_nonces db @ [(nonce, public_key)]\<rparr>))"

fun agents_unique_violation_field :: "sqlx_error \<Rightarrow> string option" where
  "agents_unique_violation_field (DatabaseError st con) =
     (if st \<noteq> ''23505'' then None
      else if con = Some ''agents_agent_id_key'' then Some ''agent_id''
      else if con = Some ''agents_public_key_key'' then Some ''public_key''
      else Some ''unknown'')"
| "agents_unique_violation_field _ = None"

section \<open>Agent keys\<close>

definition ROTATION_GRACE_SECS :: int where
  "ROTATION_GRACE_SECS = 24 * 60 * 60"

definition nanos :: "int \<Rightarrow> int" where
  "nanos secs = secs * 1000000000"

definition key_valid_at :: "instant \<Rightarrow> AgentKeyRow \<Rightarrow> bool" where
  "key_valid_at at k \<longleftrightarrow> ak_valid_from k \<le> at
     \<and> (case ak_valid_to k of None \<Rightarrow> True | Some t \<Rightarrow> t > at)"

definition valid_keys_at :: "db_env \<Rightarrow> string \<Rightarrow> instant \<Rightarrow> AgentKeyRow list query" where
  "valid_keys_at d agent_id at = getS (\<lambda>db.
     sort_key (\<lambda>k. - ak_valid_from k)
       (filter (\<lambda>k. ak_agent_id k = agent_id \<and> key_valid_at (timestamptz d at) k) (agent_keys db)))"

definition valid_public_keys_at :: "db_env \<Rightarrow> string \<Rightarrow> instant \<Rightarrow> bytes list query" where
  "valid_public_keys_at d agent_id at =
     bindS (valid_keys_at d agent_id at) (\<lambda>rows. returnS (map ak_public_key rows))"

definition current_key :: "string \<Rightarrow> AgentKeyRow option query" where
  "current_key agent_id = getS (\<lambda>db.
     List.find (\<lambda>k. ak_agent_id k = agent_id \<and> ak_valid_to k = None) (agent_keys db))"

definition closes :: "string \<Rightarrow> string \<Rightarrow> AgentKeyRow \<Rightarrow> bool" where
  "closes agent_id hex k \<longleftrightarrow> ak_agent_id k = agent_id \<and> ak_public_key_hex k = hex \<and> ak_valid_to k = None"

definition insert_rotation :: "db_env \<Rightarrow> string \<Rightarrow> string \<Rightarrow> string \<Rightarrow> bytes \<Rightarrow> instant \<Rightarrow> AgentKeyRow query" where
  "insert_rotation d agent_id expected_current_public_key_hex new_public_key_hex new_public_key now = (\<lambda>db.
     let grace_end = now + nanos ROTATION_GRACE_SECS;
         closed = length (filter (closes agent_id expected_current_public_key_hex) (agent_keys db));
         db1 = db\<lparr>agent_keys := map (\<lambda>k. if closes agent_id expected_current_public_key_hex k
                  then k\<lparr>ak_valid_to := Some (timestamptz d grace_end)\<rparr> else k) (agent_keys db)\<rparr>;
         row = \<lparr>ak_id = db_uuid d, ak_agent_id = agent_id, ak_public_key_hex = new_public_key_hex,
                ak_public_key = new_public_key, ak_valid_from = timestamptz d now,
                ak_valid_to = None, ak_created_at = db_now d\<rparr>
     in if closed = 0 then (Inl RowNotFound, db)
        else case insert_key_row row db1 of
               (Inl e, _) \<Rightarrow> (Inl e, db)
             | (Inr _, db2) \<Rightarrow> (Inr row, db2))"

definition consume_rotate_nonce :: "string \<Rightarrow> string \<Rightarrow> bool query" where
  "consume_rotate_nonce nonce agent_id = (\<lambda>db.
     if list_ex (\<lambda>r. fst r = nonce) (rotate_key_nonces db) then (Inr False, db)
     else (Inr True, db\<lparr>rotate_key_nonces := rotate_key_nonces db @ [(nonce, agent_id)]\<rparr>))"

fun keys_unique_violation_field :: "sqlx_error \<Rightarrow> string option" where
  "keys_unique_violation_field (DatabaseError st con) =
     (if st \<noteq> ''23505'' then None
      else if con = Some ''agent_keys_agent_id_public_key_hex_key'' then Some ''agent_key''
      else if con = Some ''idx_agent_keys_one_active_per_agent'' then Some ''active_key_race''
      else if con = Some ''rotate_key_nonces_pkey'' then Some ''nonce''
      else Some ''unknown'')"
| "keys_unique_violation_field _ = None"

section \<open>Transfers\<close>

definition transfers_insert :: "db_env \<Rightarrow> InsertTransfer \<Rightarrow> TransferRow query" where
  "transfers_insert d t = (\<lambda>db.
     let scanned_at = (if it_scanner_verdict t \<noteq> None then Some (timestamptz d (app_now d)) else None);
         rejected_at = (if it_rejection_code t \<noteq> None then Some (timestamptz d (app_now d)) else None);
         reachable_at = (case it_reachable_at t of None \<Rightarrow> [] | Some es \<Rightarrow> es);
         row = \<lparr>tr_id = db_uuid d, tr_transfer_id = it_transfer_id t,
                tr_sender_agent_id = it_sender_agent_id t, tr_recipient = it_recipient t,
                tr_recipient_kind = it_recipient_kind t, tr_state = it_state t,
                tr_size_bytes = it_size_bytes t, tr_declared_mime = it_declared_mime t,
                tr_filename = it_filename t, tr_blob_sha256 = it_blob_sha256 t, tr_blob_path = None,
                tr_scanner_verdict = it_scanner_verdict t, tr_policy_decision = it_policy_decision t,
                tr_created_at = db_now d, tr_scanned_at = scanned_at, tr_accepted_at = None,
                tr_delivered_at = None, tr_rejected_at = rejected_at,
                tr_rejection_code = it_rejection_code t, tr_rejection_reason = it_rejection_reason t,
                tr_tunnel_url = it_tunnel_url t, tr_reachable_at = reachable_at\<rparr>
     in if list_ex (\<lambda>r. tr_transfer_id r = it_transfer_id t) (transfers db)
        then (Inl (unique_violation ''transfers_transfer_id_key''), db)
        else (Inr row, db\<lparr>transfers := transfers db @ [row]\<rparr>))"

definition find_by_transfer_id :: "string \<Rightarrow> TransferRow option query" where
  "find_by_transfer_id transfer_id =
     getS (\<lambda>db. List.find (\<lambda>r. tr_transfer_id r = transfer_id) (transfers db))"

definition update_where :: "(TransferRow \<Rightarrow> bool) \<Rightarrow> (TransferRow \<Rightarrow> TransferRow) \<Rightarrow> nat query" where
  "update_where p f = (\<lambda>db. (Inr (length (filter p (transfers db))),
     db\<lparr>transfers := map (\<lambda>r. if p r then f r else r) (transfers db)\<rparr>))"

definition mark_accepted :: "db_env \<Rightarrow> string \<Rightarrow> nat query" where
  "mark_accepted d transfer_id = update_where
     (\<lambda>r. tr_transfer_id r = transfer_id \<and> tr_state r = ''ready_for_pickup'')
     (\<lambda>r. r\<lparr>tr_state := ''accepted'', tr_accepted_at := Some (db_now d)\<rparr>)"

definition mark_delivered :: "db_env \<Rightarrow> string \<Rightarrow> nat query" where
  "mark_delivered d transfer_id = update_where
     (\<lambda>r. tr_transfer_id r = transfer_id \<and> (tr_state r = ''accepted'' \<or> tr_state r = ''ready_for_pickup''))
     (\<lambda>r. r\<lparr>tr_state := ''delivered'', tr_delivered_at := Some (db_now d)\<rparr>)"

definition inbox_states :: "string list" where
  "inbox_states = [''ready_for_pickup'', ''accepted'']"

definition transfers_list_inbox :: "string \<Rightarrow> nat \<Rightarrow> TransferRow list query" where
  "transfers_list_inbox recipient limit = getS (\<lambda>db.
     take limit (sort_key (\<lambda>r. - tr_created_at r)
       (filter (\<lambda>r. tr_recipient r = recipient \<and> tr_state r \<in> set inbox_states) (transfers db))))"

definition consume_intent_nonce :: "string \<Rightarrow> string \<Rightarrow> bool query" where
  "consume_intent_nonce nonce agent_id = (\<lambda>db.
     if list_ex (\<lambda>r. fst r = nonce) (transfer_intent_nonces db) then (Inr False, db)
     else (Inr True, db\<lparr>transfer_intent_nonces := transfer_intent_nonces db @ [(nonce, agent_id)]\<rparr>))"

definition insert_ticket_nonce :: "string \<Rightarrow> string \<Rightarrow> i64 \<Rightarrow> unit query" where
  "insert_ticket_nonce nonce transfer_id expires = (\<lambda>db.
     if list_ex (\<lambda>r. fst r = nonce) (data_plane_ticket_nonces db)
     then (Inl (unique_violation ''data_plane_ticket_nonces_pkey''), db)
     else (Inr (), db\<lparr>data_plane_ticket_nonces := data_plane_ticket_nonces db @ [(nonce, transfer_id, expires)]\<rparr>))"

section \<open>Single-use stores\<close>

text \<open>
  The contract of a nonce table: the answer tells whether the nonce was unseen, and from then
  on it counts as seen.
\<close>

locale single_use =
  fixes consume :: "string \<Rightarrow> ('s, 'e, bool) action"
    and used :: "'s \<Rightarrow> string set"
  assumes consume_step: "\<exists>s'. consume n s = (Inr (n \<notin> used s), s') \<and> used s' = insert n (used s)"
begin

lemma consume_Inr: "consume n s = (Inr b, s') \<Longrightarrow> b \<longleftrightarrow> n \<notin> used s"
  and consume_used: "consume n s = (r, s') \<Longrightarrow> used s' = insert n (used s)"
  and consume_no_error: "consume n s \<noteq> (Inl e, s')"
  using consume_step [of n s] by auto

primrec run :: "string list \<Rightarrow> 's \<Rightarrow> bool list" where
  "run [] s = []"
| "run (n # ns) s = (fst (consume n s) = Inr True) # run ns (snd (consume n s))"

lemma run_used: "n \<in> used s \<Longrightarrow> \<not> (\<exists>i < length ns. ns ! i = n \<and> run ns s ! i)"
proof (induction ns arbitrary: s)
  case (Cons m ns)
  obtain s' where s': "consume m s = (Inr (m \<notin> used s), s')" "used s' = insert m (used s)"
    using consume_step by blast
  then have "\<not> (\<exists>i < length ns. ns ! i = n \<and> run ns s' ! i)" using Cons by auto
  with s' Cons.prems show ?case by (auto simp: nth_Cons split: nat.splits)
qed simp

lemma run_length [simp]: "length (run ns s) = length ns"
  by (induction ns arbitrary: s) auto

lemma accepted_once:
  "i < j \<Longrightarrow> j < length ns \<Longrightarrow> ns ! i = ns ! j \<Longrightarrow> run ns s ! i \<Longrightarrow> \<not> run ns s ! j"
proof (induction ns arbitrary: s i j)
  case (Cons m ns)
  obtain s' where s': "consume m s = (Inr (m \<notin> used s), s')" "used s' = insert m (used s)"
    using consume_step by blast
  from Cons.prems obtain j' where j: "j = Suc j'" "j' < length ns" by (cases j) auto
  show ?case
  proof (cases i)
    case 0
    then show ?thesis using run_used [of m s' ns] s' j Cons.prems by auto
  next
    case (Suc i')
    then show ?thesis using Cons.IH [of i' j' s'] Cons.prems j s' by simp
  qed
qed simp

end

interpretation registration: single_use "\<lambda>n. consume_nonce n pk" "\<lambda>db. fst ` set (registration_nonces db)" for pk
  by unfold_locales (auto simp: consume_nonce_def list_ex_iff)

interpretation rotation: single_use "\<lambda>n. consume_rotate_nonce n a" "\<lambda>db. fst ` set (rotate_key_nonces db)" for a
  by unfold_locales (auto simp: consume_rotate_nonce_def list_ex_iff)

interpretation intent: single_use "\<lambda>n. consume_intent_nonce n a" "\<lambda>db. fst ` set (transfer_intent_nonces db)" for a
  by unfold_locales (auto simp: consume_intent_nonce_def list_ex_iff)

section \<open>The schema invariant\<close>

definition active :: "AgentKeyRow \<Rightarrow> bool" where
  "active k \<longleftrightarrow> ak_valid_to k = None"

definition keys_wf :: "AgentKeyRow list \<Rightarrow> bool" where
  "keys_wf ks \<longleftrightarrow> distinct (map (\<lambda>k. (ak_agent_id k, ak_public_key_hex k)) ks)
     \<and> distinct (map ak_agent_id (filter active ks))"

definition agents_keyed :: "AgentRow list \<Rightarrow> AgentKeyRow list \<Rightarrow> bool" where
  "agents_keyed as ks \<longleftrightarrow> ar_agent_id ` set as = ak_agent_id ` set (filter active ks)"

definition db_wf :: "database \<Rightarrow> bool" where
  "db_wf db \<longleftrightarrow> distinct (map ar_agent_id (agents db)) \<and> distinct (map ar_public_key (agents db))
     \<and> keys_wf (agent_keys db) \<and> agents_keyed (agents db) (agent_keys db)
     \<and> distinct (map tr_transfer_id (transfers db))
     \<and> distinct (map fst (registration_nonces db)) \<and> distinct (map fst (rotate_key_nonces db))
     \<and> distinct (map fst (transfer_intent_nonces db)) \<and> distinct (map fst (data_plane_ticket_nonces db))"

lemma db_wf_empty: "db_wf empty_database"
  by (simp add: db_wf_def empty_database_def keys_wf_def agents_keyed_def)

lemma insert_key_row_Inr:
  "insert_key_row r db = (Inr u, db') \<Longrightarrow> db' = db\<lparr>agent_keys := agent_keys db @ [r]\<rparr>
     \<and> (keys_wf (agent_keys db) \<longrightarrow> keys_wf (agent_keys db @ [r]))"
  by (auto simp: insert_key_row_def keys_wf_def active_def list_ex_iff split: if_splits)

lemma agents_insert_Inr:
  assumes "agents_insert P d a pk f og nm db = (Inr row, db')"
  shows "row = \<lparr>ar_id = db_uuid d, ar_agent_id = a, ar_public_key = pk, ar_fingerprint = f,
      ar_org = og, ar_name = nm, ar_created_at = db_now d, ar_revoked_at = None\<rparr>
    \<and> db' = db\<lparr>agents := agents db @ [row], agent_keys := agent_keys db @ [\<lparr>ak_id = db_uuid d, ak_agent_id = a,
        ak_public_key_hex = hex_enc P pk, ak_public_key = pk, ak_valid_from = timestamptz d (db_now d),
        ak_valid_to = None, ak_created_at = db_now d\<rparr>]\<rparr>
    \<and> a \<notin> ar_agent_id ` set (agents db) \<and> pk \<notin> ar_public_key ` set (agents db)
    \<and> (keys_wf (agent_keys db) \<longrightarrow> keys_wf (agent_keys db'))"
  using assms
  by (auto simp: agents_insert_def Let_def list_ex_iff split: if_splits prod.splits sum.splits
      dest!: insert_key_row_Inr)

lemma agents_insert_Inl: "agents_insert P d a pk f og nm db = (Inl e, db') \<Longrightarrow> db' = db"
  by (auto simp: agents_insert_def Let_def split: if_splits prod.splits sum.splits)

lemma keeps_agents_insert: "keeps db_wf (agents_insert P d a pk f og nm)"
proof (rule keepsI)
  fix db assume wf: "db_wf db"
  obtain r db' where res: "agents_insert P d a pk f og nm db = (r, db')" by fastforce
  show "db_wf (snd (agents_insert P d a pk f og nm db))"
  proof (cases r)
    case (Inl e)
    with res wf show ?thesis by (auto dest: agents_insert_Inl)
  next
    case (Inr row)
    note ok = agents_insert_Inr [OF res [unfolded Inr]]
    have "agents_keyed (agents db') (agent_keys db')"
      using ok wf by (simp add: agents_keyed_def db_wf_def active_def)
    moreover have "keys_wf (agent_keys db')" using ok wf by (auto simp: db_wf_def)
    ultimately show ?thesis using ok wf unfolding db_wf_def res by auto
  qed
qed

lemma filter_active_close:
  "filter active (map (\<lambda>k. if closes a h k then k\<lparr>ak_valid_to := Some t\<rparr> else k) ks)
     = filter (\<lambda>k. active k \<and> \<not> closes a h k) ks"
  by (induction ks) (auto simp: active_def closes_def)

lemma keys_wf_close:
  assumes "keys_wf ks"
  shows "keys_wf (map (\<lambda>k. if closes a h k then k\<lparr>ak_valid_to := Some t\<rparr> else k) ks)"
proof -
  have "map (\<lambda>k. (ak_agent_id k, ak_public_key_hex k))
      (map (\<lambda>k. if closes a h k then k\<lparr>ak_valid_to := Some t\<rparr> else k) ks)
      = map (\<lambda>k. (ak_agent_id k, ak_public_key_hex k)) ks" by simp
  moreover have "distinct (map ak_agent_id (filter (\<lambda>k. active k \<and> \<not> closes a h k) ks))"
    using assms unfolding keys_wf_def distinct_map
    by (auto intro: inj_on_subset)
  ultimately show ?thesis using assms unfolding keys_wf_def filter_active_close by metis
qed

lemma active_unique:
  "keys_wf ks \<Longrightarrow> k \<in> set ks \<Longrightarrow> l \<in> set ks \<Longrightarrow> active k \<Longrightarrow> active l \<Longrightarrow> ak_agent_id k = ak_agent_id l \<Longrightarrow> k = l"
  by (auto simp: keys_wf_def distinct_map inj_on_def)

lemma insert_rotation_Inr:
  assumes "insert_rotation d a h h' pk now db = (Inr row, db')"
  shows "db' = db\<lparr>agent_keys := map (\<lambda>k. if closes a h k
        then k\<lparr>ak_valid_to := Some (timestamptz d (now + nanos ROTATION_GRACE_SECS))\<rparr> else k) (agent_keys db) @ [row]\<rparr>
    \<and> row = \<lparr>ak_id = db_uuid d, ak_agent_id = a, ak_public_key_hex = h', ak_public_key = pk,
        ak_valid_from = timestamptz d now, ak_valid_to = None, ak_created_at = db_now d\<rparr>
    \<and> (\<exists>k \<in> set (agent_keys db). closes a h k)
    \<and> (keys_wf (agent_keys db) \<longrightarrow> keys_wf (agent_keys db'))"
  using assms
  by (auto simp: insert_rotation_def Let_def filter_empty_conv keys_wf_close
      split: if_splits prod.splits sum.splits dest!: insert_key_row_Inr)

lemma keeps_insert_rotation: "keeps db_wf (insert_rotation d a h h' pk now)"
proof (rule keepsI)
  fix db assume wf: "db_wf db"
  obtain r db' where res: "insert_rotation d a h h' pk now db = (r, db')" by fastforce
  show "db_wf (snd (insert_rotation d a h h' pk now db))"
  proof (cases r)
    case (Inl e)
    with res have "db' = db"
      by (auto simp: insert_rotation_def Let_def split: if_splits prod.splits sum.splits)
    with res wf show ?thesis by simp
  next
    case (Inr row)
    note ok = insert_rotation_Inr [OF res [unfolded Inr]]
    then obtain k where k: "k \<in> set (agent_keys db)" "closes a h k" by blast
    have "ak_agent_id ` set (filter active (agent_keys db')) = ak_agent_id ` set (filter active (agent_keys db))"
      using ok k by (auto simp: filter_active_close active_def closes_def image_iff)
    then show ?thesis
      using ok wf res by (auto simp: db_wf_def agents_keyed_def)
  qed
qed

lemma keeps_transfers_insert: "keeps db_wf (transfers_insert d t)"
  by (rule keepsI) (auto simp: transfers_insert_def Let_def db_wf_def list_ex_iff)

lemma keeps_update_where:
  assumes "\<And>r. tr_transfer_id (f r) = tr_transfer_id r"
  shows "keeps db_wf (update_where p f)"
proof -
  have "map tr_transfer_id (map (\<lambda>r. if p r then f r else r) rs) = map tr_transfer_id rs" for rs
    using assms by simp
  then show ?thesis unfolding keeps_def update_where_def db_wf_def by (simp del: map_map)
qed

lemma keeps_nonces:
  "keeps db_wf (consume_nonce n pk)"
  "keeps db_wf (consume_rotate_nonce n a)"
  "keeps db_wf (consume_intent_nonce n a)"
  "keeps db_wf (insert_ticket_nonce n tid ex)"
  by (rule keepsI; auto simp: consume_nonce_def consume_rotate_nonce_def consume_intent_nonce_def
      insert_ticket_nonce_def db_wf_def list_ex_iff)+

lemma keeps_marks: "keeps db_wf (mark_accepted d tid)" "keeps db_wf (mark_delivered d tid)"
  unfolding mark_accepted_def mark_delivered_def by (rule keeps_update_where; simp)+

lemma keeps_reads:
  "keeps db_wf (find_by_agent_id a)" "keeps db_wf (valid_keys_at d a at)"
  "keeps db_wf (valid_public_keys_at d a at)" "keeps db_wf (current_key a)"
  "keeps db_wf (find_by_transfer_id t)" "keeps db_wf (transfers_list_inbox rc lim)"
  unfolding find_by_agent_id_def valid_keys_at_def valid_public_keys_at_def current_key_def
    find_by_transfer_id_def transfers_list_inbox_def
  by (intro keeps_rules)+

lemmas keeps_queries [keeps_rules] = keeps_agents_insert keeps_insert_rotation
  keeps_transfers_insert keeps_nonces keeps_marks keeps_reads

end
