(* ===== verification/Blobs.thy ===== *)
theory Blobs
  imports AexPrelude SignatureHex
begin

text \<open>
  Blob storage of the control plane (\<open>aex-control-plane/src/blob.rs\<close>): the \<open>BlobStore\<close> trait
  as the locale \<open>blob_store\<close>, the in-memory store and the on-disk store with its write to a
  temporary file and rename.  The file system is a map from paths to contents; the failures that
  the operating system may report are arguments.
\<close>

datatype io_error = IoNotFound string | IoOther string

fun io_text :: "io_error \<Rightarrow> string" where
  "io_text (IoNotFound m) = m"
| "io_text (IoOther m) = m"

section \<open>The in-memory store\<close>

type_synonym MemoryBlobStore = "string \<Rightarrow> bytes option"

definition MemoryBlobStore_put :: "string \<Rightarrow> bytes \<Rightarrow> (MemoryBlobStore, io_error, unit) action" where
  "MemoryBlobStore_put transfer_id bs = modifyS (\<lambda>m. m(transfer_id := Some bs))"

definition MemoryBlobStore_get :: "string \<Rightarrow> (MemoryBlobStore, io_error, bytes) action" where
  "MemoryBlobStore_get transfer_id =
     bindS (getS (\<lambda>m. m transfer_id)) (\<lambda>found. liftS (ok_or (IoNotFound ''blob not found'') found))"

definition MemoryBlobStore_delete :: "string \<Rightarrow> (MemoryBlobStore, io_error, unit) action" where
  "MemoryBlobStore_delete transfer_id = modifyS (\<lambda>m. m(transfer_id := None))"

definition MemoryBlobStore_exists :: "string \<Rightarrow> MemoryBlobStore \<Rightarrow> bool" where
  "MemoryBlobStore_exists transfer_id m \<longleftrightarrow> m transfer_id \<noteq> None"

section \<open>The on-disk store\<close>

type_synonym file_system = "string \<Rightarrow> bytes option"

definition safe_char :: "char \<Rightarrow> bool" where
  "safe_char c \<longleftrightarrow> is_ascii_alphanumeric c \<or> c = CHR ''_''"

text \<open>
  Each character that is not alphanumeric becomes one underscore; the continuation bytes of a
  non-ASCII character are part of the same character.
\<close>

definition sanitize :: "string \<Rightarrow> string" where
  "sanitize s = concat (map (\<lambda>c. if safe_char c then [c] else if utf8_continuation c then [] else ''_'') s)"

definition path_for :: "string \<Rightarrow> string \<Rightarrow> string" where
  "path_for root transfer_id = root @ ''/'' @ sanitize transfer_id"

text \<open>
  What the operating system does to a \<open>put\<close>: everything succeeds, the temporary file cannot be
  created, writing it stops after some bytes, or the rename fails.
\<close>

datatype put_outcome = PutOk | CreateFails string | WriteFails nat string | RenameFails string

definition FileBlobStore_put ::
  "string \<Rightarrow> put_outcome \<Rightarrow> string \<Rightarrow> bytes \<Rightarrow> (file_system, io_error, unit) action" where
  "FileBlobStore_put root out transfer_id bs =
     (let target = path_for root transfer_id; tmp = target @ ''.tmp'' in
      case out of
        CreateFails m \<Rightarrow> throwS (IoOther m)
      | WriteFails n m \<Rightarrow>
          bindS (modifyS (\<lambda>fs. fs(tmp := Some (take n bs)))) (\<lambda>_. throwS (IoOther m))
      | RenameFails m \<Rightarrow>
          bindS (modifyS (\<lambda>fs. fs(tmp := Some bs))) (\<lambda>_. throwS (IoOther m))
      | PutOk \<Rightarrow>
          bindS (modifyS (\<lambda>fs. fs(tmp := Some bs))) (\<lambda>_.
          modifyS (\<lambda>fs. (fs(target := fs tmp))(tmp := None))))"

definition FileBlobStore_get :: "string \<Rightarrow> string option \<Rightarrow> string \<Rightarrow> (file_system, io_error, bytes) action" where
  "FileBlobStore_get root fault transfer_id =
     (case fault of
        Some m \<Rightarrow> throwS (IoOther m)
      | None \<Rightarrow> bindS (getS (\<lambda>fs. fs (path_for root transfer_id))) (\<lambda>found.
          liftS (ok_or (IoNotFound ''No such file or directory (os error 2)'') found)))"

definition FileBlobStore_delete :: "string \<Rightarrow> string option \<Rightarrow> string \<Rightarrow> (file_system, io_error, unit) action" where
  "FileBlobStore_delete root fault transfer_id =
     (case fault of
        Some m \<Rightarrow> throwS (IoOther m)
      | None \<Rightarrow> modifyS (\<lambda>fs. fs(path_for root transfer_id := None)))"

definition FileBlobStore_exists :: "string \<Rightarrow> string \<Rightarrow> file_system \<Rightarrow> bool" where
  "FileBlobStore_exists root transfer_id fs \<longleftrightarrow> fs (path_for root transfer_id) \<noteq> None"

section \<open>The contract of a blob store\<close>

locale blob_store =
  fixes put :: "string \<Rightarrow> bytes \<Rightarrow> ('b, io_error, unit) action"
    and get :: "string \<Rightarrow> ('b, io_error, bytes) action"
    and delete :: "string \<Rightarrow> ('b, io_error, unit) action"
    and valid_id :: "string \<Rightarrow> bool"
    and blob_of :: "'b \<Rightarrow> string \<Rightarrow> bytes option"
  assumes put_ok: "valid_id t \<Longrightarrow> put t b s = (Inr (), s') \<Longrightarrow> blob_of s' t = Some b"
    and put_err: "valid_id t \<Longrightarrow> put t b s = (Inl e, s') \<Longrightarrow> blob_of s' t = blob_of s t"
    and put_frame: "valid_id t \<Longrightarrow> valid_id u \<Longrightarrow> u \<noteq> t \<Longrightarrow> put t b s = (r, s') \<Longrightarrow> blob_of s' u = blob_of s u"
    and get_pure: "get t s = (r', s') \<Longrightarrow> s' = s"
    and get_sound: "get t s = (Inr b, s') \<Longrightarrow> blob_of s t = Some b"
    and delete_ok: "delete t s = (Inr (), s') \<Longrightarrow> blob_of s' t = None"
    and delete_err: "delete t s = (Inl e, s') \<Longrightarrow> s' = s"
    and delete_frame: "valid_id t \<Longrightarrow> valid_id u \<Longrightarrow> u \<noteq> t \<Longrightarrow> delete t s = (r, s') \<Longrightarrow> blob_of s' u = blob_of s u"
begin

text \<open>A reader never sees a partial blob: after a put, the old blob or the whole new one.\<close>

lemma put_atomic: "valid_id t \<Longrightarrow> put t b s = (r, s') \<Longrightarrow> blob_of s' t = blob_of s t \<or> blob_of s' t = Some b"
  by (cases r) (auto dest: put_ok put_err)

lemma get_after_put: "valid_id t \<Longrightarrow> put t b s = (Inr (), s1) \<Longrightarrow> get t s1 = (Inr c, s2) \<Longrightarrow> c = b"
  by (auto dest!: put_ok get_sound)

lemma no_get_after_delete: "delete t s = (Inr (), s1) \<Longrightarrow> get t s1 \<noteq> (Inr c, s2)"
  by (auto dest!: delete_ok get_sound)

end

text \<open>Without failures of the operating system.\<close>

locale reliable_blob_store = blob_store +
  assumes put_total: "fst (put t b s) = Inr ()"
    and get_complete: "blob_of s t = Some b \<Longrightarrow> fst (get t s) = Inr b"
    and delete_total: "fst (delete t s) = Inr ()"
begin

lemma put_get: "valid_id t \<Longrightarrow> fst (get t (snd (put t b s))) = Inr b"
  by (metis get_complete prod.collapse put_ok put_total)

lemma get_iff: "fst (get t s) = Inr b \<longleftrightarrow> blob_of s t = Some b"
  by (metis get_complete get_sound prod.collapse)

end

interpretation memblob: reliable_blob_store MemoryBlobStore_put MemoryBlobStore_get
  MemoryBlobStore_delete "\<lambda>_. True" "\<lambda>m. m"
  by unfold_locales
    (auto simp: MemoryBlobStore_put_def MemoryBlobStore_get_def MemoryBlobStore_delete_def bindS_def
      step_iffs split: sum.splits)

definition plain_id :: "string \<Rightarrow> bool" where
  "plain_id t \<longleftrightarrow> list_all safe_char t"

lemma sanitize_plain: "plain_id t \<Longrightarrow> sanitize t = t"
  by (induction t) (auto simp: plain_id_def sanitize_def)

lemma path_for_inj: "plain_id t \<Longrightarrow> plain_id u \<Longrightarrow> path_for root t = path_for root u \<longleftrightarrow> t = u"
  by (simp add: path_for_def sanitize_plain)

lemma sanitize_safe: "list_all safe_char (sanitize t)"
  by (induction t) (auto simp: sanitize_def safe_char_def)

lemma dot_not_safe: "\<not> safe_char (CHR ''.'')"
  by (simp add: safe_char_def char_class_defs)

lemma tmp_not_path: "path_for root t @ ''.tmp'' \<noteq> path_for root u"
proof
  assume "path_for root t @ ''.tmp'' = path_for root u"
  then have "sanitize t @ ''.tmp'' = sanitize u" by (simp add: path_for_def)
  then have "CHR ''.'' \<in> set (sanitize u)" by (metis in_set_conv_decomp)
  then show False using sanitize_safe [of u] dot_not_safe by (auto simp: list_all_iff)
qed

interpretation fileblob: blob_store "FileBlobStore_put root out" "FileBlobStore_get root rf"
  "FileBlobStore_delete root df" plain_id "\<lambda>fs t. fs (path_for root t)" for root out rf df
  by unfold_locales
    (auto simp: FileBlobStore_put_def FileBlobStore_get_def FileBlobStore_delete_def bindS_def Let_def
      path_for_inj tmp_not_path tmp_not_path [symmetric] step_iffs
      split: put_outcome.splits option.splits sum.splits)

interpretation fileblob_ok: reliable_blob_store "FileBlobStore_put root PutOk" "FileBlobStore_get root None"
  "FileBlobStore_delete root None" plain_id "\<lambda>fs t. fs (path_for root t)" for root
  by unfold_locales
    (auto simp: FileBlobStore_put_def FileBlobStore_get_def FileBlobStore_delete_def Let_def
      bindS_def split: option.splits)

end
