(* ===== verification/Scanner.thy ===== *)
theory Scanner
  imports AexPrelude
begin

text \<open>
  The content scanners and their aggregation (\<open>aex-scanner/src\<close>).  A \<open>dyn Scanner\<close> is the
  record \<open>scanner\<close> of its two methods.  The elapsed time that a scanner measures and the match
  of the compiled regular expressions come from outside the program: \<open>dur\<close> and \<open>set_matches\<close>
  are arguments of the scanners.  The lemmas show that the loop of \<open>aggregate\<close> computes the
  worst verdict in the documented order, in any order of the scanners, and what each scanner
  detects.
\<close>

section \<open>Verdicts\<close>

datatype ScanResult = Clean | Suspicious | Malicious | ScanError

record ScanVerdict =
  sv_scanner :: string
  sv_result :: ScanResult
  sv_details :: string
  sv_duration_ms :: u64

definition clean_verdict :: "string \<Rightarrow> u64 \<Rightarrow> ScanVerdict" where
  "clean_verdict n d = \<lparr>sv_scanner = n, sv_result = Clean, sv_details = [], sv_duration_ms = d\<rparr>"

definition suspicious_verdict :: "string \<Rightarrow> string \<Rightarrow> u64 \<Rightarrow> ScanVerdict" where
  "suspicious_verdict n m d =
     \<lparr>sv_scanner = n, sv_result = Suspicious, sv_details = m, sv_duration_ms = d\<rparr>"

definition malicious_verdict :: "string \<Rightarrow> string \<Rightarrow> u64 \<Rightarrow> ScanVerdict" where
  "malicious_verdict n m d =
     \<lparr>sv_scanner = n, sv_result = Malicious, sv_details = m, sv_duration_ms = d\<rparr>"

definition error_verdict :: "string \<Rightarrow> string \<Rightarrow> u64 \<Rightarrow> ScanVerdict" where
  "error_verdict n m d =
     \<lparr>sv_scanner = n, sv_result = ScanError, sv_details = m, sv_duration_ms = d\<rparr>"

record PipelineVerdict =
  overall :: ScanResult
  verdicts :: "ScanVerdict list"
  total_duration_ms :: u64

definition combine_results :: "ScanResult \<Rightarrow> ScanResult \<Rightarrow> ScanResult" where
  "combine_results a b =
     (if b = Malicious \<or> a = Malicious then Malicious
      else if b = ScanError \<or> a = ScanError then ScanError
      else if b = Suspicious \<or> a = Suspicious then Suspicious
      else Clean)"

definition aggregate :: "ScanVerdict list \<Rightarrow> PipelineVerdict" where
  "aggregate vs =
     \<lparr>overall = foldl (\<lambda>acc v. combine_results acc (sv_result v)) Clean vs,
      verdicts = vs,
      total_duration_ms = sum_list (map sv_duration_ms vs)\<rparr>"

definition is_blocking :: "PipelineVerdict \<Rightarrow> bool" where
  "is_blocking v \<longleftrightarrow> overall v = Malicious"

section \<open>The pipeline\<close>

record ScanInput =
  si_bytes :: bytes
  si_filename :: "string option"
  si_declared_mime :: "string option"

record scanner =
  scanner_name :: string
  scan_one :: "ScanInput \<Rightarrow> ScanVerdict"

definition ScanPipeline_scan :: "scanner list \<Rightarrow> u64 \<Rightarrow> ScanInput \<Rightarrow> PipelineVerdict" where
  "ScanPipeline_scan scanners wall_clock input =
     (aggregate (map (\<lambda>s. scan_one s input) scanners))\<lparr>total_duration_ms := wall_clock\<rparr>"

section \<open>The scanners\<close>

definition SizeLimitScanner :: "u64 \<Rightarrow> u64 \<Rightarrow> scanner" where
  "SizeLimitScanner max_bytes dur = \<lparr>scanner_name = ''size-limit'', scan_one = (\<lambda>input.
     let size = (of_nat (length (si_bytes input)) :: u64) in
     if size > max_bytes then
       malicious_verdict ''size-limit''
         (''size '' @ show_u64 size @ '' exceeds limit '' @ show_u64 max_bytes) dur
     else clean_verdict ''size-limit'' dur)\<rparr>"

definition EICAR_SIGNATURE :: bytes where
  "EICAR_SIGNATURE = as_bytes (''X5O!P%@AP[4'' @ [CHR 0x5C] @
     ''PZX54(P^)7CC)7}$EICAR-STANDARD-ANTIVIRUS-TEST-FILE!$H+H*'')"

definition windows :: "nat \<Rightarrow> 'a list \<Rightarrow> 'a list list" where
  "windows n xs = map (\<lambda>i. take n (drop i xs)) [0..<Suc (length xs) - n]"

definition contains_slice :: "bytes \<Rightarrow> bytes \<Rightarrow> bool" where
  "contains_slice haystack needle =
     (if needle = [] \<or> length haystack < length needle then False
      else list_ex (\<lambda>w. w = needle) (windows (length needle) haystack))"

definition EicarScanner :: "u64 \<Rightarrow> scanner" where
  "EicarScanner dur = \<lparr>scanner_name = ''eicar'', scan_one = (\<lambda>input.
     if contains_slice (si_bytes input) EICAR_SIGNATURE then
       malicious_verdict ''eicar'' ''EICAR test signature matched'' dur
     else clean_verdict ''eicar'' dur)\<rparr>"

record Sig =
  sig_mime :: string
  sig_magic :: "bytes list"

definition SIGS :: "Sig list" where
  "SIGS = [
     \<lparr>sig_mime = ''application/pdf'', sig_magic = [as_bytes ''%PDF-'']\<rparr>,
     \<lparr>sig_mime = ''image/png'', sig_magic = [[0x89, 0x50, 0x4e, 0x47, 0x0d, 0x0a, 0x1a, 0x0a]]\<rparr>,
     \<lparr>sig_mime = ''image/jpeg'', sig_magic = [[0xff, 0xd8, 0xff]]\<rparr>,
     \<lparr>sig_mime = ''image/gif'', sig_magic = [as_bytes ''GIF87a'', as_bytes ''GIF89a'']\<rparr>,
     \<lparr>sig_mime = ''image/webp'', sig_magic = [as_bytes ''RIFF'']\<rparr>,
     \<lparr>sig_mime = ''application/zip'',
        sig_magic = [[0x50, 0x4b, 0x03, 0x04], [0x50, 0x4b, 0x05, 0x06], [0x50, 0x4b, 0x07, 0x08]]\<rparr>,
     \<lparr>sig_mime = ''application/x-7z-compressed'', sig_magic = [[0x37, 0x7a, 0xbc, 0xaf, 0x27, 0x1c]]\<rparr>,
     \<lparr>sig_mime = ''application/gzip'', sig_magic = [[0x1f, 0x8b]]\<rparr>,
     \<lparr>sig_mime = ''application/x-tar'', sig_magic = []\<rparr>,
     \<lparr>sig_mime = ''application/octet-stream'', sig_magic = []\<rparr>,
     \<lparr>sig_mime = ''text/plain'', sig_magic = []\<rparr>,
     \<lparr>sig_mime = ''application/json'', sig_magic = []\<rparr>,
     \<lparr>sig_mime = ''application/x-msdownload'', sig_magic = [as_bytes ''MZ'']\<rparr>,
     \<lparr>sig_mime = ''application/x-mach-binary'',
        sig_magic = [[0xcf, 0xfa, 0xed, 0xfe], [0xfe, 0xed, 0xfa, 0xcf],
                     [0xfe, 0xed, 0xfa, 0xce], [0xce, 0xfa, 0xed, 0xfe]]\<rparr>,
     \<lparr>sig_mime = ''application/x-executable'', sig_magic = [[0x7f, 0x45, 0x4c, 0x46]]\<rparr>]"

text \<open>The inner loop over the signatures of one entry; \<open>None\<close> continues with the next entry.\<close>

fun detect_in_sig :: "bytes \<Rightarrow> string \<Rightarrow> bytes list \<Rightarrow> string option" where
  "detect_in_sig bs mime [] = None"
| "detect_in_sig bs mime (m # ms) =
     (if prefix m bs then
        if mime = ''image/webp'' then
          if length bs \<ge> 12 \<and> take 4 (drop 8 bs) = as_bytes ''WEBP'' then Some ''image/webp''
          else detect_in_sig bs mime ms
        else Some mime
      else detect_in_sig bs mime ms)"

fun detect_in :: "bytes \<Rightarrow> Sig list \<Rightarrow> string option" where
  "detect_in bs [] = None"
| "detect_in bs (s # ss) =
     (case detect_in_sig bs (sig_mime s) (sig_magic s) of Some m \<Rightarrow> Some m | None \<Rightarrow> detect_in bs ss)"

definition detect_mime :: "bytes \<Rightarrow> string option" where
  "detect_mime bs = detect_in bs SIGS"

definition declared_has_known_signature :: "string \<Rightarrow> bool" where
  "declared_has_known_signature declared =
     list_ex (\<lambda>s. sig_mime s = declared \<and> sig_magic s \<noteq> []) SIGS"

definition mimes_compatible :: "string \<Rightarrow> string \<Rightarrow> bool" where
  "mimes_compatible declared detected =
     (if declared = detected then True
      else if declared = ''application/octet-stream'' then True
      else False)"

definition MagicByteScanner :: "u64 \<Rightarrow> scanner" where
  "MagicByteScanner dur = \<lparr>scanner_name = ''magic-bytes'', scan_one = (\<lambda>input.
     case si_declared_mime input of
       None \<Rightarrow> clean_verdict ''magic-bytes'' dur
     | Some declared \<Rightarrow>
         (case detect_mime (si_bytes input) of
            Some d \<Rightarrow>
              if mimes_compatible declared d then clean_verdict ''magic-bytes'' dur
              else suspicious_verdict ''magic-bytes''
                     (''declared '' @ declared @ '' but bytes look like '' @ d) dur
          | None \<Rightarrow>
              if declared_has_known_signature declared then
                suspicious_verdict ''magic-bytes''
                  (''declared '' @ declared @ '' but no magic matched'') dur
              else clean_verdict ''magic-bytes'' dur))\<rparr>"

fun join_comma :: "string list \<Rightarrow> string" where
  "join_comma [] = []"
| "join_comma [s] = s"
| "join_comma (s # t # ss) = s @ '', '' @ join_comma (t # ss)"

text \<open>\<open>set_matches\<close>: the indices of the patterns of the compiled set that match, ascending.\<close>

definition RegexInjectionScanner :: "(bytes \<Rightarrow> nat list) \<Rightarrow> u64 \<Rightarrow> scanner" where
  "RegexInjectionScanner set_matches dur = \<lparr>scanner_name = ''regex-prompt-injection'', scan_one = (\<lambda>input.
     let matches = set_matches (si_bytes input) in
     if matches = [] then clean_verdict ''regex-prompt-injection'' dur
     else suspicious_verdict ''regex-prompt-injection''
       (show_nat (length matches) @ '' pattern(s) matched: ''
        @ join_comma (map (\<lambda>i. ''pattern_'' @ show_nat i) (take 3 matches))) dur)\<rparr>"

section \<open>Aggregation\<close>

text \<open>The documented severity order.\<close>

fun severity :: "ScanResult \<Rightarrow> nat" where
  "severity Clean = 0"
| "severity Suspicious = 1"
| "severity ScanError = 2"
| "severity Malicious = 3"

lemma severity_inj [simp]: "severity a = severity b \<longleftrightarrow> a = b"
  by (cases a; cases b) simp_all

lemma severity_combine: "severity (combine_results a b) = max (severity a) (severity b)"
  by (cases a; cases b) (simp_all add: combine_results_def)

lemma combine_results_iff:
  "combine_results a b = Malicious \<longleftrightarrow> a = Malicious \<or> b = Malicious"
  "combine_results a b = Clean \<longleftrightarrow> a = Clean \<and> b = Clean"
  by (cases a; cases b; simp add: combine_results_def)+

lemma severity_foldl:
  "severity (foldl (\<lambda>acc v. combine_results acc (sv_result v)) r vs)
     = fold max (map (\<lambda>v. severity (sv_result v)) vs) (severity r)"
  by (induction vs arbitrary: r) (simp_all add: severity_combine max.commute)

lemma severity_aggregate:
  "severity (overall (aggregate vs)) = Max (insert 0 ((severity \<circ> sv_result) ` set vs))"
proof -
  have "severity (overall (aggregate vs)) = fold max (map (severity \<circ> sv_result) vs) 0"
    by (simp add: aggregate_def severity_foldl comp_def)
  also have "\<dots> = Max (set (0 # map (severity \<circ> sv_result) vs))"
    by (simp only: Max.set_eq_fold)
  finally show ?thesis by simp
qed

lemma overall_cong:
  assumes "sv_result ` set vs = sv_result ` set ws"
  shows "overall (aggregate vs) = overall (aggregate ws)"
proof -
  have "(severity \<circ> sv_result) ` set vs = (severity \<circ> sv_result) ` set ws"
    unfolding image_comp [symmetric] using assms by simp
  then have "severity (overall (aggregate vs)) = severity (overall (aggregate ws))"
    by (simp add: severity_aggregate)
  then show ?thesis by simp
qed

lemma overall_Malicious_iff:
  "overall (aggregate vs) = Malicious \<longleftrightarrow> (\<exists>v \<in> set vs. sv_result v = Malicious)"
proof -
  have "foldl (\<lambda>acc v. combine_results acc (sv_result v)) r vs = Malicious
      \<longleftrightarrow> r = Malicious \<or> (\<exists>v \<in> set vs. sv_result v = Malicious)" for r
    by (induction vs arbitrary: r) (auto simp: combine_results_iff)
  then show ?thesis by (simp add: aggregate_def)
qed

lemma overall_Clean_iff:
  "overall (aggregate vs) = Clean \<longleftrightarrow> list_all (\<lambda>v. sv_result v = Clean) vs"
proof -
  have "foldl (\<lambda>acc v. combine_results acc (sv_result v)) r vs = Clean
      \<longleftrightarrow> r = Clean \<and> list_all (\<lambda>v. sv_result v = Clean) vs" for r
    by (induction vs arbitrary: r) (auto simp: combine_results_iff)
  then show ?thesis by (simp add: aggregate_def)
qed

lemma overall_scan: "overall (ScanPipeline_scan ss w i) = overall (aggregate (map (\<lambda>s. scan_one s i) ss))"
  by (simp add: ScanPipeline_scan_def)

section \<open>What the scanners detect\<close>

lemma contains_slice_iff: "needle \<noteq> [] \<Longrightarrow> contains_slice hay needle \<longleftrightarrow> sublist needle hay"
proof
  assume n: "needle \<noteq> []" and "contains_slice hay needle"
  then obtain i where "needle = take (length needle) (drop i hay)"
    by (auto simp: contains_slice_def windows_def list_ex_iff split: if_splits)
  then have "hay = take i hay @ needle @ drop (length needle) (drop i hay)"
    by (metis append_take_drop_id)
  then show "sublist needle hay" by (metis sublist_appendI)
next
  assume n: "needle \<noteq> []" and "sublist needle hay"
  then obtain a b where hay: "hay = a @ needle @ b" by (auto simp: sublist_def)
  then have a: "length a < Suc (length hay) - length needle" and len: "\<not> length hay < length needle"
    by simp_all
  have "take (length needle) (drop (length a) hay) = needle" by (simp add: hay)
  then have "needle \<in> set (windows (length needle) hay)"
    using a by (force simp: windows_def)
  with n len show "contains_slice hay needle"
    by (auto simp: contains_slice_def list_ex_iff)
qed

lemma EICAR_not_Nil: "EICAR_SIGNATURE \<noteq> []"
  by (simp add: EICAR_SIGNATURE_def as_bytes_def)

lemma Eicar_verdict:
  "sv_result (scan_one (EicarScanner d) i) = (if sublist EICAR_SIGNATURE (si_bytes i) then Malicious else Clean)"
  by (simp add: EicarScanner_def contains_slice_iff EICAR_not_Nil malicious_verdict_def clean_verdict_def)

lemma SizeLimit_verdict:
  assumes "length (si_bytes i) < 2 ^ 64"
  shows "sv_result (scan_one (SizeLimitScanner m d) i)
    = (if length (si_bytes i) > unat m then Malicious else Clean)"
proof -
  have "unat (of_nat (length (si_bytes i)) :: u64) = length (si_bytes i)"
    using assms by (simp add: unat_of_nat)
  then show ?thesis
    by (simp add: SizeLimitScanner_def malicious_verdict_def clean_verdict_def word_less_nat_alt)
qed

lemma detect_in_Some:
  "detect_in bs ss = Some m \<Longrightarrow> \<exists>s \<in> set ss. sig_mime s = m \<and> (\<exists>g \<in> set (sig_magic s). prefix g bs)"
proof (induction ss)
  case (Cons s ss)
  have inner: "detect_in_sig bs mm gs = Some m \<Longrightarrow> mm = m \<and> (\<exists>g \<in> set gs. prefix g bs)" for mm gs
    by (induction bs mm gs rule: detect_in_sig.induct) (auto split: if_splits)
  from Cons show ?case by (auto split: option.splits dest: inner)
qed simp

lemma Magic_never_blocks: "sv_result (scan_one (MagicByteScanner d) i) \<in> {Clean, Suspicious}"
  by (simp add: MagicByteScanner_def clean_verdict_def suspicious_verdict_def split: option.splits)

lemma Injection_verdict:
  "sv_result (scan_one (RegexInjectionScanner f d) i) = (if f (si_bytes i) = [] then Clean else Suspicious)"
  by (simp add: RegexInjectionScanner_def clean_verdict_def suspicious_verdict_def Let_def)

end
