(* ===== verification/Policy.thy ===== *)
theory Policy
  imports CoreTypes Scanner
begin

text \<open>
  The policy engine (\<open>aex-policy/src\<close>): decisions, requests, the table-driven tier policy and
  the in-process decision sink.  The locale \<open>blocking_policy\<close> is what the control plane relies
  on: a malicious verdict is denied.  The tier policy is characterised on every branch.
\<close>

section \<open>Decisions and requests\<close>

datatype PolicyDecision =
    Allow
  | Deny (deny_code: string) (deny_reason: string)
  | Pending (pending_id: string) (eta_seconds: u64)

definition is_allow :: "PolicyDecision \<Rightarrow> bool" where
  "is_allow d \<longleftrightarrow> d = Allow"

fun is_pending :: "PolicyDecision \<Rightarrow> bool" where
  "is_pending (Pending _ _) = True"
| "is_pending _ = False"

fun decision_id :: "PolicyDecision \<Rightarrow> string option" where
  "decision_id (Pending i _) = Some i"
| "decision_id _ = None"

definition pending_new :: "string \<Rightarrow> u64 \<Rightarrow> PolicyDecision" where
  "pending_new uuid_simple eta = Pending (''dec_'' @ uuid_simple) eta"

datatype TierName = Dev | Enterprise | FreeHuman

datatype RecipientKind = KindSpizeNative | KindDid | KindHumanBridge | KindUnknown

record PolicyRequest =
  pr_sender :: AgentId
  pr_recipient :: string
  pr_recipient_kind :: RecipientKind
  pr_size_bytes :: u64
  pr_declared_mime :: "string option"
  pr_sender_org :: string
  pr_scanner_verdict :: "PipelineVerdict option"

definition PolicyRequest_new :: "AgentId \<Rightarrow> string \<Rightarrow> string \<Rightarrow> RecipientKind \<Rightarrow> u64 \<Rightarrow> PolicyRequest" where
  "PolicyRequest_new sender sender_org recipient recipient_kind size_bytes =
     \<lparr>pr_sender = sender, pr_recipient = recipient, pr_recipient_kind = recipient_kind,
      pr_size_bytes = size_bytes, pr_declared_mime = None, pr_sender_org = sender_org,
      pr_scanner_verdict = None\<rparr>"

definition with_declared_mime :: "PolicyRequest \<Rightarrow> string \<Rightarrow> PolicyRequest" where
  "with_declared_mime r mime = r\<lparr>pr_declared_mime := Some mime\<rparr>"

definition with_verdict :: "PolicyRequest \<Rightarrow> PipelineVerdict \<Rightarrow> PolicyRequest" where
  "with_verdict r v = r\<lparr>pr_scanner_verdict := Some v\<rparr>"

section \<open>The tier policy\<close>

record TierPolicy =
  tier_name :: TierName
  max_bytes :: u64
  mime_deny :: "string list"
  allow_suspicious :: bool
  fail_open_on_scanner_error :: bool
  allow_human_bridge :: bool

definition default_mime_deny :: "string list" where
  "default_mime_deny = [''application/x-msdownload'', ''application/x-executable'',
     ''application/x-mach-binary'', ''application/x-msdos-program'']"

fun for_tier :: "TierName \<Rightarrow> TierPolicy" where
  "for_tier FreeHuman = \<lparr>tier_name = FreeHuman, max_bytes = 25 * 1024 * 1024,
     mime_deny = default_mime_deny, allow_suspicious = False,
     fail_open_on_scanner_error = False, allow_human_bridge = True\<rparr>"
| "for_tier Dev = \<lparr>tier_name = Dev, max_bytes = 100 * 1024 * 1024,
     mime_deny = default_mime_deny, allow_suspicious = True,
     fail_open_on_scanner_error = True, allow_human_bridge = True\<rparr>"
| "for_tier Enterprise = \<lparr>tier_name = Enterprise, max_bytes = 5 * 1024 * 1024 * 1024,
     mime_deny = default_mime_deny, allow_suspicious = False,
     fail_open_on_scanner_error = False, allow_human_bridge = True\<rparr>"

text \<open>The derived \<open>Debug\<close> texts used in the summaries.\<close>

fun result_debug :: "ScanResult \<Rightarrow> string" where
  "result_debug Clean = ''Clean''"
| "result_debug Suspicious = ''Suspicious''"
| "result_debug Malicious = ''Malicious''"
| "result_debug ScanError = ''Error''"

fun tier_debug :: "TierName \<Rightarrow> string" where
  "tier_debug Dev = ''Dev''"
| "tier_debug Enterprise = ''Enterprise''"
| "tier_debug FreeHuman = ''FreeHuman''"

fun join_semicolon :: "string list \<Rightarrow> string" where
  "join_semicolon [] = []"
| "join_semicolon [s] = s"
| "join_semicolon (s # t # ss) = s @ ''; '' @ join_semicolon (t # ss)"

definition summarize_verdict :: "PipelineVerdict \<Rightarrow> string" where
  "summarize_verdict v = join_semicolon (map (\<lambda>sv.
       sv_scanner sv @ ''='' @ result_debug (sv_result sv) @ '':'' @ sv_details sv)
     (filter (\<lambda>sv. sv_result sv \<noteq> Clean) (verdicts v)))"

definition decide_on_verdict :: "TierPolicy \<Rightarrow> PipelineVerdict \<Rightarrow> PolicyDecision option" where
  "decide_on_verdict p v =
     (case overall v of
        Malicious \<Rightarrow> Some (Deny ''scanner_malicious'' (summarize_verdict v))
      | ScanError \<Rightarrow>
          if fail_open_on_scanner_error p then None
          else Some (Deny ''scanner_error''
            (''tier '' @ [CHR 0x27] @ tier_debug (tier_name p) @ [CHR 0x27]
             @ '' fails closed on scanner error: '' @ summarize_verdict v))
      | Suspicious \<Rightarrow>
          if allow_suspicious p then None
          else Some (Deny ''scanner_suspicious'' (summarize_verdict v))
      | Clean \<Rightarrow> None)"

definition TierPolicy_evaluate :: "TierPolicy \<Rightarrow> PolicyRequest \<Rightarrow> PolicyDecision" where
  "TierPolicy_evaluate p req =
     (if pr_size_bytes req > max_bytes p then
        Deny ''size_exceeded''
          (show_u64 (pr_size_bytes req) @ '' bytes exceeds tier limit '' @ show_u64 (max_bytes p))
      else if \<not> allow_human_bridge p \<and> pr_recipient_kind req = KindHumanBridge then
        Deny ''human_bridge_disallowed''
          ''this tier does not permit sending to email/phone recipients''
      else
        case pr_declared_mime req of
          Some mime \<Rightarrow>
            if mime \<in> set (mime_deny p) then
              Deny ''mime_blocked'' (''MIME '' @ mime @ '' is on the tier deny-list'')
            else
              (case pr_scanner_verdict req of
                 Some v \<Rightarrow> (case decide_on_verdict p v of Some denial \<Rightarrow> denial | None \<Rightarrow> Allow)
               | None \<Rightarrow> Allow)
        | None \<Rightarrow>
            (case pr_scanner_verdict req of
               Some v \<Rightarrow> (case decide_on_verdict p v of Some denial \<Rightarrow> denial | None \<Rightarrow> Allow)
             | None \<Rightarrow> Allow))"

section \<open>The in-process decision sink\<close>

datatype DecisionOutcome = Accepted | Rejected

fun outcome_str :: "DecisionOutcome \<Rightarrow> string" where
  "outcome_str Accepted = ''accepted''"
| "outcome_str Rejected = ''rejected''"

record DecisionRequest =
  dr_decision_id :: string
  dr_transfer_id :: string
  dr_sender_agent_id :: string
  dr_recipient_agent_id :: string
  dr_declared_mime :: string
  dr_filename :: string
  dr_size_bytes :: u64
  dr_summary :: string

record DecisionResponse =
  ds_decision_id :: string
  ds_outcome :: DecisionOutcome
  ds_reason :: string

datatype DecisionSinkError = SinkRejected string | SinkTimeout | SinkInfra string

text \<open>
  The decider and the response handler are closures of the embedding program, with effects on
  its state.
\<close>

definition InProcessDecisionSink_submit ::
  "(DecisionRequest \<Rightarrow> ('s, DecisionSinkError, DecisionResponse) action) \<Rightarrow>
   (DecisionResponse \<Rightarrow> ('s, DecisionSinkError, unit) action) \<Rightarrow>
   DecisionRequest \<Rightarrow> ('s, DecisionSinkError, unit) action" where
  "InProcessDecisionSink_submit decider on_response request =
     bindS (decider request) (\<lambda>response.
     bindS (ensureS (ds_decision_id response = dr_decision_id request)
       (SinkInfra (''decider returned decision_id '' @ [CHR 0x27] @ ds_decision_id response
          @ [CHR 0x27] @ '' for request '' @ [CHR 0x27] @ dr_decision_id request @ [CHR 0x27]))) (\<lambda>_.
     on_response response))"

section \<open>What the control plane relies on\<close>

locale blocking_policy =
  fixes evaluate :: "PolicyRequest \<Rightarrow> PolicyDecision"
  assumes malicious_denied:
    "pr_scanner_verdict r = Some v \<Longrightarrow> overall v = Malicious \<Longrightarrow> \<exists>c m. evaluate r = Deny c m"
begin

lemma allow_not_malicious:
  "\<not> (\<exists>c m. evaluate r = Deny c m) \<Longrightarrow> pr_scanner_verdict r = Some v \<Longrightarrow> overall v \<noteq> Malicious"
  using malicious_denied by blast

end

lemma decide_on_verdict_None_iff:
  "decide_on_verdict p v = None \<longleftrightarrow>
     overall v = Clean \<or> overall v = Suspicious \<and> allow_suspicious p
     \<or> overall v = ScanError \<and> fail_open_on_scanner_error p"
  by (cases "overall v") (simp_all add: decide_on_verdict_def)

lemma decide_on_verdict_Deny: "decide_on_verdict p v = Some d \<Longrightarrow> \<exists>c m. d = Deny c m"
  by (cases "overall v") (auto simp: decide_on_verdict_def split: if_splits)

lemma TierPolicy_not_pending: "\<not> is_pending (TierPolicy_evaluate p r)"
  by (auto simp: TierPolicy_evaluate_def split: option.splits dest!: decide_on_verdict_Deny)

lemma TierPolicy_Allow_iff:
  "TierPolicy_evaluate p r = Allow \<longleftrightarrow>
     unat (pr_size_bytes r) \<le> unat (max_bytes p)
     \<and> (allow_human_bridge p \<or> pr_recipient_kind r \<noteq> KindHumanBridge)
     \<and> (\<forall>m. pr_declared_mime r = Some m \<longrightarrow> m \<notin> set (mime_deny p))
     \<and> (\<forall>v. pr_scanner_verdict r = Some v \<longrightarrow> decide_on_verdict p v = None)"
  by (auto simp: TierPolicy_evaluate_def word_less_nat_alt split: option.splits
      dest: decide_on_verdict_Deny)

interpretation tier: blocking_policy "TierPolicy_evaluate p" for p
proof unfold_locales
  fix r :: PolicyRequest and v assume v: "pr_scanner_verdict r = Some v" "overall v = Malicious"
  then have "\<exists>c m. decide_on_verdict p v = Some (Deny c m)" by (simp add: decide_on_verdict_def)
  with v show "\<exists>c m. TierPolicy_evaluate p r = Deny c m"
    by (auto simp: TierPolicy_evaluate_def split: option.splits)
qed

lemma submit_accepts_iff:
  "InProcessDecisionSink_submit dec h req s = (Inr (), s') \<longleftrightarrow>
     (\<exists>resp s1. dec req s = (Inr resp, s1) \<and> ds_decision_id resp = dr_decision_id req
        \<and> h resp s1 = (Inr (), s'))"
  by (auto simp: InProcessDecisionSink_submit_def step_iffs split: if_splits)

end
