(* ===== verification/Wire.thy ===== *)
theory Wire
  imports CoreTypes
begin

text \<open>
  The version 1 canonical messages of \<open>aex-core/src/wire.rs\<close>: the byte strings that clients,
  recipients and the control plane sign, the validators of their fields and the clock-skew
  test.  The locale \<open>line_message\<close> is the contract of a canonical message format (LF-separated
  lines under a header that determines the kind); within it the rendering is shown injective,
  so a signature over one message is never a signature over another.
\<close>

section \<open>Validators\<close>

definition PROTOCOL_VERSION :: string where
  "PROTOCOL_VERSION = ''v1''"

definition MAX_CLOCK_SKEW_SECS :: int where
  "MAX_CLOCK_SKEW_SECS = 300"

text \<open>\<open>i128::saturating_sub\<close>, on the exact difference.\<close>

definition saturate_i128 :: "int \<Rightarrow> int" where
  "saturate_i128 x = max (- (2 ^ 127)) (min (2 ^ 127 - 1) x)"

definition is_within_clock_skew :: "i64 \<Rightarrow> i64 \<Rightarrow> bool" where
  "is_within_clock_skew now_unix issued_at_unix =
     (let diff = saturate_i128 (sint now_unix - sint issued_at_unix)
      in nat \<bar>diff\<bar> \<le> nat MAX_CLOCK_SKEW_SECS)"

definition MIN_NONCE_LEN :: nat where
  "MIN_NONCE_LEN = 32"

definition MAX_NONCE_LEN :: nat where
  "MAX_NONCE_LEN = 128"

definition bad_line_char :: "char \<Rightarrow> bool" where
  "bad_line_char c \<longleftrightarrow> \<not> is_ascii c \<or> c = LF \<or> c = CR \<or> c = NUL"

definition validate_ascii_line :: "string \<Rightarrow> string \<Rightarrow> core_error + unit" where
  "validate_ascii_line s field =
     (if s = [] then Inl (Internal (field @ '' is empty''))
      else case first_bad bad_line_char 0 s of
        Some (i, r) \<Rightarrow>
          Inl (Internal (field @ '' has invalid char at '' @ show_nat i @ '': '' @ debug_char r))
      | None \<Rightarrow> Inr ())"

definition validate_ascii_line_opt :: "string \<Rightarrow> string \<Rightarrow> core_error + unit" where
  "validate_ascii_line_opt s field = (if s = [] then Inr () else validate_ascii_line s field)"

definition validate_nonce :: "string \<Rightarrow> core_error + unit" where
  "validate_nonce nonce =
     (if length nonce < MIN_NONCE_LEN \<or> length nonce > MAX_NONCE_LEN then
        Inl (Internal (''nonce length '' @ show_nat (length nonce) @ '' outside [''
          @ show_nat MIN_NONCE_LEN @ '', '' @ show_nat MAX_NONCE_LEN @ '']''))
      else if \<not> list_all is_ascii_hexdigit nonce then Inl (Internal ''nonce must be hex'')
      else Inr ())"

section \<open>Canonical messages\<close>

definition registration_challenge_bytes ::
  "string \<Rightarrow> string \<Rightarrow> string \<Rightarrow> string \<Rightarrow> i64 \<Rightarrow> core_error + bytes" where
  "registration_challenge_bytes public_key_hex org name nonce issued_at_unix =
     bindE (validate_ascii_line public_key_hex ''public_key_hex'') (\<lambda>_.
     bindE (validate_ascii_line org ''org'') (\<lambda>_.
     bindE (validate_ascii_line name ''name'') (\<lambda>_.
     bindE (validate_nonce nonce) (\<lambda>_.
     Inr (as_bytes (''spize-register:'' @ PROTOCOL_VERSION
       @ [LF] @ ''pub='' @ public_key_hex
       @ [LF] @ ''org='' @ org
       @ [LF] @ ''name='' @ name
       @ [LF] @ ''nonce='' @ nonce
       @ [LF] @ ''ts='' @ show_i64 issued_at_unix))))))"

definition transfer_intent_bytes ::
  "string \<Rightarrow> string \<Rightarrow> u64 \<Rightarrow> string \<Rightarrow> string \<Rightarrow> string \<Rightarrow> i64 \<Rightarrow> core_error + bytes" where
  "transfer_intent_bytes sender_agent_id recipient size_bytes declared_mime filename nonce issued_at_unix =
     bindE (validate_ascii_line sender_agent_id ''sender_agent_id'') (\<lambda>_.
     bindE (validate_ascii_line recipient ''recipient'') (\<lambda>_.
     bindE (validate_ascii_line_opt declared_mime ''declared_mime'') (\<lambda>_.
     bindE (validate_ascii_line_opt filename ''filename'') (\<lambda>_.
     bindE (validate_nonce nonce) (\<lambda>_.
     Inr (as_bytes (''spize-transfer-intent:'' @ PROTOCOL_VERSION
       @ [LF] @ ''sender='' @ sender_agent_id
       @ [LF] @ ''recipient='' @ recipient
       @ [LF] @ ''size='' @ show_u64 size_bytes
       @ [LF] @ ''mime='' @ declared_mime
       @ [LF] @ ''filename='' @ filename
       @ [LF] @ ''nonce='' @ nonce
       @ [LF] @ ''ts='' @ show_i64 issued_at_unix)))))))"

definition data_ticket_bytes ::
  "string \<Rightarrow> string \<Rightarrow> string \<Rightarrow> i64 \<Rightarrow> string \<Rightarrow> core_error + bytes" where
  "data_ticket_bytes transfer_id recipient_agent_id data_plane_url expires_unix nonce =
     bindE (validate_ascii_line transfer_id ''transfer_id'') (\<lambda>_.
     bindE (validate_ascii_line recipient_agent_id ''recipient_agent_id'') (\<lambda>_.
     bindE (validate_ascii_line data_plane_url ''data_plane_url'') (\<lambda>_.
     bindE (validate_nonce nonce) (\<lambda>_.
     Inr (as_bytes (''spize-data-ticket:'' @ PROTOCOL_VERSION
       @ [LF] @ ''transfer='' @ transfer_id
       @ [LF] @ ''recipient='' @ recipient_agent_id
       @ [LF] @ ''data_plane='' @ data_plane_url
       @ [LF] @ ''expires='' @ show_i64 expires_unix
       @ [LF] @ ''nonce='' @ nonce))))))"

definition rotate_key_challenge_bytes ::
  "string \<Rightarrow> string \<Rightarrow> string \<Rightarrow> string \<Rightarrow> i64 \<Rightarrow> core_error + bytes" where
  "rotate_key_challenge_bytes agent_id old_public_key_hex new_public_key_hex nonce issued_at_unix =
     bindE (validate_ascii_line agent_id ''agent_id'') (\<lambda>_.
     bindE (validate_ascii_line old_public_key_hex ''old_public_key_hex'') (\<lambda>_.
     bindE (validate_ascii_line new_public_key_hex ''new_public_key_hex'') (\<lambda>_.
     bindE (validate_nonce nonce) (\<lambda>_.
     bindE (ensure (old_public_key_hex \<noteq> new_public_key_hex)
       (Internal ''old_public_key_hex and new_public_key_hex must differ'')) (\<lambda>_.
     Inr (as_bytes (''spize-rotate-key:'' @ PROTOCOL_VERSION
       @ [LF] @ ''agent='' @ agent_id
       @ [LF] @ ''old_pub='' @ old_public_key_hex
       @ [LF] @ ''new_pub='' @ new_public_key_hex
       @ [LF] @ ''nonce='' @ nonce
       @ [LF] @ ''ts='' @ show_i64 issued_at_unix)))))))"

definition receipt_actions :: "string list" where
  "receipt_actions = [''download'', ''ack'', ''inbox'', ''request_ticket'']"

definition quoted :: "string \<Rightarrow> string" where
  "quoted s = CHR 0x27 # s @ [CHR 0x27]"

definition bad_action_text :: "string \<Rightarrow> string" where
  "bad_action_text action = ''action must be '' @ quoted ''download'' @ '', '' @ quoted ''ack''
     @ '', '' @ quoted ''inbox'' @ '' or '' @ quoted ''request_ticket'' @ '', got '' @ action"

definition transfer_receipt_bytes ::
  "string \<Rightarrow> string \<Rightarrow> string \<Rightarrow> string \<Rightarrow> i64 \<Rightarrow> core_error + bytes" where
  "transfer_receipt_bytes recipient_agent_id transfer_id action nonce issued_at_unix =
     bindE (validate_ascii_line recipient_agent_id ''recipient_agent_id'') (\<lambda>_.
     bindE (validate_ascii_line transfer_id ''transfer_id'') (\<lambda>_.
     bindE (validate_ascii_line action ''action'') (\<lambda>_.
     bindE (validate_nonce nonce) (\<lambda>_.
     bindE (ensure (action \<in> set receipt_actions) (Internal (bad_action_text action))) (\<lambda>_.
     Inr (as_bytes (''spize-transfer-receipt:'' @ PROTOCOL_VERSION
       @ [LF] @ ''recipient='' @ recipient_agent_id
       @ [LF] @ ''transfer='' @ transfer_id
       @ [LF] @ ''action='' @ action
       @ [LF] @ ''nonce='' @ nonce
       @ [LF] @ ''ts='' @ show_i64 issued_at_unix)))))))"

section \<open>What the validators accept\<close>

definition ascii_line :: "string \<Rightarrow> bool" where
  "ascii_line s \<longleftrightarrow> s \<noteq> [] \<and> list_all (\<lambda>c. \<not> bad_line_char c) s"

definition valid_nonce :: "string \<Rightarrow> bool" where
  "valid_nonce n \<longleftrightarrow> 32 \<le> length n \<and> length n \<le> 128 \<and> list_all is_ascii_hexdigit n"

lemma validate_ascii_line_Inr_iff [step_iffs]: "validate_ascii_line s f = Inr u \<longleftrightarrow> ascii_line s"
  using first_bad_None_iff [of bad_line_char 0 s]
  by (cases "first_bad bad_line_char 0 s")
    (auto simp: validate_ascii_line_def ascii_line_def list_all_iff)

lemma validate_ascii_line_opt_Inr_iff [step_iffs]:
  "validate_ascii_line_opt s f = Inr u \<longleftrightarrow> s = [] \<or> ascii_line s"
  by (auto simp: validate_ascii_line_opt_def step_iffs)

lemma validate_nonce_Inr_iff [step_iffs]: "validate_nonce n = Inr u \<longleftrightarrow> valid_nonce n"
  by (auto simp: validate_nonce_def valid_nonce_def MIN_NONCE_LEN_def MAX_NONCE_LEN_def)

lemma ascii_line_safe [simp]: "ascii_line s \<Longrightarrow> line_safe s"
  by (auto simp: ascii_line_def bad_line_char_def line_safe_def list_all_iff)

lemma hexdigit_not_bad: "is_ascii_hexdigit c \<Longrightarrow> \<not> bad_line_char c"
  by (auto simp: is_ascii_hexdigit_def is_ascii_digit_def bad_line_char_def is_ascii_def code_def)

lemma valid_nonce_ascii_line: "valid_nonce n \<Longrightarrow> ascii_line n"
  by (auto simp: valid_nonce_def ascii_line_def list_all_iff hexdigit_not_bad)

lemma valid_nonce_safe [simp]: "valid_nonce n \<Longrightarrow> line_safe n"
  by (simp add: valid_nonce_ascii_line)

lemma valid_agent_id_ascii_line: "valid_agent_id s \<Longrightarrow> ascii_line s"
  by (auto simp: valid_agent_id_def ascii_line_def bad_line_char_def list_all_iff is_ascii_def code_def)

section \<open>The contract of a canonical message format\<close>

locale line_message =
  fixes render :: "'m \<Rightarrow> core_error + bytes"
    and header :: "'m \<Rightarrow> string"
    and body :: "'m \<Rightarrow> string list"
  assumes render_lines:
      "render m = Inr bs \<Longrightarrow> bs = as_bytes (join_lines (header m # body m)) \<and> list_all line_safe (body m)"
    and header_safe: "line_safe (header m)"
    and fields_determine: "header m = header n \<Longrightarrow> body m = body n \<Longrightarrow> m = n"
begin

lemma render_text:
  "render m = Inr bs \<Longrightarrow> \<exists>ls. bs = as_bytes (join_lines ls) \<and> ls = header m # body m \<and> list_all line_safe ls"
  using render_lines header_safe by auto

lemma render_injective:
  assumes "render m = Inr bs" and "render n = Inr bs"
  shows "m = n"
proof -
  from render_lines [OF assms(1)] render_lines [OF assms(2)]
  have "join_lines (header m # body m) = join_lines (header n # body n)"
    and "list_all line_safe (header m # body m)" "list_all line_safe (header n # body n)"
    using header_safe by auto
  then have "header m # body m = header n # body n" by (intro join_lines_inj) auto
  then show ?thesis by (auto intro: fields_determine)
qed

end

section \<open>The version 1 messages\<close>

datatype message_v1 =
    RegisterV1 string string string string i64
  | IntentV1 string string u64 string string string i64
  | TicketV1 string string string i64 string
  | RotateV1 string string string string i64
  | ReceiptV1 string string string string i64

fun render_v1 :: "message_v1 \<Rightarrow> core_error + bytes" where
  "render_v1 (RegisterV1 p og nm no ts) = registration_challenge_bytes p og nm no ts"
| "render_v1 (IntentV1 s r z m f no ts) = transfer_intent_bytes s r z m f no ts"
| "render_v1 (TicketV1 t r d ex no) = data_ticket_bytes t r d ex no"
| "render_v1 (RotateV1 a p q no ts) = rotate_key_challenge_bytes a p q no ts"
| "render_v1 (ReceiptV1 r t a no ts) = transfer_receipt_bytes r t a no ts"

fun header_v1 :: "message_v1 \<Rightarrow> string" where
  "header_v1 (RegisterV1 _ _ _ _ _) = ''spize-register:v1''"
| "header_v1 (IntentV1 _ _ _ _ _ _ _) = ''spize-transfer-intent:v1''"
| "header_v1 (TicketV1 _ _ _ _ _) = ''spize-data-ticket:v1''"
| "header_v1 (RotateV1 _ _ _ _ _) = ''spize-rotate-key:v1''"
| "header_v1 (ReceiptV1 _ _ _ _ _) = ''spize-transfer-receipt:v1''"

fun body_v1 :: "message_v1 \<Rightarrow> string list" where
  "body_v1 (RegisterV1 p og nm no ts) =
     [''pub='' @ p, ''org='' @ og, ''name='' @ nm, ''nonce='' @ no, ''ts='' @ show_i64 ts]"
| "body_v1 (IntentV1 s r z m f no ts) =
     [''sender='' @ s, ''recipient='' @ r, ''size='' @ show_u64 z, ''mime='' @ m, ''filename='' @ f,
      ''nonce='' @ no, ''ts='' @ show_i64 ts]"
| "body_v1 (TicketV1 t r d ex no) =
     [''transfer='' @ t, ''recipient='' @ r, ''data_plane='' @ d, ''expires='' @ show_i64 ex,
      ''nonce='' @ no]"
| "body_v1 (RotateV1 a p q no ts) =
     [''agent='' @ a, ''old_pub='' @ p, ''new_pub='' @ q, ''nonce='' @ no, ''ts='' @ show_i64 ts]"
| "body_v1 (ReceiptV1 r t a no ts) =
     [''recipient='' @ r, ''transfer='' @ t, ''action='' @ a, ''nonce='' @ no, ''ts='' @ show_i64 ts]"

lemmas message_defs = registration_challenge_bytes_def transfer_intent_bytes_def
  data_ticket_bytes_def rotate_key_challenge_bytes_def transfer_receipt_bytes_def

lemma line_safe_empty_or: "s = [] \<or> ascii_line s \<Longrightarrow> line_safe s"
  by auto

lemma render_v1_lines:
  "render_v1 m = Inr bs \<Longrightarrow>
     bs = as_bytes (join_lines (header_v1 m # body_v1 m)) \<and> list_all line_safe (body_v1 m)"
  by (cases m) (auto simp: message_defs step_iffs PROTOCOL_VERSION_def dest!: line_safe_empty_or)

interpretation v1: line_message render_v1 header_v1 body_v1
proof unfold_locales
  show "line_safe (header_v1 m)" for m by (cases m) simp_all
  show "header_v1 m = header_v1 n \<Longrightarrow> body_v1 m = body_v1 n \<Longrightarrow> m = n" for m n
    by (cases m; cases n) simp_all
qed (use render_v1_lines in auto)

end
