(* ===== verification/ControlPlane.thy ===== *)
theory ControlPlane
  imports Database Blobs Policy Wire
begin

text \<open>
  The state of the control plane (\<open>AppState\<close> of \<open>aex-control-plane/src/lib.rs\<close>), what a
  request takes from outside (\<open>env\<close>), and the verification of a signature against every key
  that is valid for an agent (\<open>verify.rs\<close>).

  The services behind \<open>dyn AuditLog\<close>, \<open>dyn BlobStore\<close> and \<open>dyn PolicyEngine\<close> are the method
  fields of \<open>env\<close>, over the types of their states.  \<open>db_fault_at\<close> says for each query whether the
  database fails: before the statement takes effect, or after it (the answer is lost).  Clock
  readings, UUIDs and random bytes are numbered by the call that draws them.
\<close>

section \<open>State and environment\<close>

record metrics =
  agents_registered_total :: nat
  agents_key_rotated_total :: nat
  transfers_created_total :: "string \<Rightarrow> nat"
  transfers_delivered_total :: nat
  transfers_rejected_total :: "string \<Rightarrow> nat"
  health_probes_total :: "string \<Rightarrow> nat"
  health_transitions_total :: "string \<Rightarrow> nat"
  in_flight_transfers :: int

definition Metrics_new :: metrics where
  "Metrics_new = \<lparr>agents_registered_total = 0, agents_key_rotated_total = 0,
     transfers_created_total = (\<lambda>_. 0), transfers_delivered_total = 0,
     transfers_rejected_total = (\<lambda>_. 0), health_probes_total = (\<lambda>_. 0),
     health_transitions_total = (\<lambda>_. 0), in_flight_transfers = 0\<rparr>"

definition inc_label :: "string \<Rightarrow> (string \<Rightarrow> nat) \<Rightarrow> string \<Rightarrow> nat" where
  "inc_label l m = m(l := Suc (m l))"

record ('l, 'b) app_state =
  db :: database
  audit :: 'l
  blobs :: 'b
  metrics_of :: metrics

datatype db_fault = NoFault | FailsBefore string | FailsAfter string

datatype http_result = HttpStatus nat string | HttpError string

record ('l, 'b) env =
  plat :: platform
  clock :: "nat \<Rightarrow> instant"
  db_fault_at :: "string \<Rightarrow> db_fault"
  dbe :: db_env
  policy_evaluate :: "PolicyRequest \<Rightarrow> PolicyDecision"
  scanners :: "scanner list"
  scan_millis :: u64
  audit_append :: "instant \<Rightarrow> string \<Rightarrow> Event \<Rightarrow> ('l, AuditError, EventReceipt) action"
  audit_now :: "nat \<Rightarrow> instant"
  audit_uuid :: "nat \<Rightarrow> string"
  blob_put :: "string \<Rightarrow> bytes \<Rightarrow> ('b, io_error, unit) action"
  blob_get :: "string \<Rightarrow> ('b, io_error, bytes) action"
  blob_delete :: "string \<Rightarrow> ('b, io_error, unit) action"
  uuid_simple :: string
  random16 :: bytes
  signer :: "(bytes \<Rightarrow> bytes) option"
  skip_tunnel_validation :: bool
  http_client_error :: "string option"
  http_get :: "nat \<Rightarrow> string \<Rightarrow> http_result"
  probe_late :: "nat \<Rightarrow> bool"
  probe_timed_out :: "nat \<Rightarrow> bool"
  probe_millis :: "nat \<Rightarrow> u64"

type_synonym ('l, 'b, 'a) handler = "(('l, 'b) app_state, ApiError, 'a) action"

definition now_unix :: "('l, 'b) env \<Rightarrow> i64" where
  "now_unix E = unix_timestamp (plat E) (clock E 0)"

section \<open>Calls into the services\<close>

definition on_db :: "db_fault \<Rightarrow> 'a query \<Rightarrow> (('l, 'b) app_state, sqlx_error, 'a) action" where
  "on_db f q = (\<lambda>s.
     case f of
       FailsBefore m \<Rightarrow> (Inl (OtherSqlx m), s)
     | NoFault \<Rightarrow> (case q (db s) of (r, d) \<Rightarrow> (r, s\<lparr>db := d\<rparr>))
     | FailsAfter m \<Rightarrow> (case q (db s) of (r, d) \<Rightarrow>
         (case r of Inl e \<Rightarrow> Inl e | Inr _ \<Rightarrow> Inl (OtherSqlx m), s\<lparr>db := d\<rparr>)))"

text \<open>A query followed by the question mark operator.\<close>

definition query :: "('l, 'b) env \<Rightarrow> string \<Rightarrow> 'a query \<Rightarrow> ('l, 'b, 'a) handler" where
  "query E label q = mapErrS from_sqlx (on_db (db_fault_at E label) q)"

definition on_audit :: "('l, 'e, 'a) action \<Rightarrow> (('l, 'b) app_state, 'e, 'a) action" where
  "on_audit m = (\<lambda>s. case m (audit s) of (r, l) \<Rightarrow> (r, s\<lparr>audit := l\<rparr>))"

definition on_blobs :: "('b, 'e, 'a) action \<Rightarrow> (('l, 'b) app_state, 'e, 'a) action" where
  "on_blobs m = (\<lambda>s. case m (blobs s) of (r, b) \<Rightarrow> (r, s\<lparr>blobs := b\<rparr>))"

definition on_metrics :: "(metrics \<Rightarrow> metrics) \<Rightarrow> ('l, 'b, unit) handler" where
  "on_metrics f = modifyS (\<lambda>s. s\<lparr>metrics_of := f (metrics_of s)\<rparr>)"

text \<open>The \<open>k\<close>-th append of a request; an error is logged and dropped.\<close>

definition audit_warn :: "('l, 'b) env \<Rightarrow> nat \<Rightarrow> Event \<Rightarrow> ('l, 'b, unit) handler" where
  "audit_warn E k event =
     bindS (tryS (on_audit (audit_append E (audit_now E k) (audit_uuid E k) event)))
       (\<lambda>_ :: AuditError + EventReceipt. returnS ())"

section \<open>Signature verification\<close>

definition PUBLIC_KEY_LEN :: nat where
  "PUBLIC_KEY_LEN = 32"

definition SIGNATURE_LEN :: nat where
  "SIGNATURE_LEN = 64"

definition key_verifies :: "platform \<Rightarrow> bytes \<Rightarrow> bytes \<Rightarrow> bytes \<Rightarrow> bool" where
  "key_verifies P canonical signature pk \<longleftrightarrow>
     length pk = PUBLIC_KEY_LEN \<and> ed25519_key_ok P pk \<and> ed25519_verify P pk canonical signature"

definition verify_with_valid_keys ::
  "('l, 'b) env \<Rightarrow> string \<Rightarrow> instant \<Rightarrow> bytes \<Rightarrow> bytes \<Rightarrow> ('l, 'b, unit) handler" where
  "verify_with_valid_keys E agent_id at canonical signature =
     bindS (ensureS (length signature = SIGNATURE_LEN) (BadRequest ''signature must be 64 bytes'')) (\<lambda>_.
     bindS (query E ''valid_public_keys_at'' (valid_public_keys_at (dbe E) agent_id at)) (\<lambda>candidates.
     bindS (ensureS (candidates \<noteq> [])
       (Unauthorized ''no active key for agent (unregistered or revoked)'')) (\<lambda>_.
     ensureS (list_ex (key_verifies (plat E) canonical signature) candidates)
       (Unauthorized ''signature does not verify against any active key''))))"

section \<open>Lemmas on the calls\<close>

lemma query_Inr_iff:
  "query E label q s = (Inr a, s') \<longleftrightarrow>
     db_fault_at E label = NoFault \<and> (\<exists>d. q (db s) = (Inr a, d) \<and> s' = s\<lparr>db := d\<rparr>)"
  by (cases "db_fault_at E label")
    (auto simp: query_def mapErrS_apply on_db_def map_err_Inr_iff split: prod.splits sum.splits)

lemma query_getS_Inr_iff:
  "query E label (getS g) s = (Inr a, s') \<longleftrightarrow> db_fault_at E label = NoFault \<and> a = g (db s) \<and> s' = s"
  by (auto simp: query_Inr_iff)

text \<open>A query changes the database at most the way the statement does, and nothing else.\<close>

lemma query_effect:
  "query E label q s = (r, s') \<Longrightarrow> s' = s\<lparr>db := db s'\<rparr> \<and> (db s' = db s \<or> db s' = snd (q (db s)))"
  by (cases "db_fault_at E label") (auto simp: query_def mapErrS_apply on_db_def split: prod.splits sum.splits)

lemma keeps_query [keeps_rules]:
  "keeps P q \<Longrightarrow> keeps (\<lambda>s. P (db s)) (query E label q)"
  by (auto simp: keeps_def query_def mapErrS_apply on_db_def split: db_fault.splits prod.splits)

lemma keeps_query_other [keeps_rules]:
  "(\<And>s d. P (s\<lparr>db := d\<rparr>) = P s) \<Longrightarrow> keeps P (query E label q)"
  by (auto simp: keeps_def query_def mapErrS_apply on_db_def split: db_fault.splits prod.splits)

lemma query_read:
  "query E label (getS g) s = (r, s') \<Longrightarrow> s' = s"
  using query_effect [of E label "getS g" s r s'] by auto

lemma keeps_query_getS [keeps_rules]: "keeps P (query E label (getS g))"
  by (rule keepsI) (metis prod.collapse query_read)

lemma on_db_Inr_iff:
  "on_db f q s = (Inr a, s') \<longleftrightarrow> f = NoFault \<and> (\<exists>d. q (db s) = (Inr a, d) \<and> s' = s\<lparr>db := d\<rparr>)"
  by (cases f) (auto simp: on_db_def split: prod.splits sum.splits)

lemma keeps_on_db [keeps_rules]:
  "keeps P q \<Longrightarrow> keeps (\<lambda>s. P (db s)) (on_db f q)"
  by (auto simp: keeps_def on_db_def split: db_fault.splits prod.splits)

lemma keeps_on_db_other [keeps_rules]:
  "(\<And>s d. P (s\<lparr>db := d\<rparr>) = P s) \<Longrightarrow> keeps P (on_db f q)"
  by (auto simp: keeps_def on_db_def split: db_fault.splits prod.splits)

lemma keeps_audit_warn [keeps_rules]:
  "(\<And>s l. P (s\<lparr>audit := l\<rparr>) = P s) \<Longrightarrow> keeps P (audit_warn E k ev)"
  by (auto simp: keeps_def audit_warn_def tryS_apply on_audit_def bindS_def split: prod.splits)

lemma keeps_on_blobs [keeps_rules]:
  "(\<And>s l. P (s\<lparr>blobs := l\<rparr>) = P s) \<Longrightarrow> keeps P (on_blobs m)"
  by (auto simp: keeps_def on_blobs_def split: prod.splits)

lemma keeps_on_audit [keeps_rules]:
  "(\<And>s l. P (s\<lparr>audit := l\<rparr>) = P s) \<Longrightarrow> keeps P (on_audit m)"
  by (auto simp: keeps_def on_audit_def split: prod.splits)

lemma keeps_on_metrics [keeps_rules]:
  "(\<And>s m. P (s\<lparr>metrics_of := m\<rparr>) = P s) \<Longrightarrow> keeps P (on_metrics f)"
  by (simp add: keeps_def on_metrics_def)

lemma audit_warn_Inr: "\<exists>l. audit_warn E k ev s = (Inr (), s\<lparr>audit := l\<rparr>)"
  by (auto simp: audit_warn_def tryS_apply bindS_def on_audit_def split: prod.splits)

lemma audit_warn_step:
  "audit_warn E k ev s = (r, s') \<Longrightarrow> r = Inr () \<and> (\<exists>l. s' = s\<lparr>audit := l\<rparr>)"
  using audit_warn_Inr [of E k ev s] by auto

section \<open>What verification means\<close>

text \<open>Some key of the agent that is valid at the time verifies the message.\<close>

definition signed_by_valid_key ::
  "platform \<Rightarrow> db_env \<Rightarrow> database \<Rightarrow> string \<Rightarrow> instant \<Rightarrow> bytes \<Rightarrow> bytes \<Rightarrow> bool" where
  "signed_by_valid_key P d dbs agent_id at canonical signature \<longleftrightarrow>
     length signature = SIGNATURE_LEN \<and> (\<exists>k \<in> set (agent_keys dbs). ak_agent_id k = agent_id
       \<and> key_valid_at (timestamptz d at) k \<and> key_verifies P canonical signature (ak_public_key k))"

lemma sort_key_Nil_iff [simp]: "sort_key f xs = [] \<longleftrightarrow> xs = []"
  by (metis length_0_conv length_sort)

lemma verify_with_valid_keys_Inr_iff:
  "verify_with_valid_keys E a at canonical sg s = (Inr u, s') \<longleftrightarrow>
     db_fault_at E ''valid_public_keys_at'' = NoFault \<and> s' = s
     \<and> signed_by_valid_key (plat E) (dbe E) (db s) a at canonical sg"
  by (auto simp: verify_with_valid_keys_def step_iffs query_Inr_iff valid_public_keys_at_def
      valid_keys_at_def signed_by_valid_key_def list_ex_iff filter_empty_conv split: if_splits)

lemma verify_with_valid_keys_pure:
  "verify_with_valid_keys E a at canonical sg s = (r, s') \<Longrightarrow> s' = s"
  by (cases r)
    (auto simp: verify_with_valid_keys_def step_iffs query_Inr_iff valid_public_keys_at_def
      valid_keys_at_def split: if_splits dest!: query_effect)

lemma keeps_verify [keeps_rules]: "keeps P (verify_with_valid_keys E a at canonical sg)"
  by (rule keepsI) (metis prod.collapse verify_with_valid_keys_pure)

end
