(* ===== verification/Agents.thy ===== *)
theory Agents
  imports ControlPlane
begin

text \<open>
  The agent endpoints (\<open>aex-control-plane/src/routes/agents.rs\<close>): registration, lookup and key
  rotation.  The lemmas give the exact conditions and effects of a successful request, that a
  used nonce or a stale request never succeeds, that the derived identifier is valid, and what
  the 24 hour grace window of a rotation means for verification.
\<close>

section \<open>Helpers\<close>

definition MAX_LABEL_LEN :: nat where
  "MAX_LABEL_LEN = 64"

definition label_char :: "char \<Rightarrow> bool" where
  "label_char c \<longleftrightarrow> is_ascii_alphanumeric c \<or> c = CHR ''-'' \<or> c = CHR ''_''"

definition validate_label :: "string \<Rightarrow> string \<Rightarrow> ApiError + unit" where
  "validate_label s field =
     (if s = [] then Inl (BadRequest (field @ '' is empty''))
      else if length s > MAX_LABEL_LEN then
        Inl (BadRequest (field @ '' exceeds '' @ show_nat MAX_LABEL_LEN @ '' chars''))
      else if \<not> list_all label_char s then
        Inl (BadRequest (field @ '' must match [a-zA-Z0-9_-]+''))
      else Inr ())"

definition decode_hex_exact :: "platform \<Rightarrow> string \<Rightarrow> nat \<Rightarrow> string \<Rightarrow> ApiError + bytes" where
  "decode_hex_exact P s expected field =
     bindE (map_err (\<lambda>e. BadRequest (field @ '': invalid hex ('' @ e @ '')'')) (hex_dec P s)) (\<lambda>bs.
     bindE (ensure (length bs = expected)
       (BadRequest (field @ '': expected '' @ show_nat expected @ '' bytes, got '' @ show_nat (length bs)))) (\<lambda>_.
     Inr bs))"

definition compute_fingerprint :: "platform \<Rightarrow> bytes \<Rightarrow> string" where
  "compute_fingerprint P public_key = hex_enc P (take 3 (sha256 P public_key))"

text \<open>The plus-minus sign is the bytes C2 B1.\<close>

definition skew_message :: string where
  "skew_message = ''issued_at is outside allowed skew ('' @ [CHR 0xC2, CHR 0xB1]
     @ show_int MAX_CLOCK_SKEW_SECS @ ''s)''"

definition nonce_length_message :: string where
  "nonce_length_message = ''nonce length must be '' @ show_nat MIN_NONCE_LEN @ ''..='' @ show_nat MAX_NONCE_LEN
     @ '' hex chars''"

section \<open>Registration\<close>

record RegisterRequest =
  rg_public_key_hex :: string
  rg_org :: string
  rg_name :: string
  rg_nonce :: string
  rg_issued_at :: i64
  rg_signature_hex :: string

record AgentResponse =
  ag_agent_id :: string
  ag_public_key_hex :: string
  ag_fingerprint :: string
  ag_org :: string
  ag_name :: string
  ag_created_at :: instant

definition agent_response :: "platform \<Rightarrow> AgentRow \<Rightarrow> AgentResponse" where
  "agent_response P row = \<lparr>ag_agent_id = ar_agent_id row, ag_public_key_hex = hex_enc P (ar_public_key row),
     ag_fingerprint = ar_fingerprint row, ag_org = ar_org row, ag_name = ar_name row,
     ag_created_at = ar_created_at row\<rparr>"

definition agent_id_of :: "string \<Rightarrow> string \<Rightarrow> string \<Rightarrow> string" where
  "agent_id_of org name fingerprint = ''spize:'' @ org @ ''/'' @ name @ '':'' @ fingerprint"

definition register :: "('l, 'b) env \<Rightarrow> RegisterRequest \<Rightarrow> ('l, 'b, nat \<times> AgentResponse) handler" where
  "register E req =
     (let P = plat E in
      bindS (liftS (validate_label (rg_org req) ''org'')) (\<lambda>_.
      bindS (liftS (validate_label (rg_name req) ''name'')) (\<lambda>_.
      bindS (ensureS (\<not> (length (rg_nonce req) < MIN_NONCE_LEN \<or> length (rg_nonce req) > MAX_NONCE_LEN))
        (BadRequest nonce_length_message)) (\<lambda>_.
      bindS (ensureS (list_all is_ascii_hexdigit (rg_nonce req)) (BadRequest ''nonce must be hex'')) (\<lambda>_.
      bindS (liftS (decode_hex_exact P (rg_public_key_hex req) PUBLIC_KEY_LEN ''public_key_hex'')) (\<lambda>public_key.
      bindS (liftS (decode_hex_exact P (rg_signature_hex req) SIGNATURE_LEN ''signature_hex'')) (\<lambda>signature.
      bindS (ensureS (is_within_clock_skew (now_unix E) (rg_issued_at req)) (BadRequest skew_message)) (\<lambda>_.
      bindS (liftS (map_err (\<lambda>e. BadRequest (''cannot build challenge: '' @ core_error_text e))
        (registration_challenge_bytes (rg_public_key_hex req) (rg_org req) (rg_name req) (rg_nonce req)
          (rg_issued_at req)))) (\<lambda>challenge.
      bindS (case ed25519_key_error P public_key of
               Some e \<Rightarrow> throwS (BadRequest (''invalid public key: '' @ e)) | None \<Rightarrow> returnS ()) (\<lambda>_.
      bindS (ensureS (ed25519_verify P public_key challenge signature)
        (Unauthorized ''signature does not match challenge'')) (\<lambda>_.
      bindS (query E ''consume_nonce'' (consume_nonce (rg_nonce req) public_key)) (\<lambda>fresh.
      bindS (ensureS fresh (Conflict ''nonce already used'')) (\<lambda>_.
      let fingerprint = compute_fingerprint P public_key;
          agent_id = agent_id_of (rg_org req) (rg_name req) fingerprint in
      matchS (on_db (db_fault_at E ''agents_insert'')
        (agents_insert P (dbe E) agent_id public_key fingerprint (rg_org req) (rg_name req)))
        (\<lambda>err. case agents_unique_violation_field err of
             Some field \<Rightarrow> throwS (Conflict (field @ '' already registered''))
           | None \<Rightarrow> throwS (from_sqlx err))
        (\<lambda>row.
          bindS (on_metrics (\<lambda>m. m\<lparr>agents_registered_total := Suc (agents_registered_total m)\<rparr>)) (\<lambda>_.
          returnS (201, agent_response P row))))))))))))))))"

section \<open>Lookup\<close>

definition get_agent :: "('l, 'b) env \<Rightarrow> string \<Rightarrow> ('l, 'b, AgentResponse) handler" where
  "get_agent E agent_id =
     bindS (liftS (map_err from_core (AgentId_new agent_id))) (\<lambda>parsed.
     bindS (query E ''find_by_agent_id'' (find_by_agent_id (as_str parsed))) (\<lambda>found.
     bindS (liftS (ok_or (ApiNotFound (''agent '' @ as_str parsed @ '' not found'')) found)) (\<lambda>row.
     returnS (agent_response (plat E) row))))"

section \<open>Key rotation\<close>

record RotateKeyRequest =
  rk_agent_id :: string
  rk_new_public_key_hex :: string
  rk_nonce :: string
  rk_issued_at :: i64
  rk_signature_hex :: string

record RotateKeyResponse =
  rr_agent_id :: string
  rr_new_public_key_hex :: string
  rr_valid_from :: i64
  rr_previous_key_valid_until :: i64

definition rotate_key :: "('l, 'b) env \<Rightarrow> RotateKeyRequest \<Rightarrow> ('l, 'b, nat \<times> RotateKeyResponse) handler" where
  "rotate_key E req =
     (let P = plat E in
      bindS (liftS (map_err from_core (AgentId_new (rk_agent_id req)))) (\<lambda>agent.
      bindS (ensureS (\<not> (length (rk_nonce req) < MIN_NONCE_LEN \<or> length (rk_nonce req) > MAX_NONCE_LEN))
        (BadRequest nonce_length_message)) (\<lambda>_.
      bindS (ensureS (list_all is_ascii_hexdigit (rk_nonce req)) (BadRequest ''nonce must be hex'')) (\<lambda>_.
      bindS (liftS (decode_hex_exact P (rk_new_public_key_hex req) PUBLIC_KEY_LEN ''new_public_key_hex'')) (\<lambda>new_public_key.
      bindS (liftS (decode_hex_exact P (rk_signature_hex req) SIGNATURE_LEN ''signature_hex'')) (\<lambda>signature.
      bindS (ensureS (is_within_clock_skew (now_unix E) (rk_issued_at req)) (BadRequest skew_message)) (\<lambda>_.
      bindS (query E ''current_key'' (current_key (as_str agent))) (\<lambda>found.
      bindS (liftS (ok_or (ApiNotFound (''agent '' @ as_str agent @ '' not found'')) found)) (\<lambda>current.
      bindS (ensureS (ak_public_key_hex current \<noteq> rk_new_public_key_hex req)
        (BadRequest ''new_public_key_hex must differ from the current key'')) (\<lambda>_.
      bindS (liftS (map_err (\<lambda>e. BadRequest (''cannot build challenge: '' @ core_error_text e))
        (rotate_key_challenge_bytes (as_str agent) (ak_public_key_hex current) (rk_new_public_key_hex req)
          (rk_nonce req) (rk_issued_at req)))) (\<lambda>challenge.
      bindS (ensureS (length (ak_public_key current) = PUBLIC_KEY_LEN)
        (ApiInternal ''bad stored public_key length'')) (\<lambda>_.
      bindS (case ed25519_key_error P (ak_public_key current) of
               Some e \<Rightarrow> throwS (ApiInternal e) | None \<Rightarrow> returnS ()) (\<lambda>_.
      bindS (ensureS (ed25519_verify P (ak_public_key current) challenge signature)
        (Unauthorized ''signature does not match challenge'')) (\<lambda>_.
      bindS (case ed25519_key_error P new_public_key of
               Some e \<Rightarrow> throwS (BadRequest (''invalid new public key: '' @ e)) | None \<Rightarrow> returnS ()) (\<lambda>_.
      bindS (query E ''consume_rotate_nonce'' (consume_rotate_nonce (rk_nonce req) (as_str agent))) (\<lambda>fresh.
      bindS (ensureS fresh (Conflict ''nonce already used'')) (\<lambda>_.
      let now = clock E 1 in
      matchS (on_db (db_fault_at E ''insert_rotation'')
        (insert_rotation (dbe E) (as_str agent) (ak_public_key_hex current) (rk_new_public_key_hex req)
          new_public_key now))
        (\<lambda>err.
          if err = RowNotFound then
            throwS (Conflict ''agent key rotated concurrently; retry with the new current key'')
          else case keys_unique_violation_field err of
             Some field \<Rightarrow> throwS (Conflict (''rotation conflict ('' @ field
               @ ''): another rotation to this key already exists''))
           | None \<Rightarrow> throwS (from_sqlx err))
        (\<lambda>row.
          let previous_key_valid_until = unix_timestamp P now + of_int ROTATION_GRACE_SECS in
          bindS (on_metrics (\<lambda>m. m\<lparr>agents_key_rotated_total := Suc (agents_key_rotated_total m)\<rparr>)) (\<lambda>_.
          returnS (200, \<lparr>rr_agent_id = ak_agent_id row, rr_new_public_key_hex = ak_public_key_hex row,
             rr_valid_from = unix_timestamp P (ak_valid_from row),
             rr_previous_key_valid_until = previous_key_valid_until\<rparr>))))))))))))))))))))"

section \<open>Registration: conditions and effects\<close>

definition valid_label :: "string \<Rightarrow> bool" where
  "valid_label s \<longleftrightarrow> s \<noteq> [] \<and> length s \<le> 64 \<and> list_all label_char s"

lemma validate_label_Inr_iff [step_iffs]: "validate_label s f = Inr u \<longleftrightarrow> valid_label s"
  by (auto simp: validate_label_def valid_label_def MAX_LABEL_LEN_def)

lemma decode_hex_exact_Inr_iff [step_iffs]:
  "decode_hex_exact P s n f = Inr b \<longleftrightarrow> hex_dec P s = Inr b \<and> length b = n"
  by (auto simp: decode_hex_exact_def step_iffs)

text \<open>What a request must fulfil to be accepted in a state, and what the acceptance leaves.\<close>

definition registration_authentic :: "platform \<Rightarrow> RegisterRequest \<Rightarrow> bytes \<Rightarrow> bool" where
  "registration_authentic P req pk \<longleftrightarrow> hex_dec P (rg_public_key_hex req) = Inr pk
     \<and> (\<exists>sg challenge. hex_dec P (rg_signature_hex req) = Inr sg \<and> length sg = SIGNATURE_LEN
        \<and> registration_challenge_bytes (rg_public_key_hex req) (rg_org req) (rg_name req) (rg_nonce req)
             (rg_issued_at req) = Inr challenge
        \<and> key_verifies P challenge sg pk)"

lemma register_Inr:
  assumes "register E req s = (Inr resp, s')"
  shows "\<exists>pk row dbs. registration_authentic (plat E) req pk
    \<and> valid_label (rg_org req) \<and> valid_label (rg_name req) \<and> valid_nonce (rg_nonce req)
    \<and> is_within_clock_skew (now_unix E) (rg_issued_at req)
    \<and> consume_nonce (rg_nonce req) pk (db s) = (Inr True, dbs)
    \<and> agents_insert (plat E) (dbe E)
        (agent_id_of (rg_org req) (rg_name req) (compute_fingerprint (plat E) pk)) pk
        (compute_fingerprint (plat E) pk) (rg_org req) (rg_name req) dbs = (Inr row, db s')
    \<and> resp = (201, agent_response (plat E) row) \<and> audit s' = audit s \<and> blobs s' = blobs s"
  using assms
  by (auto simp: register_def Let_def step_iffs query_Inr_iff on_db_Inr_iff
      registration_authentic_def key_verifies_def ed25519_key_ok_def on_metrics_def
      PUBLIC_KEY_LEN_def valid_nonce_def MIN_NONCE_LEN_def MAX_NONCE_LEN_def
      split: if_splits option.splits)

text \<open>A predicate on the database that the statements of a handler keep is kept by the handler.\<close>

lemma register_keeps_db:
  assumes "\<And>n pk. keeps P (consume_nonce n pk)"
    and "\<And>a pk f og nm. keeps P (agents_insert (plat E) (dbe E) a pk f og nm)"
  shows "keeps (\<lambda>s. P (db s)) (register E req)"
  unfolding register_def Let_def by (intro keeps_rules assms) simp_all

lemma get_agent_keeps: "keeps P (get_agent E a)"
  unfolding get_agent_def find_by_agent_id_def by (intro keeps_rules)

lemma rotate_key_keeps_db:
  assumes "\<And>n a. keeps P (consume_rotate_nonce n a)"
    and "\<And>a h h' pk now. keeps P (insert_rotation (dbe E) a h h' pk now)"
  shows "keeps (\<lambda>s. P (db s)) (rotate_key E req)"
  unfolding rotate_key_def current_key_def Let_def by (intro keeps_rules assms) simp_all

lemma register_nonce_used:
  assumes "rg_nonce req \<in> fst ` set (registration_nonces (db s))"
  shows "register E req s \<noteq> (Inr resp, s')"
proof
  assume "register E req s = (Inr resp, s')"
  from register_Inr [OF this] obtain pk dbs where
    "consume_nonce (rg_nonce req) pk (db s) = (Inr True, dbs)" by blast
  from registration.consume_Inr [OF this] assms show False by simp
qed

lemma register_consumes:
  assumes "register E req s = (Inr resp, s')"
  shows "rg_nonce req \<in> fst ` set (registration_nonces (db s'))"
proof -
  from register_Inr [OF assms] obtain pk row dbs a f where
    c: "consume_nonce (rg_nonce req) pk (db s) = (Inr True, dbs)"
    and i: "agents_insert (plat E) (dbe E) a pk f (rg_org req) (rg_name req) dbs = (Inr row, db s')" by blast
  from registration.consume_used [OF c] have "rg_nonce req \<in> fst ` set (registration_nonces dbs)" by simp
  with agents_insert_Inr [OF i] show ?thesis by auto
qed

section \<open>The derived identifier\<close>

lemma label_char_range: "label_char c \<Longrightarrow> 33 \<le> code c \<and> code c \<le> 126 \<and> c \<noteq> CHR '':'' \<and> c \<noteq> CHR ''/''"
  by (auto simp: label_char_def is_ascii_alphanumeric_def is_ascii_digit_def is_ascii_lowercase_def
      is_ascii_uppercase_def code_def)

lemma lower_hexdigit_range: "is_lower_hexdigit c \<Longrightarrow> 33 \<le> code c \<and> code c \<le> 126"
  by (auto simp: is_lower_hexdigit_def is_ascii_digit_def)

lemma fingerprint_shape:
  assumes "hex_laws P" "digest_laws P"
  shows "length (compute_fingerprint P pk) = 6 \<and> list_all is_lower_hexdigit (compute_fingerprint P pk)"
  using assms by (simp add: compute_fingerprint_def hex_laws_def digest_laws_def)

lemma agent_id_of_valid:
  assumes "hex_laws P" "digest_laws P" "valid_label org" "valid_label name"
  shows "valid_agent_id (agent_id_of org name (compute_fingerprint P pk))"
proof -
  let ?a = "agent_id_of org name (compute_fingerprint P pk)"
  have "length ?a \<le> 256"
    using assms fingerprint_shape [OF assms(1,2), of pk] by (simp add: agent_id_of_def valid_label_def)
  moreover have "list_all (\<lambda>c. 33 \<le> code c \<and> code c \<le> 126) l" if "valid_label l" for l
    using that label_char_range by (simp add: valid_label_def list_all_iff)
  moreover have "list_all (\<lambda>c. 33 \<le> code c \<and> code c \<le> 126) (compute_fingerprint P pk)"
    using fingerprint_shape [OF assms(1,2), of pk] lower_hexdigit_range by (simp add: list_all_iff)
  ultimately show ?thesis
    using assms(3,4) by (simp add: valid_agent_id_def MAX_AGENT_ID_LEN_def agent_id_of_def code_def)
qed

lemma agent_id_of_scheme: "scheme (AgentId (agent_id_of org name f)) = SpizeNative"
  by (simp add: scheme_def agent_id_of_def starts_with_iff)

lemma agent_id_of_inj:
  assumes "valid_label o1" "valid_label n1" "valid_label o2" "valid_label n2"
    and "agent_id_of o1 n1 f1 = agent_id_of o2 n2 f2"
  shows "o1 = o2 \<and> n1 = n2 \<and> f1 = f2"
proof -
  have slash: "CHR ''/'' \<notin> set l" and colon: "CHR '':'' \<notin> set l" if "valid_label l" for l
    using that label_char_range by (auto simp: valid_label_def list_all_iff)
  have "split_once (CHR ''/'') (o1 @ CHR ''/'' # n1 @ '':'' @ f1)
      = split_once (CHR ''/'') (o2 @ CHR ''/'' # n2 @ '':'' @ f2)"
    using assms(5) by (simp add: agent_id_of_def)
  then have o: "o1 = o2" and rest: "n1 @ CHR '':'' # f1 = n2 @ CHR '':'' # f2"
    using slash assms(1,3) by auto
  from rest have "split_once (CHR '':'') (n1 @ CHR '':'' # f1) = split_once (CHR '':'') (n2 @ CHR '':'' # f2)"
    by simp
  then show ?thesis using o colon assms(2,4) by simp
qed

section \<open>Rotation: conditions and effects\<close>

definition rotation_authentic :: "platform \<Rightarrow> RotateKeyRequest \<Rightarrow> AgentKeyRow \<Rightarrow> bytes \<Rightarrow> bool" where
  "rotation_authentic P req current new_pk \<longleftrightarrow>
     hex_dec P (rk_new_public_key_hex req) = Inr new_pk \<and> length new_pk = PUBLIC_KEY_LEN
     \<and> ed25519_key_ok P new_pk \<and> ak_public_key_hex current \<noteq> rk_new_public_key_hex req
     \<and> (\<exists>sg challenge. hex_dec P (rk_signature_hex req) = Inr sg \<and> length sg = SIGNATURE_LEN
        \<and> rotate_key_challenge_bytes (rk_agent_id req) (ak_public_key_hex current)
             (rk_new_public_key_hex req) (rk_nonce req) (rk_issued_at req) = Inr challenge
        \<and> key_verifies P challenge sg (ak_public_key current))"

lemma rotate_key_Inr:
  assumes "rotate_key E req s = (Inr resp, s')"
  shows "\<exists>current new_pk dbs row. valid_agent_id (rk_agent_id req) \<and> valid_nonce (rk_nonce req)
    \<and> is_within_clock_skew (now_unix E) (rk_issued_at req)
    \<and> current_key (rk_agent_id req) (db s) = (Inr (Some current), db s)
    \<and> rotation_authentic (plat E) req current new_pk
    \<and> consume_rotate_nonce (rk_nonce req) (rk_agent_id req) (db s) = (Inr True, dbs)
    \<and> insert_rotation (dbe E) (rk_agent_id req) (ak_public_key_hex current) (rk_new_public_key_hex req)
        new_pk (clock E 1) dbs = (Inr row, db s')
    \<and> fst resp = 200 \<and> audit s' = audit s \<and> blobs s' = blobs s"
  using assms
  by (auto simp: rotate_key_def Let_def step_iffs query_Inr_iff on_db_Inr_iff current_key_def
      rotation_authentic_def key_verifies_def ed25519_key_ok_def on_metrics_def
      PUBLIC_KEY_LEN_def valid_nonce_def MIN_NONCE_LEN_def MAX_NONCE_LEN_def
      split: if_splits option.splits)

lemma rotate_nonce_used:
  assumes "rk_nonce req \<in> fst ` set (rotate_key_nonces (db s))"
  shows "rotate_key E req s \<noteq> (Inr resp, s')"
proof
  assume "rotate_key E req s = (Inr resp, s')"
  from rotate_key_Inr [OF this] obtain dbs where
    "consume_rotate_nonce (rk_nonce req) (rk_agent_id req) (db s) = (Inr True, dbs)" by blast
  from rotation.consume_Inr [OF this] assms show False by simp
qed

text \<open>
  The validity windows of the agent's keys after a rotation at \<open>now\<close>: the new key from \<open>now\<close>
  on, the previous one until 24 hours later, as the database rounds these times.
\<close>

lemma rotation_windows:
  assumes rot: "insert_rotation d a h h' pk now dbs = (Inr row, dbs')"
    and wf: "keys_wf (agent_keys dbs)"
    and cur: "k \<in> set (agent_keys dbs)" "closes a h k"
  shows "{l \<in> set (agent_keys dbs'). ak_agent_id l = a \<and> key_valid_at t l} =
    {l \<in> set (agent_keys dbs). l \<noteq> k \<and> ak_agent_id l = a \<and> key_valid_at t l}
    \<union> {l. l = k\<lparr>ak_valid_to := Some (timestamptz d (now + nanos ROTATION_GRACE_SECS))\<rparr> \<and> key_valid_at t l}
    \<union> {l. l = row \<and> timestamptz d now \<le> t}"
proof -
  note ok = insert_rotation_Inr [OF rot]
  have only: "closes a h l \<longleftrightarrow> l = k" if "l \<in> set (agent_keys dbs)" for l
    using that cur active_unique [OF wf, of l k] by (auto simp: closes_def active_def)
  let ?t' = "timestamptz d (now + nanos ROTATION_GRACE_SECS)"
  have keys: "set (agent_keys dbs') = (set (agent_keys dbs) - {k}) \<union> {k\<lparr>ak_valid_to := Some ?t'\<rparr>} \<union> {row}"
    using ok only cur by (auto simp: image_iff)
  have "ak_agent_id row = a" "key_valid_at t row \<longleftrightarrow> timestamptz d now \<le> t" "ak_agent_id k = a"
    using ok cur by (auto simp: key_valid_at_def closes_def)
  then show ?thesis unfolding keys by auto
qed

end
