(* ===== verification/EndpointValidator.thy ===== *)
theory EndpointValidator
  imports ControlPlane
begin

text \<open>
  Reachability probes of the endpoints of a transfer
  (\<open>aex-control-plane/src/endpoint_validator.rs\<close>) and the check of a tunnel URL
  (\<open>verify_tunnel_http_healthz\<close> of \<open>routes/transfers.rs\<close>).  The HTTP answers, elapsed
  times and whether the budget ran out are fields of \<open>env\<close>, numbered by endpoint.
\<close>

record EndpointProbeResult =
  ep_kind :: string
  ep_url :: string
  ep_priority :: "32 word"
  ep_healthy :: bool
  ep_error :: "string option"
  ep_latency_ms :: "u64 option"

type_synonym ValidationReport = "EndpointProbeResult list"

definition probe_result :: "Endpoint \<Rightarrow> bool \<Rightarrow> string option \<Rightarrow> u64 option \<Rightarrow> EndpointProbeResult" where
  "probe_result ep healthy err latency = \<lparr>ep_kind = kind ep, ep_url = url ep, ep_priority = priority ep,
     ep_healthy = healthy, ep_error = err, ep_latency_ms = latency\<rparr>"

definition at_least_one_healthy :: "ValidationReport \<Rightarrow> bool" where
  "at_least_one_healthy report = list_ex ep_healthy report"

definition healthy_endpoints :: "ValidationReport \<Rightarrow> Endpoint list \<Rightarrow> Endpoint list" where
  "healthy_endpoints report input =
     map snd (filter (\<lambda>(i, e). i < length report \<and> ep_healthy (report ! i)) (List.enumerate 0 input))"

definition trim_end_slash :: "string \<Rightarrow> string" where
  "trim_end_slash u = rev (dropWhile (\<lambda>c. c = CHR ''/'') (rev u))"

definition healthz_url :: "string \<Rightarrow> string" where
  "healthz_url u = trim_end_slash u @ ''/healthz''"

definition is_success :: "nat \<Rightarrow> bool" where
  "is_success c \<longleftrightarrow> 200 \<le> c \<and> c < 300"

definition probe_http_healthz :: "('l, 'b) env \<Rightarrow> nat \<Rightarrow> Endpoint \<Rightarrow> EndpointProbeResult" where
  "probe_http_healthz E i ep =
     (let latency = probe_millis E i in
      if probe_timed_out E i then
        probe_result ep False (Some (''timeout after '' @ show_u64 latency @ ''ms'')) (Some latency)
      else case http_get E i (healthz_url (url ep)) of
        HttpStatus c t \<Rightarrow>
          if is_success c then probe_result ep True None (Some latency)
          else probe_result ep False (Some (''http status '' @ t)) (Some latency)
      | HttpError m \<Rightarrow> probe_result ep False (Some m) (Some latency))"

definition http_kinds :: "string list" where
  "http_kinds = [''cloudflare_quick'', ''cloudflare_named'', ''tailscale_funnel'', ''frp'']"

definition probe_endpoint :: "('l, 'b) env \<Rightarrow> nat \<Rightarrow> Endpoint \<Rightarrow> EndpointProbeResult" where
  "probe_endpoint E i ep =
     (if kind ep \<in> set http_kinds then probe_http_healthz E i ep
      else if kind ep = ''iroh'' then probe_result ep True None None
      else probe_result ep False (Some (''unknown endpoint kind: '' @ kind ep)) None)"

definition validate_all :: "('l, 'b) env \<Rightarrow> Endpoint list \<Rightarrow> ValidationReport" where
  "validate_all E endpoints =
     map (\<lambda>(i, ep).
       if probe_late E i then probe_result ep False (Some ''budget exhausted before probe started'') None
       else probe_endpoint E i ep) (List.enumerate 0 endpoints)"

section \<open>The tunnel check\<close>

definition max_healthz_attempts :: nat where
  "max_healthz_attempts = 6"

fun healthz_attempts :: "('l, 'b) env \<Rightarrow> string \<Rightarrow> nat list \<Rightarrow> string \<Rightarrow> string + unit" where
  "healthz_attempts E healthz [] last_err = Inl last_err"
| "healthz_attempts E healthz (k # ks) last_err =
     (case http_get E k healthz of
        HttpStatus c t \<Rightarrow>
          if is_success c then Inr () else healthz_attempts E healthz ks (''status '' @ t)
      | HttpError m \<Rightarrow> healthz_attempts E healthz ks m)"

definition verify_tunnel_http_healthz :: "('l, 'b) env \<Rightarrow> string \<Rightarrow> ApiError + unit" where
  "verify_tunnel_http_healthz E tunnel_url =
     (case http_client_error E of
        Some e \<Rightarrow> Inl (ApiInternal (''aex-net http client build: '' @ e))
      | None \<Rightarrow>
          map_err (\<lambda>last_err. BadRequest (''tunnel_url '' @ tunnel_url
              @ '' did not respond 200 on /healthz after '' @ show_nat max_healthz_attempts
              @ '' attempts (last: '' @ last_err @ ''). ''
              @ ''Ensure the data plane is running and AEX_READY=1 has been emitted before calling send_via_tunnel.''))
            (healthz_attempts E (healthz_url tunnel_url) [1..<Suc max_healthz_attempts] []))"

section \<open>Lemmas\<close>

lemma length_validate_all [simp]: "length (validate_all E eps) = length eps"
  by (simp add: validate_all_def)

lemma validate_all_nth:
  "i < length eps \<Longrightarrow> validate_all E eps ! i =
     (if probe_late E i then probe_result (eps ! i) False (Some ''budget exhausted before probe started'') None
      else probe_endpoint E i (eps ! i))"
  by (simp add: validate_all_def nth_enumerate_eq)

text \<open>
  The endpoints kept for the recipient are the ones that answered, in the sender's order, and
  all of known kinds.
\<close>

lemma healthy_endpoints_map:
  "length report = length input \<Longrightarrow>
   healthy_endpoints report input = map fst (filter (\<lambda>(e, r). ep_healthy r) (zip input report))"
proof -
  assume len: "length report = length input"
  have "List.enumerate 0 input = map (\<lambda>i. (i, input ! i)) [0..<length input]"
    by (simp add: enumerate_map_upt [symmetric] map_nth)
  moreover have "zip input report = map (\<lambda>i. (input ! i, report ! i)) [0..<length input]"
    using len by (auto intro!: nth_equalityI)
  ultimately show ?thesis
    using len by (auto simp: healthy_endpoints_def filter_map comp_def intro!: arg_cong [where f = "map _"] filter_cong)
qed

lemma probe_endpoint_healthy_iff:
  "ep_healthy (probe_endpoint E i ep) \<longleftrightarrow> kind ep = ''iroh'' \<or>
     kind ep \<in> set http_kinds \<and> \<not> probe_timed_out E i
     \<and> (\<exists>c t. http_get E i (healthz_url (url ep)) = HttpStatus c t \<and> is_success c)"
  by (auto simp: probe_endpoint_def probe_http_healthz_def probe_result_def http_kinds_def Let_def
      split: http_result.splits)

lemma healthy_endpoints_known:
  assumes "e \<in> set (healthy_endpoints (validate_all E eps) eps)"
  shows "e \<in> set eps \<and> is_known_kind e"
proof -
  from assms obtain i where i: "i < length eps" "e = eps ! i" "ep_healthy (validate_all E eps ! i)"
    by (auto simp: healthy_endpoints_def in_set_enumerate_eq)
  then have "ep_healthy (probe_endpoint E i e)"
    by (auto simp: validate_all_nth probe_result_def split: if_splits)
  then have "is_known_kind e"
    by (auto simp: probe_endpoint_healthy_iff is_known_kind_def KNOWN_KINDS_def http_kinds_def)
  with i show ?thesis by simp
qed

lemma at_least_one_healthy_iff:
  "at_least_one_healthy (validate_all E eps) \<longleftrightarrow> healthy_endpoints (validate_all E eps) eps \<noteq> []"
  by (force simp: at_least_one_healthy_def healthy_endpoints_map list_ex_iff filter_empty_conv set_zip
      in_set_conv_nth)

lemma healthz_attempts_Inr_iff:
  "healthz_attempts E u ks l = Inr x \<longleftrightarrow> (\<exists>k \<in> set ks. \<exists>c t. http_get E k u = HttpStatus c t \<and> is_success c)"
  by (induction E u ks l rule: healthz_attempts.induct) (auto split: http_result.splits)

lemma verify_tunnel_Inr_iff:
  "verify_tunnel_http_healthz E u = Inr x \<longleftrightarrow> http_client_error E = None \<and>
     (\<exists>k. 1 \<le> k \<and> k \<le> 6 \<and> (\<exists>c t. http_get E k (healthz_url u) = HttpStatus c t \<and> is_success c))"
proof -
  have "set [1..<Suc max_healthz_attempts] = {k. 1 \<le> k \<and> k \<le> 6}"
    by (auto simp: max_healthz_attempts_def)
  then show ?thesis
    by (auto simp: verify_tunnel_http_healthz_def map_err_Inr_iff healthz_attempts_Inr_iff
        simp del: set_upt split: option.splits)
qed

end
