(* ===== verification/Transfers.thy ===== *)
theory Transfers
  imports Agents EndpointValidator
begin

text \<open>
  The transfer endpoints (\<open>aex-control-plane/src/routes/transfers.rs\<close>): creation with its three
  branches (endpoints, tunnel, uploaded blob), status, download, acknowledgement and the issue
  of data-plane tickets.  The \<open>k\<close>-th audit append of a request draws the \<open>k\<close>-th clock reading
  and UUID of \<open>env\<close>.
\<close>

section \<open>Requests and responses\<close>

record CreateTransferRequest =
  ct_sender_agent_id :: string
  ct_recipient :: string
  ct_declared_mime :: string
  ct_filename :: string
  ct_nonce :: string
  ct_issued_at :: i64
  ct_intent_signature_hex :: string
  ct_blob_hex :: string
  ct_tunnel_url :: "string option"
  ct_reachable_at :: "Endpoint list option"
  ct_declared_size :: "u64 option"

record TransferResponse =
  rs_transfer_id :: string
  rs_state :: string
  rs_sender_agent_id :: string
  rs_recipient :: string
  rs_size_bytes :: u64
  rs_declared_mime :: "string option"
  rs_filename :: "string option"
  rs_scanner_verdict :: "json option"
  rs_policy_decision :: "json option"
  rs_rejection_code :: "string option"
  rs_rejection_reason :: "string option"
  rs_created_at :: instant

record RecipientReceiptRequest =
  rq_recipient_agent_id :: string
  rq_nonce :: string
  rq_issued_at :: i64
  rq_signature_hex :: string

record DownloadResponse =
  dl_transfer_id :: string
  dl_blob_hex :: string
  dl_blob_sha256 :: string
  dl_filename :: "string option"
  dl_declared_mime :: "string option"

record AckResponse =
  ack_transfer_id :: string
  ack_state :: string
  ack_audit_chain_head :: string

record TicketResponse =
  tk_transfer_id :: string
  tk_recipient :: string
  tk_data_plane_url :: string
  tk_expires :: i64
  tk_nonce :: string
  tk_signature :: string

section \<open>Helpers\<close>

definition classify_recipient :: "string \<Rightarrow> RecipientKind" where
  "classify_recipient recipient =
     (if starts_with recipient ''spize:'' then KindSpizeNative
      else if starts_with recipient ''did:'' then KindDid
      else if CHR ''@'' \<in> set recipient \<or> starts_with recipient ''+'' then KindHumanBridge
      else KindUnknown)"

fun recipient_kind_str :: "RecipientKind \<Rightarrow> string" where
  "recipient_kind_str KindSpizeNative = ''spize_native''"
| "recipient_kind_str KindDid = ''did''"
| "recipient_kind_str KindHumanBridge = ''human_bridge''"
| "recipient_kind_str KindUnknown = ''unknown''"

definition opt_str :: "string \<Rightarrow> string option" where
  "opt_str s = (if s = [] then None else Some s)"

definition row_to_response :: "TransferRow \<Rightarrow> TransferResponse" where
  "row_to_response row = \<lparr>rs_transfer_id = tr_transfer_id row, rs_state = tr_state row,
     rs_sender_agent_id = tr_sender_agent_id row, rs_recipient = tr_recipient row,
     rs_size_bytes = tr_size_bytes row, rs_declared_mime = tr_declared_mime row,
     rs_filename = tr_filename row, rs_scanner_verdict = tr_scanner_verdict row,
     rs_policy_decision = tr_policy_decision row, rs_rejection_code = tr_rejection_code row,
     rs_rejection_reason = tr_rejection_reason row, rs_created_at = tr_created_at row\<rparr>"

text \<open>The JSON forms that the derived serialisers give decisions and verdicts.\<close>

fun decision_json :: "PolicyDecision \<Rightarrow> json" where
  "decision_json Allow = JObject [(''type'', JString ''allow'')]"
| "decision_json (Deny c r) = JObject [(''type'', JString ''deny''), (''code'', JString c), (''reason'', JString r)]"
| "decision_json (Pending i eta) = JObject [(''type'', JString ''pending''), (''decision_id'', JString i),
     (''eta_seconds'', JNumber (show_u64 eta))]"

fun result_json :: "ScanResult \<Rightarrow> json" where
  "result_json Clean = JString ''clean''"
| "result_json Suspicious = JString ''suspicious''"
| "result_json Malicious = JString ''malicious''"
| "result_json ScanError = JString ''error''"

definition verdict_json :: "PipelineVerdict \<Rightarrow> json" where
  "verdict_json v = JObject [(''overall'', result_json (overall v)),
     (''verdicts'', JArray (map (\<lambda>sv. JObject [(''scanner'', JString (sv_scanner sv)),
        (''result'', result_json (sv_result sv)), (''details'', JString (sv_details sv)),
        (''duration_ms'', JNumber (show_u64 (sv_duration_ms sv)))]) (verdicts v))),
     (''total_duration_ms'', JNumber (show_u64 (total_duration_ms v)))]"

definition opt_json :: "string \<Rightarrow> json" where
  "opt_json s = (if s = [] then JNull else JString s)"

definition random_transfer_id :: "('l, 'b) env \<Rightarrow> string" where
  "random_transfer_id E = ''tx_'' @ hex_enc (plat E) (random16 E)"

definition mk_event :: "EventKind \<Rightarrow> string \<Rightarrow> string \<Rightarrow> json \<Rightarrow> Event" where
  "mk_event k a sj p = \<lparr>ev_kind = k, actor = a, subject = sj, payload = p\<rparr>"

section \<open>The sender's intent\<close>

definition decode_hex_field :: "('l, 'b) env \<Rightarrow> string \<Rightarrow> string \<Rightarrow> ('l, 'b, bytes) handler" where
  "decode_hex_field E field s =
     liftS (map_err (\<lambda>e. BadRequest (field @ '': '' @ e)) (hex_dec (plat E) s))"

definition intent_canonical :: "CreateTransferRequest \<Rightarrow> AgentId \<Rightarrow> u64 \<Rightarrow> ApiError + bytes" where
  "intent_canonical req sender size_bytes =
     map_err (\<lambda>e. BadRequest (''cannot build intent: '' @ core_error_text e))
       (transfer_intent_bytes (as_str sender) (ct_recipient req) size_bytes (ct_declared_mime req)
          (ct_filename req) (ct_nonce req) (ct_issued_at req))"

text \<open>
  The nonce handling of the tunnel and endpoint branches: the call passes the sender as the
  nonce and the nonce as the agent, and its Boolean answer is not read.
\<close>

definition consume_intent_unchecked :: "('l, 'b) env \<Rightarrow> AgentId \<Rightarrow> string \<Rightarrow> ('l, 'b, unit) handler" where
  "consume_intent_unchecked E sender nonce =
     matchS (on_db (db_fault_at E ''consume_intent_nonce'') (consume_intent_nonce (as_str sender) nonce))
       (\<lambda>e. throwS (case e of
           DatabaseError c (Some con) \<Rightarrow>
             if con = ''transfer_intent_nonces_pkey'' then Conflict ''intent nonce already used'' else from_sqlx e
         | _ \<Rightarrow> from_sqlx e))
       (\<lambda>_. returnS ())"

definition count_created :: "RecipientKind \<Rightarrow> ('l, 'b, unit) handler" where
  "count_created k = on_metrics (\<lambda>m. m\<lparr>transfers_created_total :=
     inc_label (recipient_kind_str k) (transfers_created_total m)\<rparr>)"

section \<open>Creation with endpoints\<close>

definition create_via_endpoints ::
  "('l, 'b) env \<Rightarrow> CreateTransferRequest \<Rightarrow> AgentId \<Rightarrow> Endpoint list \<Rightarrow> ('l, 'b, nat \<times> TransferResponse) handler" where
  "create_via_endpoints E req sender endpoints =
     bindS (ensureS (endpoints \<noteq> []) (BadRequest ''reachable_at[] must contain at least one endpoint'')) (\<lambda>_.
     bindS (ensureS (ct_blob_hex req = []) (BadRequest ''blob_hex and reachable_at are mutually exclusive'')) (\<lambda>_.
     bindS (ensureS (ct_tunnel_url req = None) (BadRequest ''tunnel_url and reachable_at are mutually exclusive'')) (\<lambda>_.
     bindS (liftS (ok_or (BadRequest ''declared_size is required when reachable_at is set'') (ct_declared_size req))) (\<lambda>declared_size.
     let report = validate_all E endpoints in
     bindS (ensureS (at_least_one_healthy report)
       (BadRequest (''all reachable_at endpoints failed validation ('' @ show_nat (length endpoints)
          @ '' entries). First error: ''
          @ (case List.find (\<lambda>e. e \<noteq> None) (map ep_error report) of
               Some (Some m) \<Rightarrow> m | _ \<Rightarrow> ''no endpoints reachable'')))) (\<lambda>_.
     let healthy = healthy_endpoints report endpoints in
     bindS (liftS (intent_canonical req sender declared_size)) (\<lambda>canonical.
     bindS (decode_hex_field E ''intent_signature_hex'' (ct_intent_signature_hex req)) (\<lambda>sig_bytes.
     bindS (verify_with_valid_keys E (as_str sender) (clock E 1) canonical sig_bytes) (\<lambda>_.
     bindS (consume_intent_unchecked E sender (ct_nonce req)) (\<lambda>_.
     let transfer_id = random_transfer_id E;
         recipient_kind = classify_recipient (ct_recipient req);
         legacy_tunnel_url = map_option url (List.find (\<lambda>e. starts_with (url e) ''https://'') healthy) in
     bindS (query E ''transfers_insert'' (transfers_insert (dbe E)
       \<lparr>it_transfer_id = transfer_id, it_sender_agent_id = as_str sender, it_recipient = ct_recipient req,
        it_recipient_kind = recipient_kind_str recipient_kind, it_state = ''ready_for_pickup'',
        it_size_bytes = declared_size, it_declared_mime = opt_str (ct_declared_mime req),
        it_filename = opt_str (ct_filename req), it_blob_sha256 = None, it_scanner_verdict = None,
        it_policy_decision = None, it_rejection_code = None, it_rejection_reason = None,
        it_tunnel_url = legacy_tunnel_url, it_reachable_at = Some healthy\<rparr>)) (\<lambda>row.
     bindS (count_created recipient_kind) (\<lambda>_.
     returnS (201, row_to_response row))))))))))))"

section \<open>Creation with a tunnel\<close>

definition create_via_tunnel ::
  "('l, 'b) env \<Rightarrow> CreateTransferRequest \<Rightarrow> AgentId \<Rightarrow> string \<Rightarrow> ('l, 'b, nat \<times> TransferResponse) handler" where
  "create_via_tunnel E req sender tunnel_url =
     bindS (ensureS (starts_with tunnel_url ''https://'') (BadRequest ''tunnel_url must be https://'')) (\<lambda>_.
     bindS (liftS (ok_or (BadRequest ''declared_size is required when tunnel_url is set'') (ct_declared_size req))) (\<lambda>declared_size.
     bindS (ensureS (ct_blob_hex req = []) (BadRequest ''blob_hex and tunnel_url are mutually exclusive'')) (\<lambda>_.
     bindS (if skip_tunnel_validation E then returnS () else liftS (verify_tunnel_http_healthz E tunnel_url)) (\<lambda>_.
     bindS (liftS (intent_canonical req sender declared_size)) (\<lambda>canonical.
     bindS (decode_hex_field E ''intent_signature_hex'' (ct_intent_signature_hex req)) (\<lambda>sig_bytes.
     bindS (verify_with_valid_keys E (as_str sender) (clock E 1) canonical sig_bytes) (\<lambda>_.
     bindS (consume_intent_unchecked E sender (ct_nonce req)) (\<lambda>_.
     let transfer_id = random_transfer_id E;
         recipient_kind = classify_recipient (ct_recipient req) in
     bindS (query E ''transfers_insert'' (transfers_insert (dbe E)
       \<lparr>it_transfer_id = transfer_id, it_sender_agent_id = as_str sender, it_recipient = ct_recipient req,
        it_recipient_kind = recipient_kind_str recipient_kind, it_state = ''ready_for_pickup'',
        it_size_bytes = declared_size, it_declared_mime = opt_str (ct_declared_mime req),
        it_filename = opt_str (ct_filename req), it_blob_sha256 = None, it_scanner_verdict = None,
        it_policy_decision = None, it_rejection_code = None, it_rejection_reason = None,
        it_tunnel_url = Some tunnel_url, it_reachable_at = Some [cloudflare_quick tunnel_url]\<rparr>)) (\<lambda>row.
     bindS (count_created recipient_kind) (\<lambda>_.
     returnS (201, row_to_response row)))))))))))"

section \<open>Creation with an uploaded blob\<close>

definition persist_rejected ::
  "('l, 'b) env \<Rightarrow> nat \<Rightarrow> string \<Rightarrow> AgentId \<Rightarrow> CreateTransferRequest \<Rightarrow> RecipientKind \<Rightarrow> u64
   \<Rightarrow> PipelineVerdict option \<Rightarrow> json option \<Rightarrow> string \<Rightarrow> string \<Rightarrow> ('l, 'b, TransferRow) handler" where
  "persist_rejected E k transfer_id sender req recipient_kind size_bytes verdict policy_decision cd reason =
     bindS (query E ''transfers_insert'' (transfers_insert (dbe E)
       \<lparr>it_transfer_id = transfer_id, it_sender_agent_id = as_str sender, it_recipient = ct_recipient req,
        it_recipient_kind = recipient_kind_str recipient_kind, it_state = ''rejected'',
        it_size_bytes = size_bytes, it_declared_mime = opt_str (ct_declared_mime req),
        it_filename = opt_str (ct_filename req), it_blob_sha256 = None,
        it_scanner_verdict = map_option verdict_json verdict,
        it_policy_decision = policy_decision, it_rejection_code = Some cd, it_rejection_reason = Some reason,
        it_tunnel_url = None, it_reachable_at = None\<rparr>)) (\<lambda>row.
     bindS (audit_warn E k (mk_event TransferRejected (as_str sender) transfer_id
       (JObject [(''code'', JString cd), (''reason'', JString reason)]))) (\<lambda>_.
     let metric_reason = (if verdict \<noteq> None then ''scanner'' else ''policy'') in
     bindS (on_metrics (\<lambda>m. m\<lparr>transfers_rejected_total := inc_label metric_reason (transfers_rejected_total m)\<rparr>)) (\<lambda>_.
     returnS row)))"

definition scan_input_of :: "CreateTransferRequest \<Rightarrow> bytes \<Rightarrow> ScanInput" where
  "scan_input_of req blob = \<lparr>si_bytes = blob, si_filename = opt_str (ct_filename req),
     si_declared_mime = opt_str (ct_declared_mime req)\<rparr>"

definition initiated_payload :: "CreateTransferRequest \<Rightarrow> RecipientKind \<Rightarrow> u64 \<Rightarrow> json" where
  "initiated_payload req recipient_kind size_bytes = JObject [
     (''recipient'', JString (ct_recipient req)),
     (''recipient_kind'', JString (recipient_kind_str recipient_kind)),
     (''size_bytes'', JNumber (show_u64 size_bytes)),
     (''declared_mime'', opt_json (ct_declared_mime req)),
     (''filename'', opt_json (ct_filename req))]"

definition decision_payload :: "string \<Rightarrow> PolicyDecision \<Rightarrow> json" where
  "decision_payload phase d = JObject [(''phase'', JString phase), (''decision'', decision_json d)]"

text \<open>What the policy engine sees before and after the scan.\<close>

definition pre_scan_request ::
  "CreateTransferRequest \<Rightarrow> AgentId \<Rightarrow> AgentRow \<Rightarrow> RecipientKind \<Rightarrow> u64 \<Rightarrow> PolicyRequest" where
  "pre_scan_request req sender sender_row recipient_kind size_bytes =
     (let pre_req = PolicyRequest_new sender (ar_org sender_row) (ct_recipient req) recipient_kind size_bytes
      in if ct_declared_mime req = [] then pre_req else with_declared_mime pre_req (ct_declared_mime req))"

definition post_scan_request ::
  "CreateTransferRequest \<Rightarrow> AgentId \<Rightarrow> AgentRow \<Rightarrow> RecipientKind \<Rightarrow> u64 \<Rightarrow> PipelineVerdict \<Rightarrow> PolicyRequest" where
  "post_scan_request req sender sender_row recipient_kind size_bytes verdict =
     \<lparr>pr_sender = sender, pr_recipient = ct_recipient req, pr_recipient_kind = recipient_kind,
      pr_size_bytes = size_bytes, pr_declared_mime = opt_str (ct_declared_mime req),
      pr_sender_org = ar_org sender_row, pr_scanner_verdict = Some verdict\<rparr>"

text \<open>The part after the nonce: policy, scanner, policy again, storage.\<close>

definition screen_blob ::
  "('l, 'b) env \<Rightarrow> CreateTransferRequest \<Rightarrow> AgentId \<Rightarrow> AgentRow \<Rightarrow> bytes \<Rightarrow> ('l, 'b, nat \<times> TransferResponse) handler" where
  "screen_blob E req sender sender_row blob =
     (let size_bytes = (of_nat (length blob) :: u64);
          transfer_id = ''tx_'' @ uuid_simple E;
          recipient_kind = classify_recipient (ct_recipient req) in
     bindS (audit_warn E 0 (mk_event TransferInitiated (as_str sender) transfer_id
       (initiated_payload req recipient_kind size_bytes))) (\<lambda>_.
     let pre_decision = policy_evaluate E (pre_scan_request req sender sender_row recipient_kind size_bytes) in
     bindS (audit_warn E 1 (mk_event TransferPolicyDecision (as_str sender) transfer_id
       (decision_payload ''pre_scan'' pre_decision))) (\<lambda>_.
     case pre_decision of
       Deny cd reason \<Rightarrow>
         bindS (persist_rejected E 2 transfer_id sender req recipient_kind size_bytes None
           (Some (decision_json pre_decision)) cd reason) (\<lambda>row. returnS (200, row_to_response row))
     | _ \<Rightarrow>
         (let verdict = ScanPipeline_scan (scanners E) (scan_millis E) (scan_input_of req blob) in
          bindS (audit_warn E 2 (mk_event TransferScannerVerdict (as_str sender) transfer_id
            (verdict_json verdict))) (\<lambda>_.
          let post_decision = policy_evaluate E
                (post_scan_request req sender sender_row recipient_kind size_bytes verdict) in
          bindS (audit_warn E 3 (mk_event TransferPolicyDecision (as_str sender) transfer_id
            (decision_payload ''post_scan'' post_decision))) (\<lambda>_.
          case post_decision of
            Deny cd reason \<Rightarrow>
              bindS (persist_rejected E 4 transfer_id sender req recipient_kind size_bytes (Some verdict)
                (Some (decision_json post_decision)) cd reason) (\<lambda>row. returnS (200, row_to_response row))
          | _ \<Rightarrow>
              (let blob_sha256 = hex_enc (plat E) (sha256 (plat E) blob) in
               bindS (mapErrS (\<lambda>e. ApiInternal (io_text e)) (on_blobs (blob_put E transfer_id blob))) (\<lambda>_.
               bindS (query E ''transfers_insert'' (transfers_insert (dbe E)
                 \<lparr>it_transfer_id = transfer_id, it_sender_agent_id = as_str sender, it_recipient = ct_recipient req,
                  it_recipient_kind = recipient_kind_str recipient_kind, it_state = ''ready_for_pickup'',
                  it_size_bytes = size_bytes, it_declared_mime = opt_str (ct_declared_mime req),
                  it_filename = opt_str (ct_filename req), it_blob_sha256 = Some blob_sha256,
                  it_scanner_verdict = Some (verdict_json verdict),
                  it_policy_decision = Some (decision_json post_decision),
                  it_rejection_code = None, it_rejection_reason = None,
                  it_tunnel_url = None, it_reachable_at = None\<rparr>)) (\<lambda>row.
               bindS (count_created recipient_kind) (\<lambda>_.
               returnS (201, row_to_response row)))))))))))"

definition create_with_blob ::
  "('l, 'b) env \<Rightarrow> CreateTransferRequest \<Rightarrow> AgentId \<Rightarrow> AgentRow \<Rightarrow> ('l, 'b, nat \<times> TransferResponse) handler" where
  "create_with_blob E req sender sender_row =
     bindS (decode_hex_field E ''blob_hex'' (ct_blob_hex req)) (\<lambda>blob.
     bindS (decode_hex_field E ''intent_signature_hex'' (ct_intent_signature_hex req)) (\<lambda>sig_bytes.
     let size_bytes = (of_nat (length blob) :: u64) in
     bindS (liftS (intent_canonical req sender size_bytes)) (\<lambda>canonical.
     bindS (verify_with_valid_keys E (as_str sender) (clock E 1) canonical sig_bytes) (\<lambda>_.
     bindS (query E ''consume_intent_nonce'' (consume_intent_nonce (ct_nonce req) (as_str sender))) (\<lambda>fresh.
     bindS (ensureS fresh (Conflict ''intent nonce already used'')) (\<lambda>_.
     screen_blob E req sender sender_row blob))))))"

section \<open>The handlers\<close>

definition create_transfer ::
  "('l, 'b) env \<Rightarrow> CreateTransferRequest \<Rightarrow> ('l, 'b, nat \<times> TransferResponse) handler" where
  "create_transfer E req =
     bindS (liftS (map_err from_core (AgentId_new (ct_sender_agent_id req)))) (\<lambda>sender.
     bindS (query E ''find_by_agent_id'' (find_by_agent_id (as_str sender))) (\<lambda>found.
     bindS (liftS (ok_or (Unauthorized ''unknown sender'') found)) (\<lambda>sender_row.
     bindS (ensureS (ct_recipient req \<noteq> []) (BadRequest ''recipient is empty'')) (\<lambda>_.
     bindS (ensureS (\<not> (length (ct_nonce req) < MIN_NONCE_LEN \<or> length (ct_nonce req) > MAX_NONCE_LEN))
       (BadRequest ''nonce length out of range'')) (\<lambda>_.
     bindS (ensureS (list_all is_ascii_hexdigit (ct_nonce req)) (BadRequest ''nonce must be hex'')) (\<lambda>_.
     bindS (ensureS (is_within_clock_skew (now_unix E) (ct_issued_at req))
       (BadRequest ''issued_at outside allowed skew'')) (\<lambda>_.
     case ct_reachable_at req of
       Some endpoints \<Rightarrow> create_via_endpoints E req sender endpoints
     | None \<Rightarrow>
         (case ct_tunnel_url req of
            Some tunnel_url \<Rightarrow> create_via_tunnel E req sender tunnel_url
          | None \<Rightarrow> create_with_blob E req sender sender_row))))))))"

definition get_transfer :: "('l, 'b) env \<Rightarrow> string \<Rightarrow> ('l, 'b, TransferResponse) handler" where
  "get_transfer E transfer_id =
     bindS (query E ''find_by_transfer_id'' (find_by_transfer_id transfer_id)) (\<lambda>found.
     bindS (liftS (ok_or (ApiNotFound (''transfer '' @ transfer_id @ '' not found'')) found)) (\<lambda>row.
     returnS (row_to_response row)))"

definition verify_recipient_receipt ::
  "('l, 'b) env \<Rightarrow> string \<Rightarrow> RecipientReceiptRequest \<Rightarrow> string \<Rightarrow> ('l, 'b, TransferRow) handler" where
  "verify_recipient_receipt E transfer_id req action =
     bindS (ensureS (\<not> (length (rq_nonce req) < MIN_NONCE_LEN \<or> length (rq_nonce req) > MAX_NONCE_LEN))
       (BadRequest ''nonce length out of range'')) (\<lambda>_.
     bindS (ensureS (list_all is_ascii_hexdigit (rq_nonce req)) (BadRequest ''nonce must be hex'')) (\<lambda>_.
     bindS (ensureS (is_within_clock_skew (now_unix E) (rq_issued_at req))
       (BadRequest ''issued_at outside allowed skew'')) (\<lambda>_.
     bindS (liftS (map_err from_core (AgentId_new (rq_recipient_agent_id req)))) (\<lambda>recipient.
     bindS (query E ''find_by_transfer_id'' (find_by_transfer_id transfer_id)) (\<lambda>found.
     bindS (liftS (ok_or (ApiNotFound (''transfer '' @ transfer_id @ '' not found'')) found)) (\<lambda>row.
     bindS (ensureS (tr_recipient row = as_str recipient) (Unauthorized ''you are not the recipient'')) (\<lambda>_.
     bindS (liftS (map_err (\<lambda>e. BadRequest (''canonical: '' @ core_error_text e))
       (transfer_receipt_bytes (as_str recipient) transfer_id action (rq_nonce req) (rq_issued_at req)))) (\<lambda>canonical.
     bindS (decode_hex_field E ''signature_hex'' (rq_signature_hex req)) (\<lambda>sig_bytes.
     bindS (verify_with_valid_keys E (as_str recipient) (clock E 1) canonical sig_bytes) (\<lambda>_.
     returnS row))))))))))"

definition download_transfer ::
  "('l, 'b) env \<Rightarrow> string \<Rightarrow> RecipientReceiptRequest \<Rightarrow> ('l, 'b, DownloadResponse) handler" where
  "download_transfer E transfer_id req =
     bindS (verify_recipient_receipt E transfer_id req ''download'') (\<lambda>row.
     bindS (ensureS (tr_state row \<noteq> ''rejected'') (ApiNotFound ''transfer was rejected'')) (\<lambda>_.
     bindS (ensureS (tr_state row = ''ready_for_pickup'' \<or> tr_state row = ''accepted'')
       (Conflict (''transfer is in state '' @ quoted (tr_state row) @ '', cannot download''))) (\<lambda>_.
     bindS (mapErrS (\<lambda>e. ApiInternal (io_text e)) (on_blobs (blob_get E transfer_id))) (\<lambda>bs.
     bindS (query E ''mark_accepted'' (mark_accepted (dbe E) transfer_id)) (\<lambda>_.
     bindS (audit_warn E 0 (mk_event TransferAccepted (rq_recipient_agent_id req) transfer_id
       (JObject [(''nonce'', JString (rq_nonce req))]))) (\<lambda>_.
     returnS \<lparr>dl_transfer_id = tr_transfer_id row, dl_blob_hex = hex_enc (plat E) bs,
       dl_blob_sha256 = (case tr_blob_sha256 row of Some h \<Rightarrow> h | None \<Rightarrow> []),
       dl_filename = tr_filename row, dl_declared_mime = tr_declared_mime row\<rparr>))))))"

fun audit_error_text :: "AuditError \<Rightarrow> string" where
  "audit_error_text (AuditIo m) = ''I/O error: '' @ m"
| "audit_error_text (Serialization m) = ''serialization error: '' @ m"
| "audit_error_text (ChainBroken p x f) = ''chain broken at position '' @ show_u64 p
     @ '': expected prev_hash '' @ x @ '', found '' @ f"
| "audit_error_text (HashMismatch p st r) = ''hash mismatch at position '' @ show_u64 p
     @ '': stored '' @ st @ '', recomputed '' @ r"
| "audit_error_text (InvalidEvent m) = ''invalid event: '' @ m"

definition ack_transfer ::
  "('l, 'b) env \<Rightarrow> string \<Rightarrow> RecipientReceiptRequest \<Rightarrow> ('l, 'b, AckResponse) handler" where
  "ack_transfer E transfer_id req =
     bindS (verify_recipient_receipt E transfer_id req ''ack'') (\<lambda>_.
     bindS (query E ''mark_delivered'' (mark_delivered (dbe E) transfer_id)) (\<lambda>updated.
     bindS (ensureS (updated \<noteq> 0) (Conflict ''transfer is not in a state that can be acked'')) (\<lambda>_.
     bindS (on_metrics (\<lambda>m. m\<lparr>transfers_delivered_total := Suc (transfers_delivered_total m)\<rparr>)) (\<lambda>_.
     bindS (mapErrS (\<lambda>e. ApiInternal (audit_error_text e)) (on_audit (audit_append E (audit_now E 0) (audit_uuid E 0)
       (mk_event TransferDelivered (rq_recipient_agent_id req) transfer_id
         (JObject [(''nonce'', JString (rq_nonce req))]))))) (\<lambda>receipt.
     bindS (tryS (on_blobs (blob_delete E transfer_id))) (\<lambda>_ :: io_error + unit.
     returnS \<lparr>ack_transfer_id = transfer_id, ack_state = ''delivered'',
       ack_audit_chain_head = er_chain_head receipt\<rparr>))))))"

section \<open>Data-plane tickets\<close>

definition TICKET_TTL_SECONDS :: i64 where
  "TICKET_TTL_SECONDS = 60"

definition issue_ticket ::
  "('l, 'b) env \<Rightarrow> string \<Rightarrow> RecipientReceiptRequest \<Rightarrow> ('l, 'b, TicketResponse) handler" where
  "issue_ticket E transfer_id req =
     bindS (liftS (ok_or (ApiInternal ''control plane signing key is not configured'') (signer E))) (\<lambda>sign.
     bindS (liftS (map_err from_core (AgentId_new (rq_recipient_agent_id req)))) (\<lambda>recipient.
     bindS (ensureS (\<not> (length (rq_nonce req) < MIN_NONCE_LEN \<or> length (rq_nonce req) > MAX_NONCE_LEN))
       (BadRequest ''nonce length out of range'')) (\<lambda>_.
     bindS (ensureS (list_all is_ascii_hexdigit (rq_nonce req)) (BadRequest ''nonce must be hex'')) (\<lambda>_.
     bindS (ensureS (is_within_clock_skew (now_unix E) (rq_issued_at req))
       (BadRequest ''issued_at outside allowed skew'')) (\<lambda>_.
     bindS (query E ''find_by_transfer_id'' (find_by_transfer_id transfer_id)) (\<lambda>found.
     bindS (liftS (ok_or (ApiNotFound (''unknown transfer: '' @ transfer_id)) found)) (\<lambda>row.
     bindS (ensureS (tr_recipient row = as_str recipient) (Unauthorized ''recipient does not match transfer'')) (\<lambda>_.
     bindS (ensureS (tr_state row = ''ready_for_pickup'')
       (BadRequest (''transfer is in state '' @ quoted (tr_state row) @ '', not ready_for_pickup''))) (\<lambda>_.
     bindS (liftS (ok_or (BadRequest ''transfer has no data-plane tunnel URL'') (tr_tunnel_url row))) (\<lambda>tunnel_url.
     bindS (liftS (map_err (\<lambda>e. BadRequest (''canonicalisation: '' @ core_error_text e))
       (transfer_receipt_bytes (as_str recipient) transfer_id ''request_ticket'' (rq_nonce req)
          (rq_issued_at req)))) (\<lambda>receipt_canonical.
     bindS (decode_hex_field E ''receipt_signature_hex'' (rq_signature_hex req)) (\<lambda>sig_bytes.
     bindS (verify_with_valid_keys E (as_str recipient) (clock E 1) receipt_canonical sig_bytes) (\<lambda>_.
     let expires = now_unix E + TICKET_TTL_SECONDS;
         ticket_nonce = hex_enc (plat E) (random16 E) in
     bindS (liftS (map_err (\<lambda>e. ApiInternal (''canonicalisation: '' @ core_error_text e))
       (data_ticket_bytes transfer_id (as_str recipient) tunnel_url expires ticket_nonce))) (\<lambda>canon.
     let ticket_sig = sign canon in
     bindS (query E ''insert_ticket_nonce'' (insert_ticket_nonce ticket_nonce transfer_id expires)) (\<lambda>_.
     returnS \<lparr>tk_transfer_id = transfer_id, tk_recipient = as_str recipient, tk_data_plane_url = tunnel_url,
       tk_expires = expires, tk_nonce = ticket_nonce, tk_signature = hex_enc (plat E) ticket_sig\<rparr>)))))))))))))))"

end
