(* ===== verification/TransferFlow.thy ===== *)
theory TransferFlow
  imports Transfers
begin

text \<open>
  What the transfer handlers guarantee: which requests succeed and what they change, the schema
  invariant, and the life cycle of a transfer row.
\<close>

section \<open>Receipts\<close>

text \<open>The recipient's signed statement for an action on a transfer.\<close>

definition receipt_authentic ::
  "('l, 'b) env \<Rightarrow> database \<Rightarrow> string \<Rightarrow> RecipientReceiptRequest \<Rightarrow> string \<Rightarrow> bool" where
  "receipt_authentic E dbs tid req action \<longleftrightarrow>
     valid_nonce (rq_nonce req) \<and> is_within_clock_skew (now_unix E) (rq_issued_at req)
     \<and> valid_agent_id (rq_recipient_agent_id req)
     \<and> (\<exists>canonical sg. transfer_receipt_bytes (rq_recipient_agent_id req) tid action (rq_nonce req) (rq_issued_at req) = Inr canonical
        \<and> hex_dec (plat E) (rq_signature_hex req) = Inr sg
        \<and> signed_by_valid_key (plat E) (dbe E) dbs (rq_recipient_agent_id req) (clock E 1) canonical sg)"

definition row_of :: "database \<Rightarrow> string \<Rightarrow> TransferRow option" where
  "row_of dbs tid = List.find (\<lambda>r. tr_transfer_id r = tid) (transfers dbs)"

lemma decode_hex_field_Inr_iff [step_iffs]:
  "decode_hex_field E f x s = (Inr b, s') \<longleftrightarrow> hex_dec (plat E) x = Inr b \<and> s' = s"
  by (auto simp: decode_hex_field_def step_iffs)

lemma length_guard: "(\<not> (length n < MIN_NONCE_LEN \<or> length n > MAX_NONCE_LEN)) \<and> list_all is_ascii_hexdigit n \<longleftrightarrow> valid_nonce n"
  by (auto simp: valid_nonce_def MIN_NONCE_LEN_def MAX_NONCE_LEN_def)

lemma verify_recipient_receipt_Inr_iff:
  "verify_recipient_receipt E tid req action s = (Inr row, s') \<longleftrightarrow>
     s' = s \<and> db_fault_at E ''find_by_transfer_id'' = NoFault \<and> db_fault_at E ''valid_public_keys_at'' = NoFault
     \<and> row_of (db s) tid = Some row \<and> tr_recipient row = rq_recipient_agent_id req
     \<and> receipt_authentic E (db s) tid req action"
  unfolding verify_recipient_receipt_def receipt_authentic_def row_of_def
  by (auto simp: step_iffs query_Inr_iff find_by_transfer_id_def
      verify_with_valid_keys_Inr_iff length_guard [symmetric] split: if_splits)

lemma keeps_decode_hex_field [keeps_rules]: "keeps P (decode_hex_field E f x)"
  by (simp add: decode_hex_field_def keeps_rules)

lemma keeps_verify_recipient_receipt [keeps_rules]: "keeps P (verify_recipient_receipt E tid req action)"
  unfolding verify_recipient_receipt_def find_by_transfer_id_def by (intro keeps_rules)

section \<open>The schema invariant\<close>

lemma keeps_case_PolicyDecision [keeps_rules]:
  "keeps P m \<Longrightarrow> (\<And>c r. keeps P (f c r)) \<Longrightarrow> (\<And>i e. keeps P (g i e)) \<Longrightarrow>
   keeps P (case d of Allow \<Rightarrow> m | Deny c r \<Rightarrow> f c r | Pending i e \<Rightarrow> g i e)"
  by (cases d) auto


lemma keeps_count_created [keeps_rules]:
  "(\<And>s m. P (s\<lparr>metrics_of := m\<rparr>) = P s) \<Longrightarrow> keeps P (count_created k)"
  unfolding count_created_def by (rule keeps_on_metrics)

lemma keeps_consume_intent_unchecked [keeps_rules]:
  "(\<And>n. keeps P (consume_intent_nonce n m)) \<Longrightarrow> keeps (\<lambda>s. P (db s)) (consume_intent_unchecked E sender m)"
  unfolding consume_intent_unchecked_def by (intro keeps_rules)

lemma keeps_persist_rejected [keeps_rules]:
  "(\<And>t. it_state t = ''rejected'' \<Longrightarrow> keeps P (transfers_insert (dbe E) t)) \<Longrightarrow>
   keeps (\<lambda>s. P (db s)) (persist_rejected E k tid sender req rk sz v pd c r)"
  unfolding persist_rejected_def Let_def by (intro keeps_rules) simp_all

text \<open>
  A predicate on the database is kept by a handler if the statements that the handler may
  execute keep it.
\<close>

lemma create_transfer_keeps_db:
  assumes "\<And>t. it_state t \<in> {''ready_for_pickup'', ''rejected''} \<Longrightarrow> keeps P (transfers_insert (dbe E) t)"
    and "\<And>n m. keeps P (consume_intent_nonce n m)"
  shows "keeps (\<lambda>s. P (db s)) (create_transfer E req)"
  unfolding create_transfer_def create_via_endpoints_def create_via_tunnel_def create_with_blob_def screen_blob_def
    find_by_agent_id_def Let_def
  by (intro keeps_rules assms) simp_all

lemma get_transfer_keeps: "keeps P (get_transfer E tid)"
  unfolding get_transfer_def find_by_transfer_id_def by (intro keeps_rules)

lemma download_keeps_db:
  assumes "keeps P (mark_accepted (dbe E) tid)"
  shows "keeps (\<lambda>s. P (db s)) (download_transfer E tid req)"
  unfolding download_transfer_def by (intro keeps_rules assms) simp_all

lemma ack_keeps_db:
  assumes "keeps P (mark_delivered (dbe E) tid)"
  shows "keeps (\<lambda>s. P (db s)) (ack_transfer E tid req)"
  unfolding ack_transfer_def by (intro keeps_rules assms) simp_all

lemma issue_ticket_keeps_db:
  assumes "\<And>n ex. keeps P (insert_ticket_nonce n tid ex)"
  shows "keeps (\<lambda>s. P (db s)) (issue_ticket E tid req)"
  unfolding issue_ticket_def find_by_transfer_id_def Let_def by (intro keeps_rules assms)

section \<open>The life of a transfer\<close>

definition lifecycle_states :: "string list" where
  "lifecycle_states = [''ready_for_pickup'', ''rejected'', ''accepted'', ''delivered'']"

definition state_next :: "string \<Rightarrow> string \<Rightarrow> bool" where
  "state_next a b \<longleftrightarrow> a = b \<or> (a, b) \<in> {(''ready_for_pickup'', ''accepted''),
     (''ready_for_pickup'', ''delivered''), (''accepted'', ''delivered'')}"

text \<open>A row keeps its identity, its parties and its content; only its state advances.\<close>

definition row_evolves :: "TransferRow \<Rightarrow> TransferRow \<Rightarrow> bool" where
  "row_evolves r r' \<longleftrightarrow> tr_transfer_id r' = tr_transfer_id r \<and> tr_sender_agent_id r' = tr_sender_agent_id r
     \<and> tr_recipient r' = tr_recipient r \<and> tr_size_bytes r' = tr_size_bytes r
     \<and> tr_blob_sha256 r' = tr_blob_sha256 r \<and> tr_rejection_code r' = tr_rejection_code r
     \<and> state_next (tr_state r) (tr_state r')"

definition transfers_evolve :: "database \<Rightarrow> database \<Rightarrow> bool" where
  "transfers_evolve d d' \<longleftrightarrow> (\<exists>olds new. transfers d' = olds @ new
     \<and> list_all2 row_evolves (transfers d) olds \<and> list_all (\<lambda>r. tr_state r \<in> set lifecycle_states) new)"

lemma state_next_trans: "state_next a b \<Longrightarrow> state_next b c \<Longrightarrow> state_next a c"
  by (auto simp: state_next_def)

lemma state_next_final: "state_next a b \<Longrightarrow> a = ''rejected'' \<or> a = ''delivered'' \<Longrightarrow> b = a"
  by (auto simp: state_next_def)

lemma state_next_lifecycle: "state_next a b \<Longrightarrow> a \<in> set lifecycle_states \<Longrightarrow> b \<in> set lifecycle_states"
  by (auto simp: state_next_def lifecycle_states_def)

lemma row_evolves_refl [simp]: "row_evolves r r"
  by (simp add: row_evolves_def state_next_def)

lemma row_evolves_trans: "row_evolves r s \<Longrightarrow> row_evolves s t \<Longrightarrow> row_evolves r t"
  by (auto simp: row_evolves_def intro: state_next_trans)

lemma list_all2_refl_row: "list_all2 row_evolves rs rs"
  by (simp add: list.rel_refl)

lemma transfers_evolveI:
  "transfers d' = olds @ new \<Longrightarrow> list_all2 row_evolves (transfers d) olds \<Longrightarrow>
   list_all (\<lambda>r. tr_state r \<in> set lifecycle_states) new \<Longrightarrow> transfers_evolve d d'"
  unfolding transfers_evolve_def by blast

lemma transfers_evolve_same: "transfers d' = transfers d \<Longrightarrow> transfers_evolve d d'"
  by (rule transfers_evolveI [where olds = "transfers d" and new = "[]"]) (simp_all add: list_all2_refl_row)

lemma transfers_evolve_append:
  "transfers d' = transfers d @ [r] \<Longrightarrow> tr_state r \<in> set lifecycle_states \<Longrightarrow> transfers_evolve d d'"
  by (rule transfers_evolveI [where olds = "transfers d" and new = "[r]"]) (simp_all add: list_all2_refl_row)

lemma transfers_evolve_update:
  assumes "\<And>r. p r \<Longrightarrow> row_evolves r (f r)"
    and "transfers d' = map (\<lambda>r. if p r then f r else r) (transfers d)"
  shows "transfers_evolve d d'"
proof (rule transfers_evolveI [where olds = "transfers d'" and new = "[]"])
  show "list_all2 row_evolves (transfers d) (transfers d')"
    using assms(1) unfolding assms(2) list_all2_map2 by (intro list.rel_refl_strong) simp
qed simp_all

lemma transfers_evolve_trans:
  assumes "transfers_evolve d e" and "transfers_evolve e f"
  shows "transfers_evolve d f"
proof -
  from assms(1) obtain olds new where e: "transfers e = olds @ new" "list_all2 row_evolves (transfers d) olds"
    "list_all (\<lambda>r. tr_state r \<in> set lifecycle_states) new" by (auto simp: transfers_evolve_def)
  from assms(2) obtain olds' new' where f: "transfers f = olds' @ new'"
    "list_all2 row_evolves (transfers e) olds'"
    "list_all (\<lambda>r. tr_state r \<in> set lifecycle_states) new'" by (auto simp: transfers_evolve_def)
  from f(2) e(1) obtain xs ys where o': "olds' = xs @ ys" "list_all2 row_evolves olds xs"
    "list_all2 row_evolves new ys" by (auto simp: list_all2_append1)
  have "list_all2 row_evolves (transfers d) xs"
    by (rule list_all2_trans [OF _ e(2) o'(2)]) (rule row_evolves_trans)
  moreover have "list_all (\<lambda>r. tr_state r \<in> set lifecycle_states) ys"
    using o'(3) e(3)
    by (induction rule: list_all2_induct) (auto simp: row_evolves_def dest: state_next_lifecycle)
  ultimately show ?thesis
    using f o' by (intro transfers_evolveI [where olds = xs and new = "ys @ new'"]) simp_all
qed

lemma keeps_evolveI:
  "(\<And>d r d'. q d = (r, d') \<Longrightarrow> transfers_evolve d d') \<Longrightarrow> keeps (transfers_evolve d0) q"
  by (rule keepsI) (metis prod.collapse transfers_evolve_trans)

lemma keeps_evolve_queries:
  "keeps (transfers_evolve d0) (consume_nonce n pk)"
  "keeps (transfers_evolve d0) (consume_rotate_nonce n a)"
  "keeps (transfers_evolve d0) (consume_intent_nonce n a)"
  "keeps (transfers_evolve d0) (insert_ticket_nonce n tid ex)"
  by (rule keeps_evolveI; auto simp: consume_nonce_def consume_rotate_nonce_def consume_intent_nonce_def
      insert_ticket_nonce_def intro: transfers_evolve_same split: if_splits)+

lemma keeps_evolve_update_where:
  "(\<And>r. p r \<Longrightarrow> row_evolves r (f r)) \<Longrightarrow> keeps (transfers_evolve d0) (update_where p f)"
  by (rule keeps_evolveI, rule transfers_evolve_update [where p = p and f = f])
    (auto simp: update_where_def)

lemma keeps_evolve_marks:
  "keeps (transfers_evolve d0) (mark_accepted d tid)"
  "keeps (transfers_evolve d0) (mark_delivered d tid)"
  unfolding mark_accepted_def mark_delivered_def
  by (rule keeps_evolve_update_where; auto simp: row_evolves_def state_next_def)+

lemma transfers_insert_effect:
  "transfers_insert d t db0 = (r, db1) \<Longrightarrow> db1 = db0 \<or>
     (\<exists>row. transfers db1 = transfers db0 @ [row] \<and> tr_state row = it_state t)"
  by (auto simp: transfers_insert_def Let_def split: if_splits)

lemma keeps_evolve_insert:
  assumes "it_state t \<in> {''ready_for_pickup'', ''rejected''}"
  shows "keeps (transfers_evolve d0) (transfers_insert d t)"
proof (rule keeps_evolveI)
  fix e r e' assume "transfers_insert d t e = (r, e')"
  from transfers_insert_effect [OF this] show "transfers_evolve e e'"
    using assms by (auto simp: lifecycle_states_def intro: transfers_evolve_same transfers_evolve_append)
qed

lemma keeps_evolve_agents:
  "keeps (transfers_evolve d0) (agents_insert P d a pk f og nm)"
  "keeps (transfers_evolve d0) (insert_rotation d a h h' pk now)"
  by (rule keeps_evolveI; auto simp: agents_insert_def insert_rotation_def insert_key_row_def Let_def
      intro: transfers_evolve_same split: if_splits prod.splits sum.splits)+

lemmas keeps_evolve [keeps_rules] = keeps_evolve_queries keeps_evolve_marks keeps_evolve_insert
  keeps_evolve_agents


section \<open>Download, acknowledgement, tickets\<close>

lemma on_blobs_iff [step_iffs]:
  "on_blobs m s = (r, s') \<longleftrightarrow> (\<exists>b. m (blobs s) = (r, b) \<and> s' = s\<lparr>blobs := b\<rparr>)"
  by (auto simp: on_blobs_def split: prod.splits)

lemma on_audit_iff [step_iffs]:
  "on_audit m s = (r, s') \<longleftrightarrow> (\<exists>l. m (audit s) = (r, l) \<and> s' = s\<lparr>audit := l\<rparr>)"
  by (auto simp: on_audit_def split: prod.splits)

lemma download_Inr:
  assumes "download_transfer E tid req s = (Inr resp, s')"
  shows "\<exists>row bs b. row_of (db s) tid = Some row \<and> tr_recipient row = rq_recipient_agent_id req
    \<and> receipt_authentic E (db s) tid req ''download''
    \<and> tr_state row \<in> set inbox_states
    \<and> blob_get E tid (blobs s) = (Inr bs, b) \<and> blobs s' = b
    \<and> db s' = snd (mark_accepted (dbe E) tid (db s))
    \<and> resp = \<lparr>dl_transfer_id = tr_transfer_id row, dl_blob_hex = hex_enc (plat E) bs,
        dl_blob_sha256 = (case tr_blob_sha256 row of Some h \<Rightarrow> h | None \<Rightarrow> []),
        dl_filename = tr_filename row, dl_declared_mime = tr_declared_mime row\<rparr>"
  using assms unfolding download_transfer_def
  by (auto simp: step_iffs query_Inr_iff verify_recipient_receipt_Inr_iff inbox_states_def
      split: if_splits dest!: audit_warn_step)

lemma ack_Inr:
  assumes "ack_transfer E tid req s = (Inr resp, s')"
  shows "\<exists>row receipt. row_of (db s) tid = Some row \<and> tr_recipient row = rq_recipient_agent_id req
    \<and> receipt_authentic E (db s) tid req ''ack''
    \<and> (\<exists>r \<in> set (transfers (db s)). tr_transfer_id r = tid \<and> tr_state r \<in> set inbox_states)
    \<and> db s' = snd (mark_delivered (dbe E) tid (db s))
    \<and> audit_append E (audit_now E 0) (audit_uuid E 0) (mk_event TransferDelivered (rq_recipient_agent_id req) tid
         (JObject [(''nonce'', JString (rq_nonce req))])) (audit s) = (Inr receipt, audit s')
    \<and> blobs s' = snd (blob_delete E tid (blobs s))
    \<and> resp = \<lparr>ack_transfer_id = tid, ack_state = ''delivered'', ack_audit_chain_head = er_chain_head receipt\<rparr>"
  using assms unfolding ack_transfer_def
  by (auto simp: step_iffs query_Inr_iff verify_recipient_receipt_Inr_iff inbox_states_def on_metrics_def
      mark_delivered_def update_where_def filter_empty_conv split: if_splits)

lemma issue_ticket_Inr:
  assumes "issue_ticket E tid req s = (Inr t, s')"
  shows "\<exists>row sign canon dp. signer E = Some sign \<and> row_of (db s) tid = Some row
    \<and> tr_recipient row = rq_recipient_agent_id req \<and> tr_state row = ''ready_for_pickup''
    \<and> tr_tunnel_url row = Some dp \<and> receipt_authentic E (db s) tid req ''request_ticket''
    \<and> data_ticket_bytes tid (rq_recipient_agent_id req) dp (now_unix E + 60) (hex_enc (plat E) (random16 E)) = Inr canon
    \<and> insert_ticket_nonce (hex_enc (plat E) (random16 E)) tid (now_unix E + 60) (db s) = (Inr (), db s')
    \<and> t = \<lparr>tk_transfer_id = tid, tk_recipient = rq_recipient_agent_id req, tk_data_plane_url = dp,
        tk_expires = now_unix E + 60, tk_nonce = hex_enc (plat E) (random16 E),
        tk_signature = hex_enc (plat E) (sign canon)\<rparr>"
  using assms unfolding issue_ticket_def Let_def TICKET_TTL_SECONDS_def receipt_authentic_def row_of_def
  by (auto simp: step_iffs query_Inr_iff find_by_transfer_id_def verify_with_valid_keys_Inr_iff
      length_guard [symmetric] split: if_splits)

section \<open>Creation\<close>

definition intent_authentic :: "('l, 'b) env \<Rightarrow> database \<Rightarrow> CreateTransferRequest \<Rightarrow> u64 \<Rightarrow> bool" where
  "intent_authentic E dbs req sz \<longleftrightarrow> (\<exists>canonical sg.
     transfer_intent_bytes (ct_sender_agent_id req) (ct_recipient req) sz (ct_declared_mime req)
       (ct_filename req) (ct_nonce req) (ct_issued_at req) = Inr canonical
     \<and> hex_dec (plat E) (ct_intent_signature_hex req) = Inr sg
     \<and> signed_by_valid_key (plat E) (dbe E) dbs (ct_sender_agent_id req) (clock E 1) canonical sg)"

text \<open>The checks before the branches.\<close>

definition create_admissible :: "('l, 'b) env \<Rightarrow> database \<Rightarrow> CreateTransferRequest \<Rightarrow> AgentRow \<Rightarrow> bool" where
  "create_admissible E dbs req sender_row \<longleftrightarrow> valid_agent_id (ct_sender_agent_id req)
     \<and> db_fault_at E ''find_by_agent_id'' = NoFault
     \<and> List.find (\<lambda>r. ar_agent_id r = ct_sender_agent_id req) (agents dbs) = Some sender_row
     \<and> ct_recipient req \<noteq> [] \<and> valid_nonce (ct_nonce req)
     \<and> is_within_clock_skew (now_unix E) (ct_issued_at req)"

lemma create_transfer_Inr_iff:
  "create_transfer E req s = (Inr resp, s') \<longleftrightarrow> (\<exists>sender_row. create_admissible E (db s) req sender_row \<and>
     (case ct_reachable_at req of
        Some endpoints \<Rightarrow> create_via_endpoints E req (AgentId (ct_sender_agent_id req)) endpoints
      | None \<Rightarrow> (case ct_tunnel_url req of
          Some u \<Rightarrow> create_via_tunnel E req (AgentId (ct_sender_agent_id req)) u
        | None \<Rightarrow> create_with_blob E req (AgentId (ct_sender_agent_id req)) sender_row)) s = (Inr resp, s'))"
  unfolding create_transfer_def create_admissible_def find_by_agent_id_def
  by (auto simp: step_iffs query_Inr_iff length_guard [symmetric] split: if_splits)

lemma intent_canonical_Inr_iff [step_iffs]:
  "intent_canonical req sender sz = Inr c \<longleftrightarrow> transfer_intent_bytes (as_str sender) (ct_recipient req) sz
     (ct_declared_mime req) (ct_filename req) (ct_nonce req) (ct_issued_at req) = Inr c"
  by (simp add: intent_canonical_def step_iffs)

lemma consume_intent_unchecked_Inr_iff [step_iffs]:
  "consume_intent_unchecked E sender n s = (Inr u, s') \<longleftrightarrow>
     db_fault_at E ''consume_intent_nonce'' = NoFault
     \<and> s' = s\<lparr>db := snd (consume_intent_nonce (as_str sender) n (db s))\<rparr>"
  by (cases "consume_intent_nonce (as_str sender) n (db s)"; cases "fst (consume_intent_nonce (as_str sender) n (db s))")
    (auto simp: consume_intent_unchecked_def step_iffs on_db_Inr_iff consume_intent_nonce_def split: if_splits)

end
