(* ===== verification/TransferCreation.thy ===== *)
theory TransferCreation
  imports TransferFlow
begin

text \<open>
  What the creation of a transfer guarantees: the screening of an uploaded blob against its
  abstract account, the single use of an intent nonce, malicious content under a blocking
  policy, and the tunnel and endpoint branches, where a repeated request is accepted again.
\<close>

section \<open>Screening\<close>

text \<open>
  The abstract account of the screening: what the scanners say of the blob, the decision that
  counts, and whether the transfer is stored or rejected.
\<close>

definition blob_verdict :: "('l, 'b) env \<Rightarrow> CreateTransferRequest \<Rightarrow> bytes \<Rightarrow> PipelineVerdict" where
  "blob_verdict E req blob = ScanPipeline_scan (scanners E) (scan_millis E) (scan_input_of req blob)"

definition screening :: "('l, 'b) env \<Rightarrow> CreateTransferRequest \<Rightarrow> AgentId \<Rightarrow> AgentRow \<Rightarrow> bytes \<Rightarrow> PolicyDecision" where
  "screening E req sender sender_row blob =
     (let rk = classify_recipient (ct_recipient req); sz = of_nat (length blob) in
      case policy_evaluate E (pre_scan_request req sender sender_row rk sz) of
        Deny c r \<Rightarrow> Deny c r
      | _ \<Rightarrow> policy_evaluate E (post_scan_request req sender sender_row rk sz (blob_verdict E req blob)))"

definition stored_id :: "('l, 'b) env \<Rightarrow> string" where
  "stored_id E = ''tx_'' @ uuid_simple E"

lemma transfers_insert_Inr:
  "transfers_insert d t db0 = (Inr row, db1) \<Longrightarrow> db1 = db0\<lparr>transfers := transfers db0 @ [row]\<rparr>
     \<and> it_transfer_id t \<notin> tr_transfer_id ` set (transfers db0)
     \<and> tr_transfer_id row = it_transfer_id t \<and> tr_state row = it_state t
     \<and> tr_sender_agent_id row = it_sender_agent_id t \<and> tr_recipient row = it_recipient t
     \<and> tr_size_bytes row = it_size_bytes t \<and> tr_blob_sha256 row = it_blob_sha256 t
     \<and> tr_rejection_code row = it_rejection_code t \<and> tr_tunnel_url row = it_tunnel_url t
     \<and> tr_reachable_at row = (case it_reachable_at t of None \<Rightarrow> [] | Some es \<Rightarrow> es)"
  by (auto simp: transfers_insert_def Let_def list_ex_iff split: if_splits)

lemma persist_rejected_Inr:
  assumes "persist_rejected E k tid sender req rk sz v pd c r s = (Inr row, s')"
  shows "db s' = (db s)\<lparr>transfers := transfers (db s) @ [row]\<rparr> \<and> blobs s' = blobs s
    \<and> tr_transfer_id row = tid \<and> tr_state row = ''rejected'' \<and> tr_rejection_code row = Some c
    \<and> tr_blob_sha256 row = None \<and> tr_sender_agent_id row = as_str sender \<and> tr_recipient row = ct_recipient req
    \<and> tid \<notin> tr_transfer_id ` set (transfers (db s))"
  using assms unfolding persist_rejected_def Let_def
  by (auto simp: step_iffs query_Inr_iff on_metrics_def dest!: audit_warn_step transfers_insert_Inr)

definition screened_as :: "('l, 'b) env \<Rightarrow> CreateTransferRequest \<Rightarrow> AgentId \<Rightarrow> bytes \<Rightarrow> PolicyDecision
    \<Rightarrow> ('l, 'b) app_state \<Rightarrow> TransferRow \<Rightarrow> nat \<Rightarrow> ('l, 'b) app_state \<Rightarrow> bool" where
  "screened_as E req sender blob d s row st s' \<longleftrightarrow>
     db s' = (db s)\<lparr>transfers := transfers (db s) @ [row]\<rparr>
     \<and> tr_transfer_id row = stored_id E \<and> stored_id E \<notin> tr_transfer_id ` set (transfers (db s))
     \<and> tr_sender_agent_id row = as_str sender \<and> tr_recipient row = ct_recipient req
     \<and> (case d of
          Deny c r \<Rightarrow> st = 200 \<and> tr_state row = ''rejected'' \<and> tr_rejection_code row = Some c
            \<and> tr_blob_sha256 row = None \<and> blobs s' = blobs s
        | _ \<Rightarrow> st = 201 \<and> tr_state row = ''ready_for_pickup'' \<and> tr_rejection_code row = None
            \<and> tr_blob_sha256 row = Some (hex_enc (plat E) (sha256 (plat E) blob))
            \<and> blob_put E (stored_id E) blob (blobs s) = (Inr (), blobs s'))"

lemma screen_blob_Inr:
  assumes "screen_blob E req sender sender_row blob s = (Inr resp, s')"
  shows "\<exists>row st. resp = (st, row_to_response row)
    \<and> screened_as E req sender blob (screening E req sender sender_row blob) s row st s'"
  using assms unfolding screen_blob_def Let_def
  by (cases "policy_evaluate E (pre_scan_request req sender sender_row (classify_recipient (ct_recipient req))
        (of_nat (length blob)))";
      cases "policy_evaluate E (post_scan_request req sender sender_row (classify_recipient (ct_recipient req))
        (of_nat (length blob)) (blob_verdict E req blob))")
    (auto simp: step_iffs query_Inr_iff screened_as_def screening_def Let_def blob_verdict_def
      count_created_def on_metrics_def stored_id_def
      dest!: audit_warn_step persist_rejected_Inr transfers_insert_Inr)

lemma create_with_blob_Inr:
  assumes "create_with_blob E req (AgentId (ct_sender_agent_id req)) sender_row s = (Inr resp, s')"
  shows "\<exists>blob d. hex_dec (plat E) (ct_blob_hex req) = Inr blob
    \<and> intent_authentic E (db s) req (of_nat (length blob))
    \<and> consume_intent_nonce (ct_nonce req) (ct_sender_agent_id req) (db s) = (Inr True, d)
    \<and> screen_blob E req (AgentId (ct_sender_agent_id req)) sender_row blob (s\<lparr>db := d\<rparr>) = (Inr resp, s')"
  using assms unfolding create_with_blob_def Let_def
  by (auto simp: step_iffs query_Inr_iff verify_with_valid_keys_Inr_iff intent_authentic_def
      split: if_splits)

text \<open>An uploaded blob that is accepted for processing.\<close>

lemma create_blob_Inr:
  assumes "create_transfer E req s = (Inr resp, s')" "ct_reachable_at req = None" "ct_tunnel_url req = None"
  shows "\<exists>sender_row blob row st d. create_admissible E (db s) req sender_row
    \<and> hex_dec (plat E) (ct_blob_hex req) = Inr blob \<and> intent_authentic E (db s) req (of_nat (length blob))
    \<and> consume_intent_nonce (ct_nonce req) (ct_sender_agent_id req) (db s) = (Inr True, d)
    \<and> resp = (st, row_to_response row)
    \<and> screened_as E req (AgentId (ct_sender_agent_id req)) blob
         (screening E req (AgentId (ct_sender_agent_id req)) sender_row blob) (s\<lparr>db := d\<rparr>) row st s'"
  using assms(1) unfolding create_transfer_Inr_iff
  by (auto simp: assms(2,3) dest!: create_with_blob_Inr screen_blob_Inr) blast

lemma create_blob_nonce_used:
  assumes "ct_nonce req \<in> fst ` set (transfer_intent_nonces (db s))"
    and "ct_reachable_at req = None" "ct_tunnel_url req = None"
  shows "create_transfer E req s \<noteq> (Inr resp, s')"
proof
  assume "create_transfer E req s = (Inr resp, s')"
  from create_blob_Inr [OF this assms(2,3)] obtain d where
    "consume_intent_nonce (ct_nonce req) (ct_sender_agent_id req) (db s) = (Inr True, d)" by blast
  from intent.consume_Inr [OF this] assms(1) show False by simp
qed

text \<open>A row may be added only in the state \<open>rejected\<close>.\<close>

definition only_rejected :: "TransferRow list \<Rightarrow> database \<Rightarrow> bool" where
  "only_rejected ts d \<longleftrightarrow> (\<exists>new. transfers d = ts @ new \<and> list_all (\<lambda>r. tr_state r = ''rejected'') new)"

lemma only_rejected_insert:
  assumes "it_state t = ''rejected''"
  shows "keeps (only_rejected ts) (transfers_insert d t)"
proof (rule keepsI)
  fix e assume "only_rejected ts e"
  moreover obtain r e' where "transfers_insert d t e = (r, e')" by fastforce
  note transfers_insert_effect [OF this] this
  ultimately show "only_rejected ts (snd (transfers_insert d t e))"
    using assms by (auto simp: only_rejected_def)
qed

lemma only_rejected_nonce: "keeps (only_rejected ts) (consume_intent_nonce n a)"
  by (rule keepsI) (auto simp: only_rejected_def consume_intent_nonce_def)

context blocking_policy
begin

text \<open>With a blocking policy, malicious content is neither stored nor offered.\<close>

lemma malicious_denied_after_scan:
  assumes "policy_evaluate E = evaluate" and "overall (blob_verdict E req blob) = Malicious"
  shows "\<exists>c m. policy_evaluate E (post_scan_request req sender sender_row rk sz (blob_verdict E req blob)) = Deny c m"
  unfolding assms(1) by (rule malicious_denied [OF _ assms(2)]) (simp add: post_scan_request_def)

lemma malicious_screened:
  assumes "policy_evaluate E = evaluate"
    and "overall (blob_verdict E req blob) = Malicious"
  shows "keeps (\<lambda>s. only_rejected ts (db s)) (screen_blob E req sender sender_row blob)"
    and "keeps (\<lambda>s. blobs s = b) (screen_blob E req sender sender_row blob)"
proof -
  obtain c m where d: "policy_evaluate E (post_scan_request req sender sender_row
      (classify_recipient (ct_recipient req)) (of_nat (length blob)) (blob_verdict E req blob)) = Deny c m"
    using malicious_denied_after_scan [OF assms] by blast
  note unf = screen_blob_def Let_def blob_verdict_def [symmetric] d PolicyDecision.case
  show "keeps (\<lambda>s. only_rejected ts (db s)) (screen_blob E req sender sender_row blob)"
    unfolding unf by (intro keeps_rules only_rejected_insert) simp_all
  show "keeps (\<lambda>s. blobs s = b) (screen_blob E req sender sender_row blob)"
    unfolding unf persist_rejected_def by (intro keeps_rules) simp_all
qed

lemma malicious_upload:
  assumes "policy_evaluate E = evaluate" "ct_reachable_at req = None" "ct_tunnel_url req = None"
    and "\<And>blob. hex_dec (plat E) (ct_blob_hex req) = Inr blob \<Longrightarrow> overall (blob_verdict E req blob) = Malicious"
  shows "keeps (\<lambda>s. only_rejected ts (db s)) (create_transfer E req)"
    and "keeps (\<lambda>s. blobs s = b) (create_transfer E req)"
proof -
  have decoded: "keeps P (bindS (decode_hex_field E ''blob_hex'' (ct_blob_hex req)) f)"
    if "\<And>blob. overall (blob_verdict E req blob) = Malicious \<Longrightarrow> keeps P (f blob)"
    for P and f :: "bytes \<Rightarrow> ('a, 'b, 'c) handler"
    using that assms(4) by (intro keeps_bindS_outcome keeps_rules) (auto simp: decode_hex_field_Inr_iff)
  note unf = create_transfer_def assms(2,3) option.case create_with_blob_def Let_def find_by_agent_id_def
  show "keeps (\<lambda>s. only_rejected ts (db s)) (create_transfer E req)"
    unfolding unf by (intro decoded keeps_rules only_rejected_nonce malicious_screened(1) [OF assms(1)])
  show "keeps (\<lambda>s. blobs s = b) (create_transfer E req)"
    unfolding unf by (intro decoded keeps_rules malicious_screened(2) [OF assms(1)]) simp_all
qed

end

section \<open>Tunnel and endpoint transfers\<close>

text \<open>The row that the tunnel branch inserts, and the one of the endpoints branch.\<close>

definition remote_row :: "('l, 'b) env \<Rightarrow> CreateTransferRequest \<Rightarrow> u64 \<Rightarrow> string option \<Rightarrow> Endpoint list \<Rightarrow> InsertTransfer" where
  "remote_row E req sz tu eps =
     \<lparr>it_transfer_id = random_transfer_id E, it_sender_agent_id = ct_sender_agent_id req, it_recipient = ct_recipient req,
      it_recipient_kind = recipient_kind_str (classify_recipient (ct_recipient req)), it_state = ''ready_for_pickup'',
      it_size_bytes = sz, it_declared_mime = opt_str (ct_declared_mime req),
      it_filename = opt_str (ct_filename req), it_blob_sha256 = None, it_scanner_verdict = None,
      it_policy_decision = None, it_rejection_code = None, it_rejection_reason = None,
      it_tunnel_url = tu, it_reachable_at = Some eps\<rparr>"

definition after_swapped_nonce :: "CreateTransferRequest \<Rightarrow> database \<Rightarrow> database" where
  "after_swapped_nonce req d = snd (consume_intent_nonce (ct_sender_agent_id req) (ct_nonce req) d)"

definition remote_queries_ok :: "('l, 'b) env \<Rightarrow> bool" where
  "remote_queries_ok E \<longleftrightarrow> db_fault_at E ''valid_public_keys_at'' = NoFault
     \<and> db_fault_at E ''consume_intent_nonce'' = NoFault \<and> db_fault_at E ''transfers_insert'' = NoFault"

lemma create_via_tunnel_Inr_iff:
  "create_via_tunnel E req (AgentId (ct_sender_agent_id req)) u s = (Inr resp, s') \<longleftrightarrow>
     starts_with u ''https://'' \<and> ct_blob_hex req = [] \<and> remote_queries_ok E
     \<and> (skip_tunnel_validation E \<or> verify_tunnel_http_healthz E u = Inr ())
     \<and> (\<exists>sz row d. ct_declared_size req = Some sz \<and> intent_authentic E (db s) req sz
        \<and> transfers_insert (dbe E) (remote_row E req sz (Some u) [cloudflare_quick u]) (after_swapped_nonce req (db s)) = (Inr row, d)
        \<and> resp = (201, row_to_response row)
        \<and> s' = snd (count_created (classify_recipient (ct_recipient req)) (s\<lparr>db := d\<rparr>)))"
  unfolding create_via_tunnel_def Let_def remote_row_def after_swapped_nonce_def remote_queries_ok_def
    intent_authentic_def
  by (auto simp: step_iffs query_Inr_iff verify_with_valid_keys_Inr_iff count_created_def on_metrics_def
      split: if_splits)

definition legacy_url :: "Endpoint list \<Rightarrow> string option" where
  "legacy_url healthy = map_option url (List.find (\<lambda>e. starts_with (url e) ''https://'') healthy)"

lemma create_via_endpoints_Inr_iff:
  "create_via_endpoints E req (AgentId (ct_sender_agent_id req)) eps s = (Inr resp, s') \<longleftrightarrow>
     eps \<noteq> [] \<and> ct_blob_hex req = [] \<and> ct_tunnel_url req = None \<and> remote_queries_ok E
     \<and> at_least_one_healthy (validate_all E eps)
     \<and> (\<exists>sz row d. ct_declared_size req = Some sz \<and> intent_authentic E (db s) req sz
        \<and> transfers_insert (dbe E) (remote_row E req sz (legacy_url (healthy_endpoints (validate_all E eps) eps))
             (healthy_endpoints (validate_all E eps) eps)) (after_swapped_nonce req (db s)) = (Inr row, d)
        \<and> resp = (201, row_to_response row)
        \<and> s' = snd (count_created (classify_recipient (ct_recipient req)) (s\<lparr>db := d\<rparr>)))"
  unfolding create_via_endpoints_def Let_def remote_row_def after_swapped_nonce_def remote_queries_ok_def
    intent_authentic_def legacy_url_def
  by (auto simp: step_iffs query_Inr_iff verify_with_valid_keys_Inr_iff count_created_def on_metrics_def
      split: if_splits)

lemma transfers_insert_fresh:
  "it_transfer_id t \<notin> tr_transfer_id ` set (transfers e) \<Longrightarrow>
   \<exists>row. transfers_insert d t e = (Inr row, e\<lparr>transfers := transfers e @ [row]\<rparr>)"
  by (force simp: transfers_insert_def Let_def list_ex_iff)

lemma after_swapped_nonce_frame [simp]:
  "transfers (after_swapped_nonce req d) = transfers d" "agent_keys (after_swapped_nonce req d) = agent_keys d"
  "agents (after_swapped_nonce req d) = agents d"
  by (simp_all add: after_swapped_nonce_def consume_intent_nonce_def)

text \<open>
  The same request, sent a second time, is accepted a second time: the nonce check of the tunnel
  and endpoint branches stops nothing.
\<close>

lemma remote_step:
  assumes "create_transfer E req s = (Inr resp, s')" "ct_reachable_at req \<noteq> None \<or> ct_tunnel_url req \<noteq> None"
  shows "agents (db s') = agents (db s) \<and> agent_keys (db s') = agent_keys (db s)
    \<and> (\<exists>row. transfers (db s') = transfers (db s) @ [row] \<and> resp = (201, row_to_response row)
        \<and> tr_transfer_id row = random_transfer_id E \<and> tr_state row = ''ready_for_pickup'')"
  using assms
  by (auto simp: create_transfer_Inr_iff create_via_tunnel_Inr_iff create_via_endpoints_Inr_iff
      remote_row_def count_created_def on_metrics_def split: option.splits dest!: transfers_insert_Inr)

lemma create_admissible_cong:
  "agents d = agents d' \<Longrightarrow> create_admissible E d req r = create_admissible E d' req r"
  by (simp add: create_admissible_def)

lemma intent_authentic_cong:
  "agent_keys d = agent_keys d' \<Longrightarrow> intent_authentic E d req sz = intent_authentic E d' req sz"
  by (simp add: intent_authentic_def signed_by_valid_key_def)

lemma random16_probes:
  "healthz_attempts (E\<lparr>random16 := w\<rparr>) u ks l = healthz_attempts E u ks l"
  "probe_endpoint (E\<lparr>random16 := w\<rparr>) i ep = probe_endpoint E i ep"
  "validate_all (E\<lparr>random16 := w\<rparr>) eps = validate_all E eps"
proof -
  show "healthz_attempts (E\<lparr>random16 := w\<rparr>) u ks l = healthz_attempts E u ks l" for u ks l
    by (induction E u ks l rule: healthz_attempts.induct) (auto split: http_result.splits)
  show p: "probe_endpoint (E\<lparr>random16 := w\<rparr>) i ep = probe_endpoint E i ep" for i ep
    by (simp add: probe_endpoint_def probe_http_healthz_def Let_def cong: http_result.case_cong)
  show "validate_all (E\<lparr>random16 := w\<rparr>) eps = validate_all E eps"
    by (simp add: validate_all_def p split: prod.splits)
qed

lemma random16_frame:
  "create_admissible (E\<lparr>random16 := w\<rparr>) d req r = create_admissible E d req r"
  "intent_authentic (E\<lparr>random16 := w\<rparr>) d req sz = intent_authentic E d req sz"
  "remote_queries_ok (E\<lparr>random16 := w\<rparr>) = remote_queries_ok E"
  "verify_tunnel_http_healthz (E\<lparr>random16 := w\<rparr>) u = verify_tunnel_http_healthz E u"
  by (simp_all add: create_admissible_def intent_authentic_def remote_queries_ok_def
      verify_tunnel_http_healthz_def now_unix_def random16_probes split: option.splits)

lemma remote_insert_again:
  assumes "agents (db s') = agents (db s)" "agent_keys (db s') = agent_keys (db s)"
    and "create_transfer E req s = (Inr resp, s')" "ct_reachable_at req \<noteq> None \<or> ct_tunnel_url req \<noteq> None"
    and fresh: "random_transfer_id (E\<lparr>random16 := w\<rparr>) \<notin> tr_transfer_id ` set (transfers (db s'))"
  shows "\<exists>resp' s''. create_transfer (E\<lparr>random16 := w\<rparr>) req s' = (Inr resp', s'')"
proof -
  let ?E = "E\<lparr>random16 := w\<rparr>"
  note cong = create_admissible_cong [OF assms(1)] intent_authentic_cong [OF assms(2)]
  have ins: "\<exists>row d. transfers_insert (dbe E) (remote_row ?E req sz tu eps) (after_swapped_nonce req (db s')) = (Inr row, d)"
    for sz tu eps
    using transfers_insert_fresh [of "remote_row ?E req sz tu eps" "after_swapped_nonce req (db s')" "dbe E"] fresh
    by (fastforce simp: remote_row_def)
  show ?thesis
    using assms(3,4) ins
    by (auto simp: create_transfer_Inr_iff create_via_tunnel_Inr_iff create_via_endpoints_Inr_iff
        random16_frame random16_probes cong split: option.splits)
qed

lemma remote_replay:
  assumes "create_transfer E req s = (Inr resp, s')" "ct_reachable_at req \<noteq> None \<or> ct_tunnel_url req \<noteq> None"
    and "random_transfer_id (E\<lparr>random16 := w\<rparr>) \<notin> tr_transfer_id ` set (transfers (db s'))"
  shows "\<exists>resp' s''. create_transfer (E\<lparr>random16 := w\<rparr>) req s' = (Inr resp', s'')
    \<and> length (transfers (db s'')) = length (transfers (db s)) + 2"
proof -
  note one = remote_step [OF assms(1,2)]
  obtain resp' s'' where two: "create_transfer (E\<lparr>random16 := w\<rparr>) req s' = (Inr resp', s'')"
    using remote_insert_again [OF _ _ assms] one by blast
  from one remote_step [OF two assms(2)] have "length (transfers (db s'')) = length (transfers (db s)) + 2" by auto
  with two show ?thesis by blast
qed

end
