(* ===== verification/Inbox.thy ===== *)
theory Inbox
  imports TransferFlow
begin

text \<open>
  The inbox endpoint (\<open>aex-control-plane/src/routes/inbox.rs\<close>): an agent lists the transfers
  that wait for it.  The lemmas say who may list what, and when the list is complete.
\<close>

section \<open>The handler\<close>

definition INBOX_TRANSFER_MARKER :: string where
  "INBOX_TRANSFER_MARKER = ''inbox''"

definition INBOX_LIMIT :: nat where
  "INBOX_LIMIT = 100"

record InboxRequest =
  ib_recipient_agent_id :: string
  ib_nonce :: string
  ib_issued_at :: i64
  ib_signature_hex :: string

record InboxEntry =
  ie_transfer_id :: string
  ie_sender_agent_id :: string
  ie_state :: string
  ie_size_bytes :: u64
  ie_declared_mime :: "string option"
  ie_filename :: "string option"
  ie_created_at :: instant

record InboxResponse =
  ir_agent_id :: string
  ir_count :: nat
  ir_entries :: "InboxEntry list"

definition inbox_entry :: "TransferRow \<Rightarrow> InboxEntry" where
  "inbox_entry r = \<lparr>ie_transfer_id = tr_transfer_id r, ie_sender_agent_id = tr_sender_agent_id r,
     ie_state = tr_state r, ie_size_bytes = tr_size_bytes r, ie_declared_mime = tr_declared_mime r,
     ie_filename = tr_filename r, ie_created_at = tr_created_at r\<rparr>"

definition list_inbox :: "('l, 'b) env \<Rightarrow> InboxRequest \<Rightarrow> ('l, 'b, InboxResponse) handler" where
  "list_inbox E req =
     bindS (ensureS (\<not> (length (ib_nonce req) < MIN_NONCE_LEN \<or> length (ib_nonce req) > MAX_NONCE_LEN))
       (BadRequest ''nonce length out of range'')) (\<lambda>_.
     bindS (ensureS (list_all is_ascii_hexdigit (ib_nonce req)) (BadRequest ''nonce must be hex'')) (\<lambda>_.
     bindS (ensureS (is_within_clock_skew (now_unix E) (ib_issued_at req))
       (BadRequest ''issued_at outside allowed skew'')) (\<lambda>_.
     bindS (liftS (map_err from_core (AgentId_new (ib_recipient_agent_id req)))) (\<lambda>recipient.
     bindS (liftS (map_err (\<lambda>e. BadRequest (''canonical: '' @ core_error_text e))
       (transfer_receipt_bytes (as_str recipient) INBOX_TRANSFER_MARKER ''inbox'' (ib_nonce req)
          (ib_issued_at req)))) (\<lambda>canonical.
     bindS (decode_hex_field E ''signature_hex'' (ib_signature_hex req)) (\<lambda>sig_bytes.
     bindS (verify_with_valid_keys E (as_str recipient) (clock E 1) canonical sig_bytes) (\<lambda>_.
     bindS (query E ''list_inbox'' (transfers_list_inbox (as_str recipient) INBOX_LIMIT)) (\<lambda>rows.
     let entries = map inbox_entry rows in
     returnS \<lparr>ir_agent_id = as_str recipient, ir_count = length entries, ir_entries = entries\<rparr>))))))))"

section \<open>Who sees what\<close>

definition inbox_receipt :: "InboxRequest \<Rightarrow> RecipientReceiptRequest" where
  "inbox_receipt req = \<lparr>rq_recipient_agent_id = ib_recipient_agent_id req, rq_nonce = ib_nonce req,
     rq_issued_at = ib_issued_at req, rq_signature_hex = ib_signature_hex req\<rparr>"

definition waiting_for :: "string \<Rightarrow> database \<Rightarrow> TransferRow list" where
  "waiting_for a d = filter (\<lambda>r. tr_recipient r = a \<and> tr_state r \<in> set inbox_states) (transfers d)"

lemma list_inbox_Inr_iff:
  "list_inbox E req s = (Inr resp, s') \<longleftrightarrow> s' = s
     \<and> receipt_authentic E (db s) ''inbox'' (inbox_receipt req) ''inbox''
     \<and> db_fault_at E ''valid_public_keys_at'' = NoFault \<and> db_fault_at E ''list_inbox'' = NoFault
     \<and> resp = (let rows = take 100 (sort_key (\<lambda>r. - tr_created_at r) (waiting_for (ib_recipient_agent_id req) (db s)))
        in \<lparr>ir_agent_id = ib_recipient_agent_id req, ir_count = length rows, ir_entries = map inbox_entry rows\<rparr>)"
  unfolding list_inbox_def receipt_authentic_def inbox_receipt_def waiting_for_def INBOX_TRANSFER_MARKER_def INBOX_LIMIT_def
  by (auto simp: step_iffs query_Inr_iff transfers_list_inbox_def verify_with_valid_keys_Inr_iff Let_def
      length_guard [symmetric] split: if_splits)

lemma keeps_list_inbox: "keeps P (list_inbox E req)"
  unfolding list_inbox_def transfers_list_inbox_def Let_def by (intro keeps_rules)

lemma sorted_newest_first:
  "sorted_wrt (\<lambda>a b. tr_created_at a \<ge> tr_created_at b) (take n (sort_key (\<lambda>r. - tr_created_at r) rs))"
proof -
  have "sorted (map (\<lambda>r. - tr_created_at r) (sort_key (\<lambda>r. - tr_created_at r) rs))" by simp
  then show ?thesis by (auto simp: sorted_map sorted_wrt_take elim: sorted_wrt_mono_rel [rotated])
qed

end
