(* ===== verification/HealthMonitor.thy ===== *)
theory HealthMonitor
  imports TransferFlow
begin

text \<open>
  The background health loop (\<open>aex-control-plane/src/health_monitor.rs\<close>): one pass probes the
  endpoints of the transfers that wait for pickup, folds every outcome through the debouncer of
  \<open>Endpoint\<close> and writes the endpoints back.  \<open>dyn EndpointProber\<close> is the field \<open>mon_probe\<close>, on the
  number of the probe in the pass; the update of the \<open>i\<close>-th transfer may fail by \<open>mon_persist_fault i\<close>.
\<close>

section \<open>The monitor\<close>

definition IN_FLIGHT_INTERVAL :: nat where
  "IN_FLIGHT_INTERVAL = 30"

definition AT_REST_INTERVAL :: nat where
  "AT_REST_INTERVAL = 5 * 60"

datatype ProbeOutcome = ProbeSuccess | ProbeFailure

record monitor =
  mon_probe :: "nat \<Rightarrow> Endpoint \<Rightarrow> ProbeOutcome"
  mon_now_unix :: i64
  mon_metrics :: bool
  mon_load_fault :: db_fault
  mon_persist_fault :: "nat \<Rightarrow> db_fault"

definition ValidatorProber_probe :: "('l, 'b) env \<Rightarrow> Endpoint \<Rightarrow> ProbeOutcome" where
  "ValidatorProber_probe E endpoint =
     (let report = validate_all E [endpoint] in
      if at_least_one_healthy report then ProbeSuccess else ProbeFailure)"

definition fold_health :: "Endpoint \<Rightarrow> ProbeOutcome \<Rightarrow> i64 \<Rightarrow> Endpoint" where
  "fold_health ep outcome now =
     (let current = (case health ep of Some h \<Rightarrow> h | None \<Rightarrow> fresh_healthy now);
          next_health = (case outcome of
             ProbeSuccess \<Rightarrow> on_probe_success current now
           | ProbeFailure \<Rightarrow> on_probe_failure current now)
      in ep\<lparr>health := Some next_health\<rparr>)"

definition load_in_flight_transfers :: "(string \<times> Endpoint list) list query" where
  "load_in_flight_transfers = getS (\<lambda>db.
     map (\<lambda>r. (tr_transfer_id r, tr_reachable_at r)) (take 500 (sort_key tr_created_at
       (filter (\<lambda>r. tr_state r = ''ready_for_pickup'' \<and> length (tr_reachable_at r) > 0) (transfers db)))))"

definition persist_reachable_at :: "string \<Rightarrow> Endpoint list \<Rightarrow> unit query" where
  "persist_reachable_at transfer_id endpoints =
     bindS (update_where (\<lambda>r. tr_transfer_id r = transfer_id) (\<lambda>r. r\<lparr>tr_reachable_at := endpoints\<rparr>))
       (\<lambda>_. returnS ())"

definition count_probe :: "bool \<Rightarrow> ProbeOutcome \<Rightarrow> metrics \<Rightarrow> metrics" where
  "count_probe on outcome m =
     (if on then m\<lparr>health_probes_total := inc_label (case outcome of
          ProbeSuccess \<Rightarrow> ''success'' | ProbeFailure \<Rightarrow> ''failure'') (health_probes_total m)\<rparr> else m)"

definition count_transition :: "bool \<Rightarrow> HealthStatus option \<Rightarrow> HealthStatus option \<Rightarrow> metrics \<Rightarrow> metrics" where
  "count_transition on prior new m =
     (if on \<and> prior \<noteq> None \<and> prior \<noteq> new
      then m\<lparr>health_transitions_total := inc_label (case new of
          Some Healthy \<Rightarrow> ''to_healthy'' | Some Unhealthy \<Rightarrow> ''to_unhealthy'' | None \<Rightarrow> ''to_unknown'')
          (health_transitions_total m)\<rparr> else m)"

text \<open>The inner loop, from probe number \<open>k\<close> on.\<close>

fun probe_endpoints :: "monitor \<Rightarrow> nat \<Rightarrow> Endpoint list \<Rightarrow> metrics \<Rightarrow> Endpoint list \<times> metrics" where
  "probe_endpoints M k [] m = ([], m)"
| "probe_endpoints M k (ep # eps) m =
     (let prior_status = map_option status (health ep);
          outcome = mon_probe M k ep;
          m1 = count_probe (mon_metrics M) outcome m;
          next_ep = fold_health ep outcome (mon_now_unix M);
          m2 = count_transition (mon_metrics M) prior_status (map_option status (health next_ep)) m1;
          (updated, m3) = probe_endpoints M (Suc k) eps m2
      in (next_ep # updated, m3))"

text \<open>The outer loop: \<open>k\<close> probes and \<open>i\<close> updates are done, \<open>touched\<close> transfers are counted.\<close>

fun tick_rows :: "monitor \<Rightarrow> nat \<Rightarrow> nat \<Rightarrow> nat \<Rightarrow> (string \<times> Endpoint list) list
    \<Rightarrow> (('l, 'b) app_state, sqlx_error, nat) action" where
  "tick_rows M k i touched [] = returnS touched"
| "tick_rows M k i touched ((transfer_id, endpoints) # rows) =
     (if endpoints = [] then tick_rows M k i touched rows
      else
        bindS (getS (\<lambda>s. probe_endpoints M k endpoints (metrics_of s))) (\<lambda>(updated, m).
        bindS (modifyS (\<lambda>s. s\<lparr>metrics_of := m\<rparr>)) (\<lambda>_.
        bindS (on_db (mon_persist_fault M i) (persist_reachable_at transfer_id updated)) (\<lambda>_.
        tick_rows M (k + length endpoints) (Suc i) (Suc touched) rows))))"

definition tick :: "monitor \<Rightarrow> (('l, 'b) app_state, sqlx_error, nat) action" where
  "tick M =
     bindS (on_db (mon_load_fault M) load_in_flight_transfers) (\<lambda>rows.
     bindS (if mon_metrics M then modifyS (\<lambda>s. s\<lparr>metrics_of := (metrics_of s)\<lparr>in_flight_transfers := int (length rows)\<rparr>\<rparr>)
            else returnS ()) (\<lambda>_.
     tick_rows M 0 0 0 rows))"

text \<open>The pause that the loop makes after a pass.\<close>

definition next_interval :: "sqlx_error + nat \<Rightarrow> nat" where
  "next_interval tick_result =
     (case tick_result of
        Inr touched \<Rightarrow> if touched > 0 then IN_FLIGHT_INTERVAL else AT_REST_INTERVAL
      | Inl e \<Rightarrow> AT_REST_INTERVAL)"

section \<open>One pass\<close>

lemma keeps_evolve_persist [keeps_rules]: "keeps (transfers_evolve d0) (persist_reachable_at tid eps)"
  unfolding persist_reachable_at_def
  by (intro keeps_rules keeps_evolve_update_where) (simp add: row_evolves_def state_next_def)

lemma keeps_wf_persist [keeps_rules]: "keeps db_wf (persist_reachable_at tid eps)"
  unfolding persist_reachable_at_def by (intro keeps_rules keeps_update_where) simp

lemma keeps_case_prod [keeps_rules]:
  "(\<And>a b. x = (a, b) \<Longrightarrow> keeps P (f a b)) \<Longrightarrow> keeps P (case x of (a, b) \<Rightarrow> f a b)"
  by (cases x) simp

lemma tick_rows_keeps:
  assumes "\<And>tid eps. keeps P (persist_reachable_at tid eps)"
  shows "keeps (\<lambda>s. P (db s)) (tick_rows M k i n rows)"
proof (induction M k i n rows rule: tick_rows.induct)
  case (2 M k i n tid eps rows)
  then show ?case
    by (cases "eps = []") (simp, simp only: tick_rows.simps if_False, intro keeps_rules assms, simp_all)
qed (simp add: keeps_def)

lemma tick_keeps_db:
  assumes "\<And>tid eps. keeps P (persist_reachable_at tid eps)"
  shows "keeps (\<lambda>s. P (db s)) (tick M)"
  unfolding tick_def load_in_flight_transfers_def getS_def
  by (intro keeps_rules tick_rows_keeps assms) (simp_all add: keeps_def)

text \<open>
  The specification of a probe: the \<open>k\<close>-th answer of the prober moves the health of the endpoint it was
  asked about, which starts out healthy, one step, and nothing else.
\<close>

definition after_probe :: "monitor \<Rightarrow> nat \<Rightarrow> Endpoint \<Rightarrow> Endpoint" where
  "after_probe M k e =
     (let h = (case health e of Some h \<Rightarrow> h | None \<Rightarrow> fresh_healthy (mon_now_unix M)) in
      e\<lparr>health := Some (if mon_probe M k e = ProbeSuccess then on_probe_success h (mon_now_unix M)
        else on_probe_failure h (mon_now_unix M))\<rparr>)"

text \<open>The endpoints of a list after the probes from number \<open>k\<close> on, and the answers to these probes.\<close>

definition after_probes :: "monitor \<Rightarrow> nat \<Rightarrow> Endpoint list \<Rightarrow> Endpoint list" where
  "after_probes M k eps = map2 (after_probe M) [k..<k + length eps] eps"

definition answers :: "monitor \<Rightarrow> nat \<Rightarrow> Endpoint list \<Rightarrow> ProbeOutcome list" where
  "answers M k eps = map2 (mon_probe M) [k..<k + length eps] eps"

lemma after_probes_simps [simp]:
  "after_probes M k [] = []" "after_probes M k (e # eps) = after_probe M k e # after_probes M (Suc k) eps"
  by (simp_all add: after_probes_def upt_conv_Cons del: upt_Suc)

lemma answers_simps [simp]:
  "answers M k [] = []" "answers M k (e # eps) = mon_probe M k e # answers M (Suc k) eps"
  by (simp_all add: answers_def upt_conv_Cons del: upt_Suc)

lemma answers_append: "answers M k (xs @ ys) = answers M k xs @ answers M (k + length xs) ys"
  by (induction xs arbitrary: k) simp_all

text \<open>What the counters say of these answers, if there are counters.\<close>

definition probes_counted :: "monitor \<Rightarrow> ProbeOutcome list \<Rightarrow> metrics \<Rightarrow> metrics \<Rightarrow> bool" where
  "probes_counted M outs m m' \<longleftrightarrow> (if mon_metrics M
     then health_probes_total m' ''success'' = health_probes_total m ''success'' + count_list outs ProbeSuccess
       \<and> health_probes_total m' ''failure'' = health_probes_total m ''failure'' + count_list outs ProbeFailure
       \<and> in_flight_transfers m' = in_flight_transfers m
     else m' = m)"

lemma probes_counted_append:
  "probes_counted M xs m m1 \<Longrightarrow> probes_counted M ys m1 m2 \<Longrightarrow> probes_counted M (xs @ ys) m m2"
  by (auto simp: probes_counted_def split: if_splits)

lemma fold_health_after: "fold_health e (mon_probe M k e) (mon_now_unix M) = after_probe M k e"
  by (cases "mon_probe M k e") (simp_all add: fold_health_def after_probe_def Let_def)

lemma one_probe_counted:
  "probes_counted M [mon_probe M k e] m
     (count_transition (mon_metrics M) p q (count_probe (mon_metrics M) (mon_probe M k e) m))"
  by (cases "mon_probe M k e") (simp_all add: probes_counted_def count_transition_def count_probe_def inc_label_def)

lemma probe_endpoints_exact:
  "probe_endpoints M k eps m = (us, m') \<Longrightarrow> us = after_probes M k eps \<and> probes_counted M (answers M k eps) m m'"
proof (induction M k eps m arbitrary: us m' rule: probe_endpoints.induct)
  case (2 M k e eps m)
  let ?m = "count_transition (mon_metrics M) (map_option status (health e)) (map_option status (health (after_probe M k e)))
    (count_probe (mon_metrics M) (mon_probe M k e) m)"
  obtain vs where vs: "probe_endpoints M (Suc k) eps ?m = (vs, m')" "us = after_probe M k e # vs"
    using "2.prems" by (auto simp: Let_def fold_health_after split: prod.splits)
  have "vs = after_probes M (Suc k) eps \<and> probes_counted M (answers M (Suc k) eps) ?m m'"
    by (rule "2.IH" [OF refl refl refl _ _ vs(1)]) (simp_all add: fold_health_after)
  moreover from this have "probes_counted M ([mon_probe M k e] @ answers M (Suc k) eps) m m'"
    by (intro probes_counted_append [OF one_probe_counted]) blast
  ultimately show ?case using vs(2) by simp
qed (simp add: probes_counted_def)

lemma persist_Inr:
  "on_db f (persist_reachable_at tid us) s = (Inr u, s') \<Longrightarrow>
   s' = s\<lparr>db := (db s)\<lparr>transfers := map (\<lambda>r. if tr_transfer_id r = tid then r\<lparr>tr_reachable_at := us\<rparr> else r)
     (transfers (db s))\<rparr>\<rparr>"
  by (auto simp: on_db_Inr_iff persist_reachable_at_def update_where_def step_iffs)

text \<open>
  The specification of a pass over the transfers \<open>sel\<close>: the endpoints of each of them are probed, one
  transfer after another, and written back; every other transfer stays.  The second form says where the
  numbering of the probes of a transfer begins.
\<close>

fun pass_from :: "monitor \<Rightarrow> nat \<Rightarrow> TransferRow list \<Rightarrow> TransferRow \<Rightarrow> TransferRow" where
  "pass_from M k [] r = r"
| "pass_from M k (q # sel) r =
     (if tr_transfer_id r = tr_transfer_id q then r\<lparr>tr_reachable_at := after_probes M k (tr_reachable_at q)\<rparr>
      else pass_from M (k + length (tr_reachable_at q)) sel r)"

definition probes_before :: "TransferRow list \<Rightarrow> TransferRow \<Rightarrow> nat" where
  "probes_before sel r = length (concat (map tr_reachable_at (takeWhile (\<lambda>q. q \<noteq> r) sel)))"

definition after_pass :: "monitor \<Rightarrow> TransferRow list \<Rightarrow> TransferRow \<Rightarrow> TransferRow" where
  "after_pass M sel r =
     (if r \<in> set sel then r\<lparr>tr_reachable_at := after_probes M (probes_before sel r) (tr_reachable_at r)\<rparr> else r)"

lemma pass_from_other: "tr_transfer_id r \<notin> tr_transfer_id ` set sel \<Longrightarrow> pass_from M k sel r = r"
  by (induction sel arbitrary: k) auto

lemma pass_from_closed:
  assumes "inj_on tr_transfer_id R" "set sel \<subseteq> R" "r \<in> R"
  shows "pass_from M k sel r =
    (if r \<in> set sel then r\<lparr>tr_reachable_at := after_probes M (k + probes_before sel r) (tr_reachable_at r)\<rparr> else r)"
  using assms(2)
proof (induction sel arbitrary: k)
  case (Cons q sel)
  have "tr_transfer_id r = tr_transfer_id q \<longleftrightarrow> r = q" using assms(1,3) Cons.prems by (auto dest: inj_onD)
  with Cons show ?case by (auto simp: probes_before_def add.assoc)
qed simp

abbreviation row_key :: "TransferRow \<Rightarrow> string \<times> Endpoint list" where
  "row_key r \<equiv> (tr_transfer_id r, tr_reachable_at r)"

lemma tick_rows_Inr:
  "tick_rows M k i n (map row_key sel) s = (Inr n', s') \<Longrightarrow> distinct (map tr_transfer_id sel) \<Longrightarrow> [] \<notin> tr_reachable_at ` set sel \<Longrightarrow>
   n' = n + length sel \<and> (\<exists>m. s' = s\<lparr>db := (db s)\<lparr>transfers := map (pass_from M k sel) (transfers (db s))\<rparr>, metrics_of := m\<rparr>
     \<and> probes_counted M (answers M k (concat (map tr_reachable_at sel))) (metrics_of s) m)"
proof (induction sel arbitrary: k i n s)
  case Nil
  then show ?case by (auto simp: probes_counted_def intro!: exI [of _ "metrics_of s"])
next
  case (Cons q sel)
  let ?eps = "tr_reachable_at q"
  from Cons.prems obtain us m1 s1 where
    us: "probe_endpoints M k ?eps (metrics_of s) = (us, m1)"
    and s1: "on_db (mon_persist_fault M i) (persist_reachable_at (tr_transfer_id q) us) (s\<lparr>metrics_of := m1\<rparr>) = (Inr (), s1)"
    and rest: "tick_rows M (k + length ?eps) (Suc i) (Suc n) (map row_key sel) s1 = (Inr n', s')"
    by (auto simp: step_iffs split: prod.splits if_splits)
  let ?g = "\<lambda>r. if tr_transfer_id r = tr_transfer_id q then r\<lparr>tr_reachable_at := us\<rparr> else r"
  have s1': "s1 = s\<lparr>metrics_of := m1, db := (db s)\<lparr>transfers := map ?g (transfers (db s))\<rparr>\<rparr>"
    using persist_Inr [OF s1] by simp
  note u = probe_endpoints_exact [OF us]
  have "pass_from M (k + length ?eps) sel (?g r) = pass_from M k (q # sel) r" for r
    using Cons.prems(2) u by (auto intro!: pass_from_other)
  moreover from Cons.IH [OF rest] Cons.prems(2,3) obtain m where
    m: "n' = Suc n + length sel"
      "s' = s1\<lparr>db := (db s1)\<lparr>transfers := map (pass_from M (k + length ?eps) sel) (transfers (db s1))\<rparr>, metrics_of := m\<rparr>"
      "probes_counted M (answers M (k + length ?eps) (concat (map tr_reachable_at sel))) (metrics_of s1) m" by auto
  moreover have "probes_counted M (answers M k (concat (map tr_reachable_at (q # sel)))) (metrics_of s) m"
    using probes_counted_append [OF u [THEN conjunct2], of _ m] m(3) by (simp add: s1' answers_append)
  ultimately show ?case by (auto simp: s1' comp_def)
qed

text \<open>The transfers of a pass: at most \<open>n\<close> of those that qualify, and none of the others is older.\<close>

definition oldest_first :: "nat \<Rightarrow> (TransferRow \<Rightarrow> bool) \<Rightarrow> TransferRow list \<Rightarrow> TransferRow list \<Rightarrow> bool" where
  "oldest_first n q rows sel \<longleftrightarrow> distinct sel \<and> length sel \<le> n
     \<and> sorted_wrt (\<lambda>a b. tr_created_at a \<le> tr_created_at b) sel \<and> set sel \<subseteq> {r \<in> set rows. q r}
     \<and> (\<forall>r \<in> set rows. q r \<and> r \<notin> set sel \<longrightarrow> length sel = n \<and> (\<forall>p \<in> set sel. tr_created_at p \<le> tr_created_at r))"

lemma oldest_first_take:
  assumes "distinct rows"
  shows "oldest_first n q rows (take n (sort_key tr_created_at (filter q rows)))"
proof -
  let ?all = "sort_key tr_created_at (filter q rows)"
  have sorted: "sorted_wrt (\<lambda>a b. tr_created_at a \<le> tr_created_at b) ?all"
    using sorted_sort_key [of tr_created_at "filter q rows"] by (simp add: sorted_wrt_map)
  have "length (take n ?all) = n \<and> (\<forall>p \<in> set (take n ?all). tr_created_at p \<le> tr_created_at r)"
    if "r \<in> set rows" "q r" "r \<notin> set (take n ?all)" for r
  proof -
    have "r \<in> set (take n ?all @ drop n ?all)" using that(1,2) by simp
    then have r: "r \<in> set (drop n ?all)" using that(3) by (auto simp del: append_take_drop_id)
    with sorted sorted_wrt_append [of "\<lambda>a b. tr_created_at a \<le> tr_created_at b" "take n ?all" "drop n ?all"]
    have "\<forall>p \<in> set (take n ?all). tr_created_at p \<le> tr_created_at r" by simp
    moreover have "n \<le> length ?all" using r by (cases "n \<le> length ?all") auto
    ultimately show ?thesis by simp
  qed
  then show ?thesis
    using assms sorted by (auto simp: oldest_first_def sorted_wrt_take dest: in_set_takeD)
qed

lemma tick_Inr:
  assumes "tick M s = (Inr n, s')" and "distinct (map tr_transfer_id (transfers (db s)))"
  shows "\<exists>sel m. oldest_first 500 (\<lambda>r. tr_state r = ''ready_for_pickup'' \<and> tr_reachable_at r \<noteq> []) (transfers (db s)) sel
    \<and> n = length sel
    \<and> s' = s\<lparr>db := (db s)\<lparr>transfers := map (after_pass M sel) (transfers (db s))\<rparr>, metrics_of := m\<rparr>
    \<and> probes_counted M (answers M 0 (concat (map tr_reachable_at sel)))
        (if mon_metrics M then (metrics_of s)\<lparr>in_flight_transfers := int n\<rparr> else metrics_of s) m"
proof -
  let ?rows = "transfers (db s)"
  define sel where "sel = take 500 (sort_key tr_created_at
    (filter (\<lambda>r. tr_state r = ''ready_for_pickup'' \<and> tr_reachable_at r \<noteq> []) ?rows))"
  have load: "load_in_flight_transfers (db s) = (Inr (map row_key sel), db s)"
    by (simp add: load_in_flight_transfers_def sel_def)
  have old: "oldest_first 500 (\<lambda>r. tr_state r = ''ready_for_pickup'' \<and> tr_reachable_at r \<noteq> []) ?rows sel"
    unfolding sel_def using assms(2) by (intro oldest_first_take) (simp add: distinct_map)
  then have sel: "distinct sel" "set sel \<subseteq> set ?rows" "[] \<notin> tr_reachable_at ` set sel"
    by (auto simp: oldest_first_def)
  have inj: "inj_on tr_transfer_id (set ?rows)" using assms(2) by (simp add: distinct_map)
  then have "distinct (map tr_transfer_id sel)" using sel by (auto simp: distinct_map intro: inj_on_subset)
  moreover define s1 where "s1 = s\<lparr>metrics_of :=
    (if mon_metrics M then (metrics_of s)\<lparr>in_flight_transfers := int (length sel)\<rparr> else metrics_of s)\<rparr>"
  moreover have "tick_rows M 0 0 0 (map row_key sel) s1 = (Inr n, s')"
    using assms(1) load by (auto simp: tick_def step_iffs on_db_Inr_iff s1_def split: if_splits)
  ultimately obtain m where m: "n = length sel"
    "s' = s1\<lparr>db := (db s1)\<lparr>transfers := map (pass_from M 0 sel) (transfers (db s1))\<rparr>, metrics_of := m\<rparr>"
    "probes_counted M (answers M 0 (concat (map tr_reachable_at sel))) (metrics_of s1) m"
    using tick_rows_Inr [of M 0 0 0 sel s1 n s'] sel(3) by auto
  have "map (pass_from M 0 sel) ?rows = map (after_pass M sel) ?rows"
    using pass_from_closed [OF inj sel(2)] by (simp add: after_pass_def)
  with m old show ?thesis
    by (intro exI [of _ sel] exI [of _ m]) (simp add: s1_def split: if_splits)
qed

section \<open>Many passes\<close>

definition monitor_fold :: "Endpoint \<Rightarrow> bool \<times> i64 \<Rightarrow> Endpoint" where
  "monitor_fold ep p = fold_health ep (if fst p then ProbeSuccess else ProbeFailure) (snd p)"

lemma monitor_fold_seeded:
  "health ep = Some h \<Longrightarrow> health (foldl monitor_fold ep ps) = Some (foldl on_probe h ps)"
  by (induction ps arbitrary: ep h) (auto simp: monitor_fold_def fold_health_def on_probe_def Let_def)

lemma monitor_history:
  assumes "health ep = None" "ps \<noteq> []"
  shows "\<exists>h. health (foldl monitor_fold ep ps) = Some h \<and> health_inv (rev (map fst ps)) h"
proof -
  obtain p qs where ps: "ps = p # qs" using assms(2) by (cases ps) auto
  have "health (monitor_fold ep p) = Some (on_probe (fresh_healthy (snd p)) p)"
    using assms(1) by (simp add: monitor_fold_def fold_health_def on_probe_def Let_def)
  then have "health (foldl monitor_fold ep ps) = Some (foldl on_probe (fresh_healthy (snd p)) ps)"
    unfolding ps by (simp add: monitor_fold_seeded)
  then show ?thesis using run_from_fresh by blast
qed

end
