(* ===== verification/AuditFile.thy ===== *)
theory AuditFile
  imports AuditLog
begin

text \<open>
  The file log and the Rekor wrapper fulfil the contract \<open>audit_log\<close>.  The file log relies on
  the row format of \<open>serde_json\<close> (\<open>row_laws\<close>: a printed row is one non-blank line that parses
  back).  Reopening the file of a log restores its head and its length.
\<close>

section \<open>Rows\<close>

definition row_laws :: "(string \<Rightarrow> string + StoredEvent) \<Rightarrow> (StoredEvent \<Rightarrow> string + string) \<Rightarrow> bool" where
  "row_laws parse_row print_row \<longleftrightarrow> (\<forall>e t. print_row e = Inr t \<longrightarrow>
     parse_row t = Inr e \<and> line_safe t \<and> strip_cr t = t \<and> \<not> is_blank t)"

definition row_text :: "(StoredEvent \<Rightarrow> string + string) \<Rightarrow> StoredEvent \<Rightarrow> string" where
  "row_text print_row e = (case print_row e of Inr t \<Rightarrow> t | Inl _ \<Rightarrow> [])"

definition file_text :: "(StoredEvent \<Rightarrow> string + string) \<Rightarrow> StoredEvent list \<Rightarrow> string" where
  "file_text print_row evs = concat (map (\<lambda>e. row_text print_row e @ [LF]) evs)"

definition printable :: "(StoredEvent \<Rightarrow> string + string) \<Rightarrow> StoredEvent \<Rightarrow> bool" where
  "printable print_row e \<longleftrightarrow> is_ok (print_row e)"

lemma split_lines_line: "line_safe t \<Longrightarrow> split_lines acc (t @ LF # s) = (rev acc @ t) # split_lines [] s"
  by (induction t arbitrary: acc) auto

lemma row_text_laws:
  assumes "row_laws parse_row print_row" and "printable print_row e"
  shows "parse_row (row_text print_row e) = Inr e" "line_safe (row_text print_row e)"
    "strip_cr (row_text print_row e) = row_text print_row e" "\<not> is_blank (row_text print_row e)"
  using assms by (auto simp: row_laws_def printable_def is_ok_iff row_text_def)

lemma file_lines:
  "row_laws parse_row print_row \<Longrightarrow> list_all (printable print_row) evs \<Longrightarrow>
   map strip_cr (split_lines [] (file_text print_row evs)) = map (row_text print_row) evs"
  by (induction evs) (simp_all add: file_text_def split_lines_line row_text_laws)

lemma replay_rows:
  assumes "row_laws parse_row print_row" and "list_all (printable print_row) evs"
    and "chain_ok P head evs"
  shows "replay_lines P parse_row head n (map (row_text print_row) evs)
    = Inr (head_from head evs, n + of_nat (length evs))"
  using assms(2,3)
proof (induction evs arbitrary: head n)
  case (Cons e evs)
  have "verify_hash P e = Inr ()" using Cons.prems by (simp add: verify_hash_Inr_iff)
  with Cons show ?case by (simp add: row_text_laws [OF assms(1)] add.assoc)
qed simp

lemma replay_file:
  assumes "row_laws parse_row print_row" and "list_all (printable print_row) evs"
    and "chain_ok P GENESIS_HEAD evs"
  shows "replay P parse_row (Some (file_text print_row evs)) = Inr (last_hash evs, of_nat (length evs))"
  using assms by (simp add: replay_def file_lines replay_rows last_hash_head_from)

section \<open>The file log fulfils the contract\<close>

definition file_events :: "(string \<Rightarrow> string + StoredEvent) \<Rightarrow> FileAuditLog \<Rightarrow> StoredEvent list" where
  "file_events parse_row l =
     List.map_filter (\<lambda>t. case parse_row t of Inr e \<Rightarrow> Some e | Inl _ \<Rightarrow> None)
       (filter (\<lambda>t. \<not> is_blank t) (map strip_cr (split_lines [] (fl_file l))))"

definition file_inv :: "platform \<Rightarrow> (string \<Rightarrow> string + StoredEvent) \<Rightarrow> (StoredEvent \<Rightarrow> string + string)
    \<Rightarrow> FileAuditLog \<Rightarrow> bool" where
  "file_inv P parse_row print_row l \<longleftrightarrow> row_laws parse_row print_row \<and>
     (\<exists>evs. fl_file l = file_text print_row evs \<and> list_all (printable print_row) evs
        \<and> chain_ok P GENESIS_HEAD evs \<and> fl_head l = last_hash evs \<and> fl_len l = of_nat (length evs))"

lemma file_events_rows:
  assumes "row_laws parse_row print_row" and "list_all (printable print_row) evs"
    and "fl_file l = file_text print_row evs"
  shows "file_events parse_row l = evs"
proof -
  have "List.map_filter (\<lambda>t. case parse_row t of Inr e \<Rightarrow> Some e | Inl _ \<Rightarrow> None)
      (filter (\<lambda>t. \<not> is_blank t) (map (row_text print_row) evs)) = evs"
    using assms(2) by (induction evs) (simp_all add: row_text_laws [OF assms(1)])
  then show ?thesis using assms by (simp add: file_events_def file_lines)
qed

lemma file_inv_events:
  "file_inv P parse_row print_row l \<longleftrightarrow> row_laws parse_row print_row \<and>
     fl_file l = file_text print_row (file_events parse_row l)
     \<and> list_all (printable print_row) (file_events parse_row l)
     \<and> chain_ok P GENESIS_HEAD (file_events parse_row l)
     \<and> fl_head l = last_hash (file_events parse_row l)
     \<and> fl_len l = of_nat (length (file_events parse_row l))"
  unfolding file_inv_def by (auto simp: file_events_rows intro: exI [of _ "file_events parse_row l"])

lemma FileAuditLog_append_cases:
  "FileAuditLog_append P print_row None now uuid ev l =
     (case compute_hash P ev now (fl_head l) of
        Inl e \<Rightarrow> (Inl e, l)
      | Inr h \<Rightarrow>
          let se = \<lparr>se_position = fl_len l, se_event_id = ''evt_'' @ uuid, se_timestamp = now,
                    se_prev_hash = fl_head l, se_this_hash = h, se_event = ev\<rparr> in
          (case print_row se of
             Inl m \<Rightarrow> (Inl (Serialization m), l)
           | Inr t \<Rightarrow> (Inr (receipt_of se),
               l\<lparr>fl_file := fl_file l @ t @ [LF], fl_head := h, fl_len := fl_len l + 1\<rparr>)))"
  by (simp add: FileAuditLog_append_def write_all_def Let_def bindS_liftS receipt_of_def
      split: sum.splits)

lemma FileAuditLog_append_Inr:
  assumes "FileAuditLog_append P print_row io now uuid ev l = (Inr r, l')"
  shows "\<exists>b line. canonical_bytes P ev now (fl_head l) = Inr b \<and> er_chain_head r = hex_enc P (sha256 P b)
    \<and> print_row \<lparr>se_position = fl_len l, se_event_id = ''evt_'' @ uuid, se_timestamp = now, se_prev_hash = fl_head l,
        se_this_hash = er_chain_head r, se_event = ev\<rparr> = Inr line
    \<and> l' = l\<lparr>fl_file := fl_file l @ line @ [LF], fl_head := er_chain_head r, fl_len := fl_len l + 1\<rparr>"
proof (cases io)
  case None
  with assms show ?thesis
    by (auto simp: FileAuditLog_append_cases compute_hash_Inr_iff receipt_of_def Let_def split: sum.splits)
qed (use assms in \<open>auto simp: FileAuditLog_append_def write_all_def Let_def bindS_def split: sum.splits prod.splits\<close>)

lemma file_append_ok:
  assumes inv: "file_inv P parse_row print_row l"
    and app: "FileAuditLog_append P print_row None now uuid ev l = (Inr r, l')"
  shows "file_inv P parse_row print_row l' \<and> (\<exists>se. file_events parse_row l' = file_events parse_row l @ [se]
    \<and> r = receipt_of se \<and> se_event se = ev \<and> se_prev_hash se = last_hash (file_events parse_row l)
    \<and> se_position se = of_nat (length (file_events parse_row l)))"
proof -
  let ?evs = "file_events parse_row l"
  have laws: "row_laws parse_row print_row"
    and i: "fl_file l = file_text print_row ?evs" "list_all (printable print_row) ?evs"
      "chain_ok P GENESIS_HEAD ?evs" "fl_head l = last_hash ?evs" "fl_len l = of_nat (length ?evs)"
    using inv by (auto simp: file_inv_events)
  from app obtain h where h: "compute_hash P ev now (fl_head l) = Inr h"
    by (auto simp: FileAuditLog_append_cases split: sum.splits)
  define se where se: "se = \<lparr>se_position = fl_len l, se_event_id = ''evt_'' @ uuid, se_timestamp = now,
    se_prev_hash = fl_head l, se_this_hash = h, se_event = ev\<rparr>"
  from app h obtain t where t: "print_row se = Inr t" and r: "r = receipt_of se"
    and l': "l' = l\<lparr>fl_file := fl_file l @ t @ [LF], fl_head := h, fl_len := fl_len l + 1\<rparr>"
    by (auto simp: FileAuditLog_append_cases se Let_def split: sum.splits)
  have p: "list_all (printable print_row) (?evs @ [se])" using i(2) t by (simp add: printable_def)
  have f: "fl_file l' = file_text print_row (?evs @ [se])"
    using i(1) t l' by (simp add: file_text_def row_text_def)
  have "chain_ok P GENESIS_HEAD (?evs @ [se])"
    using i(3,4) h se by (simp add: chain_ok_append last_hash_head_from)
  moreover have "file_events parse_row l' = ?evs @ [se]" using laws p f by (rule file_events_rows)
  ultimately show ?thesis
    using laws p f i l' r by (simp add: file_inv_events last_hash_def se)
qed

interpretation flog: audit_log "FileAuditLog_append P print_row None" FileAuditLog_current_head
  "FileAuditLog_verify_chain P parse_row" FileAuditLog_len "file_inv P parse_row print_row"
  "file_events parse_row" for P parse_row print_row
proof unfold_locales
  fix l assume inv: "file_inv P parse_row print_row l"
  then show "FileAuditLog_verify_chain P parse_row l = Inr ()"
    by (auto simp: file_inv_def FileAuditLog_verify_chain_def replay_file ensure_def)
  show "FileAuditLog_current_head l = Inr (last_hash (file_events parse_row l))"
    "FileAuditLog_len l = Inr (of_nat (length (file_events parse_row l)))"
    using inv by (auto simp: file_inv_events FileAuditLog_current_head_def FileAuditLog_len_def)
  show "FileAuditLog_append P print_row None now uuid ev l = (Inl e, l') \<Longrightarrow> l' = l" for now uuid ev e l'
    by (auto simp: FileAuditLog_append_cases Let_def split: sum.splits)
qed (rule file_append_ok)

lemma file_inv_open_empty:
  assumes "row_laws parse_row print_row"
  shows "FileAuditLog_open P parse_row None = Inr \<lparr>fl_file = [], fl_head = GENESIS_HEAD, fl_len = 0\<rparr>
    \<and> file_inv P parse_row print_row \<lparr>fl_file = [], fl_head = GENESIS_HEAD, fl_len = 0\<rparr>"
  using assms by (auto simp: FileAuditLog_open_def replay_def file_inv_def file_text_def last_hash_def
      intro!: exI [of _ "[]"])

lemma file_reopen:
  "file_inv P parse_row print_row l \<Longrightarrow> FileAuditLog_open P parse_row (Some (fl_file l)) = Inr l"
  by (auto simp: file_inv_def FileAuditLog_open_def replay_file)

text \<open>
  The file log and the in-memory log, given the same appends at the same times, hold the same
  events: one step of the file log simulates one step of the in-memory log.
\<close>

lemma file_simulates_memory:
  assumes inv: "file_inv P parse_row print_row l" and ev: "file_events parse_row l = mem_events m"
    and app: "FileAuditLog_append P print_row None now uuid e l = (Inr r, l')"
  shows "\<exists>m'. MemoryAuditLog_append P now uuid e m = (Inr r, m') \<and> file_events parse_row l' = mem_events m'"
proof -
  have hd: "fl_head l = last_hash (mem_events m)" "fl_len l = of_nat (length (mem_events m))"
    using inv ev by (auto simp: file_inv_events)
  from app obtain h where h: "compute_hash P e now (last_hash (mem_events m)) = Inr h"
    by (auto simp: FileAuditLog_append_cases hd split: sum.splits)
  define se where "se = \<lparr>se_position = of_nat (length (mem_events m)), se_event_id = ''evt_'' @ uuid,
    se_timestamp = now, se_prev_hash = last_hash (mem_events m), se_this_hash = h, se_event = e\<rparr>"
  from app obtain t where t: "print_row se = Inr t" and r: "r = receipt_of se"
    and l': "l' = l\<lparr>fl_file := fl_file l @ t @ [LF], fl_head := h, fl_len := fl_len l + 1\<rparr>"
    by (auto simp: FileAuditLog_append_cases hd h se_def Let_def split: sum.splits)
  have "fl_file l' = file_text print_row (mem_events m @ [se])"
    using inv ev t l' by (simp add: file_inv_events file_text_def row_text_def)
  then have "file_events parse_row l' = mem_events m @ [se]"
    using inv ev t by (intro file_events_rows) (auto simp: file_inv_events printable_def)
  then show ?thesis by (simp add: MemoryAuditLog_append_cases h se_def r Let_def)
qed

section \<open>The Rekor wrapper\<close>

text \<open>A submitter answers with a receipt for what it was given.\<close>

locale rekor_submitter =
  fixes submit :: "'r submitter"
  assumes submit_receipt: "submit now uuid h n r = (Inr rc, r') \<Longrightarrow> rr_chain_head rc = h \<and> rr_position rc = n \<and> rr_submitted_at rc = now"
    and submit_total: "\<exists>rc. fst (submit now uuid h n r) = Inr rc"

interpretation stub_rekor: rekor_submitter StubRekorSubmitter_submit
  by unfold_locales (auto simp: StubRekorSubmitter_submit_def Let_def)

interpretation logging_rekor: rekor_submitter LoggingRekorSubmitter_submit
  by unfold_locales (auto simp: LoggingRekorSubmitter_submit_def)

locale rekor_anchored = inner: audit_log append current_head verify_chain log_len log_inv log_events + rekor_submitter submit
  for append :: "instant \<Rightarrow> string \<Rightarrow> Event \<Rightarrow> ('l, AuditError, EventReceipt) action"
    and current_head verify_chain log_len log_inv log_events and submit :: "'r submitter"
begin

lemma tick_keeps:
  assumes "log_inv (fst l)" "\<And>l. log_inv l \<Longrightarrow> log_inv (meanwhile l)"
  shows "log_inv (fst (rekor_tick current_head log_len submit meanwhile now uuid l))"
  using assms by (auto simp: rekor_tick_def Let_def split: prod.splits sum.splits)

text \<open>A receipt is for the head that was read first, with the length that was read second.\<close>

lemma submit_now_receipt:
  assumes "log_inv l" "log_inv (meanwhile l)"
  shows "\<exists>rc r'. rekor_submit_now current_head log_len submit meanwhile now uuid (l, r) = (Inr rc, (meanwhile l, r'))
    \<and> rr_chain_head rc = last_hash (log_events l) \<and> rr_position rc = of_nat (length (log_events (meanwhile l)))"
proof -
  let ?h = "last_hash (log_events l)" and ?n = "of_nat (length (log_events (meanwhile l))) :: u64"
  obtain rc r' where s: "submit now uuid ?h ?n r = (Inr rc, r')"
    using submit_total [of now uuid ?h ?n r] by (metis prod.collapse)
  with submit_receipt [OF s] assms show ?thesis
    by (auto simp: rekor_submit_now_def inner.inv_head inner.inv_len)
qed

text \<open>
  Undisturbed, the receipt anchors the head at its own position.  An event that another task appends between the
  two reads makes the receipt claim the position after the one of its head.
\<close>

lemma submit_now_undisturbed:
  assumes "log_inv l"
  shows "\<exists>rc r'. rekor_submit_now current_head log_len submit (\<lambda>l. l) now uuid (l, r) = (Inr rc, (l, r'))
    \<and> rr_chain_head rc = last_hash (log_events l) \<and> rr_position rc = of_nat (length (log_events l))"
  using submit_now_receipt [of l "\<lambda>l. l"] assms by simp

lemma submit_now_raced:
  assumes "log_inv l" "append now' uuid' ev l = (Inr er, l')" "Suc (length (log_events l)) < 2 ^ 64"
  shows "\<exists>rc r'. rekor_submit_now current_head log_len submit (\<lambda>l. snd (append now' uuid' ev l)) now uuid (l, r) = (Inr rc, (l', r'))
    \<and> rr_chain_head rc = last_hash (log_events l) \<and> unat (rr_position rc) = Suc (length (log_events l))"
proof -
  obtain se where "log_inv l'" "log_events l' = log_events l @ [se]" using inner.append_ok [OF assms(1,2)] by blast
  with submit_now_receipt [of l "\<lambda>l. snd (append now' uuid' ev l)" now uuid r] assms show ?thesis
    by (auto simp: unat_of_nat simp flip: of_nat_Suc)
qed

end

sublocale rekor_anchored \<subseteq> outer: audit_log "\<lambda>now uuid ev. rekor_append (append now uuid ev)"
  "\<lambda>l. current_head (fst l)" "\<lambda>l. verify_chain (fst l)" "\<lambda>l. log_len (fst l)"
  "\<lambda>l. log_inv (fst l)" "\<lambda>l. log_events (fst l)"
proof unfold_locales
qed (auto simp: rekor_append_def inner.inv_verifies inner.inv_head inner.inv_len split: prod.splits
    dest: inner.append_ok inner.append_err)

interpretation rekor_mem: rekor_anchored "MemoryAuditLog_append P" MemoryAuditLog_current_head
  "MemoryAuditLog_verify_chain P" MemoryAuditLog_len "mem_inv P" mem_events
  StubRekorSubmitter_submit for P
  by unfold_locales

interpretation rekor_file: rekor_anchored "FileAuditLog_append P print_row None"
  FileAuditLog_current_head "FileAuditLog_verify_chain P parse_row" FileAuditLog_len
  "file_inv P parse_row print_row" "file_events parse_row"
  LoggingRekorSubmitter_submit for P parse_row print_row
  by unfold_locales

end
