(* ===== verification/System.thy ===== *)
theory System
  imports TransferCreation Inbox HealthMonitor AuditFile
begin

text \<open>
  The control plane as a transition system.  \<open>db_step\<close> is one statement on the database, so that a
  chain of \<open>db_step\<close> is any interleaving of the statements of any number of requests; every handler
  refines such a chain.  \<open>cp_step\<close> is one request, or one pass of the health monitor, on the whole
  state.  Invariants are proved by rule induction on the one or the other.
\<close>

section \<open>Statements\<close>

inductive db_step :: "database \<Rightarrow> database \<Rightarrow> bool" where
  registration_nonce: "db_step d (snd (consume_nonce n pk d))"
| agent: "db_step d (snd (agents_insert P e a pk f og nm d))"
| rotation_nonce: "db_step d (snd (consume_rotate_nonce n a d))"
| key_rotation: "db_step d (snd (insert_rotation e a h h' pk now d))"
| intent_nonce: "db_step d (snd (consume_intent_nonce n a d))"
| transfer: "it_state t \<in> {''ready_for_pickup'', ''rejected''} \<Longrightarrow> db_step d (snd (transfers_insert e t d))"
| accept: "db_step d (snd (mark_accepted e tid d))"
| deliver: "db_step d (snd (mark_delivered e tid d))"
| ticket_nonce: "db_step d (snd (insert_ticket_nonce n tid ex d))"
| endpoint_health: "db_step d (snd (persist_reachable_at tid eps d))"

text \<open>What every statement keeps holds after any interleaving.\<close>

lemma db_step_keeps:
  assumes "db_step d d'"
    and "\<And>n pk. keeps P (consume_nonce n pk)" "\<And>p e a pk f og nm. keeps P (agents_insert p e a pk f og nm)"
    and "\<And>n a. keeps P (consume_rotate_nonce n a)" "\<And>e a h h' pk now. keeps P (insert_rotation e a h h' pk now)"
    and "\<And>n a. keeps P (consume_intent_nonce n a)"
    and "\<And>e t. it_state t \<in> {''ready_for_pickup'', ''rejected''} \<Longrightarrow> keeps P (transfers_insert e t)"
    and "\<And>e tid. keeps P (mark_accepted e tid)" "\<And>e tid. keeps P (mark_delivered e tid)"
    and "\<And>n tid ex. keeps P (insert_ticket_nonce n tid ex)" "\<And>tid eps. keeps P (persist_reachable_at tid eps)"
    and "P d"
  shows "P d'"
  using assms(1)
  by cases (auto intro!: keepsD [where P = P and s = d] assms(2-12))

lemma db_step_wf: "db_step d d' \<Longrightarrow> db_wf d \<Longrightarrow> db_wf d'"
  by (erule db_step_keeps) (intro keeps_queries keeps_wf_persist | assumption)+

lemma db_step_evolve: "db_step d d' \<Longrightarrow> transfers_evolve d d'"
  by (erule db_step_keeps [where P = "transfers_evolve d"])
    (intro keeps_evolve keeps_evolve_persist transfers_evolve_same refl | assumption)+

lemma db_steps_wf: "db_step\<^sup>*\<^sup>* d d' \<Longrightarrow> db_wf d \<Longrightarrow> db_wf d'"
  by (induction rule: rtranclp_induct) (auto intro: db_step_wf)

lemma db_steps_evolve: "db_step\<^sup>*\<^sup>* d d' \<Longrightarrow> transfers_evolve d d'"
  by (induction rule: rtranclp_induct) (auto intro: transfers_evolve_same transfers_evolve_trans db_step_evolve)

section \<open>Handlers refine chains of statements\<close>

lemma keeps_chain:
  "(\<And>d. db_step d (snd (q d))) \<Longrightarrow> keeps (db_step\<^sup>*\<^sup>* d0) q"
  by (rule keepsI) (meson rtranclp.rtrancl_into_rtrancl)

lemmas chain_rules = keeps_chain [OF registration_nonce] keeps_chain [OF agent] keeps_chain [OF rotation_nonce]
  keeps_chain [OF key_rotation] keeps_chain [OF intent_nonce] keeps_chain [OF accept]
  keeps_chain [OF deliver] keeps_chain [OF ticket_nonce] keeps_chain [OF endpoint_health]

lemma chain_insert:
  "it_state t \<in> {''ready_for_pickup'', ''rejected''} \<Longrightarrow> keeps (db_step\<^sup>*\<^sup>* d0) (transfers_insert e t)"
  by (rule keeps_chain) (rule db_step.transfer)

lemma handlers_refine:
  "keeps (\<lambda>s. db_step\<^sup>*\<^sup>* d0 (db s)) (register E rg)"
  "keeps (\<lambda>s. db_step\<^sup>*\<^sup>* d0 (db s)) (rotate_key E rk)"
  "keeps (\<lambda>s. db_step\<^sup>*\<^sup>* d0 (db s)) (create_transfer E ct)"
  "keeps (\<lambda>s. db_step\<^sup>*\<^sup>* d0 (db s)) (download_transfer E tid rq)"
  "keeps (\<lambda>s. db_step\<^sup>*\<^sup>* d0 (db s)) (ack_transfer E tid rq)"
  "keeps (\<lambda>s. db_step\<^sup>*\<^sup>* d0 (db s)) (issue_ticket E tid rq)"
  "keeps (\<lambda>s. db_step\<^sup>*\<^sup>* d0 (db s)) (tick M)"
  by (rule register_keeps_db rotate_key_keeps_db create_transfer_keeps_db download_keeps_db ack_keeps_db
      issue_ticket_keeps_db tick_keeps_db; intro chain_rules chain_insert; assumption?)+

section \<open>Requests\<close>

text \<open>\<open>ok E s\<close> is what is known of the environment of a request that meets the state \<open>s\<close>.\<close>

inductive cp_step :: "(('l, 'b) env \<Rightarrow> ('l, 'b) app_state \<Rightarrow> bool) \<Rightarrow> ('l, 'b) app_state \<Rightarrow> ('l, 'b) app_state \<Rightarrow> bool"
  for ok where
  "ok E s \<Longrightarrow> cp_step ok s (snd (register E rg s))"
| "ok E s \<Longrightarrow> cp_step ok s (snd (get_agent E a s))"
| "ok E s \<Longrightarrow> cp_step ok s (snd (rotate_key E rk s))"
| "ok E s \<Longrightarrow> cp_step ok s (snd (create_transfer E ct s))"
| "ok E s \<Longrightarrow> cp_step ok s (snd (get_transfer E tid s))"
| "ok E s \<Longrightarrow> cp_step ok s (snd (download_transfer E tid rq s))"
| "ok E s \<Longrightarrow> cp_step ok s (snd (ack_transfer E tid rq s))"
| "ok E s \<Longrightarrow> cp_step ok s (snd (issue_ticket E tid rq s))"
| "ok E s \<Longrightarrow> cp_step ok s (snd (list_inbox E ib s))"
| "cp_step ok s (snd (tick M s))"

lemma cp_step_keeps:
  assumes "cp_step ok s s'" "I s"
    and "\<And>E rg. ok E s \<Longrightarrow> I (snd (register E rg s))"
    and "\<And>E rk. ok E s \<Longrightarrow> I (snd (rotate_key E rk s))"
    and "\<And>E ct. ok E s \<Longrightarrow> I (snd (create_transfer E ct s))"
    and "\<And>E tid rq. ok E s \<Longrightarrow> I (snd (download_transfer E tid rq s))"
    and "\<And>E tid rq. ok E s \<Longrightarrow> I (snd (ack_transfer E tid rq s))"
    and "\<And>E tid rq. ok E s \<Longrightarrow> I (snd (issue_ticket E tid rq s))"
    and "\<And>M. I (snd (tick M s))"
  shows "I s'"
  using assms(1)
  by cases (simp_all add: assms keepsD [OF get_agent_keeps] keepsD [OF get_transfer_keeps] keepsD [OF keeps_list_inbox])

lemma cp_step_refines: "cp_step ok s s' \<Longrightarrow> db_step\<^sup>*\<^sup>* (db s) (db s')"
  by (erule cp_step_keeps [where I = "\<lambda>t. db_step\<^sup>*\<^sup>* (db s) (db t)"])
    (simp_all add: keepsD [OF handlers_refine(1)] keepsD [OF handlers_refine(2)] keepsD [OF handlers_refine(3)]
      keepsD [OF handlers_refine(4)] keepsD [OF handlers_refine(5)] keepsD [OF handlers_refine(6)]
      keepsD [OF handlers_refine(7)])

lemma cp_steps_refine: "(cp_step ok)\<^sup>*\<^sup>* s s' \<Longrightarrow> db_step\<^sup>*\<^sup>* (db s) (db s')"
  by (induction rule: rtranclp_induct) (auto dest: cp_step_refines)

section \<open>The life of a transfer\<close>

lemma find_list_all2:
  "list_all2 row_evolves rs rs' \<Longrightarrow> List.find (\<lambda>r. tr_transfer_id r = t) rs = Some r \<Longrightarrow>
   \<exists>r'. List.find (\<lambda>r. tr_transfer_id r = t) (rs' @ new) = Some r' \<and> row_evolves r r'"
  by (induction rule: list_all2_induct) (auto simp: row_evolves_def)

lemma row_of_evolves:
  "transfers_evolve d d' \<Longrightarrow> row_of d t = Some r \<Longrightarrow> \<exists>r'. row_of d' t = Some r' \<and> row_evolves r r'"
  unfolding transfers_evolve_def row_of_def by (metis find_list_all2)

lemma row_of_Some: "row_of d t = Some r \<Longrightarrow> r \<in> set (transfers d) \<and> tr_transfer_id r = t"
  by (auto simp: row_of_def find_Some_iff)

lemma row_of_unique:
  assumes "db_wf d" "r \<in> set (transfers d)"
  shows "row_of d (tr_transfer_id r) = Some r"
proof -
  have "inj_on tr_transfer_id (set (transfers d))" using assms(1) by (simp add: db_wf_def distinct_map)
  moreover obtain r' where "row_of d (tr_transfer_id r) = Some r'"
    using assms(2) by (cases "row_of d (tr_transfer_id r)") (auto simp: row_of_def find_None_iff)
  ultimately show ?thesis using assms(2) row_of_Some by (metis inj_on_def)
qed

text \<open>A transfer in a final state stays there, and answers no download and no acknowledgement.\<close>

definition final_state :: "string \<Rightarrow> bool" where
  "final_state x \<longleftrightarrow> x = ''rejected'' \<or> x = ''delivered''"

definition finished :: "database \<Rightarrow> string \<Rightarrow> bool" where
  "finished d t \<longleftrightarrow> (\<exists>r. row_of d t = Some r \<and> final_state (tr_state r))"

lemma final_state_next: "state_next a b \<Longrightarrow> final_state a \<Longrightarrow> final_state b"
  using state_next_final [of a b] by (simp add: final_state_def)

lemma open_not_final: "x \<in> set inbox_states \<Longrightarrow> \<not> final_state x"
  by (auto simp: inbox_states_def final_state_def)

lemma row_evolves_final: "row_evolves r r' \<Longrightarrow> final_state (tr_state r) \<Longrightarrow> final_state (tr_state r')"
  by (auto simp: row_evolves_def intro: final_state_next)

lemma finished_evolves: "transfers_evolve d d' \<Longrightarrow> finished d t \<Longrightarrow> finished d' t"
  unfolding finished_def by (fast dest: row_of_evolves row_evolves_final)

lemma download_not_finished:
  assumes "finished (db s) t"
  shows "download_transfer E t rq s \<noteq> (Inr x, s')"
proof
  assume "download_transfer E t rq s = (Inr x, s')"
  from download_Inr [OF this] have "\<exists>r. row_of (db s) t = Some r \<and> tr_state r \<in> set inbox_states"
    by blast
  with assms open_not_final show False by (auto simp: finished_def)
qed

lemma ack_open:
  assumes "ack_transfer E t rq s = (Inr x, s')" "db_wf (db s)"
  obtains r where "row_of (db s) t = Some r" "tr_state r \<in> set inbox_states"
proof -
  from ack_Inr [OF assms(1)] obtain r where
    "r \<in> set (transfers (db s))" "tr_transfer_id r = t" "tr_state r \<in> set inbox_states"
    by auto
  with row_of_unique [OF assms(2)] that show thesis by blast
qed

lemma ack_not_finished:
  assumes "finished (db s) t" "db_wf (db s)"
  shows "ack_transfer E t rq s \<noteq> (Inr x, s')"
  using assms by (auto simp: finished_def elim!: ack_open dest: open_not_final)

lemma issue_ticket_not_finished:
  assumes "finished (db s) t"
  shows "issue_ticket E t rq s \<noteq> (Inr x, s')"
proof
  assume "issue_ticket E t rq s = (Inr x, s')"
  from issue_ticket_Inr [OF this] obtain r where "row_of (db s) t = Some r" "tr_state r = ''ready_for_pickup''"
    by auto
  with assms show False by (auto simp: finished_def final_state_def)
qed

lemma find_map_marked:
  "List.find (\<lambda>r. tr_transfer_id r = t) rs = Some r \<Longrightarrow> (\<And>r. tr_transfer_id (f r) = tr_transfer_id r) \<Longrightarrow>
   List.find (\<lambda>r. tr_transfer_id r = t) (map f rs) = Some (f r)"
  by (induction rs) (auto split: if_splits)

text \<open>An acknowledgement marks its transfer, and no other, as delivered.\<close>

lemma ack_delivers:
  assumes "ack_transfer E t rq s = (Inr x, s')" "db_wf (db s)"
  shows "db s' = (db s)\<lparr>transfers := map (\<lambda>r. if tr_transfer_id r = t
      then r\<lparr>tr_state := ''delivered'', tr_delivered_at := Some (db_now (dbe E))\<rparr> else r) (transfers (db s))\<rparr>"
proof -
  from ack_open [OF assms] obtain r where r: "row_of (db s) t = Some r" "tr_state r \<in> set inbox_states" .
  have "q = r" if "q \<in> set (transfers (db s))" "tr_transfer_id q = t" for q
    using row_of_unique [OF assms(2) that(1)] that(2) r(1) by simp
  then have "tr_state q = ''accepted'' \<or> tr_state q = ''ready_for_pickup''"
    if "q \<in> set (transfers (db s))" "tr_transfer_id q = t" for q
    using that r(2) by (auto simp: inbox_states_def)
  moreover have "db s' = snd (mark_delivered (dbe E) t (db s))" using ack_Inr [OF assms(1)] by auto
  ultimately show ?thesis by (simp add: mark_delivered_def update_where_def)
qed

lemma ack_finishes:
  assumes "ack_transfer E t rq s = (Inr x, s')" "db_wf (db s)"
  shows "finished (db s') t"
proof -
  from ack_open [OF assms] obtain r where r: "row_of (db s) t = Some r" .
  let ?f = "\<lambda>r. if tr_transfer_id r = t then r\<lparr>tr_state := ''delivered'', tr_delivered_at := Some (db_now (dbe E))\<rparr> else r"
  have "row_of (db s') t = Some (?f r)"
    using find_map_marked [OF r [unfolded row_of_def], of ?f] unfolding ack_delivers [OF assms] by (simp add: row_of_def)
  then show ?thesis using row_of_Some [OF r] by (simp add: finished_def final_state_def)
qed

section \<open>Nonces over a run\<close>

lemma registration_nonce_kept:
  assumes "db_step d d'" "n \<in> fst ` set (registration_nonces d)"
  shows "n \<in> fst ` set (registration_nonces d')"
  using assms
  by cases (auto simp: consume_nonce_def agents_insert_def insert_key_row_def consume_rotate_nonce_def insert_rotation_def
      consume_intent_nonce_def transfers_insert_def mark_accepted_def mark_delivered_def insert_ticket_nonce_def
      persist_reachable_at_def update_where_def bindS_def Let_def image_iff split: prod.splits sum.splits)

lemma intent_nonce_kept:
  assumes "db_step d d'" "n \<in> fst ` set (transfer_intent_nonces d)"
  shows "n \<in> fst ` set (transfer_intent_nonces d')"
  using assms
  by cases (auto simp: consume_nonce_def agents_insert_def insert_key_row_def consume_rotate_nonce_def insert_rotation_def
      consume_intent_nonce_def transfers_insert_def mark_accepted_def mark_delivered_def insert_ticket_nonce_def
      persist_reachable_at_def update_where_def bindS_def Let_def image_iff split: prod.splits sum.splits)

lemma registration_nonces_kept:
  "db_step\<^sup>*\<^sup>* d d' \<Longrightarrow> n \<in> fst ` set (registration_nonces d) \<Longrightarrow> n \<in> fst ` set (registration_nonces d')"
  by (induction rule: rtranclp_induct) (auto intro: registration_nonce_kept)

lemma intent_nonces_kept:
  "db_step\<^sup>*\<^sup>* d d' \<Longrightarrow> n \<in> fst ` set (transfer_intent_nonces d) \<Longrightarrow> n \<in> fst ` set (transfer_intent_nonces d')"
  by (induction rule: rtranclp_induct) (auto intro: intent_nonce_kept)

section \<open>The audit log\<close>

lemma keeps_audit_warn_log: "(\<And>ev. keeps P (audit_append E (audit_now E k) (audit_uuid E k) ev)) \<Longrightarrow>
   keeps (\<lambda>s. P (audit s)) (audit_warn E k ev)"
  by (auto simp: keeps_def audit_warn_def tryS_apply bindS_def on_audit_def split: prod.splits dest!: spec)
    (metis snd_conv)

lemma keeps_on_audit_log: "keeps P m \<Longrightarrow> keeps (\<lambda>s. P (audit s)) (on_audit m)"
  by (auto simp: keeps_def on_audit_def split: prod.splits)

lemma handlers_audit:
  assumes "\<And>now uuid ev. keeps P (audit_append E now uuid ev)"
  shows "keeps (\<lambda>s. P (audit s)) (register E rg)"
    and "keeps (\<lambda>s. P (audit s)) (rotate_key E rk)"
    and "keeps (\<lambda>s. P (audit s)) (create_transfer E ct)"
    and "keeps (\<lambda>s. P (audit s)) (download_transfer E tid rq)"
    and "keeps (\<lambda>s. P (audit s)) (ack_transfer E tid rq)"
    and "keeps (\<lambda>s. P (audit s)) (issue_ticket E tid rq)"
proof -
  note rules = keeps_audit_warn_log [OF assms] keeps_on_audit_log [OF assms] keeps_rules
  show "keeps (\<lambda>s. P (audit s)) (register E rg)"
    unfolding register_def Let_def by (intro rules) simp_all
  show "keeps (\<lambda>s. P (audit s)) (rotate_key E rk)"
    unfolding rotate_key_def Let_def by (intro rules) simp_all
  show "keeps (\<lambda>s. P (audit s)) (create_transfer E ct)"
    unfolding create_transfer_def create_via_endpoints_def create_via_tunnel_def create_with_blob_def
      screen_blob_def persist_rejected_def consume_intent_unchecked_def count_created_def Let_def
    by (intro rules) simp_all
  show "keeps (\<lambda>s. P (audit s)) (download_transfer E tid rq)"
    unfolding download_transfer_def by (intro rules) simp_all
  show "keeps (\<lambda>s. P (audit s)) (ack_transfer E tid rq)"
    unfolding ack_transfer_def by (intro rules) simp_all
  show "keeps (\<lambda>s. P (audit s)) (issue_ticket E tid rq)"
    unfolding issue_ticket_def Let_def by (intro rules) simp_all
qed

lemma tick_rows_audit: "keeps (\<lambda>s. P (audit s)) (tick_rows M k i n rows)"
proof (induction M k i n rows rule: tick_rows.induct)
  case (2 M k i n tid eps rows)
  then show ?case
    by (cases "eps = []") (simp, simp only: tick_rows.simps if_False, intro keeps_rules, simp_all)
qed (simp add: keeps_def)

lemma tick_audit: "keeps (\<lambda>s. P (audit s)) (tick M)"
  unfolding tick_def load_in_flight_transfers_def getS_def
  by (intro keeps_rules tick_rows_audit) (simp_all add: keeps_def)

context audit_log
begin

text \<open>With any log that meets the contract: the chain verifies after any history of requests.\<close>

lemma append_extending:
  "keeps (\<lambda>l. log_inv l \<and> (\<exists>new. log_events l = evs @ new)) (append now uuid ev)"
proof (rule keepsI)
  fix l assume l: "log_inv l \<and> (\<exists>new. log_events l = evs @ new)"
  obtain x l' where "append now uuid ev l = (x, l')" by fastforce
  with append_extends [of l now uuid ev x l'] l keepsD [OF append_keeps, of l now uuid ev]
  show "log_inv (snd (append now uuid ev l)) \<and> (\<exists>new. log_events (snd (append now uuid ev l)) = evs @ new)"
    by auto
qed

lemma reach_audit:
  assumes "(cp_step ok)\<^sup>*\<^sup>* s s'" "\<And>E s. ok E s \<Longrightarrow> audit_append E = append" "log_inv (audit s)"
  shows "log_inv (audit s') \<and> (\<exists>new. log_events (audit s') = log_events (audit s) @ new)"
proof -
  define Q where "Q l \<longleftrightarrow> log_inv l \<and> (\<exists>new. log_events l = log_events (audit s) @ new)" for l
  define I where "I = (\<lambda>t :: ('l, 'a) app_state. Q (audit t))"
  from assms(1) have "I s'"
  proof (induction rule: rtranclp_induct)
    case base
    then show ?case using assms(3) by (simp add: I_def Q_def)
  next
    case (step t t')
    have h: "keeps I (register E rg)" "keeps I (rotate_key E rk)" "keeps I (create_transfer E ct)"
      "keeps I (download_transfer E tid rq)" "keeps I (ack_transfer E tid rq)" "keeps I (issue_ticket E tid rq)"
      if "ok E t" for E rg rk ct tid rq
    proof -
      have "keeps Q (audit_append E now uuid ev)" for now uuid ev
        unfolding assms(2) [OF that] Q_def by (rule append_extending)
      from handlers_audit [OF this] show "keeps I (register E rg)" "keeps I (rotate_key E rk)"
        "keeps I (create_transfer E ct)" "keeps I (download_transfer E tid rq)"
        "keeps I (ack_transfer E tid rq)" "keeps I (issue_ticket E tid rq)" unfolding I_def by blast+
    qed
    have tk: "keeps I (tick M)" for M
      unfolding I_def by (rule tick_audit)
    show ?case
      by (rule cp_step_keeps [where I = I, OF step(2) step.IH])
        (auto intro: keepsD [OF tk step.IH] keepsD [OF h(1) step.IH] keepsD [OF h(2) step.IH]
          keepsD [OF h(3) step.IH] keepsD [OF h(4) step.IH] keepsD [OF h(5) step.IH] keepsD [OF h(6) step.IH])
  qed
  then show ?thesis by (simp add: I_def Q_def)
qed

end

end
