(* ===== verification/DataPlane.thy ===== *)
theory DataPlane
  imports Transfers
begin

text \<open>
  The data plane (\<open>aex-data-plane/src\<close>): the sender-side server that hands out a blob against a
  ticket of the control plane.  \<open>ticket.rs\<close> verifies tickets and remembers their nonces, \<open>blob.rs\<close>
  holds the blob sources, \<open>server.rs\<close> serves a request.  A request takes from outside (\<open>dp_env\<close>)
  the clock, the JSON parser, the test for a valid HTTP header value and what the blob source
  answers, where the number tells the first and the second read of one request apart.  A failed
  \<open>unwrap\<close> aborts the request (\<open>Panicked\<close>).
\<close>

section \<open>Tickets\<close>

datatype TicketError =
    Encoding string
  | BadSignature
  | Expired i64 i64
  | WrongAudience string string
  | NonceReplay
  | Canon string

fun ticket_error_text :: "TicketError \<Rightarrow> string" where
  "ticket_error_text (Encoding m) = ''invalid base64/hex: '' @ m"
| "ticket_error_text BadSignature = ''invalid signature''"
| "ticket_error_text (Expired e n) = ''ticket expired at '' @ show_i64 e @ '', now '' @ show_i64 n"
| "ticket_error_text (WrongAudience t u) =
     ''ticket not for this data plane (ticket says '' @ t @ '', we are '' @ u @ '')''"
| "ticket_error_text NonceReplay = ''nonce already used''"
| "ticket_error_text (Canon m) = ''canonicalisation: '' @ m"

record Ticket =
  ti_transfer_id :: string
  ti_recipient :: string
  ti_data_plane_url :: string
  ti_expires :: i64
  ti_nonce :: string
  ti_signature :: string

record VerifiedTicket =
  vt_transfer_id :: string
  vt_recipient :: string
  vt_expires :: i64
  vt_nonce :: string

record TicketVerifier =
  control_plane_pubkey :: bytes
  data_plane_url :: string
  skew_seconds :: i64

definition TicketVerifier_new :: "bytes \<Rightarrow> string \<Rightarrow> TicketVerifier" where
  "TicketVerifier_new pk u = \<lparr>control_plane_pubkey = pk, data_plane_url = u, skew_seconds = 60\<rparr>"

definition with_skew :: "TicketVerifier \<Rightarrow> i64 \<Rightarrow> TicketVerifier" where
  "with_skew v skew = v\<lparr>skew_seconds := skew\<rparr>"

text \<open>The insertion into the set of used nonces, with its answer.\<close>

definition insert_nonce :: "string \<Rightarrow> (string set, 'e, bool) action" where
  "insert_nonce n = (\<lambda>used. (Inr (n \<notin> used), insert n used))"

definition verify_ticket ::
  "platform \<Rightarrow> TicketVerifier \<Rightarrow> i64 \<Rightarrow> Ticket \<Rightarrow> (string set, TicketError, VerifiedTicket) action" where
  "verify_ticket P v now ticket =
     bindS (ensureS (ti_data_plane_url ticket = data_plane_url v)
       (WrongAudience (ti_data_plane_url ticket) (data_plane_url v))) (\<lambda>_.
     bindS (ensureS (\<not> sint (ti_expires ticket + skew_seconds v) < sint now)
       (Expired (ti_expires ticket) now)) (\<lambda>_.
     bindS (liftS (map_err Encoding (hex_dec P (ti_signature ticket)))) (\<lambda>sig_bytes.
     bindS (ensureS (length sig_bytes = 64) (Encoding ''signature not 64 bytes'')) (\<lambda>_.
     bindS (liftS (map_err (\<lambda>e. Canon (core_error_text e))
       (data_ticket_bytes (ti_transfer_id ticket) (ti_recipient ticket) (ti_data_plane_url ticket)
          (ti_expires ticket) (ti_nonce ticket)))) (\<lambda>canon.
     bindS (ensureS (ed25519_verify P (control_plane_pubkey v) canon sig_bytes) BadSignature) (\<lambda>_.
     bindS (insert_nonce (ti_nonce ticket)) (\<lambda>fresh.
     bindS (ensureS fresh NonceReplay) (\<lambda>_.
     returnS \<lparr>vt_transfer_id = ti_transfer_id ticket, vt_recipient = ti_recipient ticket,
       vt_expires = ti_expires ticket, vt_nonce = ti_nonce ticket\<rparr>))))))))"

section \<open>Blob sources\<close>

datatype DataPlaneError =
    BlobNotFound string
  | TicketRefused string
  | ScannerBlocked string
  | DataPlaneIo string
  | Bind string string
  | Serde string

record BlobMetadata =
  bm_size :: u64
  bm_mime :: string
  bm_filename :: string

type_synonym InMemoryBlobSource = "string \<rightharpoonup> BlobMetadata \<times> bytes"

definition InMemoryBlobSource_insert ::
  "string \<Rightarrow> BlobMetadata \<Rightarrow> bytes \<Rightarrow> InMemoryBlobSource \<Rightarrow> InMemoryBlobSource" where
  "InMemoryBlobSource_insert t m b src = src(t \<mapsto> (m, b))"

definition InMemoryBlobSource_remove :: "string \<Rightarrow> InMemoryBlobSource \<Rightarrow> InMemoryBlobSource" where
  "InMemoryBlobSource_remove t src = src(t := None)"

definition InMemoryBlobSource_metadata :: "InMemoryBlobSource \<Rightarrow> string \<Rightarrow> DataPlaneError + BlobMetadata" where
  "InMemoryBlobSource_metadata src t = ok_or (BlobNotFound t) (map_option fst (src t))"

definition InMemoryBlobSource_bytes :: "InMemoryBlobSource \<Rightarrow> string \<Rightarrow> DataPlaneError + bytes" where
  "InMemoryBlobSource_bytes src t = ok_or (BlobNotFound t) (map_option snd (src t))"

type_synonym FileBlobSource = "string \<rightharpoonup> BlobMetadata"

definition FileBlobSource_register :: "string \<Rightarrow> BlobMetadata \<Rightarrow> FileBlobSource \<Rightarrow> FileBlobSource" where
  "FileBlobSource_register t m src = src(t \<mapsto> m)"

definition FileBlobSource_path_for :: "string \<Rightarrow> string \<Rightarrow> string" where
  "FileBlobSource_path_for root t =
     (if starts_with t ''/'' then t
      else if root = [] \<or> last root = CHR ''/'' then root @ t else root @ ''/'' @ t)"

definition FileBlobSource_metadata :: "FileBlobSource \<Rightarrow> string \<Rightarrow> DataPlaneError + BlobMetadata" where
  "FileBlobSource_metadata src t = ok_or (BlobNotFound t) (src t)"

definition FileBlobSource_bytes ::
  "(string \<Rightarrow> string + bytes) \<Rightarrow> string \<Rightarrow> FileBlobSource \<Rightarrow> string \<Rightarrow> DataPlaneError + bytes" where
  "FileBlobSource_bytes read_file root src t =
     bindE (FileBlobSource_metadata src t) (\<lambda>_.
       map_err DataPlaneIo (read_file (FileBlobSource_path_for root t)))"

section \<open>The server\<close>

datatype ScanVerdictCache = CachedClean | CachedBlocked string

record dp_state =
  used_nonces :: "string set"
  scan_cache :: "string \<rightharpoonup> ScanVerdictCache"

definition fresh_data_plane :: dp_state where
  "fresh_data_plane = \<lparr>used_nonces = {}, scan_cache = (\<lambda>_. None)\<rparr>"

record dp_env =
  dp_plat :: platform
  dp_verifier :: TicketVerifier
  dp_now :: i64
  parse_ticket :: "string \<Rightarrow> string + Ticket"
  header_value_ok :: "string \<Rightarrow> bool"
  src_metadata :: "string \<Rightarrow> DataPlaneError + BlobMetadata"
  src_bytes :: "nat \<Rightarrow> string \<Rightarrow> DataPlaneError + bytes"
  dp_scanner :: "scanner list option"
  dp_scan_millis :: u64
  verdict_text :: "PipelineVerdict \<Rightarrow> string"

datatype header_value = NotAscii | AsciiHeader string

datatype serve_fault = Refused DataPlaneError | Panicked

record blob_response =
  content_type :: string
  content_length :: string
  content_disposition :: string
  br_body :: bytes

definition on_nonces :: "(string set, 'e, 'a) action \<Rightarrow> (dp_state, 'e, 'a) action" where
  "on_nonces m = (\<lambda>s. case m (used_nonces s) of (r, u) \<Rightarrow> (r, s\<lparr>used_nonces := u\<rparr>))"

definition unwrap_header :: "dp_env \<Rightarrow> string \<Rightarrow> (dp_state, serve_fault, string) action" where
  "unwrap_header E s = bindS (ensureS (header_value_ok E s) Panicked) (\<lambda>_. returnS s)"

definition dp_scan_input :: "BlobMetadata \<Rightarrow> bytes \<Rightarrow> ScanInput" where
  "dp_scan_input m b = \<lparr>si_bytes = b, si_filename = Some (bm_filename m), si_declared_mime = Some (bm_mime m)\<rparr>"

definition check_scan :: "dp_env \<Rightarrow> string \<Rightarrow> BlobMetadata \<Rightarrow> (dp_state, serve_fault, unit) action" where
  "check_scan E transfer_id metadata =
     (case dp_scanner E of
        None \<Rightarrow> returnS ()
      | Some ss \<Rightarrow>
          bindS (getS (\<lambda>s. scan_cache s transfer_id)) (\<lambda>cached.
          case cached of
            Some CachedClean \<Rightarrow> returnS ()
          | Some (CachedBlocked reason) \<Rightarrow> throwS (Refused (ScannerBlocked reason))
          | None \<Rightarrow>
              bindS (liftS (map_err Refused (src_bytes E 0 transfer_id))) (\<lambda>bs.
              let verdict = ScanPipeline_scan ss (dp_scan_millis E) (dp_scan_input metadata bs) in
              if is_blocking verdict then
                (let reason = verdict_text E verdict in
                 bindS (modifyS (\<lambda>s. s\<lparr>scan_cache := (scan_cache s)(transfer_id \<mapsto> CachedBlocked reason)\<rparr>)) (\<lambda>_.
                 throwS (Refused (ScannerBlocked reason))))
              else modifyS (\<lambda>s. s\<lparr>scan_cache := (scan_cache s)(transfer_id \<mapsto> CachedClean)\<rparr>))))"

definition serve :: "dp_env \<Rightarrow> string \<Rightarrow> header_value option \<Rightarrow> (dp_state, serve_fault, blob_response) action" where
  "serve E transfer_id header =
     bindS (liftS (ok_or (Refused (TicketRefused ''missing X-AEX-Ticket header'')) header)) (\<lambda>h.
     bindS (case h of
         NotAscii \<Rightarrow> throwS (Refused (TicketRefused ''header is not ASCII''))
       | AsciiHeader t \<Rightarrow> returnS t) (\<lambda>ticket_header.
     bindS (liftS (map_err (\<lambda>e. Refused (Serde e)) (parse_ticket E ticket_header))) (\<lambda>ticket.
     bindS (mapErrS (\<lambda>e. Refused (TicketRefused (ticket_error_text e)))
       (on_nonces (verify_ticket (dp_plat E) (dp_verifier E) (dp_now E) ticket))) (\<lambda>verified.
     bindS (ensureS (vt_transfer_id verified = transfer_id)
       (Refused (TicketRefused (''ticket transfer '' @ vt_transfer_id verified
          @ '' does not match URL '' @ transfer_id)))) (\<lambda>_.
     bindS (liftS (map_err Refused (src_metadata E transfer_id))) (\<lambda>metadata.
     bindS (check_scan E transfer_id metadata) (\<lambda>_.
     bindS (liftS (map_err Refused (src_bytes E 1 transfer_id))) (\<lambda>bs.
     let mime = (if header_value_ok E (bm_mime metadata) then bm_mime metadata
                 else ''application/octet-stream'') in
     bindS (unwrap_header E (show_u64 (bm_size metadata))) (\<lambda>len.
     bindS (unwrap_header E (''attachment; filename='' @ [DQ] @ bm_filename metadata @ [DQ])) (\<lambda>disposition.
     returnS \<lparr>content_type = mime, content_length = len, content_disposition = disposition,
       br_body = bs\<rparr>))))))))))"

datatype blob_reply = Sent blob_response | ErrorReply nat string | Aborted

definition get_blob :: "dp_env \<Rightarrow> string \<Rightarrow> header_value option \<Rightarrow> dp_state \<Rightarrow> blob_reply \<times> dp_state" where
  "get_blob E transfer_id header s =
     (case serve E transfer_id header s of
        (Inr resp, s') \<Rightarrow> (Sent resp, s')
      | (Inl Panicked, s') \<Rightarrow> (Aborted, s')
      | (Inl (Refused (BlobNotFound _)), s') \<Rightarrow> (ErrorReply 404 ''not found'', s')
      | (Inl (Refused (TicketRefused _)), s') \<Rightarrow> (ErrorReply 401 ''bad ticket'', s')
      | (Inl (Refused (ScannerBlocked _)), s') \<Rightarrow> (ErrorReply 403 ''scanner blocked'', s')
      | (Inl (Refused _), s') \<Rightarrow> (ErrorReply 500 ''internal error'', s'))"

section \<open>Which tickets verify\<close>

interpretation ticket_nonces: single_use insert_nonce "\<lambda>used. used"
  by unfold_locales (simp add: insert_nonce_def)

text \<open>A ticket that this data plane honours at a time, its nonce aside.\<close>

definition ticket_authentic :: "platform \<Rightarrow> TicketVerifier \<Rightarrow> i64 \<Rightarrow> Ticket \<Rightarrow> bool" where
  "ticket_authentic P v now t \<longleftrightarrow> ti_data_plane_url t = data_plane_url v
     \<and> sint now \<le> sint (ti_expires t + skew_seconds v)
     \<and> (\<exists>sg canon. hex_dec P (ti_signature t) = Inr sg \<and> length sg = 64
        \<and> data_ticket_bytes (ti_transfer_id t) (ti_recipient t) (ti_data_plane_url t) (ti_expires t) (ti_nonce t) = Inr canon
        \<and> ed25519_verify P (control_plane_pubkey v) canon sg)"

lemma verify_ticket_Inr_iff:
  "verify_ticket P v now t used = (Inr vt, used') \<longleftrightarrow> ticket_authentic P v now t
     \<and> ti_nonce t \<notin> used \<and> used' = insert (ti_nonce t) used
     \<and> vt = \<lparr>vt_transfer_id = ti_transfer_id t, vt_recipient = ti_recipient t,
              vt_expires = ti_expires t, vt_nonce = ti_nonce t\<rparr>"
  unfolding verify_ticket_def ticket_authentic_def
  by (auto simp: step_iffs insert_nonce_def split: if_splits)

lemma verify_ticket_monotone: "keeps (\<lambda>used. A \<subseteq> used) (verify_ticket P v now t)"
  unfolding verify_ticket_def by (intro keeps_rules) (auto simp: keeps_def insert_nonce_def)

section \<open>Which requests are served\<close>

lemma on_nonces_iff [step_iffs]:
  "on_nonces m s = (r, s') \<longleftrightarrow> (\<exists>u. m (used_nonces s) = (r, u) \<and> s' = s\<lparr>used_nonces := u\<rparr>)"
  by (auto simp: on_nonces_def split: prod.splits)

definition scan_blocks :: "scanner list \<Rightarrow> BlobMetadata \<Rightarrow> bytes \<Rightarrow> bool" where
  "scan_blocks ss m b \<longleftrightarrow> (\<exists>sc \<in> set ss. sv_result (scan_one sc (dp_scan_input m b)) = Malicious)"

lemma is_blocking_scan:
  "is_blocking (ScanPipeline_scan ss w i) \<longleftrightarrow> (\<exists>sc \<in> set ss. sv_result (scan_one sc i) = Malicious)"
  by (auto simp: is_blocking_def overall_scan overall_Malicious_iff)

lemma check_scan_Inr_iff:
  "check_scan E t m s = (Inr u, s') \<longleftrightarrow>
     (case dp_scanner E of
        None \<Rightarrow> s' = s
      | Some ss \<Rightarrow> (case scan_cache s t of
           Some CachedClean \<Rightarrow> s' = s
         | Some (CachedBlocked r) \<Rightarrow> False
         | None \<Rightarrow> (\<exists>b. src_bytes E 0 t = Inr b \<and> \<not> scan_blocks ss m b
             \<and> s' = s\<lparr>scan_cache := (scan_cache s)(t \<mapsto> CachedClean)\<rparr>)))"
  by (auto simp: check_scan_def step_iffs Let_def scan_blocks_def is_blocking_scan
      split: option.splits ScanVerdictCache.splits if_splits)

lemma header_text_Inr_iff [step_iffs]:
  "(case h of NotAscii \<Rightarrow> throwS e | AsciiHeader t \<Rightarrow> returnS t) s = (Inr x, s') \<longleftrightarrow> h = AsciiHeader x \<and> s' = s"
  by (cases h) auto

lemma unwrap_header_Inr_iff [step_iffs]:
  "unwrap_header E x s = (Inr y, s') \<longleftrightarrow> header_value_ok E x \<and> y = x \<and> s' = s"
  by (auto simp: unwrap_header_def)

lemma serve_Inr:
  assumes "serve E t h s = (Inr resp, s')"
  shows "\<exists>tx ticket m. h = Some (AsciiHeader tx) \<and> parse_ticket E tx = Inr ticket
    \<and> ticket_authentic (dp_plat E) (dp_verifier E) (dp_now E) ticket \<and> ti_nonce ticket \<notin> used_nonces s
    \<and> ti_transfer_id ticket = t \<and> src_metadata E t = Inr m \<and> src_bytes E 1 t = Inr (br_body resp)
    \<and> check_scan E t m (s\<lparr>used_nonces := insert (ti_nonce ticket) (used_nonces s)\<rparr>) = (Inr (), s')"
  using assms unfolding serve_def Let_def
  by (auto simp: step_iffs verify_ticket_Inr_iff split: if_splits)

lemma get_blob_Sent_iff: "get_blob E t h s = (Sent resp, s') \<longleftrightarrow> serve E t h s = (Inr resp, s')"
  by (auto simp: get_blob_def split: prod.splits sum.splits serve_fault.splits DataPlaneError.splits)

lemma get_blob_state: "snd (get_blob E t h s) = snd (serve E t h s)"
  by (auto simp: get_blob_def split: prod.splits sum.splits serve_fault.splits DataPlaneError.splits)

lemma keeps_on_nonces [keeps_rules]: "keeps P m \<Longrightarrow> keeps (\<lambda>s. P (used_nonces s)) (on_nonces m)"
  by (auto simp: keeps_def on_nonces_def split: prod.splits)

lemma keeps_on_nonces_other: "(\<And>s u. P (s\<lparr>used_nonces := u\<rparr>) = P s) \<Longrightarrow> keeps P (on_nonces m)"
  by (auto simp: keeps_def on_nonces_def split: prod.splits)

lemma keeps_case_header [keeps_rules]:
  "keeps P m \<Longrightarrow> (\<And>t. keeps P (f t)) \<Longrightarrow> keeps P (case h of NotAscii \<Rightarrow> m | AsciiHeader t \<Rightarrow> f t)"
  by (cases h) auto

lemma keeps_case_cache [keeps_rules]:
  "keeps P m \<Longrightarrow> (\<And>r. keeps P (f r)) \<Longrightarrow> keeps P (case c of CachedClean \<Rightarrow> m | CachedBlocked r \<Rightarrow> f r)"
  by (cases c) auto

lemma serve_nonces_monotone: "keeps (\<lambda>s. A \<subseteq> used_nonces s) (serve E t h)"
  unfolding serve_def check_scan_def unwrap_header_def Let_def
  by (intro keeps_rules verify_ticket_monotone) simp_all

section \<open>A run of the server\<close>

type_synonym dp_request = "dp_env \<times> string \<times> header_value option"

fun serve_all :: "dp_request list \<Rightarrow> dp_state \<Rightarrow> blob_reply list" where
  "serve_all [] s = []"
| "serve_all ((E, t, h) # rs) s = (case get_blob E t h s of (r, s') \<Rightarrow> r # serve_all rs s')"

definition presented_nonce :: "dp_request \<Rightarrow> string option" where
  "presented_nonce r = (case r of
       (E, t, Some (AsciiHeader tx)) \<Rightarrow> (case parse_ticket E tx of Inr ti \<Rightarrow> Some (ti_nonce ti) | Inl _ \<Rightarrow> None)
     | _ \<Rightarrow> None)"

lemma served_nonce:
  assumes "get_blob E t h s = (Sent resp, s')"
  shows "\<exists>n. presented_nonce (E, t, h) = Some n \<and> n \<notin> used_nonces s \<and> n \<in> used_nonces s'"
proof -
  from assms obtain tx ticket m where
    "h = Some (AsciiHeader tx)" "parse_ticket E tx = Inr ticket" "ti_nonce ticket \<notin> used_nonces s"
    and c: "check_scan E t m (s\<lparr>used_nonces := insert (ti_nonce ticket) (used_nonces s)\<rparr>) = (Inr (), s')"
    unfolding get_blob_Sent_iff by (blast dest: serve_Inr)
  moreover have "ti_nonce ticket \<in> used_nonces s'"
    using c by (auto simp: check_scan_Inr_iff split: option.splits ScanVerdictCache.splits)
  ultimately show ?thesis by (simp add: presented_nonce_def)
qed

lemma get_blob_nonces: "get_blob E t h s = (r, s') \<Longrightarrow> used_nonces s \<subseteq> used_nonces s'"
  using keepsD [OF serve_nonces_monotone, of "used_nonces s" s E t h] get_blob_state [of E t h s] by simp

lemma serve_all_used:
  "n \<in> used_nonces s \<Longrightarrow> i < length rs \<Longrightarrow> serve_all rs s ! i = Sent resp \<Longrightarrow> presented_nonce (rs ! i) \<noteq> Some n"
proof (induction rs arbitrary: s i)
  case (Cons r rs)
  obtain E t h where r: "r = (E, t, h)" by (cases r) auto
  obtain a s1 where a: "get_blob E t h s = (a, s1)" by fastforce
  show ?case
  proof (cases i)
    case 0
    with Cons.prems a r show ?thesis by (auto dest: served_nonce)
  next
    case (Suc j)
    with Cons.prems a r show ?thesis
      using Cons.IH [of s1 j] get_blob_nonces [OF a] by auto
  qed
qed simp

lemma serve_all_once:
  "i < j \<Longrightarrow> j < length rs \<Longrightarrow> serve_all rs s ! i = Sent x \<Longrightarrow> serve_all rs s ! j = Sent y \<Longrightarrow>
   presented_nonce (rs ! i) \<noteq> presented_nonce (rs ! j)"
proof (induction rs arbitrary: s i j)
  case (Cons r rs)
  obtain E t h where r: "r = (E, t, h)" by (cases r) auto
  obtain a s1 where a: "get_blob E t h s = (a, s1)" by fastforce
  from Cons.prems obtain k where j: "j = Suc k" "k < length rs" by (cases j) auto
  show ?case
  proof (cases i)
    case 0
    with Cons.prems a r obtain n where "presented_nonce r = Some n" "n \<in> used_nonces s1"
      by (auto dest: served_nonce)
    with 0 j Cons.prems a r show ?thesis using serve_all_used [of n s1 k rs y] by auto
  next
    case (Suc l)
    with Cons.prems a r j show ?thesis using Cons.IH [of l k s1] by auto
  qed
qed simp

section \<open>The scan cache\<close>

text \<open>
  A source whose content does not change between the reads: every request of the run sees the
  same metadata and bytes, with the same scanners.
\<close>

definition stable_source ::
  "scanner list \<Rightarrow> (string \<Rightarrow> DataPlaneError + BlobMetadata) \<Rightarrow> (string \<Rightarrow> DataPlaneError + bytes) \<Rightarrow> dp_env \<Rightarrow> bool" where
  "stable_source ss meta content E \<longleftrightarrow> dp_scanner E = Some ss \<and> src_metadata E = meta
     \<and> src_bytes E 0 = content \<and> src_bytes E 1 = content"

definition cache_sound ::
  "scanner list \<Rightarrow> (string \<Rightarrow> DataPlaneError + BlobMetadata) \<Rightarrow> (string \<Rightarrow> DataPlaneError + bytes) \<Rightarrow> dp_state \<Rightarrow> bool" where
  "cache_sound ss meta content s \<longleftrightarrow> (\<forall>t. scan_cache s t = Some CachedClean \<longrightarrow>
     (\<exists>m b. meta t = Inr m \<and> content t = Inr b \<and> \<not> scan_blocks ss m b))"

lemma cache_sound_set:
  "cache_sound ss meta content s \<Longrightarrow> meta t = Inr m \<Longrightarrow> content t = Inr b \<Longrightarrow>
   (v = CachedClean \<Longrightarrow> \<not> scan_blocks ss m b) \<Longrightarrow>
   cache_sound ss meta content (s\<lparr>scan_cache := (scan_cache s)(t \<mapsto> v)\<rparr>)"
  by (auto simp: cache_sound_def)

lemma check_scan_sound:
  assumes "stable_source ss meta content E" "meta t = Inr m"
  shows "keeps (cache_sound ss meta content) (check_scan E t m)"
proof (rule keepsI)
  fix s assume "cache_sound ss meta content s"
  then show "cache_sound ss meta content (snd (check_scan E t m s))"
    using assms
    by (auto simp: check_scan_def stable_source_def Let_def bindS_def is_blocking_scan scan_blocks_def [symmetric]
        map_err_Inr_iff split: option.splits ScanVerdictCache.splits sum.splits intro: cache_sound_set)
qed

lemma serve_sound:
  assumes "stable_source ss meta content E"
  shows "keeps (cache_sound ss meta content) (serve E t h)"
proof -
  have nonces: "keeps (cache_sound ss meta content) (on_nonces m)" for m :: "(string set, 'e, 'a) action"
    by (rule keeps_on_nonces_other) (simp add: cache_sound_def)
  have scan: "keeps (cache_sound ss meta content) (bindS (liftS (map_err Refused (src_metadata E t))) f)"
    if "\<And>m. meta t = Inr m \<Longrightarrow> keeps (cache_sound ss meta content) (f m)"
    for f :: "BlobMetadata \<Rightarrow> (dp_state, serve_fault, 'c) action"
    using that assms by (intro keeps_bindS_outcome keeps_rules) (auto simp: stable_source_def step_iffs)
  show ?thesis
    unfolding serve_def unwrap_header_def Let_def
    by (intro scan nonces check_scan_sound [OF assms] keeps_bindS keeps_liftS keeps_mapErrS keeps_ensureS
        keeps_returnS keeps_case_header keeps_throwS)
qed

lemma served_unblocked:
  assumes "stable_source ss meta content E" "cache_sound ss meta content s"
    and "get_blob E t h s = (Sent resp, s')"
  shows "\<exists>m. meta t = Inr m \<and> content t = Inr (br_body resp) \<and> \<not> scan_blocks ss m (br_body resp)"
proof -
  from assms(3) [unfolded get_blob_Sent_iff, THEN serve_Inr] obtain ticket :: Ticket and m where
    "src_metadata E t = Inr m" "src_bytes E 1 t = Inr (br_body resp)"
    "check_scan E t m (s\<lparr>used_nonces := insert (ti_nonce ticket) (used_nonces s)\<rparr>) = (Inr (), s')"
    by blast
  then show ?thesis
    using assms(1,2)
    by (auto simp: check_scan_Inr_iff stable_source_def cache_sound_def
        split: option.splits ScanVerdictCache.splits)
qed

lemma serve_all_unblocked:
  assumes "list_all (\<lambda>(E, t, h). stable_source ss meta content E) rs" "cache_sound ss meta content s"
    and "i < length rs" "serve_all rs s ! i = Sent resp"
  shows "\<exists>m. meta (fst (snd (rs ! i))) = Inr m \<and> \<not> scan_blocks ss m (br_body resp)"
  using assms
proof (induction rs arbitrary: s i)
  case (Cons r rs)
  obtain E t h where r: "r = (E, t, h)" by (cases r) auto
  obtain a s1 where a: "get_blob E t h s = (a, s1)" by fastforce
  have st: "stable_source ss meta content E" using Cons.prems r by simp
  have "cache_sound ss meta content s1"
    using keepsD [OF serve_sound [OF st] Cons.prems(2), of t h] get_blob_state [of E t h s] a by simp
  then show ?case
    using Cons.prems Cons.IH [of s1] served_unblocked [OF st Cons.prems(2), of t h resp s1] a r
    by (cases i) auto
qed simp

lemma cache_sound_fresh: "cache_sound ss meta content fresh_data_plane"
  by (simp add: cache_sound_def fresh_data_plane_def)

text \<open>The in-memory source and the file source give such content while nothing rewrites them.\<close>

lemma memory_source_stable:
  "stable_source ss (InMemoryBlobSource_metadata src) (InMemoryBlobSource_bytes src)
     (E\<lparr>dp_scanner := Some ss, src_metadata := InMemoryBlobSource_metadata src,
        src_bytes := \<lambda>_. InMemoryBlobSource_bytes src\<rparr>)"
  by (simp add: stable_source_def)

lemma memory_source_insert:
  "InMemoryBlobSource_metadata (InMemoryBlobSource_insert t m b src) u
     = (if u = t then Inr m else InMemoryBlobSource_metadata src u)"
  "InMemoryBlobSource_bytes (InMemoryBlobSource_insert t m b src) u
     = (if u = t then Inr b else InMemoryBlobSource_bytes src u)"
  by (simp_all add: InMemoryBlobSource_insert_def InMemoryBlobSource_metadata_def InMemoryBlobSource_bytes_def)

end
