(* ===== verification/Liveness.thy ===== *)
theory Liveness
  imports System DataPlane
begin

text \<open>
  Requests that must succeed: when the services answer and the request is authentic, the
  handlers return a value.  Together with the lemmas that say what a success means, this makes
  the conditions of success exact.
\<close>

section \<open>Success\<close>

text \<open>
  \<open>ends P m\<close>: from every state with \<open>P\<close> the action returns a value, not an error; \<open>runs P m\<close>:
  it does, and keeps \<open>P\<close>.
\<close>

definition ends :: "('s \<Rightarrow> bool) \<Rightarrow> ('s, 'e, 'a) action \<Rightarrow> bool" where
  "ends P m \<longleftrightarrow> (\<forall>s. P s \<longrightarrow> (\<exists>a s'. m s = (Inr a, s')))"

definition runs :: "('s \<Rightarrow> bool) \<Rightarrow> ('s, 'e, 'a) action \<Rightarrow> bool" where
  "runs P m \<longleftrightarrow> (\<forall>s. P s \<longrightarrow> (\<exists>a s'. m s = (Inr a, s') \<and> P s'))"

lemma endsD: "ends P m \<Longrightarrow> P s \<Longrightarrow> \<exists>a s'. m s = (Inr a, s')"
  by (simp add: ends_def)

lemma ends_runs: "runs P m \<Longrightarrow> (\<And>a. ends P (f a)) \<Longrightarrow> ends P (bindS m f)"
  unfolding ends_def runs_def bindS_def by fastforce

lemma ends_last: "ends P m \<Longrightarrow> (\<And>a. ends (\<lambda>_. True) (f a)) \<Longrightarrow> ends P (bindS m f)"
  unfolding ends_def bindS_def by fastforce

lemma ends_returnS: "ends P (returnS a)" by (simp add: ends_def)

lemma ends_mapErrS: "ends P m \<Longrightarrow> ends P (mapErrS g m)"
  unfolding ends_def mapErrS_apply by fastforce

lemma ends_case_PolicyDecision:
  "ends P m \<Longrightarrow> (\<And>c r. ends P (f c r)) \<Longrightarrow> (\<And>i e. ends P (g i e)) \<Longrightarrow>
   ends P (case d of Allow \<Rightarrow> m | Deny c r \<Rightarrow> f c r | Pending i e \<Rightarrow> g i e)"
  by (cases d) auto

lemma runs_audit_warn: "(\<And>s l. P (s\<lparr>audit := l\<rparr>) = P s) \<Longrightarrow> runs P (audit_warn E k ev)"
  unfolding runs_def
proof (intro allI impI)
  fix s assume "\<And>s l. P (s\<lparr>audit := l\<rparr>) = P s" "P s"
  with audit_warn_Inr [of E k ev s] show "\<exists>a s'. audit_warn E k ev s = (Inr a, s') \<and> P s'" by auto
qed

lemma ends_audit_warn: "ends P (audit_warn E k ev)"
  unfolding ends_def using audit_warn_Inr by metis

lemma ends_on_metrics: "ends P (on_metrics f)"
  by (simp add: ends_def on_metrics_def)

lemma ends_insert:
  assumes "db_fault_at E ''transfers_insert'' = NoFault" "it_transfer_id t \<notin> tr_transfer_id ` set (transfers d0)"
  shows "ends (\<lambda>s. db s = d0) (query E ''transfers_insert'' (transfers_insert (dbe E) t))"
  using transfers_insert_fresh [OF assms(2), of "dbe E"] assms(1) by (fastforce simp: query_Inr_iff ends_def)

definition upload_services_ok :: "('l, 'b) env \<Rightarrow> bool" where
  "upload_services_ok E \<longleftrightarrow> db_fault_at E ''find_by_agent_id'' = NoFault \<and> db_fault_at E ''valid_public_keys_at'' = NoFault
     \<and> db_fault_at E ''consume_intent_nonce'' = NoFault \<and> db_fault_at E ''transfers_insert'' = NoFault
     \<and> (\<forall>t b s. \<exists>s'. blob_put E t b s = (Inr (), s'))"

lemma runs_put:
  fixes E :: "('l, 'b) env"
  assumes "upload_services_ok E"
  shows "runs (\<lambda>s :: ('l, 'b) app_state. db s = d0) (on_blobs (blob_put E t b))"
  unfolding runs_def
proof (intro allI impI)
  fix s :: "('l, 'b) app_state" assume s: "db s = d0"
  obtain x where "blob_put E t b (blobs s) = (Inr (), x)" using assms unfolding upload_services_ok_def by blast
  with s show "\<exists>a s'. on_blobs (blob_put E t b) s = (Inr a, s') \<and> db s' = d0"
    by (simp add: on_blobs_def)
qed

lemma runs_mapErrS: "runs P m \<Longrightarrow> runs P (mapErrS g m)"
  unfolding runs_def mapErrS_apply by fastforce

lemma screen_blob_ends:
  assumes ok: "upload_services_ok E" and fresh: "stored_id E \<notin> tr_transfer_id ` set (transfers d0)"
  shows "ends (\<lambda>s. db s = d0) (screen_blob E req sender sender_row blob)"
proof -
  have nf: "db_fault_at E ''transfers_insert'' = NoFault" using ok by (simp add: upload_services_ok_def)
  show ?thesis
    unfolding screen_blob_def persist_rejected_def count_created_def Let_def stored_id_def [symmetric]
    by (intro ends_runs [OF runs_audit_warn] ends_runs [OF runs_mapErrS [OF runs_put [OF ok]]]
        ends_last [OF ends_insert [OF nf]] ends_last [OF ends_audit_warn] ends_last [OF ends_on_metrics]
        ends_returnS ends_case_PolicyDecision ends_last) (simp_all add: fresh)
qed

lemma create_blob_succeeds:
  assumes ok: "upload_services_ok E" and fresh: "stored_id E \<notin> tr_transfer_id ` set (transfers (db s))"
    and br: "ct_reachable_at req = None" "ct_tunnel_url req = None"
    and adm: "create_admissible E (db s) req sender_row"
    and hex: "hex_dec (plat E) (ct_blob_hex req) = Inr blob"
    and auth: "intent_authentic E (db s) req (of_nat (length blob))"
    and unused: "ct_nonce req \<notin> fst ` set (transfer_intent_nonces (db s))"
  shows "\<exists>resp s'. create_transfer E req s = (Inr resp, s')"
proof -
  let ?sender = "AgentId (ct_sender_agent_id req)"
  obtain d where d: "consume_intent_nonce (ct_nonce req) (ct_sender_agent_id req) (db s) = (Inr True, d)" "transfers d = transfers (db s)"
  proof
    have "\<not> list_ex (\<lambda>r. fst r = ct_nonce req) (transfer_intent_nonces (db s))" using unused by (force simp: list_ex_iff)
    then show "consume_intent_nonce (ct_nonce req) (ct_sender_agent_id req) (db s) = (Inr True, (db s)\<lparr>transfer_intent_nonces :=
        transfer_intent_nonces (db s) @ [(ct_nonce req, ct_sender_agent_id req)]\<rparr>)" by (simp add: consume_intent_nonce_def)
  qed simp
  have "ends (\<lambda>s. db s = d) (screen_blob E req ?sender sender_row blob)"
    using screen_blob_ends [OF ok] fresh d(2) by simp
  then obtain resp s' where scr: "screen_blob E req ?sender sender_row blob (s\<lparr>db := d\<rparr>) = (Inr resp, s')"
    using endsD [of _ _ "s\<lparr>db := d\<rparr>"] by fastforce
  have "create_with_blob E req ?sender sender_row s = (Inr resp, s')"
    using ok hex auth d(1) scr unfolding create_with_blob_def Let_def
    by (auto simp: step_iffs query_Inr_iff verify_with_valid_keys_Inr_iff intent_authentic_def upload_services_ok_def)
  then show ?thesis
    using adm br create_transfer_Inr_iff [of E req s resp s'] by auto
qed

section \<open>Download, acknowledgement, tickets, registration\<close>

lemma download_succeeds:
  assumes "db_fault_at E ''find_by_transfer_id'' = NoFault" "db_fault_at E ''valid_public_keys_at'' = NoFault"
    and "db_fault_at E ''mark_accepted'' = NoFault"
    and "row_of (db s) tid = Some row" "tr_recipient row = rq_recipient_agent_id req"
    and "receipt_authentic E (db s) tid req ''download''" "tr_state row \<in> set inbox_states"
    and "blob_get E tid (blobs s) = (Inr bs, b)"
  shows "\<exists>resp s'. download_transfer E tid req s = (Inr resp, s')"
proof -
  have v: "verify_recipient_receipt E tid req ''download'' s = (Inr row, s)"
    using assms by (simp add: verify_recipient_receipt_Inr_iff)
  have st: "tr_state row \<noteq> ''rejected''" "tr_state row = ''ready_for_pickup'' \<or> tr_state row = ''accepted''"
    using assms(7) by (auto simp: inbox_states_def)
  obtain n d where m: "query E ''mark_accepted'' (mark_accepted (dbe E) tid) (s\<lparr>blobs := b\<rparr>) = (Inr n, s\<lparr>blobs := b, db := d\<rparr>)"
    using assms(3) by (auto simp: query_Inr_iff mark_accepted_def update_where_def)
  obtain l where a: "audit_warn E 0 (mk_event TransferAccepted (rq_recipient_agent_id req) tid
      (JObject [(''nonce'', JString (rq_nonce req))])) (s\<lparr>blobs := b, db := d\<rparr>) = (Inr (), s\<lparr>blobs := b, db := d, audit := l\<rparr>)"
    using audit_warn_Inr [of E 0 _ "s\<lparr>blobs := b, db := d\<rparr>"] by auto
  show ?thesis
    unfolding download_transfer_def
    using st by (simp add: bindS_def v ensureS_def ensure_def mapErrS_apply on_blobs_def assms(8) m a)
qed

lemma ack_succeeds:
  assumes "db_fault_at E ''find_by_transfer_id'' = NoFault" "db_fault_at E ''valid_public_keys_at'' = NoFault"
    and "db_fault_at E ''mark_delivered'' = NoFault"
    and "row_of (db s) tid = Some row" "tr_recipient row = rq_recipient_agent_id req"
    and "receipt_authentic E (db s) tid req ''ack''" "tr_state row \<in> set inbox_states"
    and "audit_append E (audit_now E 0) (audit_uuid E 0) (mk_event TransferDelivered (rq_recipient_agent_id req) tid
         (JObject [(''nonce'', JString (rq_nonce req))])) (audit s) = (Inr receipt, l)"
  shows "\<exists>resp s'. ack_transfer E tid req s = (Inr resp, s')"
proof -
  have v: "verify_recipient_receipt E tid req ''ack'' s = (Inr row, s)"
    using assms by (simp add: verify_recipient_receipt_Inr_iff)
  have "row \<in> set (transfers (db s))" "tr_transfer_id row = tid" using row_of_Some [OF assms(4)] by simp_all
  then obtain n d where m: "query E ''mark_delivered'' (mark_delivered (dbe E) tid) s = (Inr n, s\<lparr>db := d\<rparr>)" "n \<noteq> 0"
    using assms(3,7) by (auto simp: query_Inr_iff mark_delivered_def update_where_def inbox_states_def filter_empty_conv)
  show ?thesis
    unfolding ack_transfer_def
    using m(2) by (simp add: bindS_def v ensureS_def ensure_def m(1) mapErrS_apply on_metrics_def on_audit_def assms(8)
        tryS_apply)
qed

lemma issue_ticket_succeeds:
  assumes "db_fault_at E ''find_by_transfer_id'' = NoFault" "db_fault_at E ''valid_public_keys_at'' = NoFault"
    and "db_fault_at E ''insert_ticket_nonce'' = NoFault" "signer E = Some sign"
    and "row_of (db s) tid = Some row" "tr_recipient row = rq_recipient_agent_id req"
    and "receipt_authentic E (db s) tid req ''request_ticket''" "tr_state row = ''ready_for_pickup''" "tr_tunnel_url row = Some u"
    and "data_ticket_bytes tid (rq_recipient_agent_id req) u (now_unix E + 60) (hex_enc (plat E) (random16 E)) = Inr canon"
    and "hex_enc (plat E) (random16 E) \<notin> fst ` set (data_plane_ticket_nonces (db s))"
  shows "\<exists>t s'. issue_ticket E tid req s = (Inr t, s')"
proof -
  from assms(7) obtain canonical sg where r: "valid_nonce (rq_nonce req)"
    "is_within_clock_skew (now_unix E) (rq_issued_at req)" "valid_agent_id (rq_recipient_agent_id req)"
    "transfer_receipt_bytes (rq_recipient_agent_id req) tid ''request_ticket'' (rq_nonce req) (rq_issued_at req) = Inr canonical"
    "hex_dec (plat E) (rq_signature_hex req) = Inr sg"
    "signed_by_valid_key (plat E) (dbe E) (db s) (rq_recipient_agent_id req) (clock E 1) canonical sg"
    by (auto simp: receipt_authentic_def)
  obtain d where i: "insert_ticket_nonce (hex_enc (plat E) (random16 E)) tid (now_unix E + 60) (db s) = (Inr (), d)"
    using assms(11) by (force simp: insert_ticket_nonce_def list_ex_iff)
  have "\<exists>t. issue_ticket E tid req s = (Inr t, s\<lparr>db := d\<rparr>)"
    unfolding issue_ticket_def Let_def TICKET_TTL_SECONDS_def
    using assms r i length_guard [of "rq_nonce req"]
    by (simp add: step_iffs query_Inr_iff find_by_transfer_id_def row_of_def verify_with_valid_keys_Inr_iff)
  then show ?thesis by blast
qed

lemma register_succeeds:
  assumes "db_fault_at E ''consume_nonce'' = NoFault" "db_fault_at E ''agents_insert'' = NoFault"
    and "valid_label (rg_org req)" "valid_label (rg_name req)" "valid_nonce (rg_nonce req)"
    and "is_within_clock_skew (now_unix E) (rg_issued_at req)" "registration_authentic (plat E) req pk"
    and "consume_nonce (rg_nonce req) pk (db s) = (Inr True, d)"
    and "agents_insert (plat E) (dbe E) (agent_id_of (rg_org req) (rg_name req) (compute_fingerprint (plat E) pk)) pk
        (compute_fingerprint (plat E) pk) (rg_org req) (rg_name req) d = (Inr row, d')"
  shows "\<exists>resp s'. register E req s = (Inr resp, s')"
proof -
  have "\<exists>s'. register E req s = (Inr (201, agent_response (plat E) row), s')"
    using assms unfolding register_def Let_def
    by (auto simp: step_iffs query_Inr_iff on_db_Inr_iff registration_authentic_def key_verifies_def ed25519_key_ok_def
        on_metrics_def PUBLIC_KEY_LEN_def valid_nonce_def MIN_NONCE_LEN_def MAX_NONCE_LEN_def
        ex_bool_eq)
  then show ?thesis by blast
qed

lemma rotate_key_succeeds:
  assumes "db_fault_at E ''current_key'' = NoFault" "db_fault_at E ''consume_rotate_nonce'' = NoFault"
    and "db_fault_at E ''insert_rotation'' = NoFault"
    and "valid_agent_id (rk_agent_id req)" "valid_nonce (rk_nonce req)"
    and "is_within_clock_skew (now_unix E) (rk_issued_at req)"
    and "current_key (rk_agent_id req) (db s) = (Inr (Some current), db s)"
    and "rotation_authentic (plat E) req current pk"
    and "consume_rotate_nonce (rk_nonce req) (rk_agent_id req) (db s) = (Inr True, d)"
    and "insert_rotation (dbe E) (rk_agent_id req) (ak_public_key_hex current) (rk_new_public_key_hex req)
        pk (clock E 1) d = (Inr row, d')"
  shows "\<exists>resp s'. rotate_key E req s = (Inr resp, s')"
proof -
  let ?resp = "\<lparr>rr_agent_id = ak_agent_id row, rr_new_public_key_hex = ak_public_key_hex row,
      rr_valid_from = unix_timestamp (plat E) (ak_valid_from row),
      rr_previous_key_valid_until = unix_timestamp (plat E) (clock E 1) + of_int ROTATION_GRACE_SECS\<rparr>"
  have "\<exists>s'. rotate_key E req s = (Inr (200, ?resp), s')"
    using assms unfolding rotate_key_def Let_def
    by (auto simp: step_iffs query_Inr_iff on_db_Inr_iff rotation_authentic_def key_verifies_def ed25519_key_ok_def
        on_metrics_def PUBLIC_KEY_LEN_def valid_nonce_def MIN_NONCE_LEN_def MAX_NONCE_LEN_def
        ex_bool_eq)
  then show ?thesis by blast
qed

end
