(* ===== verification/Demo.thy ===== *)
theory Demo
  imports Liveness
begin

text \<open>
  A concrete run: two registered agents, an upload, a tunnel transfer, a waiting transfer and a
  data plane, on the concrete platform of \<open>Platform\<close>, the in-memory stores and the tier policy.  It
  shows that the hypotheses of the properties can hold together.
\<close>

section \<open>Agents and environment\<close>

definition alice_pk :: bytes where "alice_pk = replicate 32 1"
definition bob_pk :: bytes where "bob_pk = replicate 32 2"
definition plane_pk :: bytes where "plane_pk = replicate 32 9"
definition alice :: string where "alice = ''spize:acme/alice:a5a5a5''"
definition bob :: string where "bob = ''spize:acme/bob:a5a5a5''"
definition demo_nonce :: string where "demo_nonce = replicate 32 (CHR ''a'')"
definition demo_time :: instant where "demo_time = 1000000000000"

definition signed :: "bytes \<Rightarrow> core_error + bytes \<Rightarrow> string" where
  "signed pk msg = (case msg of Inr c \<Rightarrow> hex_encode (demo_sign pk c) | Inl _ \<Rightarrow> [])"

definition demo_dbe :: db_env where
  "demo_dbe = \<lparr>db_now = demo_time, db_uuid = ''row'', app_now = demo_time, timestamptz = (\<lambda>t. t)\<rparr>"

definition demo_env :: "(MemoryAuditLog, MemoryBlobStore) env" where
  "demo_env = \<lparr>plat = demo_platform, clock = (\<lambda>_. demo_time), db_fault_at = (\<lambda>_. NoFault), dbe = demo_dbe,
     policy_evaluate = TierPolicy_evaluate (for_tier Dev), scanners = [EicarScanner 0], scan_millis = 0,
     audit_append = MemoryAuditLog_append demo_platform, audit_now = (\<lambda>_. demo_time), audit_uuid = (\<lambda>_. ''u''),
     blob_put = MemoryBlobStore_put, blob_get = MemoryBlobStore_get, blob_delete = MemoryBlobStore_delete,
     uuid_simple = ''u1'', random16 = replicate 16 7, signer = Some (demo_sign plane_pk),
     skip_tunnel_validation = True, http_client_error = None,
     http_get = (\<lambda>_ _. HttpStatus 200 ''200 OK''), probe_late = (\<lambda>_. False), probe_timed_out = (\<lambda>_. False),
     probe_millis = (\<lambda>_. 0)\<rparr>"

definition demo_agent :: "string \<Rightarrow> string \<Rightarrow> bytes \<Rightarrow> AgentRow" where
  "demo_agent a nm pk = \<lparr>ar_id = ''row'', ar_agent_id = a, ar_public_key = pk, ar_fingerprint = ''a5a5a5'',
     ar_org = ''acme'', ar_name = nm, ar_created_at = 0, ar_revoked_at = None\<rparr>"

definition demo_key :: "string \<Rightarrow> bytes \<Rightarrow> AgentKeyRow" where
  "demo_key a pk = \<lparr>ak_id = ''row'', ak_agent_id = a, ak_public_key_hex = hex_encode pk, ak_public_key = pk,
     ak_valid_from = 0, ak_valid_to = None, ak_created_at = 0\<rparr>"

definition demo_row :: "string option \<Rightarrow> string option \<Rightarrow> TransferRow" where
  "demo_row h u = \<lparr>tr_id = ''row'', tr_transfer_id = ''tx_0'', tr_sender_agent_id = alice, tr_recipient = bob,
     tr_recipient_kind = ''spize_native'', tr_state = ''ready_for_pickup'', tr_size_bytes = 3,
     tr_declared_mime = None, tr_filename = None, tr_blob_sha256 = h, tr_blob_path = None,
     tr_scanner_verdict = None, tr_policy_decision = None, tr_created_at = 0, tr_scanned_at = None,
     tr_accepted_at = None, tr_delivered_at = None, tr_rejected_at = None, tr_rejection_code = None,
     tr_rejection_reason = None, tr_tunnel_url = u, tr_reachable_at = []\<rparr>"

definition demo_blob :: bytes where "demo_blob = [1, 2, 3]"

definition demo_hash :: string where
  "demo_hash = hex_enc demo_platform (sha256 demo_platform demo_blob)"

definition demo_db :: "TransferRow list \<Rightarrow> database" where
  "demo_db rows = empty_database\<lparr>agents := [demo_agent alice ''alice'' alice_pk, demo_agent bob ''bob'' bob_pk],
     agent_keys := [demo_key alice alice_pk, demo_key bob bob_pk], transfers := rows\<rparr>"

definition demo_state :: "TransferRow list \<Rightarrow> (MemoryAuditLog, MemoryBlobStore) app_state" where
  "demo_state rows = \<lparr>db = demo_db rows, audit = MemoryAuditLog_new, blobs = [''tx_0'' \<mapsto> demo_blob], metrics_of = Metrics_new\<rparr>"

abbreviation demo_waiting :: "(MemoryAuditLog, MemoryBlobStore) app_state" where
  "demo_waiting \<equiv> demo_state [demo_row (Some demo_hash) None]"

abbreviation demo_tunnelled :: "(MemoryAuditLog, MemoryBlobStore) app_state" where
  "demo_tunnelled \<equiv> demo_state [demo_row None (Some ''https://t'')]"

definition demo_request :: "string \<Rightarrow> string option \<Rightarrow> u64 \<Rightarrow> CreateTransferRequest" where
  "demo_request bh tu sz = \<lparr>ct_sender_agent_id = alice, ct_recipient = bob, ct_declared_mime = [], ct_filename = [],
     ct_nonce = demo_nonce, ct_issued_at = 1000,
     ct_intent_signature_hex = signed alice_pk (transfer_intent_bytes alice bob sz [] [] demo_nonce 1000),
     ct_blob_hex = bh, ct_tunnel_url = tu, ct_reachable_at = None, ct_declared_size = Some sz\<rparr>"

abbreviation demo_upload :: "bytes \<Rightarrow> CreateTransferRequest" where
  "demo_upload b \<equiv> demo_request (hex_encode b) None (of_nat (length b))"

abbreviation demo_tunnel :: CreateTransferRequest where
  "demo_tunnel \<equiv> demo_request [] (Some ''https://t'') 3"

definition demo_receipt :: "string \<Rightarrow> string \<Rightarrow> RecipientReceiptRequest" where
  "demo_receipt tid act = \<lparr>rq_recipient_agent_id = bob, rq_nonce = demo_nonce, rq_issued_at = 1000,
     rq_signature_hex = signed bob_pk (transfer_receipt_bytes bob tid act demo_nonce 1000)\<rparr>"

section \<open>What holds in it\<close>

lemma demo_env_simps [simp]:
  "plat demo_env = demo_platform" "dbe demo_env = demo_dbe" "db_fault_at demo_env l = NoFault"
  "clock demo_env k = demo_time" "signer demo_env = Some (demo_sign plane_pk)"
  "policy_evaluate demo_env = TierPolicy_evaluate (for_tier Dev)" "scanners demo_env = [EicarScanner 0]"
  "audit_append demo_env = MemoryAuditLog_append demo_platform"
  "blob_put demo_env = MemoryBlobStore_put" "blob_get demo_env = MemoryBlobStore_get"
  "blob_delete demo_env = MemoryBlobStore_delete" "uuid_simple demo_env = ''u1''"
  "random16 demo_env = replicate 16 7" "skip_tunnel_validation demo_env"
  by (simp_all add: demo_env_def)

lemma demo_now [simp]: "now_unix demo_env = 1000"
  by (simp add: now_unix_def demo_platform_def demo_time_def)

lemma demo_valid [simp]: "valid_nonce demo_nonce" "valid_agent_id alice" "valid_agent_id bob" "ascii_line alice" "ascii_line bob"
  "is_within_clock_skew 1000 1000"
  by code_simp+

lemma demo_keys [simp]: "length alice_pk = 32" "length bob_pk = 32" "alice \<noteq> bob" "bob \<noteq> alice" "alice \<noteq> []" "bob \<noteq> []"
  by (simp_all add: alice_pk_def bob_pk_def alice_def bob_def)

lemma demo_hex [simp]: "hex_dec demo_platform (hex_encode b) = Inr b" "hex_enc demo_platform = hex_encode"
  using demo_hex_laws by (simp_all add: hex_laws_def demo_platform_def)

lemma demo_signed [simp]: "hex_dec demo_platform (signed pk (Inr c)) = Inr (demo_sign pk c)"
  by (simp add: signed_def)

lemma demo_db_simps [simp]:
  "db (demo_state rows) = demo_db rows" "audit (demo_state rows) = MemoryAuditLog_new"
  "blobs (demo_state rows) = [''tx_0'' \<mapsto> demo_blob]"
  "transfers (demo_db rows) = rows" "transfer_intent_nonces (demo_db rows) = []"
  "data_plane_ticket_nonces (demo_db rows) = []" "registration_nonces (demo_db rows) = []"
  by (simp_all add: demo_state_def demo_db_def empty_database_def)

lemma demo_signs [simp]:
  "signed_by_valid_key demo_platform demo_dbe (demo_db rows) alice demo_time c (demo_sign alice_pk c)"
  "signed_by_valid_key demo_platform demo_dbe (demo_db rows) bob demo_time c (demo_sign bob_pk c)"
  by (simp_all add: signed_by_valid_key_def demo_db_def demo_key_def key_valid_at_def demo_dbe_def demo_time_def
      key_verifies_def ed25519_key_ok_def demo_platform_def demo_sign_def demo_sha256_def PUBLIC_KEY_LEN_def SIGNATURE_LEN_def)

lemma demo_wf: "db_wf (demo_db [])" "db_wf (demo_db [demo_row h u])"
  by (auto simp: db_wf_def demo_db_def empty_database_def demo_agent_def demo_key_def keys_wf_def active_def agents_keyed_def
      alice_pk_def bob_pk_def)

lemma demo_request_simps [simp]:
  "ct_sender_agent_id (demo_request bh tu sz) = alice" "ct_recipient (demo_request bh tu sz) = bob"
  "ct_blob_hex (demo_request bh tu sz) = bh" "ct_tunnel_url (demo_request bh tu sz) = tu"
  "ct_reachable_at (demo_request bh tu sz) = None" "ct_declared_size (demo_request bh tu sz) = Some sz"
  "ct_nonce (demo_request bh tu sz) = demo_nonce" "ct_issued_at (demo_request bh tu sz) = 1000"
  by (simp_all add: demo_request_def)

lemma demo_intent: "\<exists>c. transfer_intent_bytes alice bob sz [] [] demo_nonce 1000 = Inr c"
  by (simp add: transfer_intent_bytes_def step_iffs)

lemma demo_intent_authentic: "intent_authentic demo_env (demo_db rows) (demo_request bh tu sz) sz"
  using demo_intent [of sz] by (auto simp: intent_authentic_def demo_request_def)

lemma demo_admissible: "\<exists>r. create_admissible demo_env (demo_db rows) (demo_request bh tu sz) r"
  by (simp add: create_admissible_def demo_request_def demo_db_def demo_agent_def)

lemma demo_services: "upload_services_ok demo_env"
  by (auto simp: upload_services_ok_def MemoryBlobStore_put_def)

lemma demo_uploads: "\<exists>resp s'. create_transfer demo_env (demo_upload b) (demo_state []) = (Inr resp, s')"
proof -
  obtain r where "create_admissible demo_env (demo_db []) (demo_upload b) r" using demo_admissible by blast
  then show ?thesis
    using demo_intent_authentic demo_services
    by (intro create_blob_succeeds [where sender_row = r and blob = b]) (simp_all add: demo_request_def)
qed

lemma demo_receipts: "act \<in> {''download'', ''ack'', ''request_ticket''} \<Longrightarrow> \<exists>c. transfer_receipt_bytes bob ''tx_0'' act demo_nonce 1000 = Inr c"
proof -
  have "ascii_line ''tx_0''" "ascii_line ''download''" "ascii_line ''ack''" "ascii_line ''request_ticket''" by code_simp+
  then show "act \<in> {''download'', ''ack'', ''request_ticket''} \<Longrightarrow> ?thesis"
    by (auto simp: transfer_receipt_bytes_def step_iffs receipt_actions_def)
qed

lemma demo_receipt_authentic:
  assumes "act \<in> {''download'', ''ack'', ''request_ticket''}"
  shows "receipt_authentic demo_env (demo_db rows) ''tx_0'' (demo_receipt ''tx_0'' act) act"
  using demo_receipts [OF assms] by (auto simp: receipt_authentic_def demo_receipt_def)

lemma demo_row_simps [simp]:
  "tr_transfer_id (demo_row h u) = ''tx_0''" "tr_recipient (demo_row h u) = bob" "tr_state (demo_row h u) = ''ready_for_pickup''"
  "tr_tunnel_url (demo_row h u) = u" "tr_blob_sha256 (demo_row h u) = h"
  by (simp_all add: demo_row_def)

lemma demo_receipt_simps [simp]:
  "rq_recipient_agent_id (demo_receipt t a) = bob" "rq_nonce (demo_receipt t a) = demo_nonce"
  by (simp_all add: demo_receipt_def)

lemma demo_downloads:
  "\<exists>resp s'. download_transfer demo_env ''tx_0'' (demo_receipt ''tx_0'' ''download'') demo_waiting = (Inr resp, s')"
  by (rule download_succeeds [where row = "demo_row (Some demo_hash) None" and bs = demo_blob and b = "[''tx_0'' \<mapsto> demo_blob]"])
    (simp_all add: row_of_def demo_receipt_authentic inbox_states_def MemoryBlobStore_get_def bindS_def)

lemma demo_acks:
  "\<exists>resp s'. ack_transfer demo_env ''tx_0'' (demo_receipt ''tx_0'' ''ack'') demo_waiting = (Inr resp, s')"
proof -
  let ?ev = "mk_event TransferDelivered bob ''tx_0'' (JObject [(''nonce'', JString demo_nonce)])"
  have "\<exists>r l. MemoryAuditLog_append demo_platform (audit_now demo_env 0) (audit_uuid demo_env 0) ?ev MemoryAuditLog_new = (Inr r, l)"
    by (simp add: MemoryAuditLog_append_cases compute_hash_def canonical_bytes_def mk_event_def demo_platform_def
        Let_def ensure_def split: sum.splits)
  then show ?thesis
    using ack_succeeds [of demo_env demo_waiting "''tx_0''" "demo_row (Some demo_hash) None" "demo_receipt ''tx_0'' ''ack''"]
    by (auto simp: row_of_def demo_receipt_authentic inbox_states_def)
qed

lemma demo_ticket_bytes:
  "\<exists>c. data_ticket_bytes ''tx_0'' bob ''https://t'' 1060 (hex_encode (replicate 16 7)) = Inr c"
proof -
  have "ascii_line ''tx_0''" "ascii_line ''https://t''" "valid_nonce (hex_encode (replicate 16 7))" by code_simp+
  then show ?thesis by (simp add: data_ticket_bytes_def step_iffs)
qed

lemma demo_tickets:
  "\<exists>t s'. issue_ticket demo_env ''tx_0'' (demo_receipt ''tx_0'' ''request_ticket'') demo_tunnelled = (Inr t, s')"
  using demo_ticket_bytes
    issue_ticket_succeeds [of demo_env _ demo_tunnelled "''tx_0''" "demo_row None (Some ''https://t'')"
      "demo_receipt ''tx_0'' ''request_ticket''" "''https://t''"]
  by (auto simp: row_of_def demo_receipt_authentic)

lemma demo_tunnels: "\<exists>resp s'. create_transfer demo_env demo_tunnel (demo_state []) = (Inr resp, s')"
proof -
  obtain r where adm: "create_admissible demo_env (demo_db []) demo_tunnel r" using demo_admissible by blast
  let ?t = "remote_row demo_env demo_tunnel 3 (Some ''https://t'') [cloudflare_quick ''https://t'']"
  obtain row d where ins: "transfers_insert demo_dbe ?t (after_swapped_nonce demo_tunnel (demo_db [])) = (Inr row, d)"
    using transfers_insert_fresh [of ?t "after_swapped_nonce demo_tunnel (demo_db [])" demo_dbe] by auto
  have "create_via_tunnel demo_env demo_tunnel (AgentId (ct_sender_agent_id demo_tunnel)) ''https://t'' (demo_state [])
      = (Inr (201, row_to_response row), snd (count_created (classify_recipient bob) ((demo_state [])\<lparr>db := d\<rparr>)))"
    unfolding create_via_tunnel_Inr_iff
    using demo_intent_authentic [of "[]" "[]" "Some ''https://t''" 3] ins
    by (simp add: remote_queries_ok_def starts_with_iff)
  then show ?thesis
    using adm create_transfer_Inr_iff [of demo_env demo_tunnel "demo_state []"] by fastforce
qed

definition demo_register :: RegisterRequest where
  "demo_register = \<lparr>rg_public_key_hex = hex_encode alice_pk, rg_org = ''acme'', rg_name = ''alice'', rg_nonce = demo_nonce,
     rg_issued_at = 1000, rg_signature_hex = signed alice_pk
       (registration_challenge_bytes (hex_encode alice_pk) ''acme'' ''alice'' demo_nonce 1000)\<rparr>"

definition empty_state :: "(MemoryAuditLog, MemoryBlobStore) app_state" where
  "empty_state = \<lparr>db = empty_database, audit = MemoryAuditLog_new, blobs = (\<lambda>_. None), metrics_of = Metrics_new\<rparr>"

lemma demo_signature_verifies [simp]:
  "length pk = 32 \<Longrightarrow> key_verifies demo_platform c (demo_sign pk c) pk"
  "length pk = 32 \<Longrightarrow> length (demo_sign pk c) = SIGNATURE_LEN"
  by (simp_all add: key_verifies_def ed25519_key_ok_def demo_platform_def demo_sign_def demo_sha256_def PUBLIC_KEY_LEN_def SIGNATURE_LEN_def)

lemma demo_registration_authentic: "registration_authentic demo_platform demo_register alice_pk"
proof -
  have "ascii_line (hex_encode alice_pk)" "ascii_line ''acme''" "ascii_line ''alice''" by code_simp+
  then have "\<exists>c. registration_challenge_bytes (hex_encode alice_pk) ''acme'' ''alice'' demo_nonce 1000 = Inr c"
    by (simp add: registration_challenge_bytes_def step_iffs)
  then show ?thesis by (auto simp: registration_authentic_def demo_register_def)
qed

lemma demo_registers: "\<exists>resp s'. register demo_env demo_register empty_state = (Inr resp, s')"
proof -
  have "valid_label ''acme''" "valid_label ''alice''" by code_simp+
  then show ?thesis
    using register_succeeds [of demo_env demo_register alice_pk empty_state] demo_registration_authentic
    by (auto simp: demo_register_def empty_state_def consume_nonce_def empty_database_def agents_insert_def
        insert_key_row_def Let_def)
qed

definition demo_rotate :: RotateKeyRequest where
  "demo_rotate = \<lparr>rk_agent_id = alice, rk_new_public_key_hex = hex_encode plane_pk, rk_nonce = demo_nonce, rk_issued_at = 1000,
     rk_signature_hex = signed alice_pk (rotate_key_challenge_bytes alice (hex_encode alice_pk) (hex_encode plane_pk) demo_nonce 1000)\<rparr>"

lemma demo_current: "current_key alice (demo_db rows) = (Inr (Some (demo_key alice alice_pk)), demo_db rows)"
  by (simp add: current_key_def demo_db_def demo_key_def)

lemma demo_rotation_authentic: "rotation_authentic demo_platform demo_rotate (demo_key alice alice_pk) plane_pk"
proof -
  have a: "ascii_line (hex_encode alice_pk)" "ascii_line (hex_encode plane_pk)" by code_simp+
  have ne: "hex_encode alice_pk \<noteq> hex_encode plane_pk" by (simp add: alice_pk_def plane_pk_def)
  have "\<exists>c. rotate_key_challenge_bytes alice (hex_encode alice_pk) (hex_encode plane_pk) demo_nonce 1000 = Inr c"
    using a ne by (simp add: rotate_key_challenge_bytes_def step_iffs)
  moreover have "length plane_pk = 32" "ed25519_key_ok demo_platform plane_pk"
    by (simp_all add: plane_pk_def ed25519_key_ok_def demo_platform_def)
  ultimately show ?thesis using ne
    by (auto simp: rotation_authentic_def demo_rotate_def demo_key_def PUBLIC_KEY_LEN_def)
qed

lemma demo_rotates: "\<exists>resp s'. rotate_key demo_env demo_rotate (demo_state []) = (Inr resp, s')"
proof -
  let ?d = "(demo_db [])\<lparr>rotate_key_nonces := [(demo_nonce, alice)]\<rparr>"
  have ne: "hex_encode plane_pk \<noteq> hex_encode alice_pk" "hex_encode plane_pk \<noteq> hex_encode bob_pk"
    by (simp_all add: alice_pk_def plane_pk_def bob_pk_def)
  have c: "consume_rotate_nonce demo_nonce alice (demo_db []) = (Inr True, ?d)"
    by (simp add: consume_rotate_nonce_def demo_db_def empty_database_def)
  have "\<exists>row d'. insert_rotation demo_dbe alice (hex_encode alice_pk) (hex_encode plane_pk) plane_pk demo_time ?d = (Inr row, d')"
    using ne by (simp add: insert_rotation_def insert_key_row_def demo_db_def demo_key_def closes_def Let_def)
  then show ?thesis
    using rotate_key_succeeds [of demo_env demo_rotate "demo_state []" "demo_key alice alice_pk" plane_pk ?d]
      demo_rotation_authentic demo_current c
    by (auto simp: demo_rotate_def demo_key_def)
qed

end
