(* ===== verification/WireV2.thy ===== *)
theory WireV2
  imports Wire
begin

text \<open>
  The version 2 canonical messages of \<open>aex-core/src/wire_v2.rs\<close>, with the module's own
  validators, its tighter clock-skew window and the two deferred-decision messages.  The
  messages fulfil the same contract \<open>line_message\<close>; the locale \<open>message_families\<close> combines two
  families with disjoint headers and shows that no byte string belongs to both.
\<close>

section \<open>Validators\<close>

definition PROTOCOL_VERSION_V2 :: string where
  "PROTOCOL_VERSION_V2 = ''v2''"

definition MAX_CLOCK_SKEW_SECS_V2 :: int where
  "MAX_CLOCK_SKEW_SECS_V2 = 60"

definition MIN_NONCE_LEN_V2 :: nat where
  "MIN_NONCE_LEN_V2 = 32"

definition MAX_NONCE_LEN_V2 :: nat where
  "MAX_NONCE_LEN_V2 = 128"

definition is_within_clock_skew_v2 :: "i64 \<Rightarrow> i64 \<Rightarrow> bool" where
  "is_within_clock_skew_v2 now_unix issued_at_unix =
     (let diff = saturate_i128 (sint now_unix - sint issued_at_unix)
      in nat \<bar>diff\<bar> \<le> nat MAX_CLOCK_SKEW_SECS_V2)"

definition validate_ascii_line_v2 :: "string \<Rightarrow> string \<Rightarrow> core_error + unit" where
  "validate_ascii_line_v2 s field =
     (if s = [] then Inl (Internal (field @ '' is empty''))
      else case first_bad bad_line_char 0 s of
        Some (i, r) \<Rightarrow>
          Inl (Internal (field @ '' has invalid char at '' @ show_nat i @ '': '' @ debug_char r))
      | None \<Rightarrow> Inr ())"

definition validate_ascii_line_opt_v2 :: "string \<Rightarrow> string \<Rightarrow> core_error + unit" where
  "validate_ascii_line_opt_v2 s field = (if s = [] then Inr () else validate_ascii_line_v2 s field)"

definition validate_nonce_v2 :: "string \<Rightarrow> core_error + unit" where
  "validate_nonce_v2 nonce =
     (if length nonce < MIN_NONCE_LEN_V2 \<or> length nonce > MAX_NONCE_LEN_V2 then
        Inl (Internal (''nonce length '' @ show_nat (length nonce) @ '' outside [''
          @ show_nat MIN_NONCE_LEN_V2 @ '', '' @ show_nat MAX_NONCE_LEN_V2 @ '']''))
      else if \<not> list_all is_ascii_hexdigit nonce then Inl (Internal ''nonce must be hex'')
      else Inr ())"

section \<open>Canonical messages\<close>

definition registration_challenge_bytes_v2 ::
  "string \<Rightarrow> string \<Rightarrow> string \<Rightarrow> string \<Rightarrow> i64 \<Rightarrow> core_error + bytes" where
  "registration_challenge_bytes_v2 public_key_hex org name nonce issued_at_unix =
     bindE (validate_ascii_line_v2 public_key_hex ''public_key_hex'') (\<lambda>_.
     bindE (validate_ascii_line_v2 org ''org'') (\<lambda>_.
     bindE (validate_ascii_line_v2 name ''name'') (\<lambda>_.
     bindE (validate_nonce_v2 nonce) (\<lambda>_.
     Inr (as_bytes (''aex-register:'' @ PROTOCOL_VERSION_V2
       @ [LF] @ ''pub='' @ public_key_hex
       @ [LF] @ ''org='' @ org
       @ [LF] @ ''name='' @ name
       @ [LF] @ ''nonce='' @ nonce
       @ [LF] @ ''ts='' @ show_i64 issued_at_unix))))))"

definition transfer_intent_bytes_v2 ::
  "string \<Rightarrow> string \<Rightarrow> u64 \<Rightarrow> string \<Rightarrow> string \<Rightarrow> string \<Rightarrow> i64 \<Rightarrow> core_error + bytes" where
  "transfer_intent_bytes_v2 sender_agent_id recipient size_bytes declared_mime filename nonce issued_at_unix =
     bindE (validate_ascii_line_v2 sender_agent_id ''sender_agent_id'') (\<lambda>_.
     bindE (validate_ascii_line_v2 recipient ''recipient'') (\<lambda>_.
     bindE (validate_ascii_line_opt_v2 declared_mime ''declared_mime'') (\<lambda>_.
     bindE (validate_ascii_line_opt_v2 filename ''filename'') (\<lambda>_.
     bindE (validate_nonce_v2 nonce) (\<lambda>_.
     Inr (as_bytes (''aex-transfer-intent:'' @ PROTOCOL_VERSION_V2
       @ [LF] @ ''sender='' @ sender_agent_id
       @ [LF] @ ''recipient='' @ recipient
       @ [LF] @ ''size='' @ show_u64 size_bytes
       @ [LF] @ ''mime='' @ declared_mime
       @ [LF] @ ''filename='' @ filename
       @ [LF] @ ''nonce='' @ nonce
       @ [LF] @ ''ts='' @ show_i64 issued_at_unix)))))))"

definition data_ticket_bytes_v2 ::
  "string \<Rightarrow> string \<Rightarrow> string \<Rightarrow> i64 \<Rightarrow> string \<Rightarrow> core_error + bytes" where
  "data_ticket_bytes_v2 transfer_id recipient_agent_id data_plane_url expires_unix nonce =
     bindE (validate_ascii_line_v2 transfer_id ''transfer_id'') (\<lambda>_.
     bindE (validate_ascii_line_v2 recipient_agent_id ''recipient_agent_id'') (\<lambda>_.
     bindE (validate_ascii_line_v2 data_plane_url ''data_plane_url'') (\<lambda>_.
     bindE (validate_nonce_v2 nonce) (\<lambda>_.
     Inr (as_bytes (''aex-data-ticket:'' @ PROTOCOL_VERSION_V2
       @ [LF] @ ''transfer='' @ transfer_id
       @ [LF] @ ''recipient='' @ recipient_agent_id
       @ [LF] @ ''data_plane='' @ data_plane_url
       @ [LF] @ ''expires='' @ show_i64 expires_unix
       @ [LF] @ ''nonce='' @ nonce))))))"

definition rotate_key_challenge_bytes_v2 ::
  "string \<Rightarrow> string \<Rightarrow> string \<Rightarrow> string \<Rightarrow> i64 \<Rightarrow> core_error + bytes" where
  "rotate_key_challenge_bytes_v2 agent_id old_public_key_hex new_public_key_hex nonce issued_at_unix =
     bindE (validate_ascii_line_v2 agent_id ''agent_id'') (\<lambda>_.
     bindE (validate_ascii_line_v2 old_public_key_hex ''old_public_key_hex'') (\<lambda>_.
     bindE (validate_ascii_line_v2 new_public_key_hex ''new_public_key_hex'') (\<lambda>_.
     bindE (validate_nonce_v2 nonce) (\<lambda>_.
     bindE (ensure (old_public_key_hex \<noteq> new_public_key_hex)
       (Internal ''old_public_key_hex and new_public_key_hex must differ'')) (\<lambda>_.
     Inr (as_bytes (''aex-rotate-key:'' @ PROTOCOL_VERSION_V2
       @ [LF] @ ''agent='' @ agent_id
       @ [LF] @ ''old_pub='' @ old_public_key_hex
       @ [LF] @ ''new_pub='' @ new_public_key_hex
       @ [LF] @ ''nonce='' @ nonce
       @ [LF] @ ''ts='' @ show_i64 issued_at_unix)))))))"

definition transfer_receipt_bytes_v2 ::
  "string \<Rightarrow> string \<Rightarrow> string \<Rightarrow> string \<Rightarrow> i64 \<Rightarrow> core_error + bytes" where
  "transfer_receipt_bytes_v2 recipient_agent_id transfer_id action nonce issued_at_unix =
     bindE (validate_ascii_line_v2 recipient_agent_id ''recipient_agent_id'') (\<lambda>_.
     bindE (validate_ascii_line_v2 transfer_id ''transfer_id'') (\<lambda>_.
     bindE (validate_ascii_line_v2 action ''action'') (\<lambda>_.
     bindE (validate_nonce_v2 nonce) (\<lambda>_.
     bindE (ensure (action \<in> set receipt_actions) (Internal (bad_action_text action))) (\<lambda>_.
     Inr (as_bytes (''aex-transfer-receipt:'' @ PROTOCOL_VERSION_V2
       @ [LF] @ ''recipient='' @ recipient_agent_id
       @ [LF] @ ''transfer='' @ transfer_id
       @ [LF] @ ''action='' @ action
       @ [LF] @ ''nonce='' @ nonce
       @ [LF] @ ''ts='' @ show_i64 issued_at_unix)))))))"

definition decision_request_bytes_v2 ::
  "string \<Rightarrow> string \<Rightarrow> string \<Rightarrow> u64 \<Rightarrow> string \<Rightarrow> i64 \<Rightarrow> core_error + bytes" where
  "decision_request_bytes_v2 recipient_agent_id transfer_id decision_id eta_seconds nonce issued_at_unix =
     bindE (validate_ascii_line_v2 recipient_agent_id ''recipient_agent_id'') (\<lambda>_.
     bindE (validate_ascii_line_v2 transfer_id ''transfer_id'') (\<lambda>_.
     bindE (validate_ascii_line_v2 decision_id ''decision_id'') (\<lambda>_.
     bindE (validate_nonce_v2 nonce) (\<lambda>_.
     Inr (as_bytes (''aex-decision-request:'' @ PROTOCOL_VERSION_V2
       @ [LF] @ ''recipient='' @ recipient_agent_id
       @ [LF] @ ''transfer='' @ transfer_id
       @ [LF] @ ''decision='' @ decision_id
       @ [LF] @ ''eta_secs='' @ show_u64 eta_seconds
       @ [LF] @ ''nonce='' @ nonce
       @ [LF] @ ''ts='' @ show_i64 issued_at_unix))))))"

definition decision_outcomes :: "string list" where
  "decision_outcomes = [''accepted'', ''rejected'']"

definition decision_response_bytes_v2 ::
  "string \<Rightarrow> string \<Rightarrow> string \<Rightarrow> string \<Rightarrow> string \<Rightarrow> string \<Rightarrow> i64 \<Rightarrow> core_error + bytes" where
  "decision_response_bytes_v2 recipient_agent_id transfer_id decision_id outcome reason nonce issued_at_unix =
     bindE (validate_ascii_line_v2 recipient_agent_id ''recipient_agent_id'') (\<lambda>_.
     bindE (validate_ascii_line_v2 transfer_id ''transfer_id'') (\<lambda>_.
     bindE (validate_ascii_line_v2 decision_id ''decision_id'') (\<lambda>_.
     bindE (validate_ascii_line_v2 outcome ''outcome'') (\<lambda>_.
     bindE (validate_ascii_line_opt_v2 reason ''reason'') (\<lambda>_.
     bindE (validate_nonce_v2 nonce) (\<lambda>_.
     bindE (ensure (outcome \<in> set decision_outcomes)
       (Internal (''outcome must be '' @ quoted ''accepted'' @ '' or '' @ quoted ''rejected''
          @ '', got '' @ outcome))) (\<lambda>_.
     Inr (as_bytes (''aex-decision-response:'' @ PROTOCOL_VERSION_V2
       @ [LF] @ ''recipient='' @ recipient_agent_id
       @ [LF] @ ''transfer='' @ transfer_id
       @ [LF] @ ''decision='' @ decision_id
       @ [LF] @ ''outcome='' @ outcome
       @ [LF] @ ''reason='' @ reason
       @ [LF] @ ''nonce='' @ nonce
       @ [LF] @ ''ts='' @ show_i64 issued_at_unix)))))))))"

section \<open>The duplicated validators agree with version 1\<close>

lemma validate_ascii_line_v2_eq: "validate_ascii_line_v2 = validate_ascii_line"
  by (simp add: fun_eq_iff validate_ascii_line_v2_def validate_ascii_line_def)

lemma validate_ascii_line_opt_v2_eq: "validate_ascii_line_opt_v2 = validate_ascii_line_opt"
  by (simp add: fun_eq_iff validate_ascii_line_opt_v2_def validate_ascii_line_opt_def
      validate_ascii_line_v2_eq)

lemma validate_nonce_v2_eq: "validate_nonce_v2 = validate_nonce"
  by (simp add: fun_eq_iff validate_nonce_v2_def validate_nonce_def MIN_NONCE_LEN_def
      MAX_NONCE_LEN_def MIN_NONCE_LEN_V2_def MAX_NONCE_LEN_V2_def)

lemmas validators_v2_eq = validate_ascii_line_v2_eq validate_ascii_line_opt_v2_eq validate_nonce_v2_eq

section \<open>The version 2 messages\<close>

datatype message_v2 =
    RegisterV2 string string string string i64
  | IntentV2 string string u64 string string string i64
  | TicketV2 string string string i64 string
  | RotateV2 string string string string i64
  | ReceiptV2 string string string string i64
  | DecisionRequestV2 string string string u64 string i64
  | DecisionResponseV2 string string string string string string i64

fun render_v2 :: "message_v2 \<Rightarrow> core_error + bytes" where
  "render_v2 (RegisterV2 p og nm no ts) = registration_challenge_bytes_v2 p og nm no ts"
| "render_v2 (IntentV2 s r z m f no ts) = transfer_intent_bytes_v2 s r z m f no ts"
| "render_v2 (TicketV2 t r d ex no) = data_ticket_bytes_v2 t r d ex no"
| "render_v2 (RotateV2 a p q no ts) = rotate_key_challenge_bytes_v2 a p q no ts"
| "render_v2 (ReceiptV2 r t a no ts) = transfer_receipt_bytes_v2 r t a no ts"
| "render_v2 (DecisionRequestV2 r t d et no ts) = decision_request_bytes_v2 r t d et no ts"
| "render_v2 (DecisionResponseV2 r t d oc re no ts) = decision_response_bytes_v2 r t d oc re no ts"

fun header_v2 :: "message_v2 \<Rightarrow> string" where
  "header_v2 (RegisterV2 _ _ _ _ _) = ''aex-register:v2''"
| "header_v2 (IntentV2 _ _ _ _ _ _ _) = ''aex-transfer-intent:v2''"
| "header_v2 (TicketV2 _ _ _ _ _) = ''aex-data-ticket:v2''"
| "header_v2 (RotateV2 _ _ _ _ _) = ''aex-rotate-key:v2''"
| "header_v2 (ReceiptV2 _ _ _ _ _) = ''aex-transfer-receipt:v2''"
| "header_v2 (DecisionRequestV2 _ _ _ _ _ _) = ''aex-decision-request:v2''"
| "header_v2 (DecisionResponseV2 _ _ _ _ _ _ _) = ''aex-decision-response:v2''"

fun body_v2 :: "message_v2 \<Rightarrow> string list" where
  "body_v2 (RegisterV2 p og nm no ts) = body_v1 (RegisterV1 p og nm no ts)"
| "body_v2 (IntentV2 s r z m f no ts) = body_v1 (IntentV1 s r z m f no ts)"
| "body_v2 (TicketV2 t r d ex no) = body_v1 (TicketV1 t r d ex no)"
| "body_v2 (RotateV2 a p q no ts) = body_v1 (RotateV1 a p q no ts)"
| "body_v2 (ReceiptV2 r t a no ts) = body_v1 (ReceiptV1 r t a no ts)"
| "body_v2 (DecisionRequestV2 r t d et no ts) =
     [''recipient='' @ r, ''transfer='' @ t, ''decision='' @ d, ''eta_secs='' @ show_u64 et,
      ''nonce='' @ no, ''ts='' @ show_i64 ts]"
| "body_v2 (DecisionResponseV2 r t d oc re no ts) =
     [''recipient='' @ r, ''transfer='' @ t, ''decision='' @ d, ''outcome='' @ oc, ''reason='' @ re,
      ''nonce='' @ no, ''ts='' @ show_i64 ts]"

lemmas message_v2_defs = registration_challenge_bytes_v2_def transfer_intent_bytes_v2_def
  data_ticket_bytes_v2_def rotate_key_challenge_bytes_v2_def transfer_receipt_bytes_v2_def
  decision_request_bytes_v2_def decision_response_bytes_v2_def

lemma render_v2_lines:
  "render_v2 m = Inr bs \<Longrightarrow>
     bs = as_bytes (join_lines (header_v2 m # body_v2 m)) \<and> list_all line_safe (body_v2 m)"
  by (cases m) (auto simp: message_v2_defs validators_v2_eq step_iffs PROTOCOL_VERSION_V2_def
      dest!: line_safe_empty_or)

interpretation v2: line_message render_v2 header_v2 body_v2
proof unfold_locales
  show "line_safe (header_v2 m)" for m by (cases m) simp_all
  show "header_v2 m = header_v2 n \<Longrightarrow> body_v2 m = body_v2 n \<Longrightarrow> m = n" for m n
    by (cases m; cases n) simp_all
qed (use render_v2_lines in auto)

section \<open>Two families of messages\<close>

locale message_families =
  a: line_message render_a header_a body_a + b: line_message render_b header_b body_b
  for render_a :: "'m \<Rightarrow> core_error + bytes" and header_a body_a
    and render_b :: "'n \<Rightarrow> core_error + bytes" and header_b body_b +
  assumes headers_differ: "header_a m \<noteq> header_b n"
begin

lemma families_disjoint: "render_a m = Inr bs \<Longrightarrow> render_b n \<noteq> Inr bs"
proof
  assume "render_a m = Inr bs" and "render_b n = Inr bs"
  with a.render_lines [of m bs] b.render_lines [of n bs]
  have "join_lines (header_a m # body_a m) = join_lines (header_b n # body_b n)"
    and "list_all line_safe (header_a m # body_a m)" "list_all line_safe (header_b n # body_b n)"
    using a.header_safe b.header_safe by auto
  then have "header_a m # body_a m = header_b n # body_b n" by (intro join_lines_inj) auto
  with headers_differ show False by blast
qed

end

interpretation v12: message_families render_v1 header_v1 body_v1 render_v2 header_v2 body_v2
proof unfold_locales
  show "header_v1 m \<noteq> header_v2 n" for m n by (cases m; cases n) simp_all
qed

section \<open>Upgrading a message\<close>

text \<open>
  The version 2 counterpart of a version 1 message; the two modules accept the same fields and
  fail with the same error.
\<close>

fun upgrade :: "message_v1 \<Rightarrow> message_v2" where
  "upgrade (RegisterV1 p og nm no ts) = RegisterV2 p og nm no ts"
| "upgrade (IntentV1 s r z m f no ts) = IntentV2 s r z m f no ts"
| "upgrade (TicketV1 t r d ex no) = TicketV2 t r d ex no"
| "upgrade (RotateV1 a p q no ts) = RotateV2 a p q no ts"
| "upgrade (ReceiptV1 r t a no ts) = ReceiptV2 r t a no ts"

lemma body_upgrade: "body_v2 (upgrade m) = body_v1 m"
  by (cases m) simp_all

lemma render_upgrade_Inl: "render_v2 (upgrade m) = Inl e \<longleftrightarrow> render_v1 m = Inl e"
  by (cases m) (simp_all add: message_defs message_v2_defs validators_v2_eq step_iffs)

lemma render_upgrade_Inr:
  "(\<exists>b. render_v2 (upgrade m) = Inr b) \<longleftrightarrow> (\<exists>b. render_v1 m = Inr b)"
  by (metis render_upgrade_Inl sum.exhaust sum.distinct(1))

end
