(* ===== verification/Capability.thy ===== *)
theory Capability
  imports AexPrelude
begin

text \<open>
  Capability bits of agent cards (\<open>aex-core/src/capability.rs\<close>): a 64-bit set with a stable
  bit and a stable name per capability, rendered as a list of names.  The lemmas show that the
  bit operations implement finite sets and that the list of names round-trips.
\<close>

unbundle bit_operations_syntax

datatype Capability =
    WireV2
  | JwsAgentCard
  | CardEtag
  | A2ABridge
  | EtereCitizenTrust
  | SafeHttp
  | ClockSkew60s
  | StreamingTransfer
  | DeferredDecision

definition Capability_ALL :: "Capability list" where
  "Capability_ALL = [WireV2, JwsAgentCard, CardEtag, A2ABridge, EtereCitizenTrust, SafeHttp,
     ClockSkew60s, StreamingTransfer, DeferredDecision]"

fun as_bit :: "Capability \<Rightarrow> nat" where
  "as_bit WireV2 = 0"
| "as_bit JwsAgentCard = 1"
| "as_bit CardEtag = 2"
| "as_bit A2ABridge = 3"
| "as_bit EtereCitizenTrust = 4"
| "as_bit SafeHttp = 5"
| "as_bit ClockSkew60s = 6"
| "as_bit StreamingTransfer = 7"
| "as_bit DeferredDecision = 8"

fun capability_name :: "Capability \<Rightarrow> string" where
  "capability_name WireV2 = ''wire-v2''"
| "capability_name JwsAgentCard = ''jws-agent-card''"
| "capability_name CardEtag = ''card-etag''"
| "capability_name A2ABridge = ''a2a-bridge''"
| "capability_name EtereCitizenTrust = ''etere-citizen-trust''"
| "capability_name SafeHttp = ''safe-http''"
| "capability_name ClockSkew60s = ''clock-skew-60s''"
| "capability_name StreamingTransfer = ''streaming-transfer''"
| "capability_name DeferredDecision = ''deferred-decision''"

definition Capability_parse :: "string \<Rightarrow> Capability option" where
  "Capability_parse s = List.find (\<lambda>c. capability_name c = s) Capability_ALL"

datatype CapabilitySet = CapabilitySet (bits: u64)

definition empty_caps :: CapabilitySet where
  "empty_caps = CapabilitySet 0"

definition with_cap :: "CapabilitySet \<Rightarrow> Capability \<Rightarrow> CapabilitySet" where
  "with_cap s cap = CapabilitySet (bits s OR push_bit (as_bit cap) 1)"

definition has_cap :: "CapabilitySet \<Rightarrow> Capability \<Rightarrow> bool" where
  "has_cap s cap \<longleftrightarrow> bits s AND push_bit (as_bit cap) 1 \<noteq> 0"

definition iter_caps :: "CapabilitySet \<Rightarrow> Capability list" where
  "iter_caps s = filter (has_cap s) Capability_ALL"

definition to_string_array :: "CapabilitySet \<Rightarrow> string list" where
  "to_string_array s = map capability_name (iter_caps s)"

definition from_string_array :: "string list \<Rightarrow> CapabilitySet" where
  "from_string_array items = foldl (\<lambda>s item.
     case Capability_parse item of Some cap \<Rightarrow> with_cap s cap | None \<Rightarrow> s) empty_caps items"

section \<open>Lemmas\<close>

lemma Capability_ALL_complete [simp]: "c \<in> set Capability_ALL"
  by (cases c) (simp_all add: Capability_ALL_def)

lemma as_bit_less [simp]: "as_bit c < 9"
  by (cases c) simp_all

lemma as_bit_inj [simp]: "as_bit c = as_bit d \<longleftrightarrow> c = d"
  by (cases c; cases d) simp_all

lemma capability_name_inj [simp]: "capability_name c = capability_name d \<longleftrightarrow> c = d"
  by (cases c; cases d) simp_all

lemma Capability_parse_Some_iff: "Capability_parse s = Some c \<longleftrightarrow> s = capability_name c"
proof
  assume "s = capability_name c"
  then show "Capability_parse s = Some c"
    by (cases c) (simp_all add: Capability_parse_def Capability_ALL_def)
qed (auto simp: Capability_parse_def find_Some_iff)

lemma has_cap_bit: "has_cap s c \<longleftrightarrow> bit (bits s) (as_bit c)"
  by (simp add: has_cap_def and_exp_eq_0_iff_not_bit push_bit_of_1)

lemma has_cap_empty [simp]: "\<not> has_cap empty_caps c"
  by (simp add: has_cap_def empty_caps_def)

lemma has_cap_with [simp]: "has_cap (with_cap s c) d \<longleftrightarrow> d = c \<or> has_cap s d"
proof -
  have "as_bit d < 64" using as_bit_less [of d] by linarith
  then show ?thesis
    by (auto simp: has_cap_bit with_cap_def bit_or_iff push_bit_of_1 bit_exp_iff)
qed

text \<open>Only the nine known bits are ever set.\<close>

definition known_bits :: "CapabilitySet \<Rightarrow> bool" where
  "known_bits s \<longleftrightarrow> (\<forall>n. bit (bits s) n \<longrightarrow> n < 9)"

lemma known_bits_empty: "known_bits empty_caps"
  by (simp add: known_bits_def empty_caps_def)

lemma known_bits_with: "known_bits s \<Longrightarrow> known_bits (with_cap s c)"
  by (auto simp: known_bits_def with_cap_def bit_or_iff push_bit_of_1 bit_exp_iff)

lemma less_9_as_bit: "n < 9 \<Longrightarrow> \<exists>c. n = as_bit c"
proof -
  assume "n < 9"
  then have "n \<in> set (map as_bit Capability_ALL)"
    by (auto simp: Capability_ALL_def)
  then show ?thesis by auto
qed

lemma capability_set_eqI:
  assumes "known_bits s" "known_bits t" and "\<And>c. has_cap s c \<longleftrightarrow> has_cap t c"
  shows "s = t"
proof -
  have "bit (bits s) n \<longleftrightarrow> bit (bits t) n" for n
    using assms less_9_as_bit [of n] by (metis has_cap_bit known_bits_def)
  then have "bits s = bits t" by (simp add: bit_eq_iff)
  then show ?thesis by (simp add: CapabilitySet.expand)
qed

lemma foldl_from_string_array:
  assumes "known_bits s"
  shows "known_bits (foldl (\<lambda>s item. case Capability_parse item of Some cap \<Rightarrow> with_cap s cap | None \<Rightarrow> s) s xs)
    \<and> (\<forall>c. has_cap (foldl (\<lambda>s item. case Capability_parse item of Some cap \<Rightarrow> with_cap s cap | None \<Rightarrow> s) s xs) c
        \<longleftrightarrow> has_cap s c \<or> capability_name c \<in> set xs)"
  using assms
proof (induction xs arbitrary: s)
  case (Cons x xs)
  show ?case
  proof (cases "Capability_parse x")
    case None
    then have "capability_name c \<noteq> x" for c using Capability_parse_Some_iff [of x c] by auto
    with Cons None show ?thesis by simp
  next
    case (Some c)
    then have "x = capability_name c" by (simp add: Capability_parse_Some_iff)
    with Cons.IH [of "with_cap s c"] Cons.prems Some show ?thesis
      by (auto simp: known_bits_with)
  qed
qed simp

lemma known_bits_from_string_array: "known_bits (from_string_array xs)"
  using foldl_from_string_array [OF known_bits_empty] by (simp add: from_string_array_def)

lemma has_cap_from_string_array:
  "has_cap (from_string_array xs) c \<longleftrightarrow> capability_name c \<in> set xs"
  using foldl_from_string_array [OF known_bits_empty] by (simp add: from_string_array_def)

lemma name_in_to_string_array: "capability_name c \<in> set (to_string_array s) \<longleftrightarrow> has_cap s c"
  by (auto simp: to_string_array_def iter_caps_def)

lemma from_to_string_array: "known_bits s \<Longrightarrow> from_string_array (to_string_array s) = s"
  by (rule capability_set_eqI)
    (simp_all add: known_bits_from_string_array has_cap_from_string_array name_in_to_string_array)

end
