(* ===== verification/CoreProperties.thy ===== *)
theory CoreProperties
  imports Demo WireV2 Capability AuditFile
begin

text \<open>
  The properties of the core crates: wire messages, identifiers, capabilities, hexadecimal
  signatures, endpoint health, scanners, policy and the audit logs.  A witness stands next to
  every property with a hypothesis.
\<close>

section \<open>Wire messages\<close>

text \<open>
  C19: A signed v1 message determines its kind and all its fields: two messages of the protocol that
  render to the same bytes are the same message, so that a signature for one statement never counts
  for another.
\<close>

theorem wire_v1_injective:
  assumes "render_v1 m = Inr bs" "render_v1 n = Inr bs"
  shows "m = n"
  using assms by (rule v1.render_injective)

theorem wire_v1_injective_witness:
  "(\<exists>bs. render_v1 (IntentV1 alice bob 3 [] [] demo_nonce 1000) = Inr bs)
   \<and> render_v1 (IntentV1 alice bob 3 [] [] demo_nonce 1000) \<noteq> render_v1 (IntentV1 alice bob 4 [] [] demo_nonce 1000)"
proof -
  obtain c where c: "render_v1 (IntentV1 alice bob 3 [] [] demo_nonce 1000) = Inr c" using demo_intent [of 3] by auto
  moreover have "render_v1 (IntentV1 alice bob 4 [] [] demo_nonce 1000) \<noteq> Inr c"
    using wire_v1_injective [OF c, of "IntentV1 alice bob 4 [] [] demo_nonce 1000"] by auto
  ultimately show ?thesis by auto
qed

text \<open>
  C20: The v2 messages are injective as well, and no byte string is both a v1 and a v2 message: the
  version header separates the two signing domains.
\<close>

theorem wire_v2_separated:
  assumes "render_v2 m = Inr bs"
  shows "(render_v2 n = Inr bs \<longleftrightarrow> n = m) \<and> render_v1 k \<noteq> Inr bs"
proof
  show "render_v2 n = Inr bs \<longleftrightarrow> n = m"
  proof
    assume "render_v2 n = Inr bs"
    then show "n = m" using assms by (rule v2.render_injective)
  next
    assume "n = m"
    with assms show "render_v2 n = Inr bs" by simp
  qed
  show "render_v1 k \<noteq> Inr bs" using v12.families_disjoint assms by blast
qed

theorem wire_v2_separated_witness:
  "\<exists>bs. render_v2 (upgrade (IntentV1 alice bob 3 [] [] demo_nonce 1000)) = Inr bs
     \<and> render_v1 (IntentV1 alice bob 3 [] [] demo_nonce 1000) \<noteq> Inr bs"
proof -
  obtain bs where bs: "render_v2 (upgrade (IntentV1 alice bob 3 [] [] demo_nonce 1000)) = Inr bs"
    using render_upgrade_Inr [of "IntentV1 alice bob 3 [] [] demo_nonce 1000"] demo_intent [of 3] by auto
  then show ?thesis using wire_v2_separated [OF bs] by blast
qed

text \<open>
  The v2 renderers accept exactly the field values that the v1 renderers accept, with the same
  error otherwise.
\<close>

theorem wire_v2_same_validation:
  "render_v2 (upgrade m) = Inl e \<longleftrightarrow> render_v1 m = Inl e"
  by (rule render_upgrade_Inl)

text \<open>
  C27: The clock-skew test accepts a timestamp iff it is at most 300 seconds before or after the
  server's clock, for all 64-bit values: the wide, saturating subtraction never wraps around.
\<close>

theorem clock_skew_exact:
  "is_within_clock_skew now issued_at \<longleftrightarrow> \<bar>sint now - sint issued_at\<bar> \<le> 300"
proof -
  have "- (2 ^ 63) \<le> sint x \<and> sint x < 2 ^ 63" for x :: i64
    using sint_greater_eq [of x] sint_less [of x] by simp
  from this [of now] this [of issued_at] show ?thesis
    by (simp add: is_within_clock_skew_def saturate_i128_def MAX_CLOCK_SKEW_SECS_def Let_def nat_le_iff)
qed

section \<open>Identifiers, capabilities, hexadecimal text\<close>

text \<open>
  The DID parser accepts exactly the texts of well-formed DID URIs and returns their parts:
  parsing inverts printing, and whatever it accepts prints back to the input.
\<close>

theorem did_uri_roundtrip:
  "DidUri_parse s = Some d \<longleftrightarrow> well_formed_did d \<and> s = did_uri_text d"
  by (rule DidUri_parse_Some_iff)

text \<open>
  An agent identifier is accepted iff it is non-empty, at most 256 bytes long, made of printable
  ASCII without spaces and has a colon; the identifier keeps the text.
\<close>

theorem agent_id_accepted:
  "AgentId_new s = Inr a \<longleftrightarrow> a = AgentId s \<and> s \<noteq> [] \<and> length s \<le> 256
     \<and> list_all (\<lambda>c. 33 \<le> code c \<and> code c \<le> 126) s \<and> CHR '':'' \<in> set s"
  by (auto simp: AgentId_new_Inr_iff valid_agent_id_def MAX_AGENT_ID_LEN_def)

text \<open>
  A capability set read from names holds exactly the known capabilities among the names, and a
  set of known capabilities survives the trip through its names.
\<close>

theorem capability_names:
  "(has_cap (from_string_array xs) c \<longleftrightarrow> capability_name c \<in> set xs)
   \<and> from_string_array (to_string_array (from_string_array xs)) = from_string_array xs"
  by (simp add: has_cap_from_string_array from_to_string_array known_bits_from_string_array)

text \<open>The hexadecimal text of a signature decodes to the same bytes, without panic.\<close>

theorem signature_hex_roundtrip: "hex_decode (hex_encode bs) = Some (Inr bs)"
  by (rule hex_decode_encode)

section \<open>Endpoint health\<close>

text \<open>
  C26: After any sequence of probes of a fresh endpoint, the debouncer is unhealthy iff its history
  says so (three failures in a row while healthy, until two successes in a row while unhealthy), and
  its 8-bit counters stay at most 3 and 2, so that no increment saturates.
\<close>

theorem health_by_history:
  "status (foldl on_probe (fresh_healthy now) ps) = status_by_history (rev (map fst ps))
   \<and> unat (consecutive_fails (foldl on_probe (fresh_healthy now) ps)) \<le> 3
   \<and> unat (consecutive_successes (foldl on_probe (fresh_healthy now) ps)) \<le> 2"
  using run_from_fresh [of ps now] by (simp add: health_inv_def)

section \<open>Scanners and policy\<close>

text \<open>
  The verdict of the pipeline is the most severe verdict of its scanners (clean below suspicious
  below error below malicious), whatever their order.
\<close>

theorem verdict_most_severe:
  "severity (overall (ScanPipeline_scan ss w i)) = Max (insert 0 ((\<lambda>s. severity (sv_result (scan_one s i))) ` set ss))"
  by (simp add: overall_scan severity_aggregate image_image)

text \<open>
  The EICAR scanner flags an input as malicious iff the test signature occurs in it, at any
  offset, and calls every other input clean.
\<close>

theorem eicar_exact:
  "sv_result (scan_one (EicarScanner d) i) = (if sublist EICAR_SIGNATURE (si_bytes i) then Malicious else Clean)"
  by (rule Eicar_verdict)

text \<open>
  The tier policy allows a request iff the size is within the limit, the recipient kind and the
  declared MIME type are permitted, and the verdict, if there is one, is clean, or suspicious or an
  error where the tier tolerates that; it never postpones a decision.
\<close>

theorem tier_policy_allows:
  "(TierPolicy_evaluate p r = Allow \<longleftrightarrow>
     unat (pr_size_bytes r) \<le> unat (max_bytes p)
     \<and> (pr_recipient_kind r = KindHumanBridge \<longrightarrow> allow_human_bridge p)
     \<and> (\<forall>m. pr_declared_mime r = Some m \<longrightarrow> m \<notin> set (mime_deny p))
     \<and> (\<forall>v. pr_scanner_verdict r = Some v \<longrightarrow> overall v = Clean \<or> overall v = Suspicious \<and> allow_suspicious p
          \<or> overall v = ScanError \<and> fail_open_on_scanner_error p))
   \<and> \<not> is_pending (TierPolicy_evaluate p r)"
  by (auto simp: TierPolicy_Allow_iff decide_on_verdict_None_iff TierPolicy_not_pending)

definition demo_policy_request :: "PolicyRequest" where
  "demo_policy_request = PolicyRequest_new (AgentId alice) ''acme'' bob KindSpizeNative 3"

theorem tier_policy_allows_witness:
  "TierPolicy_evaluate (for_tier Dev) demo_policy_request = Allow
   \<and> TierPolicy_evaluate (for_tier Dev) (demo_policy_request\<lparr>pr_size_bytes := 4000000000000\<rparr>) \<noteq> Allow"
  unfolding tier_policy_allows [THEN conjunct1]
  by (simp add: demo_policy_request_def PolicyRequest_new_def)

section \<open>Audit logs\<close>

text \<open>
  After any history of appends to a fresh in-memory log, failed ones included, the chain
  verifies, the head is the hash of the last event and the length is the number of events.
\<close>

theorem memory_log_verifies:
  "let l = mem.run P as MemoryAuditLog_new in
   MemoryAuditLog_verify_chain P l = Inr () \<and> MemoryAuditLog_current_head l = Inr (last_hash (mem_events l))
   \<and> MemoryAuditLog_len l = Inr (of_nat (length (mem_events l)))"
  using mem.run_inv [OF mem_inv_new, of P as]
  by (simp add: Let_def mem.inv_verifies mem.inv_head mem.inv_len)

text \<open>
  C21: Tamper evidence: two logs that verify and have the same head hash the same messages in the
  same order, unless two of these very messages collide under SHA-256 or one hashes to the genesis
  head.  Relies on the documented formats of hexadecimal digests and of JSON string literals.
\<close>

theorem audit_chain_binds:
  assumes "platform_laws P"
    and "MemoryAuditLog_verify_chain P l = Inr ()" "MemoryAuditLog_verify_chain P m = Inr ()"
    and "MemoryAuditLog_current_head l = MemoryAuditLog_current_head m"
  shows "map (hashed_bytes P) (mem_events l) = map (hashed_bytes P) (mem_events m)
    \<or> (\<exists>a \<in> messages P (mem_events l @ mem_events m). \<exists>b \<in> messages P (mem_events l @ mem_events m).
         a \<noteq> b \<and> sha256 P a = sha256 P b)
    \<or> (\<exists>a \<in> messages P (mem_events l @ mem_events m). hex_enc P (sha256 P a) = GENESIS_HEAD)"
proof -
  let ?M = "messages P (mem_events l @ mem_events m)"
  have "map (hashed_bytes P) (mem_events l) = map (hashed_bytes P) (mem_events m)"
    if "inj_on (sha256 P) ?M" "\<And>a. a \<in> ?M \<Longrightarrow> hex_enc P (sha256 P a) \<noteq> GENESIS_HEAD"
    using chains_agree [OF assms(1) that] assms(2-4)
    by (auto simp: MemoryAuditLog_verify_chain_def verify_from_Inr_iff MemoryAuditLog_current_head_def
        last_hash_head_from messages_def)
  then show ?thesis by (fastforce simp: inj_on_def)
qed

definition demo_event :: Event where
  "demo_event = mk_event TransferDelivered bob ''tx_0'' (JObject [(''nonce'', JString demo_nonce)])"

definition demo_log :: "string \<Rightarrow> MemoryAuditLog" where
  "demo_log uuid = mem.run demo_platform [(demo_time, uuid, demo_event)] MemoryAuditLog_new"

lemma demo_log_events:
  "\<exists>e. demo_log uuid = \<lparr>mem_events = [e]\<rparr> \<and> se_event_id e = ''evt_'' @ uuid \<and> se_event e = demo_event
     \<and> Inr (se_this_hash e) = compute_hash demo_platform demo_event demo_time GENESIS_HEAD"
  by (simp add: demo_log_def demo_event_def mk_event_def MemoryAuditLog_new_def MemoryAuditLog_append_cases compute_hash_def canonical_bytes_def
      demo_platform_def Let_def ensure_def last_hash_def split: sum.splits)

lemma demo_log_head: "MemoryAuditLog_current_head (demo_log u) = MemoryAuditLog_current_head (demo_log v)"
  using demo_log_events [of u] demo_log_events [of v]
  by (metis Inr_inject MemoryAuditLog.select_convs(1) last_ConsL last_hash_def list.simps(3) MemoryAuditLog_current_head_def)

text \<open>
  Two logs that differ in the identifier of their event: the identifier is not hashed, so both have
  the same head.
\<close>

theorem audit_chain_binds_witness:
  "mem_events (demo_log ''a'') \<noteq> mem_events (demo_log ''b'')
   \<and> (map (hashed_bytes demo_platform) (mem_events (demo_log ''a'')) = map (hashed_bytes demo_platform) (mem_events (demo_log ''b''))
      \<or> (\<exists>a \<in> messages demo_platform (mem_events (demo_log ''a'') @ mem_events (demo_log ''b'')).
           \<exists>b \<in> messages demo_platform (mem_events (demo_log ''a'') @ mem_events (demo_log ''b'')).
             a \<noteq> b \<and> sha256 demo_platform a = sha256 demo_platform b)
      \<or> (\<exists>a \<in> messages demo_platform (mem_events (demo_log ''a'') @ mem_events (demo_log ''b'')).
           hex_enc demo_platform (sha256 demo_platform a) = GENESIS_HEAD))"
proof
  show "mem_events (demo_log ''a'') \<noteq> mem_events (demo_log ''b'')"
    using demo_log_events [of "''a''"] demo_log_events [of "''b''"] by fastforce
  have "MemoryAuditLog_verify_chain demo_platform (demo_log u) = Inr ()" for u
    unfolding demo_log_def by (rule mem.run_verifies) simp
  from audit_chain_binds [OF _ this this demo_log_head, of "''a''" "''b''"] demo_laws
  show "map (hashed_bytes demo_platform) (mem_events (demo_log ''a'')) = map (hashed_bytes demo_platform) (mem_events (demo_log ''b''))
      \<or> (\<exists>a \<in> messages demo_platform (mem_events (demo_log ''a'') @ mem_events (demo_log ''b'')).
           \<exists>b \<in> messages demo_platform (mem_events (demo_log ''a'') @ mem_events (demo_log ''b'')).
             a \<noteq> b \<and> sha256 demo_platform a = sha256 demo_platform b)
      \<or> (\<exists>a \<in> messages demo_platform (mem_events (demo_log ''a'') @ mem_events (demo_log ''b'')).
           hex_enc demo_platform (sha256 demo_platform a) = GENESIS_HEAD)"
    by (simp add: platform_laws_def)
qed

text \<open>
  The file log survives a restart: after any history of appends to a new file, opening the file
  again restores exactly the log that was closed, its chain verifies, and a further append gives the
  receipt that an in-memory log with the same events gives.  Relies on the row format: a printed row
  is one line that parses back.
\<close>

theorem file_log_reopens:
  assumes "row_laws parse_row print_row" "FileAuditLog_open P parse_row None = Inr l0"
    and "l = flog.run P print_row as l0"
  shows "FileAuditLog_open P parse_row (Some (fl_file l)) = Inr l \<and> FileAuditLog_verify_chain P parse_row l = Inr ()
    \<and> (FileAuditLog_append P print_row None now uuid e l = (Inr r, l') \<longrightarrow>
         (\<exists>m'. MemoryAuditLog_append P now uuid e \<lparr>mem_events = file_events parse_row l\<rparr> = (Inr r, m')
            \<and> file_events parse_row l' = mem_events m'))"
proof -
  from file_inv_open_empty [OF assms(1), of P] assms(2) have "file_inv P parse_row print_row l0" by simp
  then have inv: "file_inv P parse_row print_row l" unfolding assms(3) by (rule flog.run_inv)
  from file_reopen [OF inv] flog.inv_verifies [OF inv] file_simulates_memory [OF inv] show ?thesis by auto
qed

text \<open>A row format that knows the first event of the sample log.\<close>

definition demo_stored :: StoredEvent where
  "demo_stored = hd (mem_events (demo_log ''a''))"

definition demo_print_row :: "StoredEvent \<Rightarrow> string + string" where
  "demo_print_row e = (if e = demo_stored then Inr ''row'' else Inl ''unknown'')"

definition demo_parse_row :: "string \<Rightarrow> string + StoredEvent" where
  "demo_parse_row t = (if t = ''row'' then Inr demo_stored else Inl ''unknown'')"

definition demo_file_log :: FileAuditLog where
  "demo_file_log = flog.run demo_platform demo_print_row [(demo_time, ''a'', demo_event)]
     \<lparr>fl_file = [], fl_head = GENESIS_HEAD, fl_len = 0\<rparr>"

lemma demo_row_shape: "line_safe ''row'' \<and> strip_cr ''row'' = ''row'' \<and> \<not> is_blank ''row''"
  by code_simp

lemma demo_row_laws: "row_laws demo_parse_row demo_print_row"
  unfolding row_laws_def
proof (intro allI impI)
  fix e t assume "demo_print_row e = Inr t"
  then have "e = demo_stored" "t = ''row''" by (simp_all add: demo_print_row_def split: if_splits)
  then show "demo_parse_row t = Inr e \<and> line_safe t \<and> strip_cr t = t \<and> \<not> is_blank t"
    by (simp only: demo_parse_row_def demo_row_shape if_True simp_thms)
qed

lemma demo_file_written: "fl_file demo_file_log = ''row'' @ [LF]"
  by (simp add: demo_file_log_def demo_print_row_def demo_stored_def demo_log_def demo_event_def mk_event_def
      MemoryAuditLog_new_def MemoryAuditLog_append_cases FileAuditLog_append_cases compute_hash_def canonical_bytes_def
      demo_platform_def Let_def ensure_def last_hash_def split: sum.splits)

theorem file_log_reopens_witness:
  "FileAuditLog_open demo_platform demo_parse_row (Some (''row'' @ [LF])) = Inr demo_file_log
   \<and> FileAuditLog_verify_chain demo_platform demo_parse_row demo_file_log = Inr ()"
  using file_log_reopens [OF demo_row_laws conjunct1 [OF file_inv_open_empty [OF demo_row_laws]] demo_file_log_def]
  unfolding demo_file_written by blast

end
