(* ===== verification/ControlProperties.thy ===== *)
theory ControlProperties
  imports Demo
begin

text \<open>
  The properties of the control plane: its database under any interleaving, the life of a
  transfer, the audit log of a whole run, and the conditions and effects of every request.
\<close>

section \<open>The database under interleaving\<close>

text \<open>
  C12: Every database that statements of the control plane reach from the empty one, in any
  interleaving of any number of requests and health passes, satisfies the schema invariant: agent
  identifiers, public keys, transfer identifiers and nonces are unique, and every agent has exactly
  one active key.
\<close>

theorem interleaving_keeps_schema:
  assumes "db_step\<^sup>*\<^sup>* empty_database d"
  shows "db_wf d"
  using db_steps_wf [OF assms db_wf_empty] .

theorem interleaving_keeps_schema_witness:
  "\<exists>d. db_step\<^sup>*\<^sup>* empty_database d \<and> registration_nonces d = [(demo_nonce, alice_pk)] \<and> db_wf d"
proof -
  have "db_step empty_database (snd (consume_nonce demo_nonce alice_pk empty_database))"
    by (rule db_step.registration_nonce)
  then have s: "db_step\<^sup>*\<^sup>* empty_database (snd (consume_nonce demo_nonce alice_pk empty_database))" by simp
  from interleaving_keeps_schema [OF this] s show ?thesis
    by (intro exI [of _ "snd (consume_nonce demo_nonce alice_pk empty_database)"])
      (simp add: consume_nonce_def empty_database_def)
qed

text \<open>
  Every run of requests and health passes refines a sequence of atomic statements on the
  database, whatever the answers of clock, database, policy, stores and network.
\<close>

theorem requests_refine_statements:
  assumes "(cp_step ok)\<^sup>*\<^sup>* s s'"
  shows "db_step\<^sup>*\<^sup>* (db s) (db s')"
  using assms by (rule cp_steps_refine)

lemma demo_upload_run:
  "(cp_step (\<lambda>E s. E = demo_env))\<^sup>*\<^sup>* (demo_state []) (snd (create_transfer demo_env (demo_upload demo_blob) (demo_state [])))"
  by (rule r_into_rtranclp, rule cp_step.intros) simp

theorem requests_refine_statements_witness:
  "db_step\<^sup>*\<^sup>* (db (demo_state [])) (db (snd (create_transfer demo_env (demo_upload demo_blob) (demo_state []))))"
  by (rule requests_refine_statements [of "\<lambda>E s. E = demo_env"]) (rule demo_upload_run)

section \<open>The life of a transfer\<close>

text \<open>
  A transfer row never disappears, keeps its parties, size and content hash, and only advances:
  from ready to accepted or delivered and from accepted to delivered, over any run.
\<close>

theorem transfer_only_advances:
  assumes "(cp_step ok)\<^sup>*\<^sup>* s s'" "row_of (db s) t = Some r"
  shows "\<exists>r'. row_of (db s') t = Some r' \<and> row_evolves r r'"
  using row_of_evolves [OF db_steps_evolve [OF cp_steps_refine [OF assms(1)]] assms(2)] .

lemma demo_ack_run:
  "(cp_step (\<lambda>E s. E = demo_env))\<^sup>*\<^sup>* demo_waiting (snd (ack_transfer demo_env ''tx_0'' (demo_receipt ''tx_0'' ''ack'') demo_waiting))"
  by (rule r_into_rtranclp, rule cp_step.intros) simp

theorem transfer_only_advances_witness:
  "\<exists>r'. row_of (db (snd (ack_transfer demo_env ''tx_0'' (demo_receipt ''tx_0'' ''ack'') demo_waiting))) ''tx_0'' = Some r'
     \<and> row_evolves (demo_row (Some demo_hash) None) r'"
  by (rule transfer_only_advances [of "\<lambda>E s. E = demo_env" demo_waiting])
    (simp_all add: demo_ack_run row_of_def)

text \<open>
  C14: A rejected or delivered transfer is final: whatever requests follow, it is never downloaded,
  never acknowledged and never gets a data-plane ticket.
\<close>

theorem finished_is_final:
  assumes "finished (db s) t" "db_wf (db s)" "(cp_step ok)\<^sup>*\<^sup>* s s'"
  shows "finished (db s') t \<and> download_transfer E t rq s' \<noteq> (Inr x, s1)
    \<and> ack_transfer E t rq s' \<noteq> (Inr y, s1) \<and> issue_ticket E t rq s' \<noteq> (Inr z, s1)"
proof -
  have f: "finished (db s') t" and wf: "db_wf (db s')"
    using cp_steps_refine [OF assms(3)] assms(1,2)
    by (auto intro: finished_evolves [OF db_steps_evolve] db_steps_wf)
  show ?thesis
    using f download_not_finished [OF f] ack_not_finished [OF f wf] issue_ticket_not_finished [OF f] by blast
qed

definition demo_rejected :: TransferRow where
  "demo_rejected = (demo_row None None)\<lparr>tr_state := ''rejected''\<rparr>"

theorem finished_is_final_witness:
  "finished (db (demo_state [demo_rejected])) ''tx_0''
   \<and> (\<nexists>x s1. download_transfer demo_env ''tx_0'' (demo_receipt ''tx_0'' ''download'') (demo_state [demo_rejected]) = (Inr x, s1))"
proof -
  have f: "finished (db (demo_state [demo_rejected])) ''tx_0''"
    by (simp add: finished_def row_of_def demo_rejected_def demo_row_def final_state_def)
  have wf: "db_wf (db (demo_state [demo_rejected]))"
    using demo_wf by (simp add: db_wf_def demo_db_def demo_rejected_def)
  show ?thesis
    using finished_is_final [OF f wf rtranclp.rtrancl_refl] f by blast
qed

text \<open>A transfer is acknowledged at most once, and after that it is not downloaded either.\<close>

theorem acknowledged_once:
  assumes "db_wf (db s)" "ack_transfer E t rq s = (Inr x, s1)" "(cp_step ok)\<^sup>*\<^sup>* s1 s2"
  shows "ack_transfer E' t rq' s2 \<noteq> (Inr y, s3) \<and> download_transfer E' t rq' s2 \<noteq> (Inr z, s3)"
proof -
  have "keeps (\<lambda>s. db_wf (db s)) (ack_transfer E t rq)" by (intro ack_keeps_db keeps_queries)
  from keepsE [OF this assms(2,1)] have wf: "db_wf (db s1)" .
  have f: "finished (db s2) t" and wf2: "db_wf (db s2)"
    using cp_steps_refine [OF assms(3)] ack_finishes [OF assms(2,1)] wf
    by (auto intro: finished_evolves [OF db_steps_evolve] db_steps_wf)
  show ?thesis using download_not_finished [OF f] ack_not_finished [OF f wf2] by blast
qed

theorem acknowledged_once_witness:
  "\<exists>x s1. ack_transfer demo_env ''tx_0'' (demo_receipt ''tx_0'' ''ack'') demo_waiting = (Inr x, s1)
     \<and> (\<nexists>y s3. ack_transfer demo_env ''tx_0'' (demo_receipt ''tx_0'' ''ack'') s1 = (Inr y, s3))"
proof -
  obtain x s1 where a: "ack_transfer demo_env ''tx_0'' (demo_receipt ''tx_0'' ''ack'') demo_waiting = (Inr x, s1)"
    using demo_acks by blast
  from acknowledged_once [OF _ a rtranclp.rtrancl_refl] demo_wf(2) a show ?thesis by fastforce
qed

section \<open>The audit log of a run\<close>

text \<open>
  With the in-memory log, the audit chain of the server verifies after any run of requests, and
  the events of the log so far are never changed or removed.
\<close>

theorem server_audit_verifies:
  assumes "(cp_step ok)\<^sup>*\<^sup>* s s'" "\<forall>E s. ok E s \<longrightarrow> audit_append E = MemoryAuditLog_append P"
    and "MemoryAuditLog_verify_chain P (audit s) = Inr ()"
  shows "MemoryAuditLog_verify_chain P (audit s') = Inr ()
    \<and> (\<exists>new. mem_events (audit s') = mem_events (audit s) @ new)"
proof -
  have "mem_inv P (audit s)"
    using assms(3) by (simp add: mem_inv_def MemoryAuditLog_verify_chain_def verify_from_Inr_iff)
  with mem.reach_audit [OF assms(1), of P] assms(2) show ?thesis
    by (auto simp: mem.inv_verifies)
qed

theorem server_audit_verifies_witness:
  "MemoryAuditLog_verify_chain demo_platform
     (audit (snd (create_transfer demo_env (demo_upload demo_blob) (demo_state [])))) = Inr ()"
  using server_audit_verifies [OF demo_upload_run, of demo_platform]
  by (simp add: MemoryAuditLog_verify_chain_def MemoryAuditLog_new_def)

end
