(* ===== verification/RequestProperties.thy ===== *)
theory RequestProperties
  imports Demo
begin

text \<open>
  The properties of the requests of the control plane: who may cause what, exactly when a request
  succeeds, and what it changes.
\<close>

section \<open>Agents\<close>

text \<open>
  C16: A registration succeeds only if the request carries a signature of the registered key over
  exactly its own fields, made within the clock skew and with an unused nonce; it adds one agent,
  whose identifier is derived from organisation, name and key, and one active key.
\<close>

theorem registration_authenticated:
  assumes "register E req s = (Inr resp, s')"
  shows "\<exists>pk row k. registration_authentic (plat E) req pk \<and> is_within_clock_skew (now_unix E) (rg_issued_at req)
    \<and> rg_nonce req \<notin> fst ` set (registration_nonces (db s))
    \<and> agents (db s') = agents (db s) @ [row] \<and> agent_keys (db s') = agent_keys (db s) @ [k]
    \<and> ar_agent_id row = agent_id_of (rg_org req) (rg_name req) (compute_fingerprint (plat E) pk)
    \<and> ar_agent_id row \<notin> ar_agent_id ` set (agents (db s))
    \<and> ak_agent_id k = ar_agent_id row \<and> ak_public_key k = pk \<and> ak_valid_to k = None"
proof -
  from register_Inr [OF assms] obtain pk row d where
    r: "registration_authentic (plat E) req pk" "is_within_clock_skew (now_unix E) (rg_issued_at req)"
    and c: "consume_nonce (rg_nonce req) pk (db s) = (Inr True, d)"
    and i: "agents_insert (plat E) (dbe E)
        (agent_id_of (rg_org req) (rg_name req) (compute_fingerprint (plat E) pk)) pk
        (compute_fingerprint (plat E) pk) (rg_org req) (rg_name req) d = (Inr row, db s')"
    by blast
  have d: "agents d = agents (db s)" "agent_keys d = agent_keys (db s)"
    "rg_nonce req \<notin> fst ` set (registration_nonces (db s))"
    using c registration.consume_Inr [OF c] by (auto simp: consume_nonce_def split: if_splits)
  show ?thesis using agents_insert_Inr [OF i] r d by auto
qed

theorem registration_authenticated_witness:
  "\<exists>resp s' row. register demo_env demo_register empty_state = (Inr resp, s') \<and> agents (db s') = [row]"
proof -
  obtain resp s' where r: "register demo_env demo_register empty_state = (Inr resp, s')" using demo_registers by blast
  from registration_authenticated [OF r] r show ?thesis by (auto simp: empty_state_def empty_database_def)
qed

text \<open>
  A registration nonce is accepted once: after a successful registration no request with the
  same nonce succeeds, in whatever state later requests lead to.
\<close>

theorem registration_not_replayed:
  assumes "register E req s = (Inr resp, s1)" "(cp_step ok)\<^sup>*\<^sup>* s1 s2" "rg_nonce req' = rg_nonce req"
  shows "register E' req' s2 \<noteq> (Inr resp', s3)"
  using register_nonce_used registration_nonces_kept [OF cp_steps_refine [OF assms(2)] register_consumes [OF assms(1)]]
    assms(3) by metis

theorem registration_not_replayed_witness:
  "\<exists>resp s1. register demo_env demo_register empty_state = (Inr resp, s1)
     \<and> (\<nexists>resp' s3. register demo_env demo_register s1 = (Inr resp', s3))"
proof -
  obtain resp s1 where r: "register demo_env demo_register empty_state = (Inr resp, s1)" using demo_registers by blast
  from registration_not_replayed [OF r rtranclp.rtrancl_refl refl] r show ?thesis by blast
qed

text \<open>
  The derived agent identifier is valid, belongs to the native scheme and determines
  organisation, name and fingerprint.
\<close>

theorem agent_id_determines:
  assumes "hex_laws P" "digest_laws P" "valid_label org" "valid_label name" "valid_label org'" "valid_label name'"
  shows "valid_agent_id (agent_id_of org name (compute_fingerprint P pk))
    \<and> scheme (AgentId (agent_id_of org name (compute_fingerprint P pk))) = SpizeNative
    \<and> (agent_id_of org name (compute_fingerprint P pk) = agent_id_of org' name' (compute_fingerprint P pk')
       \<longleftrightarrow> org = org' \<and> name = name' \<and> compute_fingerprint P pk = compute_fingerprint P pk')"
  using agent_id_of_valid [OF assms(1-4), of pk] agent_id_of_scheme [of org name "compute_fingerprint P pk"]
    agent_id_of_inj [OF assms(3-6), of "compute_fingerprint P pk" "compute_fingerprint P pk'"]
  by (intro conjI iffI) simp_all

theorem agent_id_determines_witness:
  "agent_id_of ''acme'' ''alice'' (compute_fingerprint demo_platform alice_pk)
     \<noteq> agent_id_of ''acme'' ''bob'' (compute_fingerprint demo_platform bob_pk)"
proof -
  have "valid_label ''acme''" "valid_label ''alice''" "valid_label ''bob''" by code_simp+
  with agent_id_determines [OF demo_hex_laws demo_digest_laws, of "''acme''" "''alice''" "''acme''" "''bob''" alice_pk bob_pk]
  show ?thesis by auto
qed

text \<open>
  C17: A key rotation succeeds only if the current key signed the change to a different key text with
  an unused nonce; at every later time the agent's valid keys are the new key from the moment of the
  rotation on, the previous one until 24 hours later, and the older ones as before.
\<close>

theorem rotation_authenticated:
  assumes "rotate_key E req s = (Inr resp, s')" "db_wf (db s)"
  shows "\<exists>k row new_pk. k \<in> set (agent_keys (db s)) \<and> ak_agent_id k = rk_agent_id req \<and> ak_valid_to k = None
    \<and> rotation_authentic (plat E) req k new_pk \<and> rk_nonce req \<notin> fst ` set (rotate_key_nonces (db s))
    \<and> ak_public_key row = new_pk \<and> ak_agent_id row = rk_agent_id req
    \<and> (\<forall>t. {l \<in> set (agent_keys (db s')). ak_agent_id l = rk_agent_id req \<and> key_valid_at t l} =
        {l \<in> set (agent_keys (db s)). l \<noteq> k \<and> ak_agent_id l = rk_agent_id req \<and> key_valid_at t l}
        \<union> {l. l = k\<lparr>ak_valid_to := Some (timestamptz (dbe E) (clock E 1 + nanos ROTATION_GRACE_SECS))\<rparr> \<and> key_valid_at t l}
        \<union> {l. l = row \<and> timestamptz (dbe E) (clock E 1) \<le> t})"
proof -
  from rotate_key_Inr [OF assms(1)] obtain current new_pk d row where
    cur: "current_key (rk_agent_id req) (db s) = (Inr (Some current), db s)"
    and auth: "rotation_authentic (plat E) req current new_pk"
    and c: "consume_rotate_nonce (rk_nonce req) (rk_agent_id req) (db s) = (Inr True, d)"
    and i: "insert_rotation (dbe E) (rk_agent_id req) (ak_public_key_hex current) (rk_new_public_key_hex req)
        new_pk (clock E 1) d = (Inr row, db s')"
    by blast
  have d: "agent_keys d = agent_keys (db s)" and n: "rk_nonce req \<notin> fst ` set (rotate_key_nonces (db s))"
    using c rotation.consume_Inr [OF c] by (auto simp: consume_rotate_nonce_def split: if_splits)
  have wf: "keys_wf (agent_keys (db s))" using assms(2) by (simp add: db_wf_def)
  have cc: "current \<in> set (agent_keys (db s))" "closes (rk_agent_id req) (ak_public_key_hex current) current"
    using cur by (auto simp: current_key_def closes_def find_Some_iff)
  note w = rotation_windows [OF i, unfolded d, OF wf cc]
  show ?thesis
    using cc auth n insert_rotation_Inr [OF i] w
    by (intro exI [of _ current] exI [of _ row] exI [of _ new_pk]) (auto simp: closes_def)
qed

theorem rotation_authenticated_witness:
  "\<exists>resp s' k new_pk. rotate_key demo_env demo_rotate (demo_state []) = (Inr resp, s')
     \<and> rotation_authentic demo_platform demo_rotate k new_pk"
proof -
  obtain resp s' where r: "rotate_key demo_env demo_rotate (demo_state []) = (Inr resp, s')" using demo_rotates by blast
  from rotation_authenticated [OF r] demo_wf(1) r show ?thesis by auto
qed

end
