(* ===== verification/Identity.thy ===== *)
theory Identity
  imports Agents
begin

text \<open>
  The identity providers (\<open>aex-identity/src\<close>): the native provider, \<open>did:key\<close> and
  EtereCitizen; \<open>did:web\<close> has its own theory.  The locale \<open>identity_provider\<close> is the contract of
  the \<open>IdentityProvider\<close> trait: a signature is accepted only under the key by which the provider
  knows the peer, a known key is never replaced, and a valid signature under a known key is
  accepted.  Its lemma says that over any run all signatures accepted for a peer verify under one
  key.  The \<open>bs58\<close> and \<open>k256\<close> crates are the fields of the record \<open>keyring\<close>.
\<close>

section \<open>The contract\<close>

text \<open>A signing key, by its public key and its signing function.\<close>

record signing_key =
  sk_public :: bytes
  sk_sign :: "bytes \<Rightarrow> bytes"

record keyring =
  bs58_enc :: "bytes \<Rightarrow> string"
  bs58_dec :: "string \<Rightarrow> string + bytes"
  k256_point :: "bytes \<Rightarrow> bytes"
  k256_sig_error :: "bytes \<Rightarrow> string option"
  k256_verify :: "bytes \<Rightarrow> bytes \<Rightarrow> bytes \<Rightarrow> bool"

type_synonym peers = "AgentId \<rightharpoonup> bytes"

fun algorithm_debug :: "SignatureAlgorithm \<Rightarrow> string" where
  "algorithm_debug Ed25519 = ''Ed25519''"
| "algorithm_debug EcdsaSecp256k1 = ''EcdsaSecp256k1''"

text \<open>A run of verifications, with the outcome of each.\<close>

fun outcomes :: "(AgentId \<Rightarrow> bytes \<Rightarrow> Signature \<Rightarrow> ('s, core_error, unit) action) \<Rightarrow>
    (AgentId \<times> bytes \<times> Signature) list \<Rightarrow> 's \<Rightarrow> (core_error + unit) list" where
  "outcomes verify [] s = []"
| "outcomes verify ((p, m, sg) # qs) s = (case verify p m sg s of (r, s') \<Rightarrow> r # outcomes verify qs s')"

locale identity_provider =
  fixes verify_peer :: "AgentId \<Rightarrow> bytes \<Rightarrow> Signature \<Rightarrow> ('s, core_error, unit) action"
    and known :: "'s \<Rightarrow> AgentId \<Rightarrow> bytes option"
    and valid_sig :: "bytes \<Rightarrow> bytes \<Rightarrow> Signature \<Rightarrow> bool"
  assumes verify_sound: "verify_peer p m sg s = (Inr u, s') \<Longrightarrow> \<exists>k. known s' p = Some k \<and> valid_sig k m sg"
    and verify_pins: "known s p = Some k \<Longrightarrow> verify_peer q m sg s = (r, s') \<Longrightarrow> known s' p = Some k"
    and verify_complete: "known s p = Some k \<Longrightarrow> valid_sig k m sg \<Longrightarrow> \<exists>s'. verify_peer p m sg s = (Inr (), s')"
begin

lemma outcomes_known:
  assumes "known s p = Some k" "i < length qs" "fst (qs ! i) = p"
  shows "outcomes verify_peer qs s ! i = Inr () \<longleftrightarrow> valid_sig k (fst (snd (qs ! i))) (snd (snd (qs ! i)))"
  using assms
proof (induction qs arbitrary: s i)
  case (Cons q qs)
  obtain p' m sg where q: "q = (p', m, sg)" by (cases q)
  obtain r s' where v: "verify_peer p' m sg s = (r, s')" by fastforce
  have k: "known s' p = Some k" using verify_pins [OF Cons.prems(1) v] .
  show ?case
  proof (cases i)
    case 0
    with Cons.prems q v k verify_sound [of p' m sg s "()" s'] verify_complete [of s p' k m sg]
    show ?thesis by auto
  next
    case (Suc j)
    with Cons.IH [OF k, of j] Cons.prems q v show ?thesis by simp
  qed
qed simp

text \<open>All signatures accepted for a peer over a run verify under one key.\<close>

lemma one_key:
  "\<exists>k. \<forall>i < length qs. fst (qs ! i) = p \<and> outcomes verify_peer qs s ! i = Inr () \<longrightarrow>
      valid_sig k (fst (snd (qs ! i))) (snd (snd (qs ! i)))"
proof (induction qs arbitrary: s)
  case (Cons q qs)
  obtain p' m sg where q: "q = (p', m, sg)" by (cases q)
  obtain r s' where v: "verify_peer p' m sg s = (r, s')" by fastforce
  show ?case
  proof (cases "p' = p \<and> r = Inr ()")
    case True
    with verify_sound v obtain k where k: "known s' p = Some k" "valid_sig k m sg" by blast
    have "valid_sig k (fst (snd ((q # qs) ! i))) (snd (snd ((q # qs) ! i)))"
      if "i < length (q # qs)" "fst ((q # qs) ! i) = p" "outcomes verify_peer (q # qs) s ! i = Inr ()" for i
      using that k q v outcomes_known [OF k(1), of "i - 1" qs] by (cases i) auto
    then show ?thesis by blast
  next
    case False
    from Cons.IH [of s'] obtain k where k: "\<forall>i < length qs. fst (qs ! i) = p \<and> outcomes verify_peer qs s' ! i = Inr () \<longrightarrow>
      valid_sig k (fst (snd (qs ! i))) (snd (snd (qs ! i)))" by blast
    have "valid_sig k (fst (snd ((q # qs) ! i))) (snd (snd ((q # qs) ! i)))"
      if "i < length (q # qs)" "fst ((q # qs) ! i) = p" "outcomes verify_peer (q # qs) s ! i = Inr ()" for i
      using that k q v False by (cases i) auto
    then show ?thesis by blast
  qed
qed simp

end

section \<open>The native provider\<close>

record SpizeNativeProvider =
  np_agent_id :: AgentId
  np_key :: signing_key

definition PeerRegistry_register :: "AgentId \<Rightarrow> bytes \<Rightarrow> peers \<Rightarrow> peers" where
  "PeerRegistry_register a pk reg = reg(a \<mapsto> pk)"

definition PeerRegistry_lookup :: "AgentId \<Rightarrow> peers \<Rightarrow> bytes option" where
  "PeerRegistry_lookup a reg = reg a"

definition native_validate_label :: "string \<Rightarrow> string \<Rightarrow> core_error + unit" where
  "native_validate_label s field =
     (if s = [] then Inl (InvalidAgentId (field @ '' is empty''))
      else if length s > 64 then Inl (InvalidAgentId (field @ '' too long: '' @ show_nat (length s)))
      else case first_bad (\<lambda>c. \<not> label_char c) 0 s of
        Some (i, r) \<Rightarrow> Inl (InvalidAgentId (field @ '' char at '' @ show_nat i @ '': '' @ debug_char r
          @ '' (allowed: a-z 0-9 - _)''))
      | None \<Rightarrow> Inr ())"

definition native_fingerprint :: "platform \<Rightarrow> bytes \<Rightarrow> string" where
  "native_fingerprint P key = hex_enc P (take 3 (sha256 P key))"

definition native_from_signing_key :: "platform \<Rightarrow> string \<Rightarrow> string \<Rightarrow> signing_key \<Rightarrow> core_error + SpizeNativeProvider" where
  "native_from_signing_key P org name sk =
     bindE (native_validate_label org ''org'') (\<lambda>_.
     bindE (native_validate_label name ''name'') (\<lambda>_.
     let fingerprint = native_fingerprint P (sk_public sk);
         id_str = ''spize:'' @ org @ ''/'' @ name @ '':'' @ fingerprint in
     bindE (AgentId_new id_str) (\<lambda>agent_id.
     Inr \<lparr>np_agent_id = agent_id, np_key = sk\<rparr>)))"

text \<open>All providers with an Ed25519 key sign alike.\<close>

definition ed25519_sign :: "signing_key \<Rightarrow> bytes \<Rightarrow> core_error + Signature" where
  "ed25519_sign sk m = Inr \<lparr>algorithm = Ed25519, sig_bytes = sk_sign sk m\<rparr>"

definition native_verify_peer :: "platform \<Rightarrow> AgentId \<Rightarrow> bytes \<Rightarrow> Signature \<Rightarrow> (peers, core_error, unit) action" where
  "native_verify_peer P peer_id msg signature =
     bindS (ensureS (algorithm signature = Ed25519)
       (SignatureFormat (''SpizeNative only accepts Ed25519, got '' @ algorithm_debug (algorithm signature)))) (\<lambda>_.
     bindS (ensureS (length (sig_bytes signature) = 64)
       (SignatureFormat (''expected 64 bytes, got '' @ show_nat (length (sig_bytes signature))))) (\<lambda>_.
     bindS (getS (PeerRegistry_lookup peer_id)) (\<lambda>found.
     bindS (liftS (ok_or (NotFound (''peer '' @ as_str peer_id @ '' not in registry'')) found)) (\<lambda>verifying_key.
     ensureS (ed25519_verify P verifying_key msg (sig_bytes signature)) SignatureInvalid))))"

definition ed25519_valid :: "platform \<Rightarrow> bytes \<Rightarrow> bytes \<Rightarrow> Signature \<Rightarrow> bool" where
  "ed25519_valid P k m sg \<longleftrightarrow> algorithm sg = Ed25519 \<and> length (sig_bytes sg) = 64 \<and> ed25519_verify P k m (sig_bytes sg)"

lemma native_keeps: "native_verify_peer P p m sg s = (r, s') \<Longrightarrow> s' = s"
  by (cases "PeerRegistry_lookup p s") (auto simp: native_verify_peer_def bindS_def split: if_splits)

lemma native_accepts:
  "native_verify_peer P p m sg s = (Inr u, s') \<longleftrightarrow> s' = s \<and> (\<exists>k. PeerRegistry_lookup p s = Some k \<and> ed25519_valid P k m sg)"
  by (cases "PeerRegistry_lookup p s") (auto simp: native_verify_peer_def ed25519_valid_def bindS_def split: if_splits)

interpretation native: identity_provider "native_verify_peer P" "\<lambda>reg p. PeerRegistry_lookup p reg"
  "ed25519_valid P" for P
  by unfold_locales (auto simp: native_accepts dest: native_keeps)

lemma native_label_iff: "native_validate_label s f = Inr u \<longleftrightarrow> valid_label s"
  using first_bad_None_iff [of "\<lambda>c. \<not> label_char c" 0 s]
  by (auto simp: native_validate_label_def valid_label_def list_all_iff split: option.splits if_splits)

text \<open>The provider derives the identifier that the control plane derives at registration.\<close>

lemma native_from_signing_key_Inr:
  assumes "hex_laws P" "digest_laws P"
  shows "native_from_signing_key P org name sk = Inr p \<longleftrightarrow> valid_label org \<and> valid_label name
    \<and> p = \<lparr>np_agent_id = AgentId (agent_id_of org name (compute_fingerprint P (sk_public sk))), np_key = sk\<rparr>"
  using agent_id_of_valid [OF assms, of org name "sk_public sk"]
  by (auto simp: native_from_signing_key_def step_iffs native_label_iff Let_def AgentId_new_Inr_iff
      native_fingerprint_def compute_fingerprint_def agent_id_of_def)

section \<open>did:key\<close>

definition ED25519_MULTICODEC_PREFIX :: bytes where
  "ED25519_MULTICODEC_PREFIX = [0xed, 0x01]"

definition ED25519_PUBKEY_LEN :: nat where
  "ED25519_PUBKEY_LEN = 32"

text \<open>Slices of bytes printed with \<open>{:02x?}\<close>.\<close>

definition hex_debug :: "bytes \<Rightarrow> string" where
  "hex_debug bs = ''['' @ join_with '', '' (map hex_byte bs) @ '']''"

definition encode_did_key :: "keyring \<Rightarrow> bytes \<Rightarrow> string" where
  "encode_did_key K vk = ''did:key:z'' @ bs58_enc K (ED25519_MULTICODEC_PREFIX @ vk)"

definition decode_pubkey :: "platform \<Rightarrow> keyring \<Rightarrow> AgentId \<Rightarrow> core_error + bytes" where
  "decode_pubkey P K agent_id =
     bindE (ensure (scheme agent_id = DidKey) (InvalidAgentId (''not a did:key agent_id: '' @ as_str agent_id))) (\<lambda>_.
     bindE (ok_or (InvalidAgentId (''did:key id is not a valid DID URI: '' @ as_str agent_id)) (as_did_uri agent_id)) (\<lambda>uri.
     bindE (ok_or (InvalidAgentId ''did:key must use base58btc (z prefix)'')
       (strip_prefix ''z'' (method_specific_id uri))) (\<lambda>after_z.
     bindE (map_err (\<lambda>e. InvalidAgentId (''base58 decode failed: '' @ e)) (bs58_dec K after_z)) (\<lambda>bytes.
     bindE (ensure (length bytes = length ED25519_MULTICODEC_PREFIX + ED25519_PUBKEY_LEN)
       (InvalidAgentId (''did:key length mismatch: got '' @ show_nat (length bytes) @ '' bytes, expected ''
          @ show_nat (length ED25519_MULTICODEC_PREFIX + ED25519_PUBKEY_LEN)))) (\<lambda>_.
     bindE (ensure (take 2 bytes = ED25519_MULTICODEC_PREFIX)
       (InvalidAgentId (''did:key multicodec prefix mismatch: got '' @ hex_debug (take 2 bytes) @ '', expected ''
          @ hex_debug ED25519_MULTICODEC_PREFIX @ '' (Ed25519)''))) (\<lambda>_.
     case ed25519_key_error P (drop 2 bytes) of
       Some e \<Rightarrow> Inl (InvalidAgentId (''invalid Ed25519 public key: '' @ e))
     | None \<Rightarrow> Inr (drop 2 bytes)))))))"

record DidKeyProvider =
  dk_agent_id :: AgentId
  dk_key :: signing_key

definition did_key_from_signing_key :: "keyring \<Rightarrow> signing_key \<Rightarrow> core_error + DidKeyProvider" where
  "did_key_from_signing_key K sk =
     bindE (AgentId_new (encode_did_key K (sk_public sk))) (\<lambda>agent_id.
     Inr \<lparr>dk_agent_id = agent_id, dk_key = sk\<rparr>)"

definition register_peer :: "AgentId \<Rightarrow> bytes \<Rightarrow> peers \<Rightarrow> peers" where
  "register_peer a pk ps = ps(a \<mapsto> pk)"

definition did_key_verify_peer :: "platform \<Rightarrow> keyring \<Rightarrow> AgentId \<Rightarrow> bytes \<Rightarrow> Signature \<Rightarrow> (peers, core_error, unit) action" where
  "did_key_verify_peer P K peer_id msg signature =
     bindS (ensureS (algorithm signature = Ed25519)
       (SignatureFormat (''did:key requires Ed25519 signature, got '' @ algorithm_debug (algorithm signature)))) (\<lambda>_.
     bindS (getS (\<lambda>ps. ps peer_id)) (\<lambda>cached.
     bindS (case cached of
         Some k \<Rightarrow> returnS k
       | None \<Rightarrow>
           bindS (liftS (decode_pubkey P K peer_id)) (\<lambda>pk.
           bindS (modifyS (register_peer peer_id pk)) (\<lambda>_. returnS pk))) (\<lambda>pubkey.
     bindS (ensureS (length (sig_bytes signature) = 64)
       (SignatureFormat (''Ed25519 signature must be 64 bytes, got '' @ show_nat (length (sig_bytes signature))))) (\<lambda>_.
     ensureS (ed25519_verify P pubkey msg (sig_bytes signature)) SignatureInvalid))))"

lemma did_key_verify_iff:
  "did_key_verify_peer P K p m sg s = (Inr u, s') \<longleftrightarrow> (\<exists>k. ed25519_valid P k m sg
     \<and> (s p = Some k \<and> s' = s \<or> s p = None \<and> decode_pubkey P K p = Inr k \<and> s' = s(p \<mapsto> k)))"
  by (cases "s p") (auto simp: did_key_verify_peer_def ed25519_valid_def register_peer_def bindS_def
      split: sum.splits if_splits)

lemma did_key_state:
  "did_key_verify_peer P K p m sg s = (r, s') \<Longrightarrow>
     s' = s \<or> s p = None \<and> (\<exists>k. decode_pubkey P K p = Inr k \<and> s' = s(p \<mapsto> k))"
  by (cases "s p") (auto simp: did_key_verify_peer_def register_peer_def bindS_def split: sum.splits if_splits)

interpretation didkey: identity_provider "did_key_verify_peer P K" "\<lambda>ps p. ps p" "ed25519_valid P" for P K
proof unfold_locales
  fix p m sg s u s'
  assume "did_key_verify_peer P K p m sg s = (Inr u, s')"
  then show "\<exists>k. s' p = Some k \<and> ed25519_valid P k m sg" by (auto simp: did_key_verify_iff)
next
  fix s :: peers and p k q m sg r s'
  assume "s p = Some k" "did_key_verify_peer P K q m sg s = (r, s')"
  then show "s' p = Some k" by (auto dest!: did_key_state)
next
  fix s :: peers and p k m sg
  assume "s p = Some k" "ed25519_valid P k m sg"
  then show "\<exists>s'. did_key_verify_peer P K p m sg s = (Inr (), s')" by (auto simp: did_key_verify_iff)
qed

text \<open>
  The cache only remembers what the identifiers say: while no key is registered by hand, a peer is
  accepted exactly under the key that its identifier encodes.
\<close>

definition cache_decoded :: "platform \<Rightarrow> keyring \<Rightarrow> peers \<Rightarrow> bool" where
  "cache_decoded P K s \<longleftrightarrow> (\<forall>p k. s p = Some k \<longrightarrow> decode_pubkey P K p = Inr k)"

lemma cache_decoded_empty [simp]: "cache_decoded P K Map.empty"
  by (simp add: cache_decoded_def)

lemma cache_decoded_step:
  "cache_decoded P K s \<Longrightarrow> did_key_verify_peer P K p m sg s = (r, s') \<Longrightarrow> cache_decoded P K s'"
  by (auto simp: cache_decoded_def dest!: did_key_state split: if_splits)

lemma did_key_accepts_iff:
  assumes "cache_decoded P K s"
  shows "fst (did_key_verify_peer P K p m sg s) = Inr () \<longleftrightarrow>
    (\<exists>k. decode_pubkey P K p = Inr k \<and> ed25519_valid P k m sg)"
proof -
  have "fst (did_key_verify_peer P K p m sg s) = Inr () \<longleftrightarrow> (\<exists>s'. did_key_verify_peer P K p m sg s = (Inr (), s'))"
    by (cases "did_key_verify_peer P K p m sg s") auto
  also have "\<dots> \<longleftrightarrow> (\<exists>k. decode_pubkey P K p = Inr k \<and> ed25519_valid P k m sg)"
    using assms by (cases "s p") (auto simp: did_key_verify_iff cache_decoded_def)
  finally show ?thesis .
qed

text \<open>
  Documented behaviour of \<open>bs58\<close>: the decoder inverts the encoder, whose digits are alphanumeric.
\<close>

definition bs58_laws :: "keyring \<Rightarrow> bool" where
  "bs58_laws K \<longleftrightarrow> (\<forall>b. bs58_dec K (bs58_enc K b) = Inr b \<and> list_all is_ascii_alphanumeric (bs58_enc K b))"

lemma did_key_roundtrip:
  assumes "bs58_laws K" "length vk = 32" "ed25519_key_ok P vk"
  shows "decode_pubkey P K (AgentId (encode_did_key K vk)) = Inr vk"
proof -
  let ?t = "bs58_enc K (ED25519_MULTICODEC_PREFIX @ vk)"
  have hash: "\<not> is_ascii_alphanumeric (CHR ''#'')"
    by (simp add: is_ascii_alphanumeric_def is_ascii_digit_def is_ascii_lowercase_def is_ascii_uppercase_def code_def)
  have laws: "bs58_dec K ?t = Inr (ED25519_MULTICODEC_PREFIX @ vk)" "CHR ''#'' \<notin> set ?t"
    using assms(1) hash by (auto simp: bs58_laws_def list_all_iff)
  have "well_formed_did \<lparr>did_method = ''key'', method_specific_id = CHR ''z'' # ?t, did_fragment = None\<rparr>"
    using laws(2) by (simp add: well_formed_did_def method_char_def is_ascii_lowercase_def code_def)
  moreover have "encode_did_key K vk
      = did_uri_text \<lparr>did_method = ''key'', method_specific_id = CHR ''z'' # ?t, did_fragment = None\<rparr>"
    by (simp add: encode_did_key_def did_uri_text_def)
  ultimately have "as_did_uri (AgentId (encode_did_key K vk))
      = Some \<lparr>did_method = ''key'', method_specific_id = CHR ''z'' # ?t, did_fragment = None\<rparr>"
    by (simp add: as_did_uri_def DidUri_parse_Some_iff)
  moreover have "scheme (AgentId (encode_did_key K vk)) = DidKey"
    by (simp add: scheme_def starts_with_iff encode_did_key_def)
  ultimately show ?thesis
    using assms(2,3) laws(1)
    by (simp add: decode_pubkey_def ED25519_MULTICODEC_PREFIX_def ED25519_PUBKEY_LEN_def ensure_def ed25519_key_ok_def)
qed

section \<open>EtereCitizen\<close>

definition DEFAULT_CHAIN_ID :: u64 where
  "DEFAULT_CHAIN_ID = 8453"

text \<open>Trust metadata; the score is a 32-bit float, held as its text.\<close>

record TrustMetadata =
  verification_level :: "u8 option"
  reputation_score :: "string option"
  review_count :: "32 word option"
  tm_capabilities :: "string list"
  tm_flags :: "string list"

record EtereCitizenRegistry =
  ec_peers :: peers
  ec_reputation :: "AgentId \<rightharpoonup> TrustMetadata"

definition ec_register :: "AgentId \<Rightarrow> bytes \<Rightarrow> EtereCitizenRegistry \<Rightarrow> EtereCitizenRegistry" where
  "ec_register a pk reg = reg\<lparr>ec_peers := (ec_peers reg)(a \<mapsto> pk)\<rparr>"

definition set_reputation :: "AgentId \<Rightarrow> TrustMetadata \<Rightarrow> EtereCitizenRegistry \<Rightarrow> EtereCitizenRegistry" where
  "set_reputation a md reg = reg\<lparr>ec_reputation := (ec_reputation reg)(a \<mapsto> md)\<rparr>"

definition ec_lookup :: "AgentId \<Rightarrow> EtereCitizenRegistry \<Rightarrow> bytes option" where
  "ec_lookup a reg = ec_peers reg a"

definition reputation :: "AgentId \<Rightarrow> EtereCitizenRegistry \<Rightarrow> TrustMetadata option" where
  "reputation a reg = ec_reputation reg a"

definition evm_address :: "platform \<Rightarrow> keyring \<Rightarrow> bytes \<Rightarrow> string" where
  "evm_address P K vk =
     (let without_prefix = drop 1 (k256_point K vk); digest = sha256 P without_prefix
      in hex_enc P (drop (length digest - 20) digest))"

text \<open>The source of reputation is the registry unless another one is plugged in.\<close>

type_synonym reputation_fetcher = "AgentId \<Rightarrow> EtereCitizenRegistry \<Rightarrow> TrustMetadata option"

record EtereCitizenProvider =
  ep_agent_id :: AgentId
  ep_key :: signing_key
  ep_reputation :: reputation_fetcher

definition ec_from_signing_key :: "platform \<Rightarrow> keyring \<Rightarrow> u64 \<Rightarrow> signing_key \<Rightarrow> core_error + EtereCitizenProvider" where
  "ec_from_signing_key P K chain_id sk =
     bindE (AgentId_new (''did:ethr:'' @ show_u64 chain_id @ '':0x'' @ evm_address P K (sk_public sk))) (\<lambda>agent_id.
     Inr \<lparr>ep_agent_id = agent_id, ep_key = sk, ep_reputation = reputation\<rparr>)"

definition with_reputation_fetcher :: "reputation_fetcher \<Rightarrow> EtereCitizenProvider \<Rightarrow> EtereCitizenProvider" where
  "with_reputation_fetcher f p = p\<lparr>ep_reputation := f\<rparr>"

definition trust_metadata :: "EtereCitizenProvider \<Rightarrow> AgentId \<Rightarrow> EtereCitizenRegistry \<Rightarrow> TrustMetadata option" where
  "trust_metadata p peer_id reg = ep_reputation p peer_id reg"

definition ec_sign :: "signing_key \<Rightarrow> bytes \<Rightarrow> core_error + Signature" where
  "ec_sign sk m = Inr \<lparr>algorithm = EcdsaSecp256k1, sig_bytes = sk_sign sk m\<rparr>"

definition ec_verify_peer :: "keyring \<Rightarrow> AgentId \<Rightarrow> bytes \<Rightarrow> Signature \<Rightarrow> (EtereCitizenRegistry, core_error, unit) action" where
  "ec_verify_peer K peer_id msg signature =
     bindS (ensureS (algorithm signature = EcdsaSecp256k1)
       (SignatureFormat (''EtereCitizen only accepts EcdsaSecp256k1, got '' @ algorithm_debug (algorithm signature)))) (\<lambda>_.
     bindS (ensureS (length (sig_bytes signature) = 64)
       (SignatureFormat (''expected 64 bytes, got '' @ show_nat (length (sig_bytes signature))))) (\<lambda>_.
     bindS (getS (ec_lookup peer_id)) (\<lambda>found.
     bindS (liftS (ok_or (NotFound (''peer '' @ as_str peer_id @ '' not in EtereCitizen registry'')) found)) (\<lambda>vk.
     case k256_sig_error K (sig_bytes signature) of
       Some e \<Rightarrow> throwS (SignatureFormat (''malformed ecdsa: '' @ e))
     | None \<Rightarrow> ensureS (k256_verify K vk msg (sig_bytes signature)) SignatureInvalid))))"

definition ecdsa_valid :: "keyring \<Rightarrow> bytes \<Rightarrow> bytes \<Rightarrow> Signature \<Rightarrow> bool" where
  "ecdsa_valid K k m sg \<longleftrightarrow> algorithm sg = EcdsaSecp256k1 \<and> length (sig_bytes sg) = 64
     \<and> k256_sig_error K (sig_bytes sg) = None \<and> k256_verify K k m (sig_bytes sg)"

lemma ec_keeps: "ec_verify_peer K p m sg s = (r, s') \<Longrightarrow> s' = s"
  by (cases "ec_lookup p s"; cases "k256_sig_error K (sig_bytes sg)")
    (auto simp: ec_verify_peer_def bindS_def split: if_splits)

lemma ec_accepts:
  "ec_verify_peer K p m sg s = (Inr u, s') \<longleftrightarrow> s' = s \<and> (\<exists>k. ec_lookup p s = Some k \<and> ecdsa_valid K k m sg)"
  by (cases "ec_lookup p s"; cases "k256_sig_error K (sig_bytes sg)")
    (auto simp: ec_verify_peer_def ecdsa_valid_def bindS_def split: if_splits)

interpretation etere: identity_provider "ec_verify_peer K" "\<lambda>reg p. ec_lookup p reg" "ecdsa_valid K" for K
  by unfold_locales (auto simp: ec_accepts dest: ec_keeps)

end
