(* ===== verification/Jws.thy ===== *)
theory Jws
  imports TextOps
begin

text \<open>
  JWS compact serialisation (\<open>aex-jws/src/lib.rs\<close>): signing, and verification with the compiled-in
  whitelist of algorithms.  Base64, JSON and the two signature schemes come from other crates and
  are the fields of the record \<open>jose\<close>; \<open>jose_laws\<close> states what a round trip relies on.  The
  lemmas say exactly which serialisations verify, and that a signed payload verifies and comes
  back.
\<close>

section \<open>Data\<close>

datatype JwsAlgorithm = EdDsa | Es256k

record JwsHeader =
  jh_alg :: JwsAlgorithm
  jh_kid :: string
  jh_typ :: "string option"

datatype JwsError =
    InvalidStructure
  | Base64Decode string
  | InvalidHeader string
  | AlgorithmNotPermitted string
  | AlgorithmMalformed
  | MissingKid
  | UnknownKid string
  | KidAlgMismatch string string string
  | JwsBadSignature string
  | SegmentTooLarge
  | SigningError string

text \<open>A verifying key, by its bytes; the constructors of the crates checked them.\<close>

datatype VerifierKey = Ed25519Key bytes | Secp256k1Key bytes

record VerifiedPayload =
  vp_header :: JwsHeader
  vp_payload :: bytes

record jose =
  b64url_enc :: "bytes \<Rightarrow> string"
  b64url_dec :: "string \<Rightarrow> string + bytes"
  json_parse :: "bytes \<Rightarrow> string + json"
  header_print :: "JwsHeader \<Rightarrow> string + bytes"
  header_fault :: "json \<Rightarrow> string"
  ed25519_ok :: "bytes \<Rightarrow> bytes \<Rightarrow> bytes \<Rightarrow> bool"
  secp256k1_sig_ok :: "bytes \<Rightarrow> bool"
  secp256k1_ok :: "bytes \<Rightarrow> bytes \<Rightarrow> bytes \<Rightarrow> bool"

definition SEGMENT_MAX_BYTES :: nat where
  "SEGMENT_MAX_BYTES = 64 * 1024"

fun alg_str :: "JwsAlgorithm \<Rightarrow> string" where
  "alg_str EdDsa = ''EdDSA''"
| "alg_str Es256k = ''ES256K''"

definition alg_parse :: "string \<Rightarrow> JwsAlgorithm option" where
  "alg_parse s = (if s = ''EdDSA'' then Some EdDsa else if s = ''ES256K'' then Some Es256k else None)"

fun key_algorithm :: "VerifierKey \<Rightarrow> JwsAlgorithm" where
  "key_algorithm (Ed25519Key _) = EdDsa"
| "key_algorithm (Secp256k1Key _) = Es256k"

section \<open>Signing\<close>

definition sign_inner :: "jose \<Rightarrow> bytes \<Rightarrow> string \<Rightarrow> JwsAlgorithm \<Rightarrow> (bytes \<Rightarrow> JwsError + bytes) \<Rightarrow> JwsError + string" where
  "sign_inner J pl kid alg sign_fn =
     bindE (ensure (kid \<noteq> []) MissingKid) (\<lambda>_.
     let header = \<lparr>jh_alg = alg, jh_kid = kid, jh_typ = Some ''JOSE+JSON''\<rparr> in
     bindE (map_err InvalidHeader (header_print J header)) (\<lambda>header_json.
     let header_b64 = b64url_enc J header_json;
         payload_b64 = b64url_enc J pl;
         signing_input = header_b64 @ ''.'' @ payload_b64 in
     bindE (sign_fn (as_bytes signing_input)) (\<lambda>sig_bytes.
     Inr (signing_input @ ''.'' @ b64url_enc J sig_bytes))))"

definition sign_ed25519 :: "jose \<Rightarrow> bytes \<Rightarrow> (bytes \<Rightarrow> bytes) \<Rightarrow> string \<Rightarrow> JwsError + string" where
  "sign_ed25519 J pl signing_key kid = sign_inner J pl kid EdDsa (\<lambda>m. Inr (signing_key m))"

definition sign_es256k :: "jose \<Rightarrow> bytes \<Rightarrow> (bytes \<Rightarrow> bytes) \<Rightarrow> string \<Rightarrow> JwsError + string" where
  "sign_es256k J pl signing_key kid = sign_inner J pl kid Es256k (\<lambda>m. Inr (signing_key m))"

section \<open>Verification\<close>

fun json_get :: "string \<Rightarrow> json \<Rightarrow> json option" where
  "json_get k (JObject kvs) = map_of kvs k"
| "json_get k _ = None"

definition check_alg :: "json \<Rightarrow> JwsError + unit" where
  "check_alg raw_header =
     (case json_get ''alg'' raw_header of
        None \<Rightarrow> Inl (InvalidHeader ''missing alg'')
      | Some (JString s) \<Rightarrow> (if alg_parse s = None then Inl (AlgorithmNotPermitted s) else Inr ())
      | Some _ \<Rightarrow> Inl AlgorithmMalformed)"

text \<open>
  \<open>serde_json::from_value\<close> for the derived \<open>Deserialize\<close> of the header: \<open>alg\<close> and \<open>kid\<close> are
  required strings, \<open>typ\<close> may be absent or null; other members are ignored.
\<close>

definition header_of :: "json \<Rightarrow> JwsHeader option" where
  "header_of v =
     (case (json_get ''alg'' v, json_get ''kid'' v) of
        (Some (JString a), Some (JString k)) \<Rightarrow>
          Option.bind (alg_parse a) (\<lambda>alg.
            (case json_get ''typ'' v of
               None \<Rightarrow> Some \<lparr>jh_alg = alg, jh_kid = k, jh_typ = None\<rparr>
             | Some JNull \<Rightarrow> Some \<lparr>jh_alg = alg, jh_kid = k, jh_typ = None\<rparr>
             | Some (JString t) \<Rightarrow> Some \<lparr>jh_alg = alg, jh_kid = k, jh_typ = Some t\<rparr>
             | Some _ \<Rightarrow> None))
      | _ \<Rightarrow> None)"

fun signature_ok :: "jose \<Rightarrow> string \<Rightarrow> VerifierKey \<Rightarrow> bytes \<Rightarrow> bytes \<Rightarrow> JwsError + bool" where
  "signature_ok J kid (Ed25519Key vk) msg sig =
     (if length sig = 64 then Inr (ed25519_ok J vk msg sig) else Inl (JwsBadSignature kid))"
| "signature_ok J kid (Secp256k1Key vk) msg sig =
     (if secp256k1_sig_ok J sig then Inr (secp256k1_ok J vk msg sig) else Inl (JwsBadSignature kid))"

definition jws_verify :: "jose \<Rightarrow> string \<Rightarrow> (string \<Rightarrow> JwsError + VerifierKey option) \<Rightarrow> JwsError + VerifiedPayload" where
  "jws_verify J jws key_lookup =
     (case split_char (CHR ''.'') jws of
        [header_b64, payload_b64, sig_b64] \<Rightarrow>
          bindE (ensure (\<not> (length header_b64 > SEGMENT_MAX_BYTES \<or> length payload_b64 > SEGMENT_MAX_BYTES
              \<or> length sig_b64 > SEGMENT_MAX_BYTES)) SegmentTooLarge) (\<lambda>_.
          bindE (map_err (\<lambda>e. Base64Decode (''header: '' @ e)) (b64url_dec J header_b64)) (\<lambda>header_json.
          bindE (map_err (\<lambda>e. Base64Decode (''payload: '' @ e)) (b64url_dec J payload_b64)) (\<lambda>payload_bytes.
          bindE (map_err (\<lambda>e. Base64Decode (''signature: '' @ e)) (b64url_dec J sig_b64)) (\<lambda>sig_bytes.
          bindE (map_err InvalidHeader (json_parse J header_json)) (\<lambda>raw_header.
          bindE (check_alg raw_header) (\<lambda>_.
          bindE (ok_or (InvalidHeader (header_fault J raw_header)) (header_of raw_header)) (\<lambda>header.
          bindE (ensure (jh_kid header \<noteq> []) MissingKid) (\<lambda>_.
          bindE (key_lookup (jh_kid header)) (\<lambda>found.
          bindE (ok_or (UnknownKid (jh_kid header)) found) (\<lambda>key.
          bindE (ensure (key_algorithm key = jh_alg header)
            (KidAlgMismatch (jh_kid header) (alg_str (jh_alg header)) (alg_str (key_algorithm key)))) (\<lambda>_.
          bindE (signature_ok J (jh_kid header) key (as_bytes (header_b64 @ ''.'' @ payload_b64)) sig_bytes) (\<lambda>ok.
          bindE (ensure ok (JwsBadSignature (jh_kid header))) (\<lambda>_.
          Inr \<lparr>vp_header = header, vp_payload = payload_bytes\<rparr>)))))))))))))
      | _ \<Rightarrow> Inl InvalidStructure)"

section \<open>What verifies\<close>

lemma header_of_alg:
  assumes "header_of v = Some h"
  shows "check_alg v = Inr ()"
proof -
  define x y where xy: "x = json_get ''alg'' v" "y = json_get ''kid'' v"
  have "\<exists>a. x = Some (JString a) \<and> alg_parse a \<noteq> None"
  proof (cases "\<exists>a. x = Some (JString a)")
    case True
    then obtain a where a: "x = Some (JString a)" by blast
    show ?thesis
    proof (cases "alg_parse a")
      case None
      then show ?thesis
        using assms a unfolding header_of_def xy [symmetric] by (auto split: option.splits json.splits)
    qed (simp add: a)
  next
    case False
    then show ?thesis
      using assms unfolding header_of_def xy [symmetric] by (cases x; cases "the x") auto
  qed
  then show ?thesis unfolding check_alg_def xy [symmetric] by auto
qed

text \<open>
  What an authentic serialisation is, in the terms of RFC 7515 and of the documented whitelist: three
  segments of at most 64 KiB; the first one is a JSON object whose members are the fields of the header;
  the lookup knows its key identifier; and the third one is a signature by that key over the first two
  segments as they stand, in the one scheme that belongs to the key and that the header names.
\<close>

definition typ_member :: "json option \<Rightarrow> string option \<Rightarrow> bool" where
  "typ_member m typ \<longleftrightarrow> (case typ of Some t \<Rightarrow> m = Some (JString t) | None \<Rightarrow> m = None \<or> m = Some JNull)"

definition key_signs :: "jose \<Rightarrow> VerifierKey \<Rightarrow> string \<Rightarrow> JwsAlgorithm \<Rightarrow> bytes \<Rightarrow> bytes \<Rightarrow> bool" where
  "key_signs J key name alg msg sig \<longleftrightarrow> (case key of
     Ed25519Key vk \<Rightarrow> name = ''EdDSA'' \<and> alg = EdDsa \<and> length sig = 64 \<and> ed25519_ok J vk msg sig
   | Secp256k1Key vk \<Rightarrow> name = ''ES256K'' \<and> alg = Es256k \<and> secp256k1_sig_ok J sig \<and> secp256k1_ok J vk msg sig)"

definition jws_authentic :: "jose \<Rightarrow> string \<Rightarrow> (string \<Rightarrow> JwsError + VerifierKey option) \<Rightarrow> JwsHeader \<Rightarrow> bytes \<Rightarrow> bool" where
  "jws_authentic J jws key_lookup header pl \<longleftrightarrow> (\<exists>h p g hj members name sig key.
     jws = h @ ''.'' @ p @ ''.'' @ g \<and> CHR ''.'' \<notin> set h \<and> CHR ''.'' \<notin> set p \<and> CHR ''.'' \<notin> set g
     \<and> length h \<le> 65536 \<and> length p \<le> 65536 \<and> length g \<le> 65536
     \<and> b64url_dec J h = Inr hj \<and> b64url_dec J p = Inr pl \<and> b64url_dec J g = Inr sig
     \<and> json_parse J hj = Inr (JObject members) \<and> map_of members ''alg'' = Some (JString name)
     \<and> map_of members ''kid'' = Some (JString (jh_kid header)) \<and> typ_member (map_of members ''typ'') (jh_typ header)
     \<and> jh_kid header \<noteq> [] \<and> key_lookup (jh_kid header) = Inr (Some key)
     \<and> key_signs J key name (jh_alg header) (as_bytes (h @ ''.'' @ p)) sig)"

lemma header_of_Some_iff:
  "header_of v = Some header \<longleftrightarrow> (\<exists>members name. v = JObject members \<and> map_of members ''alg'' = Some (JString name)
     \<and> alg_parse name = Some (jh_alg header) \<and> map_of members ''kid'' = Some (JString (jh_kid header))
     \<and> typ_member (map_of members ''typ'') (jh_typ header))"
proof (cases v)
  case (JObject members)
  define x y z where xyz: "x = map_of members ''alg''" "y = map_of members ''kid''" "z = map_of members ''typ''"
  have shown: "(case z of None \<Rightarrow> Some \<lparr>jh_alg = alg, jh_kid = k, jh_typ = None\<rparr>
      | Some JNull \<Rightarrow> Some \<lparr>jh_alg = alg, jh_kid = k, jh_typ = None\<rparr>
      | Some (JString t) \<Rightarrow> Some \<lparr>jh_alg = alg, jh_kid = k, jh_typ = Some t\<rparr>
      | Some _ \<Rightarrow> None) = Some header \<longleftrightarrow> jh_alg header = alg \<and> jh_kid header = k \<and> typ_member z (jh_typ header)" for alg k
    by (cases header; cases z; cases "the z") (auto simp: typ_member_def split: option.splits)
  show ?thesis
  proof (cases "\<exists>a k. x = Some (JString a) \<and> y = Some (JString k)")
    case True
    then obtain a k where "x = Some (JString a)" "y = Some (JString k)" by blast
    moreover from this have "header_of v = Some header \<longleftrightarrow>
        alg_parse a = Some (jh_alg header) \<and> jh_kid header = k \<and> typ_member z (jh_typ header)"
      unfolding header_of_def JObject json_get.simps xyz [symmetric] by (cases "alg_parse a") (auto simp: shown)
    ultimately show ?thesis by (auto simp: JObject xyz)
  next
    case False
    then have "header_of v = None"
      unfolding header_of_def JObject json_get.simps xyz [symmetric]
      by (cases x; cases "the x"; cases y; cases "the y") auto
    with False show ?thesis by (auto simp: JObject xyz)
  qed
qed (simp_all add: header_of_def)

lemma key_signs_iff:
  "key_signs J key name alg msg sig \<longleftrightarrow>
     alg_parse name = Some alg \<and> key_algorithm key = alg \<and> signature_ok J kid key msg sig = Inr True"
  by (cases key; cases alg) (auto simp: key_signs_def alg_parse_def)

text \<open>The same in the terms of the code.\<close>

lemma jws_authentic_code:
  "jws_authentic J jws key_lookup header pl \<longleftrightarrow> (\<exists>h p g hj raw sig key.
     jws = h @ ''.'' @ p @ ''.'' @ g \<and> CHR ''.'' \<notin> set h \<and> CHR ''.'' \<notin> set p \<and> CHR ''.'' \<notin> set g
     \<and> length h \<le> SEGMENT_MAX_BYTES \<and> length p \<le> SEGMENT_MAX_BYTES \<and> length g \<le> SEGMENT_MAX_BYTES
     \<and> b64url_dec J h = Inr hj \<and> json_parse J hj = Inr raw \<and> header_of raw = Some header
     \<and> b64url_dec J p = Inr pl \<and> b64url_dec J g = Inr sig
     \<and> jh_kid header \<noteq> [] \<and> key_lookup (jh_kid header) = Inr (Some key) \<and> key_algorithm key = jh_alg header
     \<and> signature_ok J (jh_kid header) key (as_bytes (h @ ''.'' @ p)) sig = Inr True)"
proof -
  have cap: "SEGMENT_MAX_BYTES = 65536" by (simp add: SEGMENT_MAX_BYTES_def)
  show ?thesis
    unfolding jws_authentic_def header_of_Some_iff cap key_signs_iff [where kid = "jh_kid header"] by blast
qed

lemma jws_verify_segments:
  "jws_verify J jws f = Inr vp \<Longrightarrow> \<exists>h p g. split_char (CHR ''.'') jws = [h, p, g]"
  by (auto simp: jws_verify_def split: list.splits)

lemma jws_verify_Inr_iff:
  "jws_verify J jws key_lookup = Inr vp \<longleftrightarrow> jws_authentic J jws key_lookup (vp_header vp) (vp_payload vp)"
proof
  assume v: "jws_verify J jws key_lookup = Inr vp"
  then obtain h p g where s: "split_char (CHR ''.'') jws = [h, p, g]" using jws_verify_segments by blast
  with v show "jws_authentic J jws key_lookup (vp_header vp) (vp_payload vp)"
    unfolding jws_authentic_code jws_verify_def s split_char_three [THEN iffD1, OF s, THEN conjunct1]
    using s [unfolded split_char_three]
    by (intro exI [of _ h] exI [of _ p] exI [of _ g]) (auto simp: step_iffs not_less)
next
  assume "jws_authentic J jws key_lookup (vp_header vp) (vp_payload vp)"
  then show "jws_verify J jws key_lookup = Inr vp"
    unfolding jws_authentic_code
    by (elim exE conjE) (simp add: jws_verify_def split_char_append split_char_free ensure_def header_of_alg)
qed

lemma jws_authentic_key:
  "jws_authentic J jws f header pl \<longleftrightarrow>
     (\<exists>key. f (jh_kid header) = Inr (Some key) \<and> jws_authentic J jws (\<lambda>_. Inr (Some key)) header pl)"
  unfolding jws_authentic_code by blast

lemma jws_authentic_segments:
  "jws_authentic J jws f header pl \<Longrightarrow> \<exists>h p g. jws = h @ ''.'' @ p @ ''.'' @ g \<and> CHR ''.'' \<notin> set h
     \<and> CHR ''.'' \<notin> set p \<and> CHR ''.'' \<notin> set g \<and> b64url_dec J p = Inr pl"
  unfolding jws_authentic_code by blast

text \<open>Errors of the structure come before any decoding, and no other algorithm is ever used.\<close>

lemma jws_verify_alg:
  assumes "split_char (CHR ''.'') jws = [h, p, g]" "b64url_dec J h = Inr hj" "json_parse J hj = Inr raw"
    and "json_get ''alg'' raw = Some (JString a)" "alg_parse a = None"
  shows "\<not> is_ok (jws_verify J jws key_lookup)"
  using assms by (auto simp: is_ok_iff jws_verify_def step_iffs check_alg_def)

section \<open>Round trip\<close>

text \<open>
  Documented behaviour of the crates: base64url without padding is inverted by its decoder and
  does not use the full stop; the JSON text of a header parses to its members.
\<close>

definition header_json :: "JwsHeader \<Rightarrow> json" where
  "header_json h = JObject ([(''alg'', JString (alg_str (jh_alg h))), (''kid'', JString (jh_kid h))]
     @ (case jh_typ h of Some t \<Rightarrow> [(''typ'', JString t)] | None \<Rightarrow> []))"

definition jose_laws :: "jose \<Rightarrow> bool" where
  "jose_laws J \<longleftrightarrow> (\<forall>b. b64url_dec J (b64url_enc J b) = Inr b \<and> CHR ''.'' \<notin> set (b64url_enc J b))
     \<and> (\<forall>h b. header_print J h = Inr b \<longrightarrow> json_parse J b = Inr (header_json h))"

lemma header_of_json: "header_of (header_json h) = Some h"
  by (cases h; cases "jh_alg h") (auto simp: header_json_def header_of_def alg_parse_def split: option.splits)

lemma sign_verify:
  assumes laws: "jose_laws J" and sgn: "sign_inner J pl kid alg sign_fn = Inr jws"
    and key: "key_lookup kid = Inr (Some key)" "key_algorithm key = alg"
    and ok: "\<And>m sig. sign_fn m = Inr sig \<Longrightarrow> signature_ok J kid key m sig = Inr True"
    and cap: "list_all (\<lambda>seg. length seg \<le> SEGMENT_MAX_BYTES) (split_char (CHR ''.'') jws)"
  shows "jws_verify J jws key_lookup =
    Inr \<lparr>vp_header = \<lparr>jh_alg = alg, jh_kid = kid, jh_typ = Some ''JOSE+JSON''\<rparr>, vp_payload = pl\<rparr>"
proof -
  let ?h = "\<lparr>jh_alg = alg, jh_kid = kid, jh_typ = Some ''JOSE+JSON''\<rparr>"
  from sgn obtain hj sig where hj: "kid \<noteq> []" "header_print J ?h = Inr hj"
    and sig: "sign_fn (as_bytes (b64url_enc J hj @ ''.'' @ b64url_enc J pl)) = Inr sig"
    and jws: "jws = (b64url_enc J hj @ ''.'' @ b64url_enc J pl) @ ''.'' @ b64url_enc J sig"
    by (auto simp: sign_inner_def step_iffs Let_def)
  have dots: "CHR ''.'' \<notin> set (b64url_enc J b)" and dec: "b64url_dec J (b64url_enc J b) = Inr b" for b
    using laws by (simp_all add: jose_laws_def)
  have "json_parse J hj = Inr (header_json ?h)" using laws hj(2) by (simp add: jose_laws_def)
  moreover have "split_char (CHR ''.'') jws = [b64url_enc J hj, b64url_enc J pl, b64url_enc J sig]"
    by (simp add: jws split_char_append split_char_free dots)
  ultimately show ?thesis
    unfolding jws_verify_Inr_iff jws_authentic_code
    using cap jws hj(1) key dots dec header_of_json ok [OF sig]
    by (intro exI [of _ "b64url_enc J hj"] exI [of _ "b64url_enc J pl"] exI [of _ "b64url_enc J sig"]) auto
qed

end
