(* ===== verification/SafeHttp.thy ===== *)
theory SafeHttp
  imports AexPrelude
begin

text \<open>
  The SSRF-resistant fetcher (\<open>aex-net/src/safe_http.rs\<close>): classification of addresses and
  \<open>safe_get\<close>.  The \<open>url\<close> parser, the DNS resolver and the HTTP client are the fields of the
  record \<open>web\<close>; an action runs on the list of the connections made, so that the lemmas can say
  to which addresses the program connects, on every outcome.  \<open>in_net\<close> is the reference for the
  classification: membership in a CIDR block of the numeric address.
\<close>

unbundle bit_operations_syntax

section \<open>Addresses\<close>

type_synonym u16 = "16 word"

record Ipv4Addr =
  octet0 :: u8
  octet1 :: u8
  octet2 :: u8
  octet3 :: u8

record Ipv6Addr =
  seg0 :: u16
  seg1 :: u16
  seg2 :: u16
  seg3 :: u16
  seg4 :: u16
  seg5 :: u16
  seg6 :: u16
  seg7 :: u16

datatype IpAddr = V4 Ipv4Addr | V6 Ipv6Addr

text \<open>The predicates of \<open>std::net\<close> that the classification uses.\<close>

definition v4_is_loopback :: "Ipv4Addr \<Rightarrow> bool" where
  "v4_is_loopback ip \<longleftrightarrow> octet0 ip = 127"

definition v4_is_private :: "Ipv4Addr \<Rightarrow> bool" where
  "v4_is_private ip \<longleftrightarrow> octet0 ip = 10
     \<or> octet0 ip = 172 \<and> 16 \<le> octet1 ip \<and> octet1 ip \<le> 31
     \<or> octet0 ip = 192 \<and> octet1 ip = 168"

definition v4_is_link_local :: "Ipv4Addr \<Rightarrow> bool" where
  "v4_is_link_local ip \<longleftrightarrow> octet0 ip = 169 \<and> octet1 ip = 254"

definition v4_is_multicast :: "Ipv4Addr \<Rightarrow> bool" where
  "v4_is_multicast ip \<longleftrightarrow> 224 \<le> octet0 ip \<and> octet0 ip \<le> 239"

definition v4_is_broadcast :: "Ipv4Addr \<Rightarrow> bool" where
  "v4_is_broadcast ip \<longleftrightarrow> octet0 ip = 255 \<and> octet1 ip = 255 \<and> octet2 ip = 255 \<and> octet3 ip = 255"

definition v4_is_unspecified :: "Ipv4Addr \<Rightarrow> bool" where
  "v4_is_unspecified ip \<longleftrightarrow> octet0 ip = 0 \<and> octet1 ip = 0 \<and> octet2 ip = 0 \<and> octet3 ip = 0"

definition is_forbidden_ipv4 :: "Ipv4Addr \<Rightarrow> bool" where
  "is_forbidden_ipv4 ip =
     (if v4_is_loopback ip then True
      else if v4_is_private ip then True
      else if v4_is_link_local ip then True
      else if v4_is_multicast ip then True
      else if v4_is_broadcast ip then True
      else if v4_is_unspecified ip then True
      else if octet0 ip \<ge> 240 then True
      else False)"

definition v6_high_zero :: "Ipv6Addr \<Rightarrow> bool" where
  "v6_high_zero ip \<longleftrightarrow> seg0 ip = 0 \<and> seg1 ip = 0 \<and> seg2 ip = 0 \<and> seg3 ip = 0 \<and> seg4 ip = 0"

definition v6_is_loopback :: "Ipv6Addr \<Rightarrow> bool" where
  "v6_is_loopback ip \<longleftrightarrow> v6_high_zero ip \<and> seg5 ip = 0 \<and> seg6 ip = 0 \<and> seg7 ip = 1"

definition v6_is_unspecified :: "Ipv6Addr \<Rightarrow> bool" where
  "v6_is_unspecified ip \<longleftrightarrow> v6_high_zero ip \<and> seg5 ip = 0 \<and> seg6 ip = 0 \<and> seg7 ip = 0"

definition v6_is_multicast :: "Ipv6Addr \<Rightarrow> bool" where
  "v6_is_multicast ip \<longleftrightarrow> (seg0 ip AND 0xff00) = 0xff00"

text \<open>The last two segments as an IPv4 address.\<close>

definition low_v4 :: "Ipv6Addr \<Rightarrow> Ipv4Addr" where
  "low_v4 ip = \<lparr>octet0 = ucast (drop_bit 8 (seg6 ip)), octet1 = ucast (seg6 ip AND 0xff),
     octet2 = ucast (drop_bit 8 (seg7 ip)), octet3 = ucast (seg7 ip AND 0xff)\<rparr>"

definition to_ipv4_mapped :: "Ipv6Addr \<Rightarrow> Ipv4Addr option" where
  "to_ipv4_mapped ip = (if v6_high_zero ip \<and> seg5 ip = 0xffff then Some (low_v4 ip) else None)"

definition is_forbidden_ipv6 :: "Ipv6Addr \<Rightarrow> bool" where
  "is_forbidden_ipv6 ip =
     (if v6_is_loopback ip \<or> v6_is_unspecified ip then True
      else if v6_is_multicast ip then True
      else if (seg0 ip AND 0xffc0) = 0xfe80 then True
      else if (seg0 ip AND 0xfe00) = 0xfc00 then True
      else case to_ipv4_mapped ip of
             Some v4 \<Rightarrow> is_forbidden_ipv4 v4
           | None \<Rightarrow>
               if v6_high_zero ip \<and> seg5 ip = 0 then is_forbidden_ipv4 (low_v4 ip) else False)"

fun is_forbidden_ip :: "IpAddr \<Rightarrow> bool" where
  "is_forbidden_ip (V4 v4) = is_forbidden_ipv4 v4"
| "is_forbidden_ip (V6 v6) = is_forbidden_ipv6 v6"

section \<open>The fetch\<close>

definition SAFE_HTTP_MAX_BODY :: nat where
  "SAFE_HTTP_MAX_BODY = 64 * 1024"

datatype SafeHttpError =
    InvalidUrl string
  | NonHttpsScheme string
  | MissingHost
  | DnsFailure string
  | InternalAddrForbidden IpAddr
  | UnexpectedRedirect nat
  | HttpStatus nat
  | BodyTooLarge
  | Transport string

record SafeHttpResponse =
  sh_status :: nat
  sh_body :: bytes
  sh_etag :: "string option"

text \<open>
  \<open>url::Url\<close>: the parts that \<open>safe_get\<close> reads.  \<open>port_or_known_default\<close> is the explicit port
  or the default of the scheme.
\<close>

record Url =
  url_text :: string
  url_scheme :: string
  url_host :: "string option"
  url_port :: "nat option"

text \<open>A response of the HTTP client; its body arrives as chunks, the stream may break.\<close>

record http_response =
  hr_status :: nat
  hr_etag :: "string option"
  hr_chunks :: "(string + bytes) list"

record web =
  parse_url :: "string \<Rightarrow> string + Url"
  lookup_ip :: "string \<Rightarrow> string + IpAddr list"
  build_client :: "string + unit"
  http_get :: "IpAddr \<Rightarrow> nat \<Rightarrow> Url \<Rightarrow> string + http_response"

type_synonym connections = "(IpAddr \<times> nat) list"

fun is_v6 :: "IpAddr \<Rightarrow> bool" where
  "is_v6 (V4 _) = False"
| "is_v6 (V6 _) = True"

definition resolve_host :: "web \<Rightarrow> string \<Rightarrow> SafeHttpError + IpAddr list" where
  "resolve_host W host =
     bindE (map_err DnsFailure (lookup_ip W host)) (\<lambda>ips.
     bindE (ensure (ips \<noteq> []) (DnsFailure (''no A/AAAA records for '' @ host))) (\<lambda>_.
     Inr (sort_key is_v6 ips)))"

text \<open>The loop over the addresses: the first forbidden one is the error.\<close>

fun check_ips :: "IpAddr list \<Rightarrow> SafeHttpError + unit" where
  "check_ips [] = Inr ()"
| "check_ips (ip # ips) = (if is_forbidden_ip ip then Inl (InternalAddrForbidden ip) else check_ips ips)"

text \<open>The loop over the chunks, with the size cap.\<close>

fun read_chunks :: "bytes \<Rightarrow> (string + bytes) list \<Rightarrow> SafeHttpError + bytes" where
  "read_chunks body [] = Inr body"
| "read_chunks body (Inl e # cs) = Inl (Transport e)"
| "read_chunks body (Inr chunk # cs) =
     (if length body + length chunk > SAFE_HTTP_MAX_BODY then Inl BodyTooLarge
      else read_chunks (body @ chunk) cs)"

definition is_redirection :: "nat \<Rightarrow> bool" where
  "is_redirection c \<longleftrightarrow> 300 \<le> c \<and> c < 400"

definition success_status :: "nat \<Rightarrow> bool" where
  "success_status c \<longleftrightarrow> 200 \<le> c \<and> c < 300"

text \<open>The request on the pinned address and the reading of the answer.\<close>

definition send_get :: "web \<Rightarrow> IpAddr \<Rightarrow> nat \<Rightarrow> Url \<Rightarrow> (connections, SafeHttpError, http_response) action" where
  "send_get W ip port parsed = (\<lambda>cs. (map_err Transport (http_get W ip port parsed), cs @ [(ip, port)]))"

definition read_response :: "http_response \<Rightarrow> SafeHttpError + SafeHttpResponse" where
  "read_response resp =
     bindE (ensure (\<not> is_redirection (hr_status resp)) (UnexpectedRedirect (hr_status resp))) (\<lambda>_.
     bindE (ensure (success_status (hr_status resp)) (HttpStatus (hr_status resp))) (\<lambda>_.
     bindE (read_chunks [] (hr_chunks resp)) (\<lambda>body.
     Inr \<lparr>sh_status = hr_status resp, sh_body = body, sh_etag = hr_etag resp\<rparr>)))"

definition safe_get :: "web \<Rightarrow> string \<Rightarrow> (connections, SafeHttpError, SafeHttpResponse) action" where
  "safe_get W u =
     bindS (liftS (map_err InvalidUrl (parse_url W u))) (\<lambda>parsed.
     bindS (ensureS (url_scheme parsed = ''https'') (NonHttpsScheme (url_scheme parsed))) (\<lambda>_.
     bindS (liftS (ok_or MissingHost (url_host parsed))) (\<lambda>host.
     let port = (case url_port parsed of Some p \<Rightarrow> p | None \<Rightarrow> 443) in
     bindS (liftS (resolve_host W host)) (\<lambda>ips.
     bindS (liftS (check_ips ips)) (\<lambda>_.
     bindS (liftS (map_err Transport (build_client W))) (\<lambda>_.
     bindS (send_get W (hd ips) port parsed) (\<lambda>resp.
     liftS (read_response resp))))))))"

section \<open>The classification by address blocks\<close>

text \<open>Numeric addresses and membership in a block of \<open>w\<close>-bit addresses with a prefix length.\<close>

definition ipv4_num :: "Ipv4Addr \<Rightarrow> nat" where
  "ipv4_num ip = ((unat (octet0 ip) * 256 + unat (octet1 ip)) * 256 + unat (octet2 ip)) * 256 + unat (octet3 ip)"

definition in_net :: "nat \<Rightarrow> nat \<Rightarrow> nat \<times> nat \<Rightarrow> bool" where
  "in_net w a = (\<lambda>(base, len). a div 2 ^ (w - len) = base div 2 ^ (w - len))"

definition dotted :: "nat \<Rightarrow> nat \<Rightarrow> nat \<Rightarrow> nat \<Rightarrow> nat" where
  "dotted a b c d = ((a * 256 + b) * 256 + c) * 256 + d"

definition forbidden_v4_nets :: "(nat \<times> nat) list" where
  "forbidden_v4_nets =
     [(dotted 127 0 0 0, 8), (dotted 10 0 0 0, 8), (dotted 172 16 0 0, 12), (dotted 192 168 0 0, 16),
      (dotted 169 254 0 0, 16), (dotted 224 0 0 0, 4), (dotted 240 0 0 0, 4), (dotted 0 0 0 0, 32)]"

lemma segment_bound: "unat (x :: u16) < 65536"
proof -
  have "unat x < 2 ^ LENGTH(16)" by (rule unsigned_less)
  then show ?thesis by simp
qed

lemma ipv4_num_div:
  "ipv4_num ip div 16777216 = unat (octet0 ip)"
  "ipv4_num ip div 65536 = unat (octet0 ip) * 256 + unat (octet1 ip)"
  using octet_bound [of "octet1 ip"] octet_bound [of "octet2 ip"] octet_bound [of "octet3 ip"]
  by (simp_all add: ipv4_num_def)

lemmas word_as_nat = word_unat_eq_iff word_le_nat_alt word_less_nat_alt

lemma loopback_net: "v4_is_loopback ip \<longleftrightarrow> in_net 32 (ipv4_num ip) (dotted 127 0 0 0, 8)"
  by (simp add: v4_is_loopback_def in_net_def dotted_def ipv4_num_div word_as_nat)

lemma link_local_net: "v4_is_link_local ip \<longleftrightarrow> in_net 32 (ipv4_num ip) (dotted 169 254 0 0, 16)"
  using octet_bound [of "octet1 ip"]
  by (simp add: v4_is_link_local_def in_net_def dotted_def ipv4_num_div word_as_nat) presburger

lemma two_octets:
  fixes a b :: nat
  assumes "b < 256"
  shows "a * 256 + b = 49320 \<longleftrightarrow> a = 192 \<and> b = 168"
    and "(a * 256 + b) div 16 = 2753 \<longleftrightarrow> a = 172 \<and> 16 \<le> b \<and> b \<le> 31"
proof -
  show "a * 256 + b = 49320 \<longleftrightarrow> a = 192 \<and> b = 168" using assms by presburger
  have e: "(a * 256 + b) div 16 = a * 16 + b div 16"
    using div_mult_self1 [of 16 b "a * 16"] by (simp add: add.commute mult.assoc)
  define q where "q = b div 16"
  have q: "q < 16" using assms by (auto simp: q_def)
  have "a * 16 + q = 2753 \<longleftrightarrow> a = 172 \<and> q = 1" using q by presburger
  moreover have "q = 1 \<longleftrightarrow> 16 \<le> b \<and> b \<le> 31" by (auto simp: q_def)
  ultimately show "(a * 256 + b) div 16 = 2753 \<longleftrightarrow> a = 172 \<and> 16 \<le> b \<and> b \<le> 31"
    unfolding e q_def by simp
qed

lemma private_net: "v4_is_private ip \<longleftrightarrow> in_net 32 (ipv4_num ip) (dotted 10 0 0 0, 8)
    \<or> in_net 32 (ipv4_num ip) (dotted 172 16 0 0, 12) \<or> in_net 32 (ipv4_num ip) (dotted 192 168 0 0, 16)"
proof -
  have 12: "ipv4_num ip div 1048576 = (unat (octet0 ip) * 256 + unat (octet1 ip)) div 16"
    by (simp flip: ipv4_num_div(2) add: div_mult2_eq [symmetric])
  show ?thesis
    by (simp add: v4_is_private_def in_net_def dotted_def ipv4_num_div 12 word_as_nat
        two_octets [OF octet_bound])
qed

lemma multicast_net: "v4_is_multicast ip \<longleftrightarrow> in_net 32 (ipv4_num ip) (dotted 224 0 0 0, 4)"
  and reserved_net: "octet0 ip \<ge> 240 \<longleftrightarrow> in_net 32 (ipv4_num ip) (dotted 240 0 0 0, 4)"
proof -
  have "ipv4_num ip div 268435456 = unat (octet0 ip) div 16"
    by (simp flip: ipv4_num_div add: div_mult2_eq [symmetric])
  then show "v4_is_multicast ip \<longleftrightarrow> in_net 32 (ipv4_num ip) (dotted 224 0 0 0, 4)"
    "octet0 ip \<ge> 240 \<longleftrightarrow> in_net 32 (ipv4_num ip) (dotted 240 0 0 0, 4)"
    using octet_bound [of "octet0 ip"]
    by (auto simp: v4_is_multicast_def in_net_def dotted_def word_as_nat)
qed

lemma unspecified_net: "v4_is_unspecified ip \<longleftrightarrow> in_net 32 (ipv4_num ip) (dotted 0 0 0 0, 32)"
  by (auto simp: v4_is_unspecified_def in_net_def dotted_def ipv4_num_def word_as_nat)

lemma is_forbidden_ipv4_nets:
  "is_forbidden_ipv4 ip \<longleftrightarrow> list_ex (in_net 32 (ipv4_num ip)) forbidden_v4_nets"
proof -
  have "v4_is_broadcast ip \<Longrightarrow> octet0 ip \<ge> 240" by (simp add: v4_is_broadcast_def)
  then show ?thesis
    by (auto simp: is_forbidden_ipv4_def forbidden_v4_nets_def loopback_net private_net link_local_net
        multicast_net reserved_net unspecified_net)
qed

text \<open>The IPv6 address as a number, and the blocks of the classification.\<close>

definition ipv6_high :: "Ipv6Addr \<Rightarrow> nat" where
  "ipv6_high ip = ((((unat (seg0 ip) * 65536 + unat (seg1 ip)) * 65536 + unat (seg2 ip)) * 65536
     + unat (seg3 ip)) * 65536 + unat (seg4 ip)) * 65536 + unat (seg5 ip)"

definition ipv6_num :: "Ipv6Addr \<Rightarrow> nat" where
  "ipv6_num ip = (ipv6_high ip * 65536 + unat (seg6 ip)) * 65536 + unat (seg7 ip)"

definition forbidden_v6_nets :: "(nat \<times> nat) list" where
  "forbidden_v6_nets = [(1, 128), (0xff00 * 2 ^ 112, 8), (0xfe80 * 2 ^ 112, 10), (0xfc00 * 2 ^ 112, 7)]"

text \<open>The blocks whose addresses stand for the IPv4 address of their last 32 bits.\<close>

definition embedded_v4_nets :: "(nat \<times> nat) list" where
  "embedded_v4_nets = [(0xffff * 2 ^ 32, 96), (0, 96)]"

lemma segment_eq: "(a :: u16) = b \<longleftrightarrow> (\<forall>n<16. bit a n = bit b n)"
  using bit_word_eqI [of a b] by auto

lemma segment_div: "unat (drop_bit n (s :: u16)) = unat s div 2 ^ n"
  by (simp add: unat_drop_bit_eq) (simp add: drop_bit_eq_div)

lemma mask_high_segment:
  fixes s :: u16
  shows "(s AND 0xff00) = 0xff00 \<longleftrightarrow> drop_bit 8 s = 0xff"
    and "(s AND 0xffc0) = 0xfe80 \<longleftrightarrow> drop_bit 6 s = 0x3fa"
    and "(s AND 0xfe00) = 0xfc00 \<longleftrightarrow> drop_bit 9 s = 0x7e"
  by (auto simp: segment_eq All_less_Suc eval_nat_numeral bit_simps dest: bit_imp_le_length)

lemma segment_halves:
  fixes s :: u16
  shows "unat (ucast (drop_bit 8 s) :: u8) = unat s div 256"
    and "unat (ucast (s AND 0xff) :: u8) = unat s mod 256"
proof -
  show "unat (ucast (drop_bit 8 s) :: u8) = unat s div 256"
    using segment_bound [of s] by (simp only: unsigned_ucast_eq segment_div) (simp add: take_bit_eq_mod)
  have "s AND 0xff = take_bit 8 s" by (simp add: take_bit_eq_mask mask_numeral)
  then show "unat (ucast (s AND 0xff) :: u8) = unat s mod 256"
    by (simp only: unsigned_ucast_eq unsigned_take_bit_eq) (simp add: take_bit_eq_mod)
qed

lemma low_v4_num: "ipv4_num (low_v4 ip) = unat (seg6 ip) * 65536 + unat (seg7 ip)"
  by (simp add: ipv4_num_def low_v4_def segment_halves algebra_simps)

lemma ipv6_parts:
  "ipv6_num ip div 2 ^ 32 = ipv6_high ip" "ipv6_num ip mod 2 ^ 32 = ipv4_num (low_v4 ip)"
  "ipv6_num ip div 2 ^ 112 = unat (seg0 ip)"
proof -
  let ?l = "unat (seg6 ip) * 65536 + unat (seg7 ip)"
  have l: "?l < 2 ^ 32" using segment_bound [of "seg6 ip"] segment_bound [of "seg7 ip"] by simp
  have n: "ipv6_num ip = ipv6_high ip * 2 ^ 32 + ?l" by (simp add: ipv6_num_def)
  show d: "ipv6_num ip div 2 ^ 32 = ipv6_high ip" "ipv6_num ip mod 2 ^ 32 = ipv4_num (low_v4 ip)"
    using l by (simp_all add: n low_v4_num)
  have "ipv6_high ip div 2 ^ 80 = unat (seg0 ip)"
    using segment_bound [of "seg1 ip"] segment_bound [of "seg2 ip"] segment_bound [of "seg3 ip"]
      segment_bound [of "seg4 ip"] segment_bound [of "seg5 ip"] by (simp add: ipv6_high_def)
  then show "ipv6_num ip div 2 ^ 112 = unat (seg0 ip)"
    using div_mult2_eq [of "ipv6_num ip" "2 ^ 32" "2 ^ 80"] d by simp
qed

lemma ipv6_top:
  assumes "k \<le> 16"
  shows "ipv6_num ip div 2 ^ (112 + k) = unat (drop_bit k (seg0 ip))"
  using div_mult2_eq [of "ipv6_num ip" "2 ^ 112" "2 ^ k"] by (simp only: power_add ipv6_parts segment_div)

lemma top_nets:
  "in_net 128 (ipv6_num ip) (0xff00 * 2 ^ 112, 8) \<longleftrightarrow> (seg0 ip AND 0xff00) = 0xff00"
  "in_net 128 (ipv6_num ip) (0xfe80 * 2 ^ 112, 10) \<longleftrightarrow> (seg0 ip AND 0xffc0) = 0xfe80"
  "in_net 128 (ipv6_num ip) (0xfc00 * 2 ^ 112, 7) \<longleftrightarrow> (seg0 ip AND 0xfe00) = 0xfc00"
  using ipv6_top [of 8 ip] ipv6_top [of 6 ip] ipv6_top [of 9 ip]
  by (simp_all add: in_net_def mask_high_segment word_unat_eq_iff [of "drop_bit _ _"])

lemma low_digit:
  fixes a b c B :: nat
  assumes "b < B" "c < B"
  shows "a * B + b = c \<longleftrightarrow> a = 0 \<and> b = c"
  using assms by (cases a) auto

lemma high_zero_iff:
  "v6_high_zero ip \<and> seg5 ip = w \<longleftrightarrow> ipv6_high ip = unat w"
  unfolding ipv6_high_def low_digit [OF segment_bound segment_bound]
  by (simp add: v6_high_zero_def word_unat_eq_iff)

lemma embedded_nets:
  "list_ex (in_net 128 (ipv6_num ip)) embedded_v4_nets \<longleftrightarrow> v6_high_zero ip \<and> (seg5 ip = 0xffff \<or> seg5 ip = 0)"
  using ipv6_parts(1) [of ip] high_zero_iff [of ip "0xffff"] high_zero_iff [of ip 0]
  by (auto simp: embedded_v4_nets_def in_net_def)

lemma loopback_v6_net: "v6_is_loopback ip \<longleftrightarrow> in_net 128 (ipv6_num ip) (1, 128)"
proof -
  have "ipv6_num ip = 1 \<longleftrightarrow> ipv6_high ip = 0 \<and> seg6 ip = 0 \<and> seg7 ip = 1"
    using low_digit [OF segment_bound [of "seg7 ip"], of 1 "ipv6_high ip * 65536 + unat (seg6 ip)"]
    by (auto simp: ipv6_num_def word_unat_eq_iff)
  then show ?thesis using high_zero_iff [of ip 0] by (auto simp: v6_is_loopback_def in_net_def)
qed

lemma unspecified_v6: "v6_is_unspecified ip \<Longrightarrow> is_forbidden_ipv4 (low_v4 ip)"
  by (simp add: v6_is_unspecified_def is_forbidden_ipv4_def v4_is_unspecified_def low_v4_def)

lemma is_forbidden_ipv6_nets:
  "is_forbidden_ipv6 ip \<longleftrightarrow> list_ex (in_net 128 (ipv6_num ip)) forbidden_v6_nets
     \<or> list_ex (in_net 128 (ipv6_num ip)) embedded_v4_nets
       \<and> list_ex (in_net 32 (ipv6_num ip mod 2 ^ 32)) forbidden_v4_nets"
proof -
  have "v6_is_unspecified ip \<Longrightarrow> v6_high_zero ip \<and> seg5 ip = 0 \<and> is_forbidden_ipv4 (low_v4 ip)"
    using unspecified_v6 [of ip] by (simp add: v6_is_unspecified_def)
  moreover have "list_ex (in_net 128 (ipv6_num ip)) forbidden_v6_nets \<longleftrightarrow> v6_is_loopback ip
      \<or> (seg0 ip AND 0xff00) = 0xff00 \<or> (seg0 ip AND 0xffc0) = 0xfe80 \<or> (seg0 ip AND 0xfe00) = 0xfc00"
    by (simp only: forbidden_v6_nets_def list_ex_Cons_iff list_ex_Nil_iff top_nets loopback_v6_net simp_thms)
  ultimately show ?thesis
    unfolding embedded_nets ipv6_parts(2) is_forbidden_ipv4_nets [symmetric]
    by (auto simp: is_forbidden_ipv6_def v6_is_multicast_def to_ipv4_mapped_def split: option.splits if_splits)
qed

section \<open>What a fetch does\<close>

lemma check_ips_Inr: "check_ips ips = Inr u \<longleftrightarrow> list_all (\<lambda>ip. \<not> is_forbidden_ip ip) ips"
  by (induction ips) auto

lemma read_chunks_Inr:
  "read_chunks body cs = Inr b \<longleftrightarrow>
     (\<exists>parts. cs = map Inr parts \<and> b = body @ concat parts \<and>
        (parts \<noteq> [] \<longrightarrow> length b \<le> SAFE_HTTP_MAX_BODY))"
proof (induction body cs rule: read_chunks.induct)
  case (1 body)
  then show ?case by auto
next
  case (2 body e cs)
  then show ?case by auto
next
  case (3 body chunk cs)
  show ?case
  proof (cases "length body + length chunk > SAFE_HTTP_MAX_BODY")
    case True
    then have "length (body @ concat parts) > SAFE_HTTP_MAX_BODY" if "parts = chunk # ps" for parts ps
      using that by simp
    then show ?thesis using True by (fastforce simp: Cons_eq_map_conv)
  next
    case False
    then show ?thesis using 3 by (fastforce simp: Cons_eq_map_conv)
  qed
qed

lemma resolve_host_Inr: "resolve_host W h = Inr ips \<Longrightarrow> \<exists>found. lookup_ip W h = Inr found \<and> found \<noteq> []
    \<and> ips = sort_key is_v6 found"
  by (auto simp: resolve_host_def step_iffs)

lemma resolved_first:
  assumes "resolve_host W h = Inr ips" "check_ips ips = Inr u"
  shows "\<exists>found. lookup_ip W h = Inr found \<and> list_all (\<lambda>ip. \<not> is_forbidden_ip ip) found \<and> hd ips \<in> set found
    \<and> (\<forall>v4. V4 v4 \<in> set found \<longrightarrow> \<not> is_v6 (hd ips))"
proof -
  from resolve_host_Inr [OF assms(1)] obtain found where f: "lookup_ip W h = Inr found" "found \<noteq> []"
    "ips = sort_key is_v6 found" by blast
  then have "set ips = set found" "sorted (map is_v6 ips)" by simp_all
  with f(2) have s: "set ips = set found" "ips \<noteq> []" "sorted (map is_v6 ips)" by auto
  have "\<not> is_v6 (hd ips)" if "V4 v4 \<in> set found" for v4
  proof -
    have "V4 v4 \<in> set ips" using s(1) that by simp
    with s(3) have "is_v6 (hd ips) \<le> is_v6 (V4 v4)" by (cases ips) auto
    then show ?thesis by simp
  qed
  moreover have "hd ips \<in> set found" using s by (metis hd_in_set)
  moreover have "list_all (\<lambda>ip. \<not> is_forbidden_ip ip) found" using assms(2) s(1) by (simp add: check_ips_Inr list_all_iff)
  ultimately show ?thesis using f(1) by blast
qed

text \<open>
  On every outcome, the fetch makes at most one connection, and only to one of resolved
  addresses that are all permitted.
\<close>

definition default_port :: "Url \<Rightarrow> nat" where
  "default_port parsed = (case url_port parsed of Some p \<Rightarrow> p | None \<Rightarrow> 443)"

definition connects :: "web \<Rightarrow> string \<Rightarrow> IpAddr \<Rightarrow> nat \<Rightarrow> bool" where
  "connects W u ip port \<longleftrightarrow> (\<exists>parsed host found. parse_url W u = Inr parsed \<and> url_scheme parsed = ''https''
     \<and> url_host parsed = Some host \<and> lookup_ip W host = Inr found
     \<and> list_all (\<lambda>ip. \<not> is_forbidden_ip ip) found \<and> ip \<in> set found \<and> port = default_port parsed)"

lemma safe_get_cases:
  assumes "safe_get W u cs = (r, cs')"
  shows "(\<exists>e. r = Inl e \<and> cs' = cs) \<or> (\<exists>parsed host ips v. parse_url W u = Inr parsed
    \<and> url_scheme parsed = ''https'' \<and> url_host parsed = Some host \<and> resolve_host W host = Inr ips
    \<and> check_ips ips = Inr v \<and> cs' = cs @ [(hd ips, default_port parsed)]
    \<and> r = bindE (map_err Transport (http_get W (hd ips) (default_port parsed) parsed)) read_response)"
  using assms
  by (auto simp: safe_get_def send_get_def bindS_def default_port_def [symmetric] Let_def
      split: sum.splits prod.splits if_splits elim!: map_err.elims ok_or.elims)

lemma safe_get_connects:
  assumes "safe_get W u cs = (r, cs')"
  shows "cs' = cs \<or> (\<exists>ip port. cs' = cs @ [(ip, port)] \<and> connects W u ip port)"
  using safe_get_cases [OF assms] by (auto simp: connects_def dest!: resolved_first)

lemma safe_get_Inr:
  assumes "safe_get W u cs = (Inr resp, cs')"
  shows "\<exists>ip port parsed hr parts. connects W u ip port \<and> cs' = cs @ [(ip, port)] \<and> parse_url W u = Inr parsed
    \<and> http_get W ip port parsed = Inr hr \<and> success_status (sh_status resp) \<and> hr_chunks hr = map Inr parts
    \<and> sh_body resp = concat parts \<and> length (sh_body resp) \<le> SAFE_HTTP_MAX_BODY"
proof -
  from safe_get_cases [OF assms] obtain parsed host ips v where
    p: "parse_url W u = Inr parsed" "url_scheme parsed = ''https''" "url_host parsed = Some host"
      "resolve_host W host = Inr ips" "check_ips ips = Inr v"
    and cs: "cs' = cs @ [(hd ips, default_port parsed)]"
    and r: "Inr resp = bindE (map_err Transport (http_get W (hd ips) (default_port parsed) parsed)) read_response"
    by auto
  from resolved_first [OF p(4,5)] p have c: "connects W u (hd ips) (default_port parsed)"
    by (auto simp: connects_def)
  from r [symmetric] obtain hr where "http_get W (hd ips) (default_port parsed) parsed = Inr hr"
    "read_response hr = Inr resp" by (auto simp: step_iffs)
  with c cs p(1) show ?thesis
    by (auto simp: read_response_def step_iffs read_chunks_Inr SAFE_HTTP_MAX_BODY_def)
qed

end
