(* ===== verification/AddressText.thy ===== *)
theory AddressText
  imports SafeHttp TextOps
begin

text \<open>The texts of addresses, as \<open>std::net\<close> prints them.\<close>

definition ipv4_text :: "Ipv4Addr \<Rightarrow> string" where
  "ipv4_text ip = show_nat (unat (octet0 ip)) @ ''.'' @ show_nat (unat (octet1 ip)) @ ''.''
     @ show_nat (unat (octet2 ip)) @ ''.'' @ show_nat (unat (octet3 ip))"

definition segments :: "Ipv6Addr \<Rightarrow> u16 list" where
  "segments ip = [seg0 ip, seg1 ip, seg2 ip, seg3 ip, seg4 ip, seg5 ip, seg6 ip, seg7 ip]"

text \<open>The first longest run of zero segments, as start and length.\<close>

fun longest_zeroes :: "nat \<Rightarrow> nat \<times> nat \<Rightarrow> nat \<times> nat \<Rightarrow> u16 list \<Rightarrow> nat \<times> nat" where
  "longest_zeroes i cur best [] = best"
| "longest_zeroes i cur best (g # gs) =
     (if g = 0 then
        (let c = (if snd cur = 0 then (i, 1) else (fst cur, Suc (snd cur)))
         in longest_zeroes (Suc i) c (if snd c > snd best then c else best) gs)
      else longest_zeroes (Suc i) (0, 0) best gs)"

definition ipv6_text :: "Ipv6Addr \<Rightarrow> string" where
  "ipv6_text ip =
     (case to_ipv4_mapped ip of
        Some v4 \<Rightarrow> ''::ffff:'' @ ipv4_text v4
      | None \<Rightarrow>
          (let gs = segments ip; (start, len) = longest_zeroes 0 (0, 0) (0, 0) gs;
               hex = (\<lambda>xs. join_with '':'' (map (\<lambda>g. show_hex (unat g)) xs))
           in if len > 1 then hex (take start gs) @ ''::'' @ hex (drop (start + len) gs) else hex gs))"

fun ip_text :: "IpAddr \<Rightarrow> string" where
  "ip_text (V4 v4) = ipv4_text v4"
| "ip_text (V6 v6) = ipv6_text v6"

text \<open>A socket address; version 6 stands in brackets.\<close>

definition socket_text :: "IpAddr \<Rightarrow> nat \<Rightarrow> string" where
  "socket_text ip port = (case ip of
      V4 _ \<Rightarrow> ip_text ip @ '':'' @ show_nat port
    | V6 _ \<Rightarrow> ''['' @ ip_text ip @ '']:'' @ show_nat port)"

end
