(* ===== verification/DidWeb.thy ===== *)
theory DidWeb
  imports Identity Jws AddressText Capability
begin

text \<open>
  The \<open>did:web\<close> provider (\<open>aex-identity/src/did_web.rs\<close>): the well-known address of a DID, the
  fetch of the agent card through \<open>safe_get\<close>, its verification as a JWS under the key that the
  card itself declares, and the provider with its cache of peer keys.  The lemmas say when a card
  is accepted, that the fetch connects to permitted addresses only, and that neither the fragment
  of the identifier nor the dates of the card take part in the decision.
\<close>

section \<open>Error texts\<close>

definition quote1 :: "string \<Rightarrow> string" where
  "quote1 s = [CHR 0x27] @ s @ [CHR 0x27]"

fun safe_http_error_text :: "SafeHttpError \<Rightarrow> string" where
  "safe_http_error_text (InvalidUrl e) = ''invalid URL: '' @ e"
| "safe_http_error_text (NonHttpsScheme s) = ''only https is permitted; got scheme '' @ quote1 s"
| "safe_http_error_text MissingHost = ''URL has no host''"
| "safe_http_error_text (DnsFailure e) = ''DNS resolution failed: '' @ e"
| "safe_http_error_text (InternalAddrForbidden ip) =
     ''resolved IP '' @ ip_text ip @ '' is in a forbidden internal range''"
| "safe_http_error_text (UnexpectedRedirect c) =
     ''redirect responses are not followed; got status '' @ show_nat c"
| "safe_http_error_text (HttpStatus c) = ''HTTP status '' @ show_nat c"
| "safe_http_error_text BodyTooLarge = ''response body exceeded '' @ show_nat SAFE_HTTP_MAX_BODY @ '' bytes''"
| "safe_http_error_text (Transport e) = ''transport error: '' @ e"

fun jws_error_text :: "JwsError \<Rightarrow> string" where
  "jws_error_text InvalidStructure = ''JWS must have exactly three segments separated by '' @ quote1 ''.''"
| "jws_error_text (Base64Decode e) = ''base64url decode failed: '' @ e"
| "jws_error_text (InvalidHeader e) = ''invalid JWS header: '' @ e"
| "jws_error_text (AlgorithmNotPermitted a) =
     ''algorithm '' @ quote1 a @ '' is not permitted; only EdDSA and ES256K accepted''"
| "jws_error_text AlgorithmMalformed = ''alg must be a single string value''"
| "jws_error_text MissingKid = ''kid is required and must be a non-empty string''"
| "jws_error_text (UnknownKid k) = ''no key found for kid '' @ quote1 k"
| "jws_error_text (KidAlgMismatch k h a) =
     ''kid '' @ quote1 k @ '' resolves to a key of algorithm '' @ a @ '', but header declared '' @ h"
| "jws_error_text (JwsBadSignature k) = ''signature verification failed for kid '' @ quote1 k"
| "jws_error_text SegmentTooLarge = ''segment exceeds '' @ show_nat SEGMENT_MAX_BYTES @ '' byte cap''"
| "jws_error_text (SigningError e) = ''signing error: '' @ e"

section \<open>The agent card\<close>

record PublicKeyDeclaration =
  key_type :: string
  public_key_multibase :: string

record Endpoints =
  control_plane_url :: "string option"
  data_planes :: "string list"

record AgentCardPayload =
  ac_iss :: string
  ac_sub :: string
  ac_iat :: i64
  ac_exp :: i64
  ac_agent_id :: string
  ac_public_key :: PublicKeyDeclaration
  ac_capabilities :: CapabilitySet
  ac_endpoints :: Endpoints

definition has_capability :: "AgentCardPayload \<Rightarrow> Capability \<Rightarrow> bool" where
  "has_capability c cap = has_cap (ac_capabilities c) cap"

text \<open>What the provider calls: crypto, base58, JWS and JSON of the card, and the network.\<close>

record did_web_env =
  dw_plat :: platform
  dw_ring :: keyring
  dw_jose :: jose
  dw_web :: web
  card_parse :: "bytes \<Rightarrow> string + AgentCardPayload"

definition well_known_url :: "AgentId \<Rightarrow> core_error + string" where
  "well_known_url agent_id =
     bindE (ok_or (InvalidAgentId (''did:web id is not a valid DID URI: '' @ as_str agent_id)) (as_did_uri agent_id)) (\<lambda>uri.
     bindE (ensure (did_method uri = ''web'') (InvalidAgentId (''expected did:web, got did:'' @ did_method uri))) (\<lambda>_.
     let authority = hd (split_char (CHR '':'') (method_specific_id uri)) in
     bindE (ensure (authority \<noteq> []) (InvalidAgentId ''did:web authority is empty'')) (\<lambda>_.
     bindE (ensure (\<not> (CHR ''/'' \<in> set authority \<or> CHR ''?'' \<in> set authority \<or> CHR ''#'' \<in> set authority))
       (InvalidAgentId (''did:web authority contains URL-reserved chars: '' @ authority))) (\<lambda>_.
     Inr (''https://'' @ authority @ ''/.well-known/agent-card.json'')))))"

definition decode_did_key_multibase :: "platform \<Rightarrow> keyring \<Rightarrow> string \<Rightarrow> core_error + bytes" where
  "decode_did_key_multibase P K s =
     bindE (ok_or (Crypto (''multibase must start with '' @ quote1 ''z'' @ '', got '' @ quote1 s)) (strip_prefix ''z'' s)) (\<lambda>after_z.
     bindE (map_err (\<lambda>e. Crypto (''base58 decode: '' @ e)) (bs58_dec K after_z)) (\<lambda>bytes.
     bindE (ensure (length bytes = length ED25519_MULTICODEC_PREFIX + 32)
       (Crypto (''multibase length mismatch: '' @ show_nat (length bytes) @ '' bytes''))) (\<lambda>_.
     bindE (ensure (take 2 bytes = ED25519_MULTICODEC_PREFIX)
       (Crypto (''multicodec prefix mismatch: '' @ hex_debug (take 2 bytes)))) (\<lambda>_.
     case ed25519_key_error P (drop 2 bytes) of
       Some e \<Rightarrow> Inl (Crypto (''Ed25519 key: '' @ e))
     | None \<Rightarrow> Inr (drop 2 bytes)))))"

text \<open>The closure that the JWS layer calls: the key is taken from the payload it is to verify.\<close>

definition card_lookup :: "did_web_env \<Rightarrow> string \<Rightarrow> string \<Rightarrow> JwsError + VerifierKey option" where
  "card_lookup E jws kid =
     bindE (case split_char (CHR ''.'') (trim jws) of _ # p # _ \<Rightarrow> Inr p | _ \<Rightarrow> Inl InvalidStructure) (\<lambda>payload_b64.
     bindE (map_err (\<lambda>e. Base64Decode (''payload: '' @ e)) (b64url_dec (dw_jose E) payload_b64)) (\<lambda>payload_bytes.
     bindE (map_err (\<lambda>e. InvalidHeader (''payload parse: '' @ e)) (card_parse E payload_bytes)) (\<lambda>card.
     bindE (ensure (ac_agent_id card = kid)
       (KidAlgMismatch kid ''EdDSA'' (''payload claims '' @ ac_agent_id card))) (\<lambda>_.
     bindE (map_err (\<lambda>e. InvalidHeader (''public_key: '' @ core_error_text e))
       (decode_did_key_multibase (dw_plat E) (dw_ring E) (public_key_multibase (ac_public_key card)))) (\<lambda>vk.
     Inr (Some (Ed25519Key vk)))))))"

fun jws_alg_debug :: "JwsAlgorithm \<Rightarrow> string" where
  "jws_alg_debug EdDsa = ''EdDsa''"
| "jws_alg_debug Es256k = ''Es256k''"

definition verify_card :: "did_web_env \<Rightarrow> bytes \<Rightarrow> core_error + bytes \<times> AgentCardPayload" where
  "verify_card E body =
     bindE (map_err (\<lambda>e. Crypto (''agent card not UTF-8: '' @ e)) (from_utf8 body)) (\<lambda>jws.
     bindE (map_err (\<lambda>e. Crypto (''agent card JWS verify failed: '' @ jws_error_text e))
       (jws_verify (dw_jose E) (trim jws) (card_lookup E jws))) (\<lambda>verified.
     bindE (ensure (jh_alg (vp_header verified) = EdDsa)
       (Crypto (''did:web cards must use EdDSA for now; got '' @ jws_alg_debug (jh_alg (vp_header verified))))) (\<lambda>_.
     bindE (map_err (\<lambda>e. Crypto (''agent card payload parse: '' @ e)) (card_parse E (vp_payload verified))) (\<lambda>card.
     bindE (decode_did_key_multibase (dw_plat E) (dw_ring E) (public_key_multibase (ac_public_key card))) (\<lambda>vk.
     Inr (vk, card))))))"

definition fetch_and_verify_card ::
  "did_web_env \<Rightarrow> AgentId \<Rightarrow> (connections, core_error, bytes \<times> AgentCardPayload) action" where
  "fetch_and_verify_card E peer_id =
     bindS (liftS (well_known_url peer_id)) (\<lambda>url.
     bindS (mapErrS (\<lambda>e. NotFound (''did:web fetch failed for '' @ as_str peer_id @ '': '' @ safe_http_error_text e))
       (safe_get (dw_web E) url)) (\<lambda>resp.
     liftS (verify_card E (sh_body resp))))"

section \<open>The provider\<close>

record DidWebProvider =
  dwp_agent_id :: AgentId
  dwp_key :: signing_key
  dwp_component_name :: string

definition DidWebProvider_new :: "AgentId \<Rightarrow> signing_key \<Rightarrow> string \<Rightarrow> core_error + DidWebProvider" where
  "DidWebProvider_new agent_id sk component =
     bindE (ensure (scheme agent_id = DidWeb)
       (InvalidAgentId (''DidWebProvider requires a did:web agent_id, got '' @ as_str agent_id))) (\<lambda>_.
     Inr \<lparr>dwp_agent_id = agent_id, dwp_key = sk, dwp_component_name = component\<rparr>)"

record did_web_state =
  dw_peers :: peers
  dw_conns :: connections

definition on_conns :: "(connections, 'e, 'a) action \<Rightarrow> (did_web_state, 'e, 'a) action" where
  "on_conns m = (\<lambda>s. case m (dw_conns s) of (r, c) \<Rightarrow> (r, s\<lparr>dw_conns := c\<rparr>))"

definition did_web_verify_peer ::
  "did_web_env \<Rightarrow> AgentId \<Rightarrow> bytes \<Rightarrow> Signature \<Rightarrow> (did_web_state, core_error, unit) action" where
  "did_web_verify_peer E peer_id msg signature =
     bindS (ensureS (algorithm signature = Ed25519)
       (SignatureFormat (''did:web (Ed25519 keys) requires Ed25519 signature, got '' @ algorithm_debug (algorithm signature)))) (\<lambda>_.
     bindS (getS (\<lambda>s. dw_peers s peer_id)) (\<lambda>cached.
     bindS (case cached of
         Some k \<Rightarrow> returnS k
       | None \<Rightarrow>
           bindS (on_conns (fetch_and_verify_card E peer_id)) (\<lambda>(vk, _).
           bindS (modifyS (\<lambda>s. s\<lparr>dw_peers := register_peer peer_id vk (dw_peers s)\<rparr>)) (\<lambda>_. returnS vk))) (\<lambda>pubkey.
     bindS (ensureS (length (sig_bytes signature) = 64)
       (SignatureFormat (''Ed25519 signature must be 64 bytes, got '' @ show_nat (length (sig_bytes signature))))) (\<lambda>_.
     ensureS (ed25519_verify (dw_plat E) pubkey msg (sig_bytes signature)) SignatureInvalid))))"

section \<open>Which cards are accepted\<close>

text \<open>
  A card is a JWS over itself: its payload names the key identifier of the header and the key
  under which the whole verifies.
\<close>

definition card_authentic :: "did_web_env \<Rightarrow> string \<Rightarrow> bytes \<Rightarrow> AgentCardPayload \<Rightarrow> bool" where
  "card_authentic E jws vk c \<longleftrightarrow> (\<exists>header pl. jws_authentic (dw_jose E) (trim jws) (\<lambda>_. Inr (Some (Ed25519Key vk))) header pl
     \<and> jh_alg header = EdDsa \<and> card_parse E pl = Inr c \<and> jh_kid header = ac_agent_id c
     \<and> decode_did_key_multibase (dw_plat E) (dw_ring E) (public_key_multibase (ac_public_key c)) = Inr vk)"

lemma card_lookup_Inr:
  assumes "trim jws = h @ ''.'' @ p @ ''.'' @ g" "CHR ''.'' \<notin> set h" "CHR ''.'' \<notin> set p" "CHR ''.'' \<notin> set g"
  shows "card_lookup E jws kid = Inr k \<longleftrightarrow> (\<exists>pl c vk. b64url_dec (dw_jose E) p = Inr pl \<and> card_parse E pl = Inr c
    \<and> ac_agent_id c = kid \<and> k = Some (Ed25519Key vk)
    \<and> decode_did_key_multibase (dw_plat E) (dw_ring E) (public_key_multibase (ac_public_key c)) = Inr vk)"
  using assms by (auto simp: card_lookup_def split_char_append split_char_free step_iffs)

lemma card_lookup_key:
  assumes "jws_authentic (dw_jose E) (trim jws) f header pl"
  shows "card_lookup E jws kid = Inr (Some key) \<longleftrightarrow> (\<exists>c vk. card_parse E pl = Inr c \<and> ac_agent_id c = kid
    \<and> key = Ed25519Key vk
    \<and> decode_did_key_multibase (dw_plat E) (dw_ring E) (public_key_multibase (ac_public_key c)) = Inr vk)"
proof -
  from jws_authentic_segments [OF assms] obtain h p g where "trim jws = h @ ''.'' @ p @ ''.'' @ g"
    "CHR ''.'' \<notin> set h" "CHR ''.'' \<notin> set p" "CHR ''.'' \<notin> set g" and d: "b64url_dec (dw_jose E) p = Inr pl"
    by blast
  from card_lookup_Inr [OF this(1-4), of E kid "Some key"] d show ?thesis by auto
qed

lemma card_authentic_iff:
  "card_authentic E jws vk c \<longleftrightarrow> (\<exists>header pl. jws_authentic (dw_jose E) (trim jws) (card_lookup E jws) header pl
     \<and> jh_alg header = EdDsa \<and> card_parse E pl = Inr c
     \<and> decode_did_key_multibase (dw_plat E) (dw_ring E) (public_key_multibase (ac_public_key c)) = Inr vk)"
proof
  assume "card_authentic E jws vk c"
  then obtain header pl where v: "jws_authentic (dw_jose E) (trim jws) (\<lambda>_. Inr (Some (Ed25519Key vk))) header pl"
    and p: "jh_alg header = EdDsa" "card_parse E pl = Inr c" "jh_kid header = ac_agent_id c"
      "decode_did_key_multibase (dw_plat E) (dw_ring E) (public_key_multibase (ac_public_key c)) = Inr vk"
    unfolding card_authentic_def by blast
  have "card_lookup E jws (jh_kid header) = Inr (Some (Ed25519Key vk))"
    unfolding card_lookup_key [OF v] using p by simp
  with v have "jws_authentic (dw_jose E) (trim jws) (card_lookup E jws) header pl"
    by (subst jws_authentic_key) blast
  with p show "\<exists>header pl. jws_authentic (dw_jose E) (trim jws) (card_lookup E jws) header pl
     \<and> jh_alg header = EdDsa \<and> card_parse E pl = Inr c
     \<and> decode_did_key_multibase (dw_plat E) (dw_ring E) (public_key_multibase (ac_public_key c)) = Inr vk" by blast
next
  assume "\<exists>header pl. jws_authentic (dw_jose E) (trim jws) (card_lookup E jws) header pl
     \<and> jh_alg header = EdDsa \<and> card_parse E pl = Inr c
     \<and> decode_did_key_multibase (dw_plat E) (dw_ring E) (public_key_multibase (ac_public_key c)) = Inr vk"
  then obtain header pl where v: "jws_authentic (dw_jose E) (trim jws) (card_lookup E jws) header pl"
    and p: "jh_alg header = EdDsa" "card_parse E pl = Inr c"
      "decode_did_key_multibase (dw_plat E) (dw_ring E) (public_key_multibase (ac_public_key c)) = Inr vk" by blast
  from v [unfolded jws_authentic_key [of _ _ "card_lookup E jws"]] obtain key where
    k: "card_lookup E jws (jh_kid header) = Inr (Some key)"
    and a: "jws_authentic (dw_jose E) (trim jws) (\<lambda>_. Inr (Some key)) header pl" by blast
  from k p have "key = Ed25519Key vk \<and> jh_kid header = ac_agent_id c"
    unfolding card_lookup_key [OF v] by auto
  with a p show "card_authentic E jws vk c" unfolding card_authentic_def by blast
qed

lemma verify_card_Inr:
  "verify_card E body = Inr (vk, c) \<longleftrightarrow> (\<exists>jws. from_utf8 body = Inr jws \<and> card_authentic E jws vk c)"
proof
  assume "verify_card E body = Inr (vk, c)"
  then obtain jws and vp :: VerifiedPayload where j: "from_utf8 body = Inr jws"
    and v: "jws_authentic (dw_jose E) (trim jws) (card_lookup E jws) (vp_header vp) (vp_payload vp)"
    and p: "jh_alg (vp_header vp) = EdDsa" "card_parse E (vp_payload vp) = Inr c"
      "decode_did_key_multibase (dw_plat E) (dw_ring E) (public_key_multibase (ac_public_key c)) = Inr vk"
    by (auto simp: verify_card_def step_iffs jws_verify_Inr_iff)
  have "card_authentic E jws vk c" unfolding card_authentic_iff
    by (intro exI [of _ "vp_header vp"] exI [of _ "vp_payload vp"] conjI v p)
  with j show "\<exists>jws. from_utf8 body = Inr jws \<and> card_authentic E jws vk c" by blast
next
  assume "\<exists>jws. from_utf8 body = Inr jws \<and> card_authentic E jws vk c"
  then obtain jws header pl where j: "from_utf8 body = Inr jws"
    and v: "jws_authentic (dw_jose E) (trim jws) (card_lookup E jws) header pl"
    and p: "jh_alg header = EdDsa" "card_parse E pl = Inr c"
      "decode_did_key_multibase (dw_plat E) (dw_ring E) (public_key_multibase (ac_public_key c)) = Inr vk"
    unfolding card_authentic_iff by blast
  from v have "jws_verify (dw_jose E) (trim jws) (card_lookup E jws) = Inr \<lparr>vp_header = header, vp_payload = pl\<rparr>"
    by (simp add: jws_verify_Inr_iff)
  with j p show "verify_card E body = Inr (vk, c)" by (simp add: verify_card_def ensure_def)
qed

lemma fetch_connects:
  assumes "fetch_and_verify_card E peer cs = (r, cs')"
  shows "cs' = cs \<or> (\<exists>url ip port. well_known_url peer = Inr url \<and> cs' = cs @ [(ip, port)] \<and> connects (dw_web E) url ip port)"
proof (cases "well_known_url peer")
  case (Inl e)
  with assms show ?thesis by (simp add: fetch_and_verify_card_def bindS_liftS)
next
  case (Inr url)
  obtain r1 c1 where g: "safe_get (dw_web E) url cs = (r1, c1)" by fastforce
  then have "cs' = c1"
    using assms Inr by (cases r1) (auto simp: fetch_and_verify_card_def bindS_def mapErrS_apply)
  with safe_get_connects [OF g] Inr show ?thesis by blast
qed

lemma fetch_Inr:
  assumes "fetch_and_verify_card E peer cs = (Inr (vk, c), cs')"
  shows "\<exists>url resp jws. well_known_url peer = Inr url \<and> safe_get (dw_web E) url cs = (Inr resp, cs')
    \<and> from_utf8 (sh_body resp) = Inr jws \<and> card_authentic E jws vk c"
  using assms by (auto simp: fetch_and_verify_card_def step_iffs verify_card_Inr)

text \<open>The identifier matters only through its authority.\<close>

lemma fetch_same_authority:
  assumes "well_known_url p = well_known_url q"
  shows "fetch_and_verify_card E p cs = (Inr x, cs') \<longleftrightarrow> fetch_and_verify_card E q cs = (Inr x, cs')"
  using assms by (simp add: fetch_and_verify_card_def step_iffs)

section \<open>The provider fulfils the contract\<close>

lemma did_web_verify_iff:
  "did_web_verify_peer E p m sg s = (Inr u, s') \<longleftrightarrow> (\<exists>k. ed25519_valid (dw_plat E) k m sg
     \<and> (dw_peers s p = Some k \<and> s' = s
        \<or> dw_peers s p = None \<and> (\<exists>c cs. fetch_and_verify_card E p (dw_conns s) = (Inr (k, c), cs)
            \<and> s' = s\<lparr>dw_conns := cs, dw_peers := (dw_peers s)(p \<mapsto> k)\<rparr>)))"
  by (cases "dw_peers s p"; cases "fetch_and_verify_card E p (dw_conns s)")
    (auto simp: did_web_verify_peer_def ed25519_valid_def register_peer_def on_conns_def bindS_def
      split: sum.splits if_splits prod.splits)

lemma did_web_state:
  "did_web_verify_peer E p m sg s = (r, s') \<Longrightarrow> dw_peers s' = dw_peers s
     \<or> dw_peers s p = None \<and> (\<exists>k. dw_peers s' = (dw_peers s)(p \<mapsto> k))"
  by (cases "dw_peers s p"; cases "fetch_and_verify_card E p (dw_conns s)")
    (auto simp: did_web_verify_peer_def register_peer_def on_conns_def bindS_def
      split: sum.splits if_splits prod.splits)

interpretation didweb: identity_provider "did_web_verify_peer E" "\<lambda>(s :: did_web_state) p. dw_peers s p"
  "ed25519_valid (dw_plat E)" for E
proof unfold_locales
  fix p m sg s u s'
  assume "did_web_verify_peer E p m sg s = (Inr u, s')"
  then show "\<exists>k. dw_peers s' p = Some k \<and> ed25519_valid (dw_plat E) k m sg"
    by (auto simp: did_web_verify_iff)
next
  fix s :: did_web_state and p k q m sg r s'
  assume "dw_peers s p = Some k" "did_web_verify_peer E q m sg s = (r, s')"
  then show "dw_peers s' p = Some k" by (auto dest!: did_web_state)
next
  fix s :: did_web_state and p k m sg
  assume "dw_peers s p = Some k" "ed25519_valid (dw_plat E) k m sg"
  then show "\<exists>s'. did_web_verify_peer E p m sg s = (Inr (), s')" by (auto simp: did_web_verify_iff)
qed

end
