(* ===== verification/A2ABridge.thy ===== *)
theory A2ABridge
  imports Jws CoreTypes
begin

text \<open>
  The A2A bridge (\<open>aex-a2a-bridge/src/lib.rs\<close>): an inbound A2A task with its delegation chain
  becomes an AEX intent.  The lemmas say exactly which tasks are accepted, in which order the
  checks fail, and what the signatures do not cover.
\<close>

definition MAX_DELEGATION_DEPTH :: nat where
  "MAX_DELEGATION_DEPTH = 3"

datatype BridgeError =
    UnsupportedA2A string
  | DelegationTooDeep nat nat
  | DelegationCycle string
  | A2AUnsigned
  | JwsHopFailed nat JwsError
  | AexInvariant string

record A2AHop =
  hop_from :: string
  hop_to :: string
  hop_jws :: string
  hop_attachment_b64 :: "string option"

record A2ATask =
  task_id :: string
  task_type :: "string option"
  hops :: "A2AHop list"

record InboundAexIntent =
  original_sender :: AgentId
  final_recipient :: AgentId
  chain :: "(AgentId \<times> AgentId) list"
  attachment :: "bytes option"

text \<open>Cycle detection: \<open>seen\<close> is the hash set of the loop.\<close>

fun check_cycle :: "string set \<Rightarrow> A2AHop list \<Rightarrow> BridgeError + unit" where
  "check_cycle seen [] = Inr ()"
| "check_cycle seen (h # hs) =
     (if hop_from h \<in> seen then Inl (DelegationCycle (hop_from h)) else check_cycle (insert (hop_from h) seen) hs)"

text \<open>The lookup that a hop passes to the JWS layer: the key identifier must be the hop's sender.\<close>

definition hop_lookup :: "(string \<Rightarrow> JwsError + VerifierKey option) \<Rightarrow> string \<Rightarrow> string \<Rightarrow> JwsError + VerifierKey option" where
  "hop_lookup key_lookup kid_from kid =
     (if kid \<noteq> kid_from then Inl (KidAlgMismatch kid ''?'' (''expected kid '' @ kid_from)) else key_lookup kid)"

fun verify_hops :: "jose \<Rightarrow> (string \<Rightarrow> JwsError + VerifierKey option) \<Rightarrow> nat \<Rightarrow> A2AHop list \<Rightarrow> BridgeError + unit" where
  "verify_hops J key_lookup i [] = Inr ()"
| "verify_hops J key_lookup i (h # hs) =
     bindE (ensure (hop_jws h \<noteq> []) A2AUnsigned) (\<lambda>_.
     bindE (map_err (JwsHopFailed i) (jws_verify J (hop_jws h) (hop_lookup key_lookup (hop_from h)))) (\<lambda>_.
     verify_hops J key_lookup (Suc i) hs))"

definition parse_agent :: "string \<Rightarrow> string \<Rightarrow> BridgeError + AgentId" where
  "parse_agent what s = map_err (\<lambda>e. AexInvariant (''invalid '' @ what @ '': '' @ core_error_text e)) (AgentId_new s)"

fun build_chain :: "A2AHop list \<Rightarrow> BridgeError + (AgentId \<times> AgentId) list" where
  "build_chain [] = Inr []"
| "build_chain (h # hs) =
     bindE (parse_agent ''hop.from'' (hop_from h)) (\<lambda>from.
     bindE (parse_agent ''hop.to'' (hop_to h)) (\<lambda>to.
     bindE (build_chain hs) (\<lambda>rest. Inr ((from, to) # rest))))"

definition decode_attachment :: "(string \<Rightarrow> string + bytes) \<Rightarrow> string option \<Rightarrow> BridgeError + bytes option" where
  "decode_attachment b64std_dec a =
     (case a of
        None \<Rightarrow> Inr None
      | Some s \<Rightarrow> bindE (map_err (\<lambda>e. UnsupportedA2A (''attachment b64: '' @ e)) (b64std_dec s)) (\<lambda>b. Inr (Some b)))"

definition a2a_task_to_aex_intent ::
  "jose \<Rightarrow> (string \<Rightarrow> string + bytes) \<Rightarrow> (string \<Rightarrow> JwsError + VerifierKey option) \<Rightarrow> A2ATask \<Rightarrow> BridgeError + InboundAexIntent" where
  "a2a_task_to_aex_intent J b64std_dec key_lookup task =
     bindE (ensure (hops task \<noteq> []) (UnsupportedA2A ''A2A task has zero hops'')) (\<lambda>_.
     bindE (ensure (\<not> length (hops task) > MAX_DELEGATION_DEPTH)
       (DelegationTooDeep (length (hops task)) MAX_DELEGATION_DEPTH)) (\<lambda>_.
     bindE (check_cycle {} (hops task)) (\<lambda>_.
     bindE (verify_hops J key_lookup 0 (hops task)) (\<lambda>_.
     bindE (parse_agent ''sender'' (hop_from (hd (hops task)))) (\<lambda>snd_id.
     bindE (parse_agent ''recipient'' (hop_to (last (hops task)))) (\<lambda>rcp_id.
     bindE (build_chain (hops task)) (\<lambda>ch.
     bindE (decode_attachment b64std_dec (hop_attachment_b64 (last (hops task)))) (\<lambda>att.
     Inr \<lparr>original_sender = snd_id, final_recipient = rcp_id, chain = ch, attachment = att\<rparr>))))))))"

section \<open>Which tasks are accepted\<close>

lemma check_cycle_Inr:
  "check_cycle seen hs = Inr u \<longleftrightarrow> distinct (map hop_from hs) \<and> seen \<inter> hop_from ` set hs = {}"
  by (induction hs arbitrary: seen) auto

lemma verify_hops_Inr:
  "verify_hops J f i hs = Inr u \<longleftrightarrow>
     list_all (\<lambda>h. hop_jws h \<noteq> [] \<and> is_ok (jws_verify J (hop_jws h) (hop_lookup f (hop_from h)))) hs"
  by (induction hs arbitrary: i) (auto simp: step_iffs is_ok_iff)

lemma parse_agent_Inr: "parse_agent w s = Inr a \<longleftrightarrow> valid_agent_id s \<and> a = AgentId s"
  by (auto simp: parse_agent_def step_iffs AgentId_new_Inr_iff)

lemma build_chain_Inr:
  "build_chain hs = Inr c \<longleftrightarrow> list_all (\<lambda>h. valid_agent_id (hop_from h) \<and> valid_agent_id (hop_to h)) hs
     \<and> c = map (\<lambda>h. (AgentId (hop_from h), AgentId (hop_to h))) hs"
  by (induction hs arbitrary: c) (auto simp: step_iffs parse_agent_Inr)

lemma decode_attachment_Inr:
  "decode_attachment dec a = Inr r \<longleftrightarrow> (case a of None \<Rightarrow> r = None | Some text \<Rightarrow> (\<exists>b. dec text = Inr b \<and> r = Some b))"
  by (auto simp: decode_attachment_def step_iffs split: option.splits)

text \<open>A hop is signed: its JWS verifies under a key that the lookup returns for the hop's sender.\<close>

definition hop_signed :: "jose \<Rightarrow> (string \<Rightarrow> JwsError + VerifierKey option) \<Rightarrow> A2AHop \<Rightarrow> bool" where
  "hop_signed J key_lookup h \<longleftrightarrow> hop_jws h \<noteq> [] \<and>
     (\<exists>header pl. jws_authentic J (hop_jws h) key_lookup header pl \<and> jh_kid header = hop_from h)"

lemma hop_lookup_authentic:
  "jws_authentic J jws (hop_lookup f k) header pl \<longleftrightarrow> jws_authentic J jws f header pl \<and> jh_kid header = k"
  unfolding jws_authentic_code hop_lookup_def by (auto split: if_splits)

lemma hop_verified_iff:
  "hop_jws h \<noteq> [] \<and> is_ok (jws_verify J (hop_jws h) (hop_lookup f (hop_from h))) \<longleftrightarrow> hop_signed J f h"
proof -
  have "is_ok (jws_verify J (hop_jws h) g) \<longleftrightarrow> (\<exists>header pl. jws_authentic J (hop_jws h) g header pl)" for g
    unfolding is_ok_iff jws_verify_Inr_iff by (metis VerifiedPayload.select_convs)
  then show ?thesis by (simp add: hop_signed_def hop_lookup_authentic)
qed

definition a2a_task_ok :: "jose \<Rightarrow> (string \<Rightarrow> JwsError + VerifierKey option) \<Rightarrow> A2ATask \<Rightarrow> bool" where
  "a2a_task_ok J key_lookup task \<longleftrightarrow> hops task \<noteq> [] \<and> length (hops task) \<le> MAX_DELEGATION_DEPTH
     \<and> distinct (map hop_from (hops task)) \<and> list_all (hop_signed J key_lookup) (hops task)
     \<and> list_all (\<lambda>h. valid_agent_id (hop_from h) \<and> valid_agent_id (hop_to h)) (hops task)"

lemma bridge_Inr_iff:
  "a2a_task_to_aex_intent J dec f task = Inr intent \<longleftrightarrow> a2a_task_ok J f task
     \<and> decode_attachment dec (hop_attachment_b64 (last (hops task))) = Inr (attachment intent)
     \<and> original_sender intent = AgentId (hop_from (hd (hops task)))
     \<and> final_recipient intent = AgentId (hop_to (last (hops task)))
     \<and> chain intent = map (\<lambda>h. (AgentId (hop_from h), AgentId (hop_to h))) (hops task)"
proof -
  have ends: "valid_agent_id (hop_from (hd (hops task))) \<and> valid_agent_id (hop_to (last (hops task)))"
    if "hops task \<noteq> []" "list_all (\<lambda>h. valid_agent_id (hop_from h) \<and> valid_agent_id (hop_to h)) (hops task)"
    using that by (auto simp: list_all_iff)
  show ?thesis
    unfolding a2a_task_to_aex_intent_def a2a_task_ok_def
    by (auto simp: step_iffs check_cycle_Inr verify_hops_Inr hop_verified_iff parse_agent_Inr build_chain_Inr
        not_less dest: ends)
qed

text \<open>
  The signatures cover neither the recipients of the hops nor the attachment: a task in which these
  are exchanged for other valid values is accepted as well.
\<close>

lemma signatures_ignore_recipient:
  assumes "a2a_task_to_aex_intent J dec f task = Inr intent"
    and "hops task = front @ [h]" "valid_agent_id to'" "decode_attachment dec att' = Inr b"
  shows "a2a_task_to_aex_intent J dec f (task\<lparr>hops := front @ [h\<lparr>hop_to := to', hop_attachment_b64 := att'\<rparr>]\<rparr>)
    = Inr (intent\<lparr>final_recipient := AgentId to', attachment := b,
        chain := butlast (chain intent) @ [(AgentId (hop_from h), AgentId to')]\<rparr>)"
  using assms unfolding bridge_Inr_iff
  by (auto simp: a2a_task_ok_def hop_signed_def hd_append)

text \<open>In particular the last hop may go back to any agent of the chain, its own sender included.\<close>

lemma bridge_accepts_return:
  assumes "a2a_task_to_aex_intent J dec f task = Inr intent" "agent \<in> hop_from ` set (hops task)"
  shows "\<exists>returned. a2a_task_to_aex_intent J dec f
      (task\<lparr>hops := butlast (hops task) @ [(last (hops task))\<lparr>hop_to := agent\<rparr>]\<rparr>) = Inr returned
    \<and> final_recipient returned = AgentId agent"
proof -
  have "valid_agent_id agent" "hops task = butlast (hops task) @ [last (hops task)]"
    using assms unfolding bridge_Inr_iff by (auto simp: a2a_task_ok_def list_all_iff)
  moreover have "decode_attachment dec (hop_attachment_b64 (last (hops task))) = Inr (attachment intent)"
    using assms(1) unfolding bridge_Inr_iff by blast
  ultimately show ?thesis using signatures_ignore_recipient [OF assms(1)] by fastforce
qed

end
