(* ===== verification/ResolverChain.thy ===== *)
theory ResolverChain
  imports CoreTypes Capability "HOL-Library.Multiset"
begin

text \<open>
  The resolver chain (\<open>aex-identity/src/resolver_chain.rs\<close>): dispatch by scheme, a cache with a time
  to live and a bound, and single flight.  Every block between two awaits is one step of
  \<open>chain_step\<close>, over any number of concurrent tasks; the resolvers, the clock and the iteration
  order of the hash map are inputs.  The invariants say that at most one task fetches a handle at a
  time and that whatever a task returns was fetched for its handle; a last group of lemmas shows a
  lost wake-up, a state in which a task waits for a notification that no task will send.
\<close>

section \<open>Data\<close>

definition DEFAULT_TTL :: nat where
  "DEFAULT_TTL = 60 * 60"

definition DEFAULT_CAPACITY :: nat where
  "DEFAULT_CAPACITY = 10000"

record ResolvedAgent =
  ra_agent_id :: AgentId
  ra_fingerprint :: string
  ra_capabilities :: CapabilitySet
  ra_etag :: "string option"

datatype ResolverError =
    NoResolverForScheme IdScheme string
  | InvalidHandle string
  | Underlying string string
  | CacheIntegrityViolation string

datatype ResolveOutcome = Fresh ResolvedAgent | NotModified

record CacheEntry =
  ce_record :: ResolvedAgent
  ce_inserted :: int

type_synonym agent_cache = "(AgentId \<times> CacheEntry) list"

record agent_resolver =
  rs_scheme :: IdScheme
  rs_resolve :: "int \<Rightarrow> AgentId \<Rightarrow> string option \<Rightarrow> ResolverError + ResolveOutcome"

record ResolverChain =
  rc_resolvers :: "IdScheme \<rightharpoonup> agent_resolver"
  rc_ttl :: int
  rc_capacity :: nat
  rc_iter :: "agent_cache \<Rightarrow> agent_cache"

fun insert_resolvers :: "(IdScheme \<rightharpoonup> agent_resolver) \<Rightarrow> agent_resolver list \<Rightarrow> (IdScheme \<rightharpoonup> agent_resolver)" where
  "insert_resolvers m [] = m"
| "insert_resolvers m (r # rs) = insert_resolvers (m(rs_scheme r \<mapsto> r)) rs"

definition with_capacity :: "(agent_cache \<Rightarrow> agent_cache) \<Rightarrow> agent_resolver list \<Rightarrow> nat \<Rightarrow> int \<Rightarrow> ResolverChain" where
  "with_capacity it rs capacity ttl =
     \<lparr>rc_resolvers = insert_resolvers Map.empty rs, rc_ttl = ttl, rc_capacity = capacity, rc_iter = it\<rparr>"

section \<open>The cache\<close>

definition cache_get_fresh :: "ResolverChain \<Rightarrow> int \<Rightarrow> AgentId \<Rightarrow> agent_cache \<Rightarrow> ResolvedAgent option" where
  "cache_get_fresh C now a cache =
     (case map_of cache a of
        Some e \<Rightarrow> (if max 0 (now - ce_inserted e) < rc_ttl C then Some (ce_record e) else None)
      | None \<Rightarrow> None)"

definition cache_get_any :: "AgentId \<Rightarrow> agent_cache \<Rightarrow> ResolvedAgent option" where
  "cache_get_any a cache = map_option ce_record (map_of cache a)"

definition cache_etag :: "AgentId \<Rightarrow> agent_cache \<Rightarrow> string option" where
  "cache_etag a cache = Option.bind (map_of cache a) (\<lambda>e. ra_etag (ce_record e))"

definition cache_remove :: "AgentId \<Rightarrow> agent_cache \<Rightarrow> agent_cache" where
  "cache_remove a cache = filter (\<lambda>(b, _). b \<noteq> a) cache"

definition cache_extend :: "int \<Rightarrow> AgentId \<Rightarrow> agent_cache \<Rightarrow> ResolvedAgent option \<times> agent_cache" where
  "cache_extend now a cache =
     (cache_get_any a cache, map (\<lambda>(b, e). (b, if b = a then e\<lparr>ce_inserted := now\<rparr> else e)) cache)"

definition cache_insert :: "ResolverChain \<Rightarrow> AgentId \<Rightarrow> CacheEntry \<Rightarrow> agent_cache \<Rightarrow> agent_cache" where
  "cache_insert C a e cache0 =
     (let cache = (a, e) # cache_remove a cache0 in
      if length cache > rc_capacity C then
        (let excess = length cache - rc_capacity C;
             by_age = sort_key snd (map (\<lambda>(k, v). (k, ce_inserted v)) (rc_iter C cache)) in
         fold cache_remove (map fst (take excess by_age)) cache)
      else cache)"

section \<open>Fetching\<close>

text \<open>Up to the answer of the resolver, and from it on.\<close>

definition start_fetch :: "ResolverChain \<Rightarrow> int \<Rightarrow> AgentId \<Rightarrow> agent_cache \<Rightarrow> ResolverError + ResolveOutcome" where
  "start_fetch C now a cache =
     bindE (ok_or (NoResolverForScheme (scheme a) (as_str a)) (rc_resolvers C (scheme a))) (\<lambda>resolver.
     rs_resolve resolver now a (cache_etag a cache))"

fun finish_fetch :: "ResolverChain \<Rightarrow> int \<Rightarrow> AgentId \<Rightarrow> ResolveOutcome \<Rightarrow> (agent_cache, ResolverError, ResolvedAgent) action" where
  "finish_fetch C now a (Fresh r) cache =
     (Inr r, cache_insert C a \<lparr>ce_record = r, ce_inserted = now\<rparr> cache)"
| "finish_fetch C now a NotModified cache =
     (case cache_extend now a cache of (found, cache') \<Rightarrow>
        (ok_or (Underlying (as_str a) ''304 returned with no cached entry'') found, cache'))"

definition fetch_and_update :: "ResolverChain \<Rightarrow> int \<Rightarrow> AgentId \<Rightarrow> (agent_cache, ResolverError, ResolvedAgent) action" where
  "fetch_and_update C now a =
     bindS (getS (start_fetch C now a)) (\<lambda>answer. bindS (liftS answer) (finish_fetch C now a))"

section \<open>Concurrent calls of resolve\<close>

type_synonym outcome = "ResolverError + ResolvedAgent"

datatype task =
    TIdle
  | TStart AgentId
  | TClaim AgentId
  | TWaiter AgentId nat
  | TWaiting AgentId nat
  | TNotified AgentId
  | TLeader AgentId nat
  | TFetching AgentId nat ResolveOutcome
  | TFetched AgentId nat outcome
  | TRemoved AgentId "nat option" outcome
  | TDone "AgentId option" outcome

record chain_state =
  cs_cache :: agent_cache
  cs_inflight :: "AgentId \<rightharpoonup> nat"
  cs_next :: nat
  cs_tasks :: "nat \<Rightarrow> task"

definition fresh_chain :: chain_state where
  "fresh_chain = \<lparr>cs_cache = [], cs_inflight = Map.empty, cs_next = 0, cs_tasks = (\<lambda>_. TIdle)\<rparr>"

definition set_task :: "nat \<Rightarrow> task \<Rightarrow> chain_state \<Rightarrow> chain_state" where
  "set_task i t s = s\<lparr>cs_tasks := (cs_tasks s)(i := t)\<rparr>"

text \<open>\<open>notify_waiters\<close> wakes the tasks that wait at this moment, and only these.\<close>

fun woken :: "nat \<Rightarrow> task \<Rightarrow> task" where
  "woken n (TWaiting a m) = (if m = n then TNotified a else TWaiting a m)"
| "woken n t = t"

definition waiter_result :: "AgentId \<Rightarrow> agent_cache \<Rightarrow> outcome" where
  "waiter_result a cache = ok_or (Underlying (as_str a) ''inflight resolver failed'') (cache_get_any a cache)"

inductive chain_step :: "ResolverChain \<Rightarrow> chain_state \<Rightarrow> chain_state \<Rightarrow> bool" for C where
  call: "cs_tasks s i = TIdle \<Longrightarrow> AgentId_new h = Inr a \<Longrightarrow> chain_step C s (set_task i (TStart a) s)"
| bad_call: "cs_tasks s i = TIdle \<Longrightarrow> AgentId_new h = Inl e \<Longrightarrow>
    chain_step C s (set_task i (TDone None (Inl (InvalidHandle (core_error_text e)))) s)"
| hit: "cs_tasks s i = TStart a \<Longrightarrow> cache_get_fresh C now a (cs_cache s) = Some r \<Longrightarrow>
    chain_step C s (set_task i (TDone (Some a) (Inr r)) s)"
| miss: "cs_tasks s i = TStart a \<Longrightarrow> cache_get_fresh C now a (cs_cache s) = None \<Longrightarrow>
    chain_step C s (set_task i (TClaim a) s)"
| join: "cs_tasks s i = TClaim a \<Longrightarrow> cs_inflight s a = Some n \<Longrightarrow> chain_step C s (set_task i (TWaiter a n) s)"
| lead: "cs_tasks s i = TClaim a \<Longrightarrow> cs_inflight s a = None \<Longrightarrow>
    chain_step C s (set_task i (TLeader a (cs_next s))
      (s\<lparr>cs_inflight := (cs_inflight s)(a \<mapsto> cs_next s), cs_next := Suc (cs_next s)\<rparr>))"
| wait: "cs_tasks s i = TWaiter a n \<Longrightarrow> chain_step C s (set_task i (TWaiting a n) s)"
| ask: "cs_tasks s i = TLeader a n \<Longrightarrow> start_fetch C now a (cs_cache s) = Inr o1 \<Longrightarrow>
    chain_step C s (set_task i (TFetching a n o1) s)"
| ask_fails: "cs_tasks s i = TLeader a n \<Longrightarrow> start_fetch C now a (cs_cache s) = Inl e \<Longrightarrow>
    chain_step C s (set_task i (TFetched a n (Inl e)) s)"
| store: "cs_tasks s i = TFetching a n o1 \<Longrightarrow> finish_fetch C now a o1 (cs_cache s) = (r, c') \<Longrightarrow>
    chain_step C s (set_task i (TFetched a n r) (s\<lparr>cs_cache := c'\<rparr>))"
| remove: "cs_tasks s i = TFetched a n r \<Longrightarrow>
    chain_step C s (set_task i (TRemoved a (cs_inflight s a) r) (s\<lparr>cs_inflight := (cs_inflight s)(a := None)\<rparr>))"
| notify: "cs_tasks s i = TRemoved a w r \<Longrightarrow>
    chain_step C s (set_task i (TDone (Some a) r)
      (s\<lparr>cs_tasks := (case w of None \<Rightarrow> cs_tasks s | Some n \<Rightarrow> woken n \<circ> cs_tasks s)\<rparr>))"
| wake: "cs_tasks s i = TNotified a \<Longrightarrow>
    chain_step C s (set_task i (TDone (Some a) (waiter_result a (cs_cache s))) s)"
| invalidate: "AgentId_new h = Inr a \<Longrightarrow> chain_step C s (s\<lparr>cs_cache := cache_remove a (cs_cache s)\<rparr>)"

section \<open>The cache is bounded\<close>

text \<open>The iteration over a hash map visits every entry once, in some order.\<close>

definition iter_law :: "ResolverChain \<Rightarrow> bool" where
  "iter_law C \<longleftrightarrow> (\<forall>c. mset (rc_iter C c) = mset c)"

definition cache_wf :: "ResolverChain \<Rightarrow> agent_cache \<Rightarrow> bool" where
  "cache_wf C c \<longleftrightarrow> distinct (map fst c) \<and> length c \<le> rc_capacity C"

lemma fold_cache_remove: "fold cache_remove ks c = filter (\<lambda>(b, _). b \<notin> set ks) c"
  by (induction ks arbitrary: c) (auto simp: cache_remove_def intro: filter_cong)

lemma map_fst_filter: "map fst (filter (\<lambda>(b, _). P b) c) = filter P (map fst c)"
  by (induction c) auto

lemma cache_remove_wf:
  assumes "cache_wf C c"
  shows "cache_wf C (cache_remove a c)"
proof -
  have "length (cache_remove a c) \<le> length c" unfolding cache_remove_def by (rule length_filter_le)
  with assms show ?thesis by (simp add: cache_wf_def) (simp add: cache_remove_def map_fst_filter)
qed

lemma cache_extend_wf: "cache_wf C c \<Longrightarrow> cache_extend now a c = (r, c') \<Longrightarrow> cache_wf C c'"
  by (auto simp: cache_wf_def cache_extend_def o_def case_prod_unfold)

text \<open>Dropping distinct keys of the cache leaves the others.\<close>

lemma length_drop_keys:
  assumes "distinct (map fst c)" "distinct ks" "set ks \<subseteq> set (map fst c)"
  shows "length (filter (\<lambda>(b, _). b \<notin> set ks) c) = length c - length ks"
proof -
  have "length (filter (\<lambda>b. b \<notin> set ks) (map fst c)) = card (set (map fst c) - set ks)"
    using distinct_length_filter [OF assms(1)] by (simp add: Int_commute Diff_eq Collect_neg_eq)
  also have "\<dots> = length c - length ks"
    using assms distinct_card [OF assms(1)] distinct_card [OF assms(2)] by (simp add: card_Diff_subset)
  finally show ?thesis unfolding map_fst_filter [symmetric] by simp
qed

lemma cache_insert_wf:
  assumes law: "iter_law C" and wf: "cache_wf C c0"
  shows "cache_wf C (cache_insert C a e c0)"
proof -
  define c where "c = (a, e) # cache_remove a c0"
  have d: "distinct (map fst c)" and l: "length c \<le> Suc (rc_capacity C)"
    using cache_remove_wf [OF wf, of a] by (auto simp: c_def cache_wf_def cache_remove_def)
  define by_age where "by_age = sort_key snd (map (\<lambda>(k, v). (k, ce_inserted v)) (rc_iter C c))"
  define ks where "ks = map fst (take (length c - rc_capacity C) by_age)"
  have m: "mset (map fst by_age) = mset (map fst c)"
    using law by (simp add: by_age_def iter_law_def case_prod_unfold image_mset.compositionality o_def)
  have b: "distinct (map fst by_age)" "set (map fst by_age) = set (map fst c)" "length by_age = length c"
    using d mset_eq_imp_distinct_iff [OF m] mset_eq_setD [OF m] mset_eq_length [OF m] by simp_all
  have ks: "distinct ks" "set ks \<subseteq> set (map fst c)" "length ks = length c - rc_capacity C"
    using b distinct_take [OF b(1)]
    by (auto simp: ks_def take_map [symmetric] simp del: distinct_map set_map dest: in_set_takeD)
  have "cache_insert C a e c0 = (if length c > rc_capacity C then filter (\<lambda>(b, _). b \<notin> set ks) c else c)"
    unfolding cache_insert_def c_def [symmetric] Let_def by_age_def [symmetric] ks_def [symmetric] fold_cache_remove ..
  then show ?thesis
    using d l length_drop_keys [OF d ks(1,2)] ks(3) by (auto simp: cache_wf_def map_fst_filter)
qed

section \<open>Invariants of concurrent calls\<close>

text \<open>The record may come from a resolver, for this handle.\<close>

definition provides :: "ResolverChain \<Rightarrow> AgentId \<Rightarrow> ResolvedAgent \<Rightarrow> bool" where
  "provides C a r \<longleftrightarrow> (\<exists>res now etag. rc_resolvers C (scheme a) = Some res \<and> rs_resolve res now a etag = Inr (Fresh r))"

text \<open>The task that fetches, with its handle and its notification.\<close>

fun holder :: "task \<Rightarrow> (AgentId \<times> nat) option" where
  "holder (TLeader a n) = Some (a, n)"
| "holder (TFetching a n _) = Some (a, n)"
| "holder (TFetched a n _) = Some (a, n)"
| "holder _ = None"

text \<open>What a task carries was provided for its handle.\<close>

fun task_ok :: "ResolverChain \<Rightarrow> task \<Rightarrow> bool" where
  "task_ok C (TFetching a n (Fresh r)) = provides C a r"
| "task_ok C (TFetched a n (Inr r)) = provides C a r"
| "task_ok C (TRemoved a w (Inr r)) = provides C a r"
| "task_ok C (TDone (Some a) (Inr r)) = provides C a r"
| "task_ok C (TDone None (Inr r)) = False"
| "task_ok C t = True"

definition flight_inv :: "chain_state \<Rightarrow> bool" where
  "flight_inv s \<longleftrightarrow>
     (\<forall>i a n. holder (cs_tasks s i) = Some (a, n) \<longrightarrow> cs_inflight s a = Some n)
   \<and> (\<forall>i j a b n. holder (cs_tasks s i) = Some (a, n) \<longrightarrow> holder (cs_tasks s j) = Some (b, n) \<longrightarrow> i = j)
   \<and> (\<forall>a n. cs_inflight s a = Some n \<longrightarrow> n < cs_next s \<and> (\<exists>i. holder (cs_tasks s i) = Some (a, n)))"

definition source_inv :: "ResolverChain \<Rightarrow> chain_state \<Rightarrow> bool" where
  "source_inv C s \<longleftrightarrow> (\<forall>a e. (a, e) \<in> set (cs_cache s) \<longrightarrow> provides C a (ce_record e))
     \<and> (\<forall>i. task_ok C (cs_tasks s i))"

lemma set_task_simps [simp]:
  "cs_cache (set_task i t s) = cs_cache s" "cs_inflight (set_task i t s) = cs_inflight s"
  "cs_next (set_task i t s) = cs_next s" "cs_tasks (set_task i t s) = (cs_tasks s)(i := t)"
  by (simp_all add: set_task_def)

lemma holder_woken [simp]: "holder (woken n t) = holder t"
  by (cases t) auto

lemma task_ok_woken [simp]: "task_ok C (woken n t) = task_ok C t"
  by (cases t) auto

text \<open>A step that changes neither the flights nor who holds them keeps the flight invariant.\<close>

lemma flight_inv_cong:
  assumes "flight_inv s" "cs_inflight s' = cs_inflight s" "cs_next s' = cs_next s"
    and "\<And>j. holder (cs_tasks s' j) = holder (cs_tasks s j)"
  shows "flight_inv s'"
  using assms by (simp add: flight_inv_def)

lemma flight_invD:
  assumes "flight_inv s"
  shows "holder (cs_tasks s i) = Some (a, n) \<Longrightarrow> cs_inflight s a = Some n \<and> n < cs_next s"
    and "holder (cs_tasks s i) = Some (a, n) \<Longrightarrow> holder (cs_tasks s j) = Some (b, n) \<Longrightarrow> i = j"
    and "cs_inflight s a = Some n \<Longrightarrow> \<exists>i. holder (cs_tasks s i) = Some (a, n)"
    and "cs_inflight s a = Some n \<Longrightarrow> n < cs_next s"
  using assms unfolding flight_inv_def by blast+

lemma flight_invI:
  assumes "\<And>i a n. holder (cs_tasks s i) = Some (a, n) \<Longrightarrow> cs_inflight s a = Some n"
    and "\<And>i j a b n. holder (cs_tasks s i) = Some (a, n) \<Longrightarrow> holder (cs_tasks s j) = Some (b, n) \<Longrightarrow> i = j"
    and "\<And>a n. cs_inflight s a = Some n \<Longrightarrow> n < cs_next s \<and> (\<exists>i. holder (cs_tasks s i) = Some (a, n))"
  shows "flight_inv s"
  using assms unfolding flight_inv_def by blast

lemma flight_inv_lead:
  assumes inv: "flight_inv s" and t: "cs_tasks s i = TClaim a" "cs_inflight s a = None"
  shows "flight_inv (set_task i (TLeader a (cs_next s))
    (s\<lparr>cs_inflight := (cs_inflight s)(a \<mapsto> cs_next s), cs_next := Suc (cs_next s)\<rparr>))" (is "flight_inv ?s")
proof (rule flight_invI)
  have old: "n < cs_next s \<and> b \<noteq> a \<and> j \<noteq> i" if "holder (cs_tasks s j) = Some (b, n)" for j b n
    using flight_invD(1) [OF inv that] that t by auto
  have h: "holder (cs_tasks ?s j) = (if j = i then Some (a, cs_next s) else holder (cs_tasks s j))" for j by simp
  fix j b n assume j: "holder (cs_tasks ?s j) = Some (b, n)"
  then show "cs_inflight ?s b = Some n"
    using flight_invD(1) [OF inv, of j b n] old [of j b n] by (auto split: if_splits)
  fix k c assume "holder (cs_tasks ?s k) = Some (c, n)"
  with j show "j = k"
    using old [of j b n] old [of k c n] flight_invD(2) [OF inv, of j b n k c] by (auto split: if_splits)
next
  fix b n assume b: "cs_inflight ?s b = Some n"
  show "n < cs_next ?s \<and> (\<exists>j. holder (cs_tasks ?s j) = Some (b, n))"
  proof (cases "b = a")
    case False
    with b have "cs_inflight s b = Some n" by simp
    from flight_invD(3,4) [OF inv this] obtain j where "holder (cs_tasks s j) = Some (b, n)" "n < cs_next s" by blast
    moreover from this t(1) have "j \<noteq> i" by auto
    ultimately show ?thesis by (auto intro!: exI [of _ j])
  qed (use b in \<open>auto intro!: exI [of _ i]\<close>)
qed

lemma flight_inv_remove:
  assumes inv: "flight_inv s" and t: "cs_tasks s i = TFetched a n r"
  shows "flight_inv (set_task i (TRemoved a (cs_inflight s a) r) (s\<lparr>cs_inflight := (cs_inflight s)(a := None)\<rparr>))"
    (is "flight_inv ?s")
proof (rule flight_invI)
  have h: "holder (cs_tasks s i) = Some (a, n)" using t by simp
  note a = flight_invD(1) [OF inv h, THEN conjunct1]
  have old: "b \<noteq> a" if "holder (cs_tasks s j) = Some (b, m)" "j \<noteq> i" for j b m
    using flight_invD(1) [OF inv that(1)] flight_invD(2) [OF inv that(1), of i a] a h that(2) by auto
  fix j b m assume j: "holder (cs_tasks ?s j) = Some (b, m)"
  then show "cs_inflight ?s b = Some m"
    using flight_invD(1) [OF inv, of j b m] old [of j b m] by (auto split: if_splits)
  fix k c assume "holder (cs_tasks ?s k) = Some (c, m)"
  with j show "j = k" using flight_invD(2) [OF inv, of j b m k c] by (auto split: if_splits)
next
  fix b m assume b: "cs_inflight ?s b = Some m"
  then have "b \<noteq> a" "cs_inflight s b = Some m" by (auto split: if_splits)
  from flight_invD(3,4) [OF inv this(2)] obtain j where "holder (cs_tasks s j) = Some (b, m)" "m < cs_next s" by blast
  moreover from this t \<open>b \<noteq> a\<close> have "j \<noteq> i" by auto
  ultimately show "m < cs_next ?s \<and> (\<exists>j. holder (cs_tasks ?s j) = Some (b, m))" by (auto intro!: exI [of _ j])
qed

lemma flight_inv_step: "chain_step C s s' \<Longrightarrow> flight_inv s \<Longrightarrow> flight_inv s'"
proof (induction rule: chain_step.induct)
  case (lead s i a)
  then show ?case by (intro flight_inv_lead)
next
  case (remove s i a n r)
  then show ?case by (intro flight_inv_remove)
next
  case (notify s i a w r)
  then show ?case by (elim flight_inv_cong) (auto split: option.splits)
qed (auto elim!: flight_inv_cong)

lemma finish_fetch_source:
  assumes "finish_fetch C now a o1 c = (r, c')" "\<forall>b e. (b, e) \<in> set c \<longrightarrow> provides C b (ce_record e)"
    and "\<And>rec. o1 = Fresh rec \<Longrightarrow> provides C a rec"
  shows "(\<forall>b e. (b, e) \<in> set c' \<longrightarrow> provides C b (ce_record e)) \<and> (\<forall>rec. r = Inr rec \<longrightarrow> provides C a rec)"
proof (cases o1)
  case (Fresh rec)
  with assms show ?thesis
    by (auto simp: cache_insert_def Let_def fold_cache_remove cache_remove_def split: if_splits)
next
  case NotModified
  with assms show ?thesis
    by (fastforce simp: cache_extend_def cache_get_any_def step_iffs split: if_splits dest: map_of_SomeD)
qed

lemma source_inv_step: "chain_step C s s' \<Longrightarrow> source_inv C s \<Longrightarrow> source_inv C s'"
proof (induction rule: chain_step.induct)
  case (hit s i a now r)
  then show ?case
    by (auto simp: source_inv_def cache_get_fresh_def split: option.splits if_splits dest!: map_of_SomeD)
next
  case (ask s i a n now o1)
  then have "task_ok C (TFetching a n o1)"
    by (cases o1) (auto simp: start_fetch_def step_iffs provides_def)
  with ask show ?case by (simp add: source_inv_def)
next
  case (store s i a n o1 now r c')
  then have t: "task_ok C (TFetching a n o1)" by (metis source_inv_def)
  have "\<And>rec. o1 = Fresh rec \<Longrightarrow> provides C a rec" using t by (cases o1) auto
  with finish_fetch_source [OF store(2)] store(3)
  have "(\<forall>b e. (b, e) \<in> set c' \<longrightarrow> provides C b (ce_record e)) \<and> (\<forall>rec. r = Inr rec \<longrightarrow> provides C a rec)"
    by (simp add: source_inv_def)
  with store(3) show ?case by (cases r) (auto simp: source_inv_def)
next
  case (remove s i a n r)
  then have "task_ok C (TFetched a n r)" by (metis source_inv_def)
  with remove show ?case by (cases r) (auto simp: source_inv_def)
next
  case (notify s i a w r)
  then have "task_ok C (TRemoved a w r)" by (metis source_inv_def)
  with notify show ?case by (cases r) (auto simp: source_inv_def split: option.splits)
next
  case (wake s i a)
  then show ?case
    by (cases "map_of (cs_cache s) a")
      (fastforce simp: source_inv_def waiter_result_def cache_get_any_def dest: map_of_SomeD)+
next
  case (invalidate h a s)
  then show ?case by (auto simp: source_inv_def cache_remove_def)
qed (auto simp: source_inv_def)

lemma cache_wf_step: "chain_step C s s' \<Longrightarrow> iter_law C \<Longrightarrow> cache_wf C (cs_cache s) \<Longrightarrow> cache_wf C (cs_cache s')"
proof (induction rule: chain_step.induct)
  case (store s i a n o1 now r c')
  then show ?case
    by (cases o1) (auto simp: cache_insert_wf dest: cache_extend_wf split: prod.splits)
next
  case (invalidate h a s)
  then show ?case by (simp add: cache_remove_wf)
qed simp_all

definition chain_inv :: "ResolverChain \<Rightarrow> chain_state \<Rightarrow> bool" where
  "chain_inv C s \<longleftrightarrow> flight_inv s \<and> source_inv C s \<and> cache_wf C (cs_cache s)"

lemma chain_inv_reachable:
  assumes "(chain_step C)\<^sup>*\<^sup>* fresh_chain s" "iter_law C"
  shows "chain_inv C s"
  using assms(1)
proof (induction rule: rtranclp_induct)
  case base
  then show ?case by (simp add: chain_inv_def flight_inv_def source_inv_def cache_wf_def fresh_chain_def)
next
  case (step s s')
  then show ?case
    using assms(2) by (auto simp: chain_inv_def intro: flight_inv_step source_inv_step cache_wf_step)
qed

lemma single_flight:
  assumes "flight_inv s" "holder (cs_tasks s i) = Some (a, n)" "holder (cs_tasks s j) = Some (a, m)"
  shows "i = j"
  using assms unfolding flight_inv_def by (metis option.inject)

section \<open>A lost wake-up\<close>

text \<open>
  The notification of a task is orphaned: the task waits for it, and no task holds it or is about
  to send it.
\<close>

fun sends :: "nat \<Rightarrow> task \<Rightarrow> bool" where
  "sends n (TRemoved a w r) = (w = Some n)"
| "sends n _ = False"

definition orphaned :: "chain_state \<Rightarrow> nat \<Rightarrow> AgentId \<Rightarrow> nat \<Rightarrow> bool" where
  "orphaned s i a n \<longleftrightarrow> cs_tasks s i = TWaiting a n \<and> n < cs_next s
     \<and> n \<notin> ran (cs_inflight s) \<and> (\<forall>j. \<not> sends n (cs_tasks s j))"

lemma sends_woken [simp]: "sends n (woken m t) = sends n t"
  by (cases t) auto

lemma orphaned_step: "chain_step C s s' \<Longrightarrow> orphaned s i a n \<Longrightarrow> orphaned s' i a n"
proof (induction rule: chain_step.induct)
  case (lead s j b)
  then show ?case by (auto simp: orphaned_def ran_def)
next
  case (remove s j b m r)
  then show ?case by (auto simp: orphaned_def ran_def)
next
  case (notify s j b w r)
  then have "w \<noteq> Some n" by (auto simp: orphaned_def dest: spec [of _ j])
  with notify show ?case by (auto simp: orphaned_def split: option.splits)
qed (auto simp: orphaned_def)

lemma orphaned_forever: "(chain_step C)\<^sup>*\<^sup>* s s' \<Longrightarrow> orphaned s i a n \<Longrightarrow> orphaned s' i a n"
  by (induction rule: rtranclp_induct) (auto intro: orphaned_step)

text \<open>
  Two calls for one handle: the second takes the notification of the first; before it begins to
  wait, the first finishes and notifies.
\<close>

lemma run_step: "chain_step C s s' \<Longrightarrow> (chain_step C)\<^sup>*\<^sup>* s' s'' \<Longrightarrow> (chain_step C)\<^sup>*\<^sup>* s s''"
  by (rule converse_rtranclp_into_rtranclp)

definition tasks2 :: "task \<Rightarrow> task \<Rightarrow> nat \<Rightarrow> task" where
  "tasks2 t u = (\<lambda>_. TIdle)(0 := t, 1 := u)"

definition two_calls :: "agent_cache \<Rightarrow> (AgentId \<rightharpoonup> nat) \<Rightarrow> nat \<Rightarrow> task \<Rightarrow> task \<Rightarrow> chain_state" where
  "two_calls c fl n t u = \<lparr>cs_cache = c, cs_inflight = fl, cs_next = n, cs_tasks = tasks2 t u\<rparr>"

lemma two_calls_simps [simp]:
  "cs_tasks (two_calls c fl n t u) 0 = t" "cs_tasks (two_calls c fl n t u) (Suc 0) = u"
  "cs_cache (two_calls c fl n t u) = c" "cs_inflight (two_calls c fl n t u) = fl" "cs_next (two_calls c fl n t u) = n"
  by (simp_all add: two_calls_def tasks2_def)

text \<open>A step of either task, its result written as the same kind of state.\<close>

lemma two_calls_step:
  assumes "chain_step C (two_calls c fl n t u) s" "s = two_calls c' fl' n' t' u'"
  shows "chain_step C (two_calls c fl n t u) (two_calls c' fl' n' t' u')"
  using assms by simp

lemmas two_calls_defs = two_calls_def tasks2_def set_task_def fun_upd_twist

text \<open>The first task fetches, with or without success.\<close>

lemma leader_fetches:
  "\<exists>c r. (chain_step C)\<^sup>*\<^sup>* (two_calls [] fl n (TLeader a 0) u) (two_calls c fl n (TFetched a 0 r) u)"
proof (cases "start_fetch C 0 a []")
  case (Inl e)
  have "chain_step C (two_calls [] fl n (TLeader a 0) u) (two_calls [] fl n (TFetched a 0 (Inl e)) u)"
    by (rule two_calls_step, rule ask_fails [of _ 0 a 0 C 0 e]) (auto simp: two_calls_defs Inl)
  then show ?thesis by blast
next
  case (Inr o1)
  obtain r c where f: "finish_fetch C 0 a o1 [] = (r, c)" by fastforce
  have "chain_step C (two_calls [] fl n (TLeader a 0) u) (two_calls [] fl n (TFetching a 0 o1) u)"
    by (rule two_calls_step, rule ask [of _ 0 a 0 C 0 o1]) (auto simp: two_calls_defs Inr)
  moreover have "chain_step C (two_calls [] fl n (TFetching a 0 o1) u) (two_calls c fl n (TFetched a 0 r) u)"
    by (rule two_calls_step, rule store [of _ 0 a 0 o1 C 0 r c]) (auto simp: two_calls_defs f)
  ultimately show ?thesis by (meson run_step r_into_rtranclp)
qed

lemma lost_wakeup:
  assumes h: "AgentId_new h = Inr a"
  shows "\<exists>s. (chain_step C)\<^sup>*\<^sup>* fresh_chain s \<and> orphaned s 1 a 0"
proof -
  let ?w = "[a \<mapsto> 0] :: AgentId \<rightharpoonup> nat" and ?no = "Map.empty :: AgentId \<rightharpoonup> nat"
  have miss: "cache_get_fresh C now a [] = None" for now by (simp add: cache_get_fresh_def)
  have start: "fresh_chain = two_calls [] ?no 0 TIdle TIdle" by (auto simp: fresh_chain_def two_calls_defs)
  have s1: "chain_step C (two_calls [] ?no 0 TIdle TIdle) (two_calls [] ?no 0 (TStart a) TIdle)"
    by (rule two_calls_step, rule call [of _ 0, OF _ h]) (auto simp: two_calls_defs miss)
  have s2: "chain_step C (two_calls [] ?no 0 (TStart a) TIdle) (two_calls [] ?no 0 (TStart a) (TStart a))"
    by (rule two_calls_step, rule call [of _ 1, OF _ h]) (auto simp: two_calls_defs miss)
  have s3: "chain_step C (two_calls [] ?no 0 (TStart a) (TStart a)) (two_calls [] ?no 0 (TClaim a) (TStart a))"
    by (rule two_calls_step, rule chain_step.miss [of _ 0 a C 0]) (auto simp: two_calls_defs miss)
  have s4: "chain_step C (two_calls [] ?no 0 (TClaim a) (TStart a)) (two_calls [] ?no 0 (TClaim a) (TClaim a))"
    by (rule two_calls_step, rule chain_step.miss [of _ 1 a C 0]) (auto simp: two_calls_defs miss)
  have s5: "chain_step C (two_calls [] ?no 0 (TClaim a) (TClaim a)) (two_calls [] ?w 1 (TLeader a 0) (TClaim a))"
    by (rule two_calls_step, rule lead [of _ 0 a]) (auto simp: two_calls_defs miss)
  have s6: "chain_step C (two_calls [] ?w 1 (TLeader a 0) (TClaim a)) (two_calls [] ?w 1 (TLeader a 0) (TWaiter a 0))"
    by (rule two_calls_step, rule join [of _ 1 a 0]) (auto simp: two_calls_defs miss)
  from leader_fetches [of C ?w 1 a "TWaiter a 0"] obtain c r where
    f: "(chain_step C)\<^sup>*\<^sup>* (two_calls [] ?w 1 (TLeader a 0) (TWaiter a 0)) (two_calls c ?w 1 (TFetched a 0 r) (TWaiter a 0))"
    by blast
  have s7: "chain_step C (two_calls c ?w 1 (TFetched a 0 r) (TWaiter a 0)) (two_calls c ?no 1 (TRemoved a (Some 0) r) (TWaiter a 0))"
    by (rule two_calls_step, rule remove [of _ 0 a 0 r]) (auto simp: two_calls_defs miss)
  have s8: "chain_step C (two_calls c ?no 1 (TRemoved a (Some 0) r) (TWaiter a 0)) (two_calls c ?no 1 (TDone (Some a) r) (TWaiter a 0))"
    by (rule two_calls_step, rule notify [of _ 0 a "Some 0" r]) (auto simp: two_calls_defs miss)
  have s9: "chain_step C (two_calls c ?no 1 (TDone (Some a) r) (TWaiter a 0)) (two_calls c ?no 1 (TDone (Some a) r) (TWaiting a 0))"
    by (rule two_calls_step, rule wait [of _ 1 a 0]) (auto simp: two_calls_defs miss)
  have "(chain_step C)\<^sup>*\<^sup>* fresh_chain (two_calls [] ?w 1 (TLeader a 0) (TWaiter a 0))"
    unfolding start by (rule run_step, fact)+ (rule rtranclp.rtrancl_refl)
  also note f
  also have "(chain_step C)\<^sup>*\<^sup>* (two_calls c ?w 1 (TFetched a 0 r) (TWaiter a 0))
      (two_calls c ?no 1 (TDone (Some a) r) (TWaiting a 0))"
    by (rule run_step, fact)+ (rule rtranclp.rtrancl_refl)
  finally have "(chain_step C)\<^sup>*\<^sup>* fresh_chain (two_calls c ?no 1 (TDone (Some a) r) (TWaiting a 0))" .
  moreover have "orphaned (two_calls c ?no 1 (TDone (Some a) r) (TWaiting a 0)) 1 a 0"
    by (auto simp: orphaned_def two_calls_defs)
  ultimately show ?thesis by blast
qed

end
