(* ===== verification/NetworkProperties.thy ===== *)
theory NetworkProperties
  imports DidWeb A2ABridge ResolverChain Demo
begin

text \<open>
  The properties of what talks to strangers: the fetcher, JWS, the A2A bridge, the identity
  providers and the resolver chain.  The first section is a concrete instance of the crates, on
  which the witnesses run.
\<close>

section \<open>A concrete instance\<close>

definition demo_did :: string where "demo_did = ''did:web:a.example''"

definition demo_header :: JwsHeader where
  "demo_header = \<lparr>jh_alg = EdDsa, jh_kid = demo_did, jh_typ = Some ''JOSE+JSON''\<rparr>"

definition demo_jose :: jose where
  "demo_jose = \<lparr>b64url_enc = hex_encode, b64url_dec = demo_hex_dec,
     json_parse = (\<lambda>b. if b = [1] then Inr (header_json demo_header) else Inl []),
     header_print = (\<lambda>h. if h = demo_header then Inr [1] else Inl []), header_fault = (\<lambda>_. []),
     ed25519_ok = (\<lambda>pk m sig. sig = demo_sign pk m), secp256k1_sig_ok = (\<lambda>_. False),
     secp256k1_ok = (\<lambda>_ _ _. False)\<rparr>"

definition demo_jws :: string where
  "demo_jws = hex_encode [1] @ ''.'' @ hex_encode [2] @ ''.''
     @ hex_encode (demo_sign alice_pk (as_bytes (hex_encode [1] @ ''.'' @ hex_encode [2])))"

definition demo_ring :: keyring where
  "demo_ring = \<lparr>bs58_enc = hex_encode, bs58_dec = demo_hex_dec, k256_point = (\<lambda>b. b),
     k256_sig_error = (\<lambda>_. None), k256_verify = (\<lambda>_ _ _. False)\<rparr>"

definition demo_card :: AgentCardPayload where
  "demo_card = \<lparr>ac_iss = demo_did, ac_sub = demo_did, ac_iat = 0, ac_exp = 0, ac_agent_id = demo_did,
     ac_public_key = \<lparr>key_type = ''Multikey'',
       public_key_multibase = CHR ''z'' # hex_encode (ED25519_MULTICODEC_PREFIX @ alice_pk)\<rparr>,
     ac_capabilities = empty_caps, ac_endpoints = \<lparr>control_plane_url = None, data_planes = []\<rparr>\<rparr>"

definition demo_ip :: IpAddr where
  "demo_ip = V4 \<lparr>octet0 = 93, octet1 = 184, octet2 = 216, octet3 = 34\<rparr>"

definition demo_web :: web where
  "demo_web = \<lparr>parse_url = (\<lambda>u. Inr \<lparr>url_text = u, url_scheme = ''https'', url_host = Some ''a.example'', url_port = None\<rparr>),
     lookup_ip = (\<lambda>_. Inr [demo_ip]), build_client = Inr (),
     http_get = (\<lambda>_ _ _. Inr \<lparr>hr_status = 200, hr_etag = None, hr_chunks = [Inr (as_bytes demo_jws)]\<rparr>)\<rparr>"

definition demo_did_web :: did_web_env where
  "demo_did_web = \<lparr>dw_plat = demo_platform, dw_ring = demo_ring, dw_jose = demo_jose, dw_web = demo_web,
     card_parse = (\<lambda>b. if b = [2] then Inr demo_card else Inl [])\<rparr>"

definition demo_lookup :: "string \<Rightarrow> JwsError + VerifierKey option" where
  "demo_lookup kid = Inr (if kid = demo_did then Some (Ed25519Key alice_pk) else None)"

lemma demo_hex_inverse [simp]: "demo_hex_dec (hex_encode b) = Inr b"
  using demo_hex by (simp add: demo_platform_def)

lemma hex_encode_alnum: "list_all is_ascii_alphanumeric (hex_encode b)"
proof -
  have "is_ascii_alphanumeric c" if "is_lower_hexdigit c" for c
    using that
    by (auto simp: is_lower_hexdigit_def is_ascii_alphanumeric_def is_ascii_digit_def is_ascii_lowercase_def code_def)
  with hex_encode_lower [of b] show ?thesis by (auto simp: list_all_iff)
qed

lemma hex_encode_free: "\<not> is_ascii_alphanumeric c \<Longrightarrow> c \<notin> set (hex_encode b)"
  using hex_encode_alnum [of b] by (auto simp: list_all_iff)

lemma hex_encode_dot [simp]: "CHR ''.'' \<notin> set (hex_encode b)"
  by (rule hex_encode_free) code_simp

lemma demo_jose_laws: "jose_laws demo_jose"
  by (simp add: jose_laws_def demo_jose_def)

lemma demo_bs58_laws: "bs58_laws demo_ring"
  by (simp add: bs58_laws_def demo_ring_def hex_encode_alnum)

lemma demo_sign_length [simp]: "length (demo_sign alice_pk m) = 64"
  by (simp add: demo_sign_def demo_sha256_def)

lemma demo_jws_authentic: "jws_authentic demo_jose demo_jws demo_lookup demo_header [2]"
  unfolding jws_authentic_code
  by (intro exI [of _ "hex_encode [1]"] exI [of _ "hex_encode [2]"]
      exI [of _ "hex_encode (demo_sign alice_pk (as_bytes (hex_encode [1] @ ''.'' @ hex_encode [2])))"])
    (simp add: demo_jws_def demo_jose_def demo_lookup_def header_of_json demo_header_def demo_did_def
      length_hex_encode SEGMENT_MAX_BYTES_def)

lemma demo_public: "\<not> is_forbidden_ip demo_ip"
  by (simp add: demo_ip_def) code_simp

lemma demo_fetch: "safe_get demo_web u cs
    = (Inr \<lparr>sh_status = 200, sh_body = as_bytes demo_jws, sh_etag = None\<rparr>, cs @ [(demo_ip, 443)])"
  by (simp add: safe_get_def demo_web_def resolve_host_def send_get_def read_response_def is_redirection_def
      success_status_def demo_public bindS_def ensure_def SAFE_HTTP_MAX_BODY_def demo_jws_def)

section \<open>The fetcher\<close>

text \<open>
  C29: A fetch connects at most once, and never to an internal address: only after an https URL
  resolved to addresses none of which is forbidden, and then to one of the addresses that were
  checked, whatever the name resolves to later.  On every error before that it connects to nothing,
  and an accepted body has at most 64 KiB and comes with a 2xx status: redirects are not followed.
\<close>

theorem fetch_permitted:
  assumes "safe_get W u cs = (r, cs')"
  shows "(\<exists>e. r = Inl e) \<and> cs' = cs
    \<or> (\<exists>parsed host found ip. parse_url W u = Inr parsed \<and> url_scheme parsed = ''https'' \<and> url_host parsed = Some host
        \<and> lookup_ip W host = Inr found \<and> list_all (\<lambda>ip. \<not> is_forbidden_ip ip) found \<and> ip \<in> set found
        \<and> cs' = cs @ [(ip, default_port parsed)]
        \<and> (\<forall>resp. r = Inr resp \<longrightarrow> success_status (sh_status resp) \<and> length (sh_body resp) \<le> SAFE_HTTP_MAX_BODY))"
proof (cases r)
  case (Inl e)
  with safe_get_connects [OF assms] show ?thesis by (auto simp: connects_def)
next
  case (Inr resp)
  with safe_get_Inr [of W u cs resp cs'] assms show ?thesis by (fastforce simp: connects_def)
qed

theorem fetch_permitted_witness:
  "\<exists>resp. safe_get demo_web ''https://a.example'' [] = (Inr resp, [(demo_ip, 443)])
     \<and> success_status (sh_status resp) \<and> \<not> is_forbidden_ip demo_ip"
  using fetch_permitted [OF demo_fetch [of "''https://a.example''" "[]"]] demo_fetch [of "''https://a.example''" "[]"]
  by (auto simp: demo_public)

text \<open>
  C30: An address is refused exactly when it lies in one of the reserved blocks: loopback, private,
  link-local, multicast, reserved and the unspecified address of IPv4; loopback, multicast,
  link-local and unique-local of IPv6; and an IPv6 address that embeds an IPv4 address (mapped or
  compatible) exactly when that address lies in a block of IPv4.
\<close>

theorem forbidden_by_blocks:
  "is_forbidden_ip ip = (case ip of
     V4 a \<Rightarrow> list_ex (in_net 32 (ipv4_num a)) forbidden_v4_nets
   | V6 a \<Rightarrow> list_ex (in_net 128 (ipv6_num a)) forbidden_v6_nets
       \<or> list_ex (in_net 128 (ipv6_num a)) embedded_v4_nets
         \<and> list_ex (in_net 32 (ipv6_num a mod 2 ^ 32)) forbidden_v4_nets)"
  by (cases ip) (simp_all add: is_forbidden_ipv4_nets is_forbidden_ipv6_nets del: list_ex_iff)

section \<open>JWS\<close>

text \<open>
  C31: Verification of a compact JWS accepts exactly the authentic ones: three segments of at most 64 KiB,
  a header object that names EdDSA or ES256K and a key identifier for which the lookup returns a key of
  that very scheme, and a signature of that scheme (64 bytes under Ed25519, a well-formed one under
  secp256k1) that is valid under this key for the first two segments as they stand; it returns the
  header and payload of these segments.  In particular the key, and not the message, decides the
  algorithm.
\<close>

theorem jws_verified_exact:
  "jws_verify J jws key_lookup = Inr vp \<longleftrightarrow> jws_authentic J jws key_lookup (vp_header vp) (vp_payload vp)"
  by (rule jws_verify_Inr_iff)

text \<open>
  What is signed verifies: the JWS made with an Ed25519 key verifies under a lookup that returns
  that key for the key identifier, and gives back the payload, provided its segments stay within the
  cap, which signing does not check.  Relies on Ed25519, base64url and JSON.
\<close>

theorem jws_roundtrip:
  assumes "jose_laws J" "sign_ed25519 J pl sk kid = Inr jws" "key_lookup kid = Inr (Some (Ed25519Key vk))"
    and "\<forall>m. length (sk m) = 64 \<and> ed25519_ok J vk m (sk m)"
    and "list_all (\<lambda>seg. length seg \<le> SEGMENT_MAX_BYTES) (split_char (CHR ''.'') jws)"
  shows "jws_verify J jws key_lookup =
    Inr \<lparr>vp_header = \<lparr>jh_alg = EdDsa, jh_kid = kid, jh_typ = Some ''JOSE+JSON''\<rparr>, vp_payload = pl\<rparr>"
  using assms by (intro sign_verify [OF assms(1) assms(2) [unfolded sign_ed25519_def]]) auto

lemma demo_jws_signs: "sign_ed25519 demo_jose [2] (demo_sign alice_pk) demo_did = Inr demo_jws"
  by (simp add: sign_ed25519_def sign_inner_def demo_jose_def demo_header_def demo_jws_def ensure_def demo_did_def Let_def)

lemma demo_segments: "list_all (\<lambda>seg. length seg \<le> SEGMENT_MAX_BYTES) (split_char (CHR ''.'') demo_jws)"
  by (simp add: demo_jws_def split_char_append split_char_free SEGMENT_MAX_BYTES_def)

theorem jws_roundtrip_witness:
  "jws_verify demo_jose demo_jws demo_lookup = Inr \<lparr>vp_header = demo_header, vp_payload = [2]\<rparr>"
proof -
  have "demo_lookup demo_did = Inr (Some (Ed25519Key alice_pk))" by (simp add: demo_lookup_def)
  moreover have "\<forall>m. length (demo_sign alice_pk m) = 64 \<and> ed25519_ok demo_jose alice_pk m (demo_sign alice_pk m)"
    by (simp add: demo_jose_def)
  ultimately show ?thesis
    using jws_roundtrip [OF demo_jose_laws demo_jws_signs _ _ demo_segments] by (simp add: demo_header_def)
qed

section \<open>The A2A bridge\<close>

text \<open>
  C32: The bridge accepts exactly the tasks with one to three hops, no sender twice, valid agent
  identifiers throughout, a base64 attachment on the last hop if any, and on every hop a JWS that
  verifies under the key of the hop's sender; the intent names the first sender, the last recipient
  and the hops in order.  Only senders are compared: an accepted task is accepted as well with its last
  hop sent back to any agent of the chain, to the sender of that hop too.
\<close>

theorem bridge_accepts_exactly:
  "(a2a_task_to_aex_intent J dec key_lookup task = Inr intent \<longleftrightarrow>
     1 \<le> length (hops task) \<and> length (hops task) \<le> 3 \<and> distinct (map hop_from (hops task))
     \<and> list_all (hop_signed J key_lookup) (hops task)
     \<and> list_all (\<lambda>h. valid_agent_id (hop_from h) \<and> valid_agent_id (hop_to h)) (hops task)
     \<and> (case hop_attachment_b64 (last (hops task)) of
          None \<Rightarrow> attachment intent = None
        | Some text \<Rightarrow> (\<exists>b. dec text = Inr b \<and> attachment intent = Some b))
     \<and> original_sender intent = AgentId (hop_from (hd (hops task)))
     \<and> final_recipient intent = AgentId (hop_to (last (hops task)))
     \<and> chain intent = map (\<lambda>h. (AgentId (hop_from h), AgentId (hop_to h))) (hops task))
   \<and> (a2a_task_to_aex_intent J dec key_lookup task = Inr intent \<and> agent \<in> hop_from ` set (hops task) \<longrightarrow>
     (\<exists>returned. a2a_task_to_aex_intent J dec key_lookup
         (task\<lparr>hops := butlast (hops task) @ [(last (hops task))\<lparr>hop_to := agent\<rparr>]\<rparr>) = Inr returned
       \<and> final_recipient returned = AgentId agent))"
  using bridge_accepts_return [of J dec key_lookup task intent agent]
  unfolding bridge_Inr_iff [of _ _ _ task] a2a_task_ok_def MAX_DELEGATION_DEPTH_def decode_attachment_Inr
  by (cases "hops task") auto

definition demo_hop :: A2AHop where
  "demo_hop = \<lparr>hop_from = demo_did, hop_to = bob, hop_jws = demo_jws, hop_attachment_b64 = None\<rparr>"

definition demo_task :: A2ATask where
  "demo_task = \<lparr>task_id = ''t'', task_type = None, hops = [demo_hop]\<rparr>"

lemma demo_did_valid: "valid_agent_id demo_did"
  unfolding demo_did_def by code_simp

lemma demo_hop_signed: "hop_signed demo_jose demo_lookup demo_hop"
  unfolding hop_signed_def using demo_jws_authentic
  by (auto simp: demo_hop_def demo_header_def demo_jws_def intro!: exI [of _ demo_header])

lemma demo_bridge: "a2a_task_to_aex_intent demo_jose Inl demo_lookup demo_task
    = Inr \<lparr>original_sender = AgentId demo_did, final_recipient = AgentId bob,
        chain = [(AgentId demo_did, AgentId bob)], attachment = None\<rparr>"
  unfolding bridge_Inr_iff a2a_task_ok_def
  using demo_hop_signed demo_did_valid
  by (simp add: demo_task_def MAX_DELEGATION_DEPTH_def) (simp add: demo_hop_def decode_attachment_def)

theorem bridge_accepts_exactly_witness:
  "(\<exists>intent. a2a_task_to_aex_intent demo_jose Inl demo_lookup demo_task = Inr intent
      \<and> original_sender intent = AgentId demo_did \<and> final_recipient intent = AgentId bob)
   \<and> (\<exists>returned. a2a_task_to_aex_intent demo_jose Inl demo_lookup (demo_task\<lparr>hops := [demo_hop\<lparr>hop_to := demo_did\<rparr>]\<rparr>) = Inr returned
      \<and> final_recipient returned = AgentId demo_did)"
proof -
  have "hops demo_task = [demo_hop]" "hop_from demo_hop = demo_did" by (simp_all add: demo_task_def demo_hop_def)
  then have "\<exists>returned. a2a_task_to_aex_intent demo_jose Inl demo_lookup (demo_task\<lparr>hops := [demo_hop\<lparr>hop_to := demo_did\<rparr>]\<rparr>) = Inr returned
      \<and> final_recipient returned = AgentId demo_did"
    using bridge_accepts_exactly [THEN conjunct2, THEN mp, OF conjI, OF demo_bridge, of demo_did] by simp
  moreover have "\<exists>intent. a2a_task_to_aex_intent demo_jose Inl demo_lookup demo_task = Inr intent
      \<and> original_sender intent = AgentId demo_did \<and> final_recipient intent = AgentId bob"
    using demo_bridge by simp
  ultimately show ?thesis by blast
qed

text \<open>
  The signatures of an accepted task cover neither the recipient nor the attachment of a hop: with
  the last hop redirected to any valid agent, and its attachment replaced by any other, the task is
  accepted again, with the same signatures and the new recipient and attachment.
\<close>

theorem bridge_ignores_recipient:
  assumes "a2a_task_to_aex_intent J dec key_lookup task = Inr intent"
    and "hops task = front @ [h]" "valid_agent_id to'" "decode_attachment dec att' = Inr b"
  shows "a2a_task_to_aex_intent J dec key_lookup
      (task\<lparr>hops := front @ [h\<lparr>hop_to := to', hop_attachment_b64 := att'\<rparr>]\<rparr>)
    = Inr (intent\<lparr>final_recipient := AgentId to', attachment := b,
        chain := butlast (chain intent) @ [(AgentId (hop_from h), AgentId to')]\<rparr>)"
  by (rule signatures_ignore_recipient [OF assms])

theorem bridge_ignores_recipient_witness:
  "final_recipient \<lparr>original_sender = AgentId demo_did, final_recipient = AgentId bob,
      chain = [(AgentId demo_did, AgentId bob)], attachment = None\<rparr> = AgentId bob
   \<and> (\<exists>intent. a2a_task_to_aex_intent demo_jose Inl demo_lookup (demo_task\<lparr>hops := [demo_hop\<lparr>hop_to := alice\<rparr>]\<rparr>) = Inr intent
      \<and> final_recipient intent = AgentId alice)"
proof -
  have "hops demo_task = [] @ [demo_hop]" "decode_attachment Inl None = Inr None"
    by (simp_all add: demo_task_def decode_attachment_def)
  from bridge_ignores_recipient [OF demo_bridge this(1) _ this(2), of alice]
  show ?thesis by (simp add: demo_hop_def)
qed

section \<open>Identity providers\<close>

text \<open>
  A \<open>did:key\<close> identifier is its own certificate: the provider accepts a signature for the
  identifier derived from a key exactly when it is a valid Ed25519 signature under that key, whatever
  it verified before.  Relies on base58, and on no key having been registered by hand.
\<close>

theorem did_key_self_certifying:
  assumes "bs58_laws K" "length vk = 32" "ed25519_key_ok P vk" "cache_decoded P K s"
  shows "fst (did_key_verify_peer P K (AgentId (encode_did_key K vk)) m sg s) = Inr () \<longleftrightarrow> ed25519_valid P vk m sg"
  using did_key_accepts_iff [OF assms(4)] did_key_roundtrip [OF assms(1-3)] by auto

definition demo_sg :: "bytes \<Rightarrow> Signature" where
  "demo_sg m = \<lparr>algorithm = Ed25519, sig_bytes = demo_sign alice_pk m\<rparr>"

lemma demo_sg_valid: "ed25519_valid demo_platform alice_pk m (demo_sg m)"
  by (simp add: ed25519_valid_def demo_sg_def demo_platform_def)

theorem did_key_self_certifying_witness:
  "fst (did_key_verify_peer demo_platform demo_ring (AgentId (encode_did_key demo_ring alice_pk)) [7] (demo_sg [7]) Map.empty) = Inr ()"
proof -
  have "ed25519_key_ok demo_platform alice_pk" by (simp add: ed25519_key_ok_def demo_platform_def)
  from did_key_self_certifying [OF demo_bs58_laws _ this] demo_sg_valid show ?thesis by simp
qed

text \<open>All that a run accepts for a peer is valid under one key.\<close>

definition one_key_for ::
  "(bytes \<Rightarrow> bytes \<Rightarrow> Signature \<Rightarrow> bool) \<Rightarrow> (AgentId \<times> bytes \<times> Signature) list \<Rightarrow> (core_error + unit) list \<Rightarrow> AgentId \<Rightarrow> bool" where
  "one_key_for valid_sig qs rs p \<longleftrightarrow> (\<exists>k. \<forall>i < length qs. fst (qs ! i) = p \<and> rs ! i = Inr () \<longrightarrow>
     valid_sig k (fst (snd (qs ! i))) (snd (snd (qs ! i))))"

text \<open>
  A provider never changes its mind about a peer: over any sequence of verifications, one after
  the other and from any state, all signatures that the provider accepts for a peer are valid under
  one and the same key, for each of the four providers, also where the network serves a different key
  later.
\<close>

theorem provider_one_key:
  "one_key_for (ed25519_valid P) qs (outcomes (native_verify_peer P) qs reg) p
   \<and> one_key_for (ed25519_valid P) qs (outcomes (did_key_verify_peer P K) qs ps) p
   \<and> one_key_for (ed25519_valid (dw_plat E)) qs (outcomes (did_web_verify_peer E) qs ws) p
   \<and> one_key_for (ecdsa_valid K) qs (outcomes (ec_verify_peer K) qs es) p"
  unfolding one_key_for_def by (intro conjI native.one_key didkey.one_key didweb.one_key etere.one_key)

text \<open>
  C33: The first signature that \<open>did:web\<close> accepts for a peer rests on a card that was fetched from the
  well-known address of the peer's authority, over a permitted connection, and that is a JWS valid
  under the very key it declares; that key is the one remembered for the peer.
\<close>

theorem did_web_first_use:
  assumes "did_web_verify_peer E p m sg s = (Inr (), s')" "dw_peers s p = None"
  shows "\<exists>url ip port resp jws k c. well_known_url p = Inr url \<and> connects (dw_web E) url ip port
    \<and> dw_conns s' = dw_conns s @ [(ip, port)] \<and> safe_get (dw_web E) url (dw_conns s) = (Inr resp, dw_conns s')
    \<and> from_utf8 (sh_body resp) = Inr jws \<and> card_authentic E jws k c
    \<and> ed25519_valid (dw_plat E) k m sg \<and> dw_peers s' = (dw_peers s)(p \<mapsto> k)"
proof -
  from assms obtain k c cs where k: "ed25519_valid (dw_plat E) k m sg"
    and f: "fetch_and_verify_card E p (dw_conns s) = (Inr (k, c), cs)"
    and s': "s' = s\<lparr>dw_conns := cs, dw_peers := (dw_peers s)(p \<mapsto> k)\<rparr>"
    by (auto simp: did_web_verify_iff)
  from fetch_Inr [OF f] obtain url resp jws where g: "well_known_url p = Inr url"
    "safe_get (dw_web E) url (dw_conns s) = (Inr resp, cs)" "from_utf8 (sh_body resp) = Inr jws"
    "card_authentic E jws k c" by blast
  from safe_get_Inr [OF g(2)] obtain ip port where "connects (dw_web E) url ip port" "cs = dw_conns s @ [(ip, port)]"
    by blast
  with g k s' show ?thesis
    by (intro exI [of _ url] exI [of _ ip] exI [of _ port] exI [of _ resp] exI [of _ jws] exI [of _ k] exI [of _ c]) simp
qed

lemma demo_jws_printable: "list_all (\<lambda>c. 33 \<le> code c \<and> code c \<le> 126) demo_jws"
  using hex_encode_lower lower_hexdigit_range
  by (auto simp: demo_jws_def list_all_iff code_def)

lemma demo_jws_utf8: "from_utf8 (as_bytes demo_jws) = Inr demo_jws"
  using demo_jws_printable by (intro from_utf8_ascii) (auto simp: list_all_iff)

lemma demo_card_authentic: "card_authentic demo_did_web demo_jws alice_pk demo_card"
proof -
  have "jws_authentic demo_jose demo_jws (\<lambda>_. Inr (Some (Ed25519Key alice_pk))) demo_header [2]"
    using demo_jws_authentic [unfolded jws_authentic_key [of _ _ demo_lookup]]
    by (auto simp: demo_lookup_def demo_header_def)
  then show ?thesis
    unfolding card_authentic_def trim_printable [OF demo_jws_printable]
    by (intro exI [of _ demo_header] exI [of _ "[2]"])
      (simp add: demo_did_web_def demo_header_def demo_card_def decode_did_key_multibase_def demo_ring_def
        ED25519_MULTICODEC_PREFIX_def ensure_def demo_platform_def)
qed

lemma demo_well_known:
  "well_known_url (AgentId demo_did) = Inr ''https://a.example/.well-known/agent-card.json''"
  "well_known_url (AgentId ''did:web:a.example:users:mallory'') = Inr ''https://a.example/.well-known/agent-card.json''"
  unfolding demo_did_def by code_simp+

lemma demo_fetch_card:
  "well_known_url p = Inr u \<Longrightarrow> fetch_and_verify_card demo_did_web p cs = (Inr (alice_pk, demo_card), cs @ [(demo_ip, 443)])"
  using verify_card_Inr [of demo_did_web "as_bytes demo_jws" alice_pk demo_card] demo_card_authentic demo_jws_utf8
  by (simp add: fetch_and_verify_card_def demo_did_web_def demo_fetch bindS_def mapErrS_apply)

definition demo_ws :: did_web_state where
  "demo_ws = \<lparr>dw_peers = Map.empty, dw_conns = []\<rparr>"

lemma demo_did_web_verifies:
  "did_web_verify_peer demo_did_web (AgentId demo_did) [7] (demo_sg [7]) demo_ws
    = (Inr (), demo_ws\<lparr>dw_conns := [(demo_ip, 443)], dw_peers := [AgentId demo_did \<mapsto> alice_pk]\<rparr>)"
  unfolding did_web_verify_iff
  using demo_sg_valid [of "[7]"] demo_fetch_card [OF demo_well_known(1), of "[]"]
  by (auto simp: demo_ws_def demo_did_web_def intro!: exI [of _ alice_pk])

theorem did_web_first_use_witness:
  "\<exists>url s'. did_web_verify_peer demo_did_web (AgentId demo_did) [7] (demo_sg [7]) demo_ws = (Inr (), s')
     \<and> well_known_url (AgentId demo_did) = Inr url \<and> length (dw_conns s') = 1"
proof -
  have "dw_peers demo_ws (AgentId demo_did) = None" by (simp add: demo_ws_def)
  from did_web_first_use [OF demo_did_web_verifies this] show ?thesis
    using demo_did_web_verifies by (auto simp: demo_ws_def)
qed

text \<open>
  A card is bound to the authority of an identifier and to nothing else of it: for two
  identifiers with the same well-known address the fetch accepts the same card with the same key,
  although the card names one agent.  (The witness accepts, for one user of a host, the card of
  another, and the card's expiry lies in the past.)
\<close>

theorem did_web_card_unbound:
  assumes "well_known_url p = well_known_url q"
  shows "fetch_and_verify_card E p cs = (Inr (vk, c), cs') \<longleftrightarrow> fetch_and_verify_card E q cs = (Inr (vk, c), cs')"
  by (rule fetch_same_authority [OF assms])

theorem did_web_card_unbound_witness:
  "\<exists>c cs. fetch_and_verify_card demo_did_web (AgentId ''did:web:a.example:users:mallory'') [] = (Inr (alice_pk, c), cs)
     \<and> ac_agent_id c = demo_did \<and> ac_exp c = 0"
proof -
  have "well_known_url (AgentId ''did:web:a.example:users:mallory'') = well_known_url (AgentId demo_did)"
    by (simp add: demo_well_known)
  from did_web_card_unbound [OF this, of demo_did_web "[]" alice_pk demo_card "[(demo_ip, 443)]"]
    demo_fetch_card [OF demo_well_known(1), of "[]"]
  have "fetch_and_verify_card demo_did_web (AgentId ''did:web:a.example:users:mallory'') [] = (Inr (alice_pk, demo_card), [(demo_ip, 443)])"
    by simp
  then show ?thesis by (auto simp: demo_card_def)
qed

section \<open>The resolver chain\<close>

text \<open>
  C34: In every interleaving of concurrent calls, evictions included: at most one task fetches a
  handle at a time; every record that a call returns was provided for that handle by the resolver of
  its scheme; and the cache has one entry per handle and at most as many entries as its capacity.
  Relies on the iteration of a hash map to visit every entry once.
\<close>

theorem resolver_chain_safe:
  assumes "(chain_step C)\<^sup>*\<^sup>* fresh_chain s" "iter_law C"
  shows "(\<forall>i j a n m. holder (cs_tasks s i) = Some (a, n) \<and> holder (cs_tasks s j) = Some (a, m) \<longrightarrow> i = j)
    \<and> (\<forall>i a r. cs_tasks s i = TDone (Some a) (Inr r) \<longrightarrow> provides C a r)
    \<and> distinct (map fst (cs_cache s)) \<and> length (cs_cache s) \<le> rc_capacity C"
proof -
  have inv: "flight_inv s" "source_inv C s" "cache_wf C (cs_cache s)"
    using chain_inv_reachable [OF assms] by (simp_all add: chain_inv_def)
  have "provides C a r" if "cs_tasks s i = TDone (Some a) (Inr r)" for i a r
    using inv(2) that by (metis source_inv_def task_ok.simps(4))
  with inv(1,3) single_flight [of s] show ?thesis unfolding cache_wf_def by blast
qed

definition demo_chain :: ResolverChain where
  "demo_chain = with_capacity (\<lambda>c. c) [] 1 3600"

theorem resolver_chain_safe_witness:
  "\<exists>s. (chain_step demo_chain)\<^sup>*\<^sup>* fresh_chain s \<and> cs_tasks s 0 = TStart (AgentId demo_did)
     \<and> length (cs_cache s) \<le> rc_capacity demo_chain"
proof -
  let ?s = "set_task 0 (TStart (AgentId demo_did)) fresh_chain"
  have "AgentId_new demo_did = Inr (AgentId demo_did)" using demo_did_valid by (simp add: AgentId_new_Inr_iff)
  then have "(chain_step demo_chain)\<^sup>*\<^sup>* fresh_chain ?s"
    by (intro r_into_rtranclp call) (simp_all add: fresh_chain_def)
  moreover have "iter_law demo_chain" by (simp add: iter_law_def demo_chain_def with_capacity_def)
  ultimately show ?thesis using resolver_chain_safe [of demo_chain ?s] by (intro exI [of _ ?s]) simp
qed

text \<open>
  C35: A call can wait for ever: for every chain and every valid handle there is an interleaving of two
  calls after which the second waits for a notification, and in no continuation does it leave this
  state: the first call sent the notification after the second had taken it and before it waited.
\<close>

theorem resolver_lost_wakeup:
  assumes "AgentId_new h = Inr a"
  shows "\<exists>s. (chain_step C)\<^sup>*\<^sup>* fresh_chain s \<and> (\<forall>s'. (chain_step C)\<^sup>*\<^sup>* s s' \<longrightarrow> cs_tasks s' 1 = TWaiting a 0)"
proof -
  from lost_wakeup [OF assms] obtain s where "(chain_step C)\<^sup>*\<^sup>* fresh_chain s" "orphaned s 1 a 0" by blast
  moreover from this(2) have "cs_tasks s' 1 = TWaiting a 0" if "(chain_step C)\<^sup>*\<^sup>* s s'" for s'
    using orphaned_forever [OF that] by (simp add: orphaned_def)
  ultimately show ?thesis by blast
qed

theorem resolver_lost_wakeup_witness:
  "\<exists>s. (chain_step demo_chain)\<^sup>*\<^sup>* fresh_chain s \<and> cs_tasks s 1 = TWaiting (AgentId demo_did) 0"
proof -
  have "AgentId_new demo_did = Inr (AgentId demo_did)" using demo_did_valid by (simp add: AgentId_new_Inr_iff)
  from resolver_lost_wakeup [OF this, of demo_chain] show ?thesis by blast
qed

end
