(* ===== verification/ApiKeys.thy ===== *)
theory ApiKeys
  imports ControlPlane TextOps
begin

text \<open>
  The API keys of customers (\<open>aex-control-plane/src/db/api_keys.rs\<close>) and the administration
  routes that mint, list and revoke them behind a shared bearer token (\<open>routes/admin.rs\<close>).  The
  table \<open>api_keys\<close> is the list of its rows; no statement on it touches another table.  The
  lemmas say what each statement does to a row, that the schema invariant is kept, and what the lookup by
  hash answers about an issued key after any run of statements.
\<close>

section \<open>The table\<close>

record ApiKeyRow =
  kr_id :: string
  kr_key_hash :: string
  kr_key_prefix :: string
  kr_customer_id :: string
  kr_name :: string
  kr_tier :: string
  kr_created_at :: instant
  kr_last_used_at :: "instant option"
  kr_revoked_at :: "instant option"
  kr_usage_count :: i64

record CreatedApiKey =
  ck_row :: ApiKeyRow
  ck_plaintext :: string

type_synonym key_table = "ApiKeyRow list"
type_synonym 'a key_query = "(key_table, sqlx_error, 'a) action"

definition generate_plaintext :: "platform \<Rightarrow> bytes \<Rightarrow> string" where
  "generate_plaintext P buf = ''aex_live_'' @ hex_enc P buf"

definition hash_plaintext :: "platform \<Rightarrow> string \<Rightarrow> string" where
  "hash_plaintext P plaintext = hex_enc P (sha256 P (as_bytes plaintext))"

definition prefix_of :: "string \<Rightarrow> string" where
  "prefix_of plaintext = concat (take 12 (utf8_chars plaintext))"

definition insert_row :: "db_env \<Rightarrow> string \<Rightarrow> string \<Rightarrow> string \<Rightarrow> string \<Rightarrow> string \<Rightarrow> ApiKeyRow key_query" where
  "insert_row d hash key_prefix customer_id name tier = (\<lambda>t.
     let row = \<lparr>kr_id = db_uuid d, kr_key_hash = hash, kr_key_prefix = key_prefix, kr_customer_id = customer_id,
                kr_name = name, kr_tier = tier, kr_created_at = db_now d, kr_last_used_at = None,
                kr_revoked_at = None, kr_usage_count = 0\<rparr>
     in if list_ex (\<lambda>r. kr_id r = db_uuid d) t then (Inl (unique_violation ''api_keys_pkey''), t)
        else if list_ex (\<lambda>r. kr_key_hash r = hash) t then (Inl (unique_violation ''api_keys_key_hash_key''), t)
        else (Inr row, t @ [row]))"

definition create_returning_plaintext ::
  "platform \<Rightarrow> db_env \<Rightarrow> bytes \<Rightarrow> string \<Rightarrow> string \<Rightarrow> string \<Rightarrow> CreatedApiKey key_query" where
  "create_returning_plaintext P d buf customer_id name tier =
     (let plaintext = generate_plaintext P buf; hash = hash_plaintext P plaintext; key_prefix = prefix_of plaintext in
      bindS (insert_row d hash key_prefix customer_id name tier) (\<lambda>row.
      returnS \<lparr>ck_row = row, ck_plaintext = plaintext\<rparr>))"

definition list_all_keys :: "nat \<Rightarrow> ApiKeyRow list key_query" where
  "list_all_keys limit = getS (\<lambda>t. take limit (sort_key (\<lambda>r. - kr_created_at r) t))"

definition find_active_by_hash :: "string \<Rightarrow> ApiKeyRow option key_query" where
  "find_active_by_hash hash = getS (List.find (\<lambda>r. kr_key_hash r = hash \<and> kr_revoked_at r = None))"

text \<open>The counter is a \<open>BIGINT\<close>; the database refuses to pass its maximum.\<close>

definition bigint_out_of_range :: sqlx_error where
  "bigint_out_of_range = DatabaseError ''22003'' None"

definition bump_usage :: "db_env \<Rightarrow> string \<Rightarrow> unit key_query" where
  "bump_usage d i = (\<lambda>t.
     if list_ex (\<lambda>r. kr_id r = i \<and> sint (kr_usage_count r) = 2 ^ 63 - 1) t then (Inl bigint_out_of_range, t)
     else (Inr (), map (\<lambda>r. if kr_id r = i
             then r\<lparr>kr_usage_count := kr_usage_count r + 1, kr_last_used_at := Some (db_now d)\<rparr> else r) t))"

definition revoke_all_by_customer_in_tx :: "db_env \<Rightarrow> string \<Rightarrow> nat key_query" where
  "revoke_all_by_customer_in_tx d customer_id = (\<lambda>t.
     (Inr (length (filter (\<lambda>r. kr_customer_id r = customer_id \<and> kr_revoked_at r = None) t)),
      map (\<lambda>r. if kr_customer_id r = customer_id \<and> kr_revoked_at r = None
           then r\<lparr>kr_revoked_at := Some (db_now d)\<rparr> else r) t))"

definition coalesce :: "'a option \<Rightarrow> 'a \<Rightarrow> 'a option" where
  "coalesce x y = (case x of Some v \<Rightarrow> Some v | None \<Rightarrow> Some y)"

definition revoke :: "db_env \<Rightarrow> string \<Rightarrow> ApiKeyRow option key_query" where
  "revoke d i = (\<lambda>t.
     let t' = map (\<lambda>r. if kr_id r = i then r\<lparr>kr_revoked_at := coalesce (kr_revoked_at r) (db_now d)\<rparr> else r) t
     in (Inr (List.find (\<lambda>r. kr_id r = i) t'), t'))"

section \<open>The administration routes\<close>

definition MIN_BEARER_LEN :: nat where
  "MIN_BEARER_LEN = 32"

text \<open>What a response shows of a row: everything but the hash.\<close>

record ApiKeyView =
  kv_id :: string
  kv_key_prefix :: string
  kv_customer_id :: string
  kv_name :: string
  kv_tier :: string
  kv_created_at :: instant
  kv_last_used_at :: "instant option"
  kv_revoked_at :: "instant option"
  kv_usage_count :: i64

definition api_key_view :: "ApiKeyRow \<Rightarrow> ApiKeyView" where
  "api_key_view r = \<lparr>kv_id = kr_id r, kv_key_prefix = kr_key_prefix r, kv_customer_id = kr_customer_id r,
     kv_name = kr_name r, kv_tier = kr_tier r, kv_created_at = kr_created_at r,
     kv_last_used_at = kr_last_used_at r, kv_revoked_at = kr_revoked_at r, kv_usage_count = kr_usage_count r\<rparr>"

datatype admin_response =
    AdminError nat string string
  | WhoAmI bool string string
  | KeyCreated nat ApiKeyView string
  | KeyList nat "ApiKeyView list"
  | KeyShown ApiKeyView
  | AdminApiError ApiError

text \<open>The version that the build puts in (\<open>Cargo.toml\<close>).\<close>

definition CARGO_PKG_VERSION :: string where
  "CARGO_PKG_VERSION = ''1.3.0-beta.4''"

text \<open>A header value as text: visible ASCII, spaces and tabs.\<close>

definition header_to_str :: "string \<Rightarrow> string option" where
  "header_to_str v = (if list_all (\<lambda>c. 32 \<le> code c \<and> code c < 127 \<or> code c = 9) v then Some v else None)"

definition EM_DASH :: string where
  "EM_DASH = [CHR 0xE2, CHR 0x80, CHR 0x94]"

definition require_admin_token :: "string option \<Rightarrow> string option \<Rightarrow> admin_response + unit" where
  "require_admin_token admin_token authorization =
     bindE (ok_or (AdminError 503 ''admin_disabled''
       (''admin endpoints disabled on this server '' @ EM_DASH @ '' set AEX_ADMIN_TOKEN and restart'')) admin_token) (\<lambda>expected.
     let header = Option.bind authorization header_to_str in
     bindE (case Option.bind header (strip_prefix ''Bearer '') of
         Some t \<Rightarrow> (if length t \<ge> MIN_BEARER_LEN then Inr t
           else Inl (AdminError 401 ''unauthorized'' ''missing or malformed bearer token''))
       | None \<Rightarrow> Inl (AdminError 401 ''unauthorized'' ''missing or malformed bearer token'')) (\<lambda>presented.
     let a = as_bytes presented; b = as_bytes expected;
         equal_len = (length a = length b);
         equal_bytes = (if equal_len then list_all2 (=) a b else False)
     in ensure equal_bytes (AdminError 403 ''forbidden'' ''invalid admin token'')))"

record CreateApiKeyRequest =
  cr_customer_id :: string
  cr_name :: string
  cr_tier :: string

definition default_tier :: string where
  "default_tier = ''free''"

definition LIST_LIMIT :: nat where
  "LIST_LIMIT = 500"

text \<open>A statement, with the fault of the database, followed by the question mark operator.\<close>

definition on_keys :: "db_fault \<Rightarrow> 'a key_query \<Rightarrow> (key_table, ApiError, 'a) action" where
  "on_keys f q = mapErrS from_sqlx (\<lambda>t.
     case f of
       FailsBefore m \<Rightarrow> (Inl (OtherSqlx m), t)
     | NoFault \<Rightarrow> q t
     | FailsAfter m \<Rightarrow> (case q t of (r, t') \<Rightarrow> (case r of Inl e \<Rightarrow> Inl e | Inr _ \<Rightarrow> Inl (OtherSqlx m), t')))"

definition create_api_key ::
  "platform \<Rightarrow> db_env \<Rightarrow> db_fault \<Rightarrow> bytes \<Rightarrow> CreateApiKeyRequest \<Rightarrow> (key_table, ApiError, admin_response) action" where
  "create_api_key P d f buf req =
     bindS (ensureS (cr_customer_id req \<noteq> []) (BadRequest ''customer_id is empty'')) (\<lambda>_.
     bindS (ensureS (cr_name req \<noteq> []) (BadRequest ''name is empty'')) (\<lambda>_.
     bindS (ensureS (cr_tier req \<noteq> []) (BadRequest ''tier is empty'')) (\<lambda>_.
     bindS (on_keys f (create_returning_plaintext P d buf (cr_customer_id req) (cr_name req) (cr_tier req))) (\<lambda>created.
     returnS (KeyCreated 201 (api_key_view (ck_row created)) (ck_plaintext created))))))"

definition list_api_keys :: "db_fault \<Rightarrow> (key_table, ApiError, admin_response) action" where
  "list_api_keys f =
     bindS (on_keys f (list_all_keys LIST_LIMIT)) (\<lambda>rows.
     let keys = map api_key_view rows in returnS (KeyList (length keys) keys))"

definition revoke_api_key :: "db_env \<Rightarrow> db_fault \<Rightarrow> string \<Rightarrow> (key_table, ApiError, admin_response) action" where
  "revoke_api_key d f i =
     bindS (on_keys f (revoke d i)) (\<lambda>found.
     case found of
       Some row \<Rightarrow> returnS (KeyShown (api_key_view row))
     | None \<Rightarrow> throwS (ApiNotFound (''api key '' @ i @ '' not found'')))"

datatype admin_call = CallWhoAmI | CallCreate CreateApiKeyRequest | CallList | CallRevoke string

text \<open>A request under \<open>/v1/admin\<close>: the gate, then the route.\<close>

fun admin_route ::
  "platform \<Rightarrow> db_env \<Rightarrow> db_fault \<Rightarrow> bytes \<Rightarrow> admin_call \<Rightarrow> (key_table, ApiError, admin_response) action" where
  "admin_route P d f buf CallWhoAmI = returnS (WhoAmI True ''aex-control-plane'' CARGO_PKG_VERSION)"
| "admin_route P d f buf (CallCreate req) = create_api_key P d f buf req"
| "admin_route P d f buf CallList = list_api_keys f"
| "admin_route P d f buf (CallRevoke i) = revoke_api_key d f i"

definition admin_request ::
  "platform \<Rightarrow> db_env \<Rightarrow> db_fault \<Rightarrow> bytes \<Rightarrow> string option \<Rightarrow> string option \<Rightarrow> admin_call \<Rightarrow> key_table \<Rightarrow> admin_response \<times> key_table" where
  "admin_request P d f buf admin_token authorization call t =
     (case require_admin_token admin_token authorization of
        Inl resp \<Rightarrow> (resp, t)
      | Inr _ \<Rightarrow> (case admin_route P d f buf call t of
          (Inl e, t') \<Rightarrow> (AdminApiError e, t')
        | (Inr resp, t') \<Rightarrow> (resp, t')))"

section \<open>The gate\<close>

lemma require_admin_token_iff:
  "require_admin_token tok auth = Inr u \<longleftrightarrow> (\<exists>t. tok = Some t \<and> auth = Some (''Bearer '' @ t)
     \<and> length t \<ge> 32 \<and> header_to_str (''Bearer '' @ t) \<noteq> None)"
  by (cases tok; cases auth)
    (auto simp: require_admin_token_def step_iffs Let_def list_all2_eq [symmetric] MIN_BEARER_LEN_def header_to_str_def
      strip_prefix_Some_iff split: option.splits if_splits)

lemma require_admin_token_refusal:
  "require_admin_token tok auth = Inl e \<Longrightarrow> (\<exists>st c m. st \<in> {503, 401, 403} \<and> e = AdminError st c m)"
  unfolding require_admin_token_def Let_def step_iffs
  by (elim disjE exE conjE; cases tok) (auto split: option.splits if_splits)

section \<open>What the statements do to the table\<close>

definition keys_wf :: "key_table \<Rightarrow> bool" where
  "keys_wf t \<longleftrightarrow> distinct (map kr_id t) \<and> distinct (map kr_key_hash t)"

lemma insert_row_Inr:
  "insert_row d h p c n ti t = (Inr row, t') \<longleftrightarrow> (\<forall>r \<in> set t. kr_id r \<noteq> db_uuid d \<and> kr_key_hash r \<noteq> h)
     \<and> row = \<lparr>kr_id = db_uuid d, kr_key_hash = h, kr_key_prefix = p, kr_customer_id = c, kr_name = n, kr_tier = ti,
         kr_created_at = db_now d, kr_last_used_at = None, kr_revoked_at = None, kr_usage_count = 0\<rparr>
     \<and> t' = t @ [row]"
  by (auto simp: insert_row_def Let_def list_ex_iff)

lemma create_Inr:
  "create_returning_plaintext P d buf c n ti t = (Inr k, t') \<longleftrightarrow>
     (\<exists>row. insert_row d (hash_plaintext P (generate_plaintext P buf)) (prefix_of (generate_plaintext P buf)) c n ti t = (Inr row, t')
        \<and> k = \<lparr>ck_row = row, ck_plaintext = generate_plaintext P buf\<rparr>)"
  by (auto simp: create_returning_plaintext_def step_iffs Let_def)

lemma insert_row_fails: "insert_row d h p c n ti t = (Inl e, t') \<Longrightarrow> t' = t"
  by (auto simp: insert_row_def Let_def split: if_splits)

lemma create_fails: "create_returning_plaintext P d buf c n ti t = (Inl e, t') \<Longrightarrow> t' = t"
  by (auto simp: create_returning_plaintext_def step_iffs Let_def dest: insert_row_fails)

section \<open>Runs of statements\<close>

datatype key_op =
    OpCreate db_env bytes string string string
  | OpList nat
  | OpFind string
  | OpBump db_env string
  | OpRevoke db_env string
  | OpRevokeCustomer db_env string

fun run_op :: "platform \<Rightarrow> key_op \<Rightarrow> key_table \<Rightarrow> key_table" where
  "run_op P (OpCreate d buf c n ti) t = snd (create_returning_plaintext P d buf c n ti t)"
| "run_op P (OpList l) t = snd (list_all_keys l t)"
| "run_op P (OpFind h) t = snd (find_active_by_hash h t)"
| "run_op P (OpBump d i) t = snd (bump_usage d i t)"
| "run_op P (OpRevoke d i) t = snd (revoke d i t)"
| "run_op P (OpRevokeCustomer d c) t = snd (revoke_all_by_customer_in_tx d c t)"

fun revokes :: "string \<Rightarrow> string \<Rightarrow> key_op \<Rightarrow> bool" where
  "revokes i c (OpRevoke d j) = (i = j)"
| "revokes i c (OpRevokeCustomer d c') = (c = c')"
| "revokes i c op = False"

fun is_create :: "key_op \<Rightarrow> bool" where
  "is_create (OpCreate d buf c n ti) = True"
| "is_create op = False"

lemma create_shape:
  obtains "run_op P (OpCreate d buf c n ti) t = t"
  | row where "run_op P (OpCreate d buf c n ti) t = t @ [row]" "\<forall>r \<in> set t. kr_id r \<noteq> kr_id row \<and> kr_key_hash r \<noteq> kr_key_hash row"
proof -
  obtain r t' where c: "create_returning_plaintext P d buf c n ti t = (r, t')" by fastforce
  show thesis
  proof (cases r)
    case (Inl e)
    with c create_fails [of P d buf c n ti t e t'] show thesis by (intro that(1)) simp
  next
    case (Inr k)
    with c have "t' = t @ [ck_row k] \<and> (\<forall>r \<in> set t. kr_id r \<noteq> kr_id (ck_row k) \<and> kr_key_hash r \<noteq> kr_key_hash (ck_row k))"
      by (auto simp: create_Inr insert_row_Inr)
    with c show thesis by (intro that(2) [of "ck_row k"]) auto
  qed
qed

text \<open>Every other statement changes the rows one by one; only a revocation ends a key, and for good.\<close>

definition row_kept :: "key_op \<Rightarrow> ApiKeyRow \<Rightarrow> ApiKeyRow \<Rightarrow> bool" where
  "row_kept op r r' \<longleftrightarrow> kr_id r' = kr_id r \<and> kr_key_hash r' = kr_key_hash r \<and> kr_customer_id r' = kr_customer_id r
     \<and> kr_tier r' = kr_tier r \<and> (kr_revoked_at r \<noteq> None \<longrightarrow> kr_revoked_at r' = kr_revoked_at r)
     \<and> (kr_revoked_at r' = None \<longleftrightarrow> kr_revoked_at r = None \<and> \<not> revokes (kr_id r) (kr_customer_id r) op)"

lemma update_shape:
  assumes "\<not> is_create op"
  shows "\<exists>f. run_op P op t = map f t \<and> (\<forall>r. row_kept op r (f r))"
proof (cases op)
  case (OpBump d i)
  show ?thesis
  proof (cases "list_ex (\<lambda>r. kr_id r = i \<and> sint (kr_usage_count r) = 2 ^ 63 - 1) t")
    case True
    then show ?thesis using OpBump by (intro exI [of _ id]) (simp add: bump_usage_def row_kept_def)
  next
    case False
    then show ?thesis using OpBump
      by (intro exI [of _ "\<lambda>r. if kr_id r = i
            then r\<lparr>kr_usage_count := kr_usage_count r + 1, kr_last_used_at := Some (db_now d)\<rparr> else r"])
        (simp add: bump_usage_def row_kept_def)
  qed
next
  case (OpRevoke d i)
  then show ?thesis
    by (intro exI [of _ "\<lambda>r. if kr_id r = i then r\<lparr>kr_revoked_at := coalesce (kr_revoked_at r) (db_now d)\<rparr> else r"])
      (simp add: revoke_def Let_def row_kept_def coalesce_def split: option.splits)
next
  case (OpRevokeCustomer d c)
  then show ?thesis
    by (intro exI [of _ "\<lambda>r. if kr_customer_id r = c \<and> kr_revoked_at r = None
          then r\<lparr>kr_revoked_at := Some (db_now d)\<rparr> else r"])
      (auto simp: revoke_all_by_customer_in_tx_def row_kept_def)
qed (use assms in \<open>auto intro!: exI [of _ id] simp: list_all_keys_def find_active_by_hash_def row_kept_def\<close>)

lemma run_op_row:
  assumes "r \<in> set t"
  shows "\<exists>r' \<in> set (run_op P op t). row_kept op r r'"
proof (cases op)
  case (OpCreate d buf c n ti)
  have "r \<in> set (run_op P op t)" using assms unfolding OpCreate
    by (cases rule: create_shape [of P d buf c n ti t]) auto
  then show ?thesis using OpCreate by (auto simp: row_kept_def)
qed (use assms update_shape [of op P t] in fastforce)+

lemma run_op_wf:
  assumes "keys_wf t"
  shows "keys_wf (run_op P op t)"
proof (cases "is_create op")
  case True
  then obtain d buf c n ti where op: "op = OpCreate d buf c n ti" by (cases op) auto
  with assms show ?thesis by (cases rule: create_shape [of P d buf c n ti t]) (auto simp: keys_wf_def)
next
  case False
  from update_shape [OF this, of P t] obtain f where f: "run_op P op t = map f t" "\<forall>r. row_kept op r (f r)" by blast
  from f(2) have "kr_id \<circ> f = kr_id" "kr_key_hash \<circ> f = kr_key_hash" by (auto simp: row_kept_def)
  with f(1) assms show ?thesis by (simp add: keys_wf_def)
qed

text \<open>A key with this identifier, hash and customer is in the table, revoked or not.\<close>

definition holds_key :: "key_table \<Rightarrow> string \<Rightarrow> string \<Rightarrow> string \<Rightarrow> bool \<Rightarrow> bool" where
  "holds_key t i h c alive \<longleftrightarrow> (\<exists>r \<in> set t. kr_id r = i \<and> kr_key_hash r = h \<and> kr_customer_id r = c
     \<and> (kr_revoked_at r = None \<longleftrightarrow> alive))"

lemma run_op_holds:
  assumes "holds_key t i h c alive"
  shows "holds_key (run_op P op t) i h c (alive \<and> \<not> revokes i c op)"
proof -
  from assms obtain r where r: "r \<in> set t" "kr_id r = i" "kr_key_hash r = h" "kr_customer_id r = c"
    "kr_revoked_at r = None \<longleftrightarrow> alive" by (auto simp: holds_key_def)
  from run_op_row [OF r(1), of P op] obtain r' where "r' \<in> set (run_op P op t)" "row_kept op r r'" by blast
  with r show ?thesis unfolding holds_key_def row_kept_def by (intro bexI [of _ r']) auto
qed

lemma run_ops_holds:
  "holds_key t i h c alive \<Longrightarrow> holds_key (fold (run_op P) ops t) i h c (alive \<and> \<not> list_ex (revokes i c) ops)"
proof (induction ops arbitrary: t alive)
  case (Cons op ops)
  from Cons.IH [OF run_op_holds [OF Cons.prems, of P op]] show ?case by (simp add: conj_assoc)
qed simp

lemma run_ops_wf: "keys_wf t \<Longrightarrow> keys_wf (fold (run_op P) ops t)"
  by (induction ops arbitrary: t) (auto intro: run_op_wf)

text \<open>What the lookup answers about a key that is in the table.\<close>

lemma find_active_exact:
  assumes "keys_wf t" "holds_key t i h c alive"
  shows "\<exists>found. find_active_by_hash h t = (Inr found, t)
    \<and> (if alive then \<exists>r \<in> set t. found = Some r \<and> kr_id r = i \<and> kr_customer_id r = c else found = None)"
proof -
  from assms(2) obtain r where r: "r \<in> set t" "kr_id r = i" "kr_key_hash r = h" "kr_customer_id r = c" "kr_revoked_at r = None \<longleftrightarrow> alive"
    by (auto simp: holds_key_def)
  have u: "q = r" if "q \<in> set t" "kr_key_hash q = h" for q
    using assms(1) r(1,3) that by (auto simp: keys_wf_def distinct_map dest: inj_onD)
  show ?thesis
  proof (cases "List.find (\<lambda>r. kr_key_hash r = h \<and> kr_revoked_at r = None) t")
    case None
    then have "\<not> alive" using r by (auto simp: find_None_iff)
    with None show ?thesis by (simp add: find_active_by_hash_def)
  next
    case (Some x)
    then have "x \<in> set t" "kr_key_hash x = h" "kr_revoked_at x = None" by (auto simp: find_Some_iff)
    with u have "x = r" "alive" using r(5) by auto
    with Some r show ?thesis by (simp add: find_active_by_hash_def)
  qed
qed

text \<open>A key that was handed out is found until its identifier or its customer is revoked.\<close>

lemma issued_key_found:
  assumes "keys_wf t" "create_returning_plaintext P d buf c n ti t = (Inr k, t')"
  shows "\<exists>found. find_active_by_hash (hash_plaintext P (ck_plaintext k)) (fold (run_op P) ops t') = (Inr found, fold (run_op P) ops t')
    \<and> (if list_ex (revokes (kr_id (ck_row k)) c) ops then found = None
       else \<exists>r \<in> set (fold (run_op P) ops t'). found = Some r \<and> kr_id r = kr_id (ck_row k) \<and> kr_customer_id r = c)"
proof -
  have wf: "keys_wf t'" using run_op_wf [OF assms(1), of P "OpCreate d buf c n ti"] assms(2) by simp
  have "holds_key t' (kr_id (ck_row k)) (hash_plaintext P (ck_plaintext k)) c True"
    using assms(2) by (auto simp: create_Inr insert_row_Inr holds_key_def)
  from find_active_exact [OF run_ops_wf [OF wf, of P ops] run_ops_holds [OF this, of P ops]]
  show ?thesis by (cases "list_ex (revokes (kr_id (ck_row k)) c) ops") auto
qed

text \<open>The table holds no plaintext: a row keeps its hash and its first twelve characters.\<close>

lemma created_row_hides:
  assumes "create_returning_plaintext P d buf c n ti t = (Inr k, t')"
  shows "kr_key_hash (ck_row k) = hash_plaintext P (ck_plaintext k) \<and> kr_key_prefix (ck_row k) = prefix_of (ck_plaintext k)"
  using assms by (auto simp: create_Inr insert_row_Inr)

end
