(* ===== verification/Deployment.thy ===== *)
theory Deployment
  imports ApiKeys Capability
begin

text \<open>
  What surrounds the handlers of the control plane: the parts of the configuration that guard it
  (\<open>config.rs\<close>: the administration token, the size limit and the allowed origins), the CORS layer
  (\<open>lib.rs\<close>), the signing key with its file (\<open>signer.rs\<close>), and the documents it publishes
  (\<open>routes/health.rs\<close>, \<open>routes/agent_card.rs\<close>, \<open>routes/v2\<close>).
\<close>

section \<open>Configuration\<close>

datatype ConfigError = ConfigMissing string | ConfigInvalid string string

definition DEFAULT_MAX_TRANSFER_BYTES :: u64 where
  "DEFAULT_MAX_TRANSFER_BYTES = 500 * 1024 * 1024"

definition MIN_ADMIN_TOKEN_LEN :: nat where
  "MIN_ADMIN_TOKEN_LEN = 32"

text \<open>\<open>str::parse::<u64>\<close>: an optional plus sign and decimal digits, checked for overflow.\<close>

fun parse_digits :: "nat \<Rightarrow> string \<Rightarrow> string + nat" where
  "parse_digits acc [] = Inr acc"
| "parse_digits acc (c # s) =
     (if \<not> is_ascii_digit c then Inl ''invalid digit found in string''
      else if acc * 10 \<ge> 2 ^ 64 then Inl ''number too large to fit in target type''
      else if acc * 10 + (code c - 48) \<ge> 2 ^ 64 then Inl ''number too large to fit in target type''
      else parse_digits (acc * 10 + (code c - 48)) s)"

definition parse_u64 :: "string \<Rightarrow> string + u64" where
  "parse_u64 s =
     (if s = [] then Inl ''cannot parse integer from empty string''
      else if s = ''+'' \<or> s = ''-'' then Inl ''invalid digit found in string''
      else map_sum id of_nat (parse_digits 0 (if hd s = CHR ''+'' then tl s else s)))"

text \<open>The variables of the environment: absent, or a text.\<close>

definition config_max_transfer_bytes :: "string option \<Rightarrow> ConfigError + u64" where
  "config_max_transfer_bytes var =
     (case var of
        Some v \<Rightarrow> map_err (ConfigInvalid ''MAX_TRANSFER_BYTES'') (parse_u64 v)
      | None \<Rightarrow> Inr DEFAULT_MAX_TRANSFER_BYTES)"

definition config_cors_allowed_origins :: "string option \<Rightarrow> string list" where
  "config_cors_allowed_origins var =
     filter (\<lambda>s. s \<noteq> []) (map trim (split_char (CHR '','') (case var of Some v \<Rightarrow> v | None \<Rightarrow> [])))"

definition BACKQUOTE :: string where
  "BACKQUOTE = [CHR 0x60]"

definition config_admin_token :: "string option \<Rightarrow> ConfigError + string option" where
  "config_admin_token var =
     (case var of
        Some v \<Rightarrow>
          (if length v \<ge> MIN_ADMIN_TOKEN_LEN then Inr (Some v)
           else if v = [] then Inr None
           else Inl (ConfigInvalid ''AEX_ADMIN_TOKEN''
             (''must be at least '' @ show_nat MIN_ADMIN_TOKEN_LEN @ '' chars; got '' @ show_nat (length v)
              @ '' '' @ EM_DASH @ '' generate with '' @ BACKQUOTE @ ''openssl rand -hex 16'' @ BACKQUOTE)))
      | None \<Rightarrow> Inr None)"

section \<open>Cross-origin requests\<close>

datatype CorsOrigins = SameOrigin | AnyOrigin | OriginList "string list"

record CorsLayer =
  cors_origins :: CorsOrigins
  cors_methods :: "string list"
  cors_headers :: "string list"
  cors_credentials :: bool

definition cors_verbs :: "string list" where
  "cors_verbs = [''GET'', ''POST'', ''DELETE'', ''PATCH'']"

text \<open>\<open>HeaderValue::from_str\<close>: no control characters but the tab, no delete character.\<close>

definition header_from_str :: "string \<Rightarrow> string option" where
  "header_from_str v = (if list_all (\<lambda>c. 32 \<le> code c \<and> code c \<noteq> 127 \<or> code c = 9) v then Some v else None)"

definition build_cors_layer :: "string list \<Rightarrow> CorsLayer" where
  "build_cors_layer allowed =
     (if allowed = [] then \<lparr>cors_origins = SameOrigin, cors_methods = [], cors_headers = [], cors_credentials = False\<rparr>
      else if list_ex (\<lambda>s. s = ''*'') allowed then
        \<lparr>cors_origins = AnyOrigin, cors_methods = cors_verbs, cors_headers = [''content-type'', ''authorization''],
         cors_credentials = False\<rparr>
      else
        \<lparr>cors_origins = OriginList (List.map_filter header_from_str allowed), cors_methods = cors_verbs,
         cors_headers = [''content-type'', ''authorization''], cors_credentials = True\<rparr>)"

section \<open>The signing key\<close>

datatype SignerError = SignerIo io_error | BadLength nat

text \<open>The key material; \<open>SigningKey\<close> is made from any 32 bytes.\<close>

record ControlPlaneSigner =
  cs_key :: bytes
  cs_path :: string

text \<open>\<open>Path::with_extension\<close> with the extension \<open>tmp\<close>, for a path that ends in a file name.\<close>

definition file_stem :: "string \<Rightarrow> string" where
  "file_stem name =
     (let r = rev name; ext = takeWhile (\<lambda>c. c \<noteq> CHR ''.'') r
      in if length ext = length r \<or> length ext = length r - 1 then name else rev (drop (Suc (length ext)) r))"

definition with_extension_tmp :: "string \<Rightarrow> string" where
  "with_extension_tmp path =
     (let name = rev (takeWhile (\<lambda>c. c \<noteq> CHR ''/'') (rev path)); dir = rev (dropWhile (\<lambda>c. c \<noteq> CHR ''/'') (rev path))
      in dir @ file_stem name @ ''.tmp'')"

datatype persist_outcome = PersistOk | OpenFails string | KeyWriteFails nat string | KeyRenameFails string

text \<open>Opening creates an empty file, which is then written and renamed.\<close>

definition persist :: "persist_outcome \<Rightarrow> string \<Rightarrow> bytes \<Rightarrow> (file_system, io_error, unit) action" where
  "persist out path key =
     (let tmp = with_extension_tmp path in
      case out of
        OpenFails m \<Rightarrow> throwS (IoOther m)
      | KeyWriteFails n m \<Rightarrow> bindS (modifyS (\<lambda>fs. fs(tmp := Some (take n key)))) (\<lambda>_. throwS (IoOther m))
      | KeyRenameFails m \<Rightarrow> bindS (modifyS (\<lambda>fs. fs(tmp := Some key))) (\<lambda>_. throwS (IoOther m))
      | PersistOk \<Rightarrow>
          bindS (modifyS (\<lambda>fs. fs(tmp := Some []))) (\<lambda>_.
          bindS (modifyS (\<lambda>fs. fs(tmp := Some key))) (\<lambda>_.
          modifyS (\<lambda>fs. (fs(tmp := None))(path := fs tmp)))))"

definition load_or_generate ::
  "string option \<Rightarrow> string option \<Rightarrow> persist_outcome \<Rightarrow> bytes \<Rightarrow> string \<Rightarrow> (file_system, SignerError, ControlPlaneSigner) action" where
  "load_or_generate dir_fault read_fault out fresh path =
     bindS (case dir_fault of Some m \<Rightarrow> throwS (SignerIo (IoOther m)) | None \<Rightarrow> returnS ()) (\<lambda>_.
     bindS (getS (\<lambda>fs. fs path)) (\<lambda>found.
     case (read_fault, found) of
       (Some m, _) \<Rightarrow> throwS (SignerIo (IoOther m))
     | (None, Some bs) \<Rightarrow>
         bindS (ensureS (length bs = 32) (BadLength (length bs))) (\<lambda>_.
         returnS \<lparr>cs_key = bs, cs_path = path\<rparr>)
     | (None, None) \<Rightarrow>
         bindS (mapErrS SignerIo (persist out path fresh)) (\<lambda>_.
         returnS \<lparr>cs_key = fresh, cs_path = path\<rparr>)))"

section \<open>Published documents\<close>

record CapabilitiesBody =
  cb_wire_versions :: "string list"
  cb_capabilities :: "string list"
  cb_supported_did_methods :: "string list"

definition default_capability_set :: CapabilitySet where
  "default_capability_set = with_cap (with_cap (with_cap (with_cap (with_cap empty_caps WireV2) JwsAgentCard) CardEtag) SafeHttp) ClockSkew60s"

definition capabilities_doc :: CapabilitiesBody where
  "capabilities_doc = \<lparr>cb_wire_versions = [''v2'', ''v1''], cb_capabilities = to_string_array default_capability_set,
     cb_supported_did_methods = [''spize'', ''web'', ''ethr'', ''key'']\<rparr>"

record HealthBody =
  hb_status :: string
  hb_service :: string
  hb_version :: string

definition healthz :: HealthBody where
  "healthz = \<lparr>hb_status = ''ok'', hb_service = ''aex-control-plane'', hb_version = CARGO_PKG_VERSION\<rparr>"

record PublicKeyBody =
  pb_algorithm :: string
  pb_public_key_hex :: string

text \<open>The public key of the signer is an argument: \<open>SigningKey::verifying_key\<close>.\<close>

definition public_key_hex :: "platform \<Rightarrow> (bytes \<Rightarrow> bytes) \<Rightarrow> ControlPlaneSigner \<Rightarrow> string" where
  "public_key_hex P verifying_key sg = hex_enc P (verifying_key (cs_key sg))"

definition public_key_route :: "platform \<Rightarrow> (bytes \<Rightarrow> bytes) \<Rightarrow> ControlPlaneSigner option \<Rightarrow> nat + PublicKeyBody" where
  "public_key_route P verifying_key state_signer =
     bindE (ok_or 404 state_signer) (\<lambda>sg.
     Inr \<lparr>pb_algorithm = ''ed25519'', pb_public_key_hex = public_key_hex P verifying_key sg\<rparr>)"

record CardPayload =
  cd_iss :: string
  cd_sub :: string
  cd_iat :: i64
  cd_exp :: i64
  cd_agent_id :: string
  cd_key_type :: string
  cd_public_key_hex :: string
  cd_capabilities :: "string list"
  cd_control_plane :: string
  cd_data_planes :: "string list"

text \<open>\<open>now\<close> is absent when the system clock stands before the epoch.\<close>

definition agent_card :: "platform \<Rightarrow> (bytes \<Rightarrow> bytes) \<Rightarrow> i64 option \<Rightarrow> ControlPlaneSigner option \<Rightarrow> nat + nat \<times> CardPayload" where
  "agent_card P verifying_key system_now state_signer =
     bindE (ok_or 503 state_signer) (\<lambda>sg.
     let now = (case system_now of Some t \<Rightarrow> t | None \<Rightarrow> 0);
         exp = now + 24 * 60 * 60;
         agent_id = ''did:spize:control-plane#self''
     in Inr (200, \<lparr>cd_iss = ''did:spize:control-plane'', cd_sub = agent_id, cd_iat = now, cd_exp = exp,
          cd_agent_id = agent_id, cd_key_type = ''Ed25519VerificationKey2020'',
          cd_public_key_hex = public_key_hex P verifying_key sg,
          cd_capabilities = to_string_array default_capability_set,
          cd_control_plane = ''self'', cd_data_planes = []\<rparr>))"

record StubBody =
  st_error :: string
  st_message :: string
  st_runbook :: string
  st_echoed_sender :: string

definition create_intent :: "string \<Rightarrow> nat \<times> string \<times> StubBody" where
  "create_intent sender = (501, ''<https://aex.dev/runbooks/v2-intent-stub>; rel='' @ [DQ] @ ''help'' @ [DQ],
     \<lparr>st_error = ''not_implemented_yet'',
      st_message = ''POST /v2/intents is reserved for wire-v2 transfer verification '' @
        ''but the verification pipeline is staged for the v2.0 GA '' @ ''follow-up sprint. See the rollout runbook.'',
      st_runbook = ''https://aex.dev/runbooks/v2-intent-stub'', st_echoed_sender = sender\<rparr>)"

section \<open>What holds\<close>

text \<open>A configured token always passes the length test of the gate; its holder is let in if it is printable.\<close>

lemma configured_token_admits:
  assumes "config_admin_token var = Inr (Some t)"
  shows "require_admin_token (Some t) auth = Inr () \<longleftrightarrow>
    auth = Some (''Bearer '' @ t) \<and> header_to_str (''Bearer '' @ t) \<noteq> None"
  using assms
  by (auto simp: require_admin_token_iff config_admin_token_def MIN_ADMIN_TOKEN_LEN_def split: option.splits if_splits)

lemma cors_no_wildcard_credentials:
  "cors_credentials (build_cors_layer allowed) \<Longrightarrow> \<exists>origins. cors_origins (build_cors_layer allowed) = OriginList origins
     \<and> set origins \<subseteq> set allowed \<and> ''*'' \<notin> set origins"
  by (auto simp: build_cors_layer_def list_ex_iff List.map_filter_def header_from_str_def split: if_splits)

text \<open>The key file never holds a partial key, and a key once stored is loaded ever after.\<close>

lemma persist_atomic:
  assumes "persist out path key fs = (r, fs')" "with_extension_tmp path \<noteq> path"
  shows "fs' path = (if r = Inr () then Some key else fs path)"
  using assms by (auto simp: persist_def Let_def split: persist_outcome.splits)

lemma load_or_generate_Inr:
  assumes "load_or_generate df rf out fresh path fs = (Inr sg, fs')" "with_extension_tmp path \<noteq> path"
  shows "fs' path = Some (cs_key sg) \<and> cs_path sg = path \<and> (fs path \<noteq> None \<longrightarrow> fs' = fs)
    \<and> (fs path = None \<longrightarrow> cs_key sg = fresh)"
  using assms persist_atomic [OF _ assms(2), of out fresh fs]
  by (cases "fs path") (auto simp: load_or_generate_def step_iffs split: option.splits if_splits)

lemma key_survives_restart:
  assumes "load_or_generate df rf out fresh path fs = (Inr sg, fs1)" "length fresh = 32" "with_extension_tmp path \<noteq> path"
    and "fs2 path = fs1 path" "load_or_generate None None out' fresh' path fs2 = (r, fs3)"
  shows "r = Inr sg \<and> fs3 = fs2"
proof -
  have k: "fs2 path = Some (cs_key sg)" "cs_path sg = path"
    using load_or_generate_Inr [OF assms(1,3)] assms(4) by auto
  have "length (cs_key sg) = 32"
    using assms(1,2) load_or_generate_Inr [OF assms(1,3)]
    by (cases "fs path") (auto simp: load_or_generate_def step_iffs split: option.splits if_splits)
  with k assms(5) show ?thesis by (cases sg) (auto simp: load_or_generate_def)
qed

lemma foldl_digits_mono: "b \<le> foldl (\<lambda>a c. a * 10 + (code c - 48)) b s"
proof (induction s arbitrary: b)
  case (Cons c s)
  have "b \<le> b * 10 + (code c - 48)" by simp
  also have "\<dots> \<le> foldl (\<lambda>a c. a * 10 + (code c - 48)) (b * 10 + (code c - 48)) s" by (rule Cons.IH)
  finally show ?case by simp
qed simp

lemma parse_digits_value:
  assumes "list_all is_ascii_digit s" "foldl (\<lambda>a c. a * 10 + (code c - 48)) acc s < 2 ^ 64"
  shows "parse_digits acc s = Inr (foldl (\<lambda>a c. a * 10 + (code c - 48)) acc s)"
  using assms
proof (induction s arbitrary: acc)
  case (Cons c s)
  have lt: "acc * 10 + (code c - 48) < 2 ^ 64"
    using Cons.prems(2) foldl_digits_mono [of "acc * 10 + (code c - 48)" s] unfolding foldl_Cons by (rule le_less_trans [rotated])
  then have "acc * 10 < 2 ^ 64" by (rule le_less_trans [rotated]) simp
  moreover have "parse_digits (acc * 10 + (code c - 48)) s
      = Inr (foldl (\<lambda>a c. a * 10 + (code c - 48)) (acc * 10 + (code c - 48)) s)"
    using Cons.prems by (intro Cons.IH) (simp_all only: list.pred_inject foldl_Cons)
  moreover have "is_ascii_digit c" using Cons.prems(1) by (simp only: list.pred_inject)
  ultimately show ?case
    using lt unfolding parse_digits.simps foldl_Cons by (simp only: not_le [symmetric] if_False if_True not_True_eq_False)
qed simp

end
