(* ===== verification/Connectivity.thy ===== *)
theory Connectivity
  imports SafeHttp TextOps ApiErrors
begin

text \<open>
  Retrying (\<open>aex-net/src/retry.rs\<close>) and the detection of captive portals (\<open>captive.rs\<close>).  The
  outcome of an operation at its \<open>k\<close>-th invocation and the answers of the probed servers are
  inputs; the delay before a retry is computed in floating point from a random sample and is an
  input as well.  The loop returns its result together with the trace of calls and pauses.
\<close>

section \<open>Retries\<close>

type_synonym u32 = "32 word"

record RetryPolicy =
  max_attempts :: u32
  delay_sample :: "nat \<Rightarrow> nat"

text \<open>The number of attempts of \<open>normative\<close>; the delays are one second, two seconds, each with jitter.\<close>

definition NORMATIVE_ATTEMPTS :: u32 where
  "NORMATIVE_ATTEMPTS = 3"

definition backoff_for_attempt :: "RetryPolicy \<Rightarrow> nat \<Rightarrow> nat" where
  "backoff_for_attempt p attempt = (if attempt \<le> 1 then 0 else delay_sample p attempt)"

datatype retry_event = Called nat | Slept nat

text \<open>The loop from an attempt on; it always returns on the last attempt.\<close>

function retry_from ::
  "RetryPolicy \<Rightarrow> ('e \<Rightarrow> bool) \<Rightarrow> (nat \<Rightarrow> 'e + 'a) \<Rightarrow> nat \<Rightarrow> (('e + 'a) \<times> retry_event list) option" where
  "retry_from p should_retry invoke attempt =
     (if attempt > unat (max_attempts p) then None
      else case invoke attempt of
        Inr v \<Rightarrow> Some (Inr v, [Called attempt])
      | Inl e \<Rightarrow>
          (let is_last = (attempt = unat (max_attempts p)); retriable = should_retry e in
           if is_last \<or> \<not> retriable then Some (Inl e, [Called attempt])
           else map_option (\<lambda>(r, tr). (r, Called attempt # Slept (backoff_for_attempt p (attempt + 1)) # tr))
                  (retry_from p should_retry invoke (attempt + 1))))"
  by pat_completeness auto
termination
  by (relation "measure (\<lambda>(p, _, _, attempt). Suc (unat (max_attempts p)) - attempt)") auto

declare retry_from.simps [simp del]

text \<open>\<open>None\<close> is a panic: the assertion on the policy, or the code after the loop.\<close>

definition retry_with_backoff ::
  "RetryPolicy \<Rightarrow> ('e \<Rightarrow> bool) \<Rightarrow> (nat \<Rightarrow> 'e + 'a) \<Rightarrow> (('e + 'a) \<times> retry_event list) option" where
  "retry_with_backoff p should_retry invoke =
     (if max_attempts p \<ge> 1 then retry_from p should_retry invoke 1 else None)"

text \<open>The attempt at which a loop ends: the first that succeeds or must not be retried, or the last.\<close>

definition ends_at :: "nat \<Rightarrow> ('e \<Rightarrow> bool) \<Rightarrow> (nat \<Rightarrow> 'e + 'a) \<Rightarrow> nat \<Rightarrow> nat \<Rightarrow> bool" where
  "ends_at maxi should_retry invoke start n \<longleftrightarrow> start \<le> n \<and> n \<le> maxi
     \<and> (\<forall>k. start \<le> k \<longrightarrow> k < n \<longrightarrow> (\<exists>e. invoke k = Inl e \<and> should_retry e))
     \<and> (n = maxi \<or> (case invoke n of Inr _ \<Rightarrow> True | Inl e \<Rightarrow> \<not> should_retry e))"

fun retry_trace :: "RetryPolicy \<Rightarrow> nat \<Rightarrow> nat \<Rightarrow> retry_event list" where
  "retry_trace p start 0 = [Called start]"
| "retry_trace p start (Suc k) = Called start # Slept (backoff_for_attempt p (start + 1)) # retry_trace p (start + 1) k"

lemma ends_at_later:
  "invoke s = Inl e \<Longrightarrow> should_retry e \<Longrightarrow> ends_at m should_retry invoke (Suc s) n \<Longrightarrow> ends_at m should_retry invoke s n"
  unfolding ends_at_def by (metis Suc_leD Suc_leI order_le_less)

lemma retry_from_exact:
  assumes "start \<le> unat (max_attempts p)"
  shows "\<exists>n. ends_at (unat (max_attempts p)) should_retry invoke start n
    \<and> retry_from p should_retry invoke start = Some (invoke n, retry_trace p start (n - start))"
  using assms
proof (induction "unat (max_attempts p) - start" arbitrary: start rule: less_induct)
  case less
  let ?m = "unat (max_attempts p)"
  show ?case
  proof (cases "invoke start")
    case (Inr v)
    then show ?thesis using less.prems
      by (intro exI [of _ start]) (simp add: retry_from.simps ends_at_def)
  next
    case (Inl e)
    show ?thesis
    proof (cases "start = ?m \<or> \<not> should_retry e")
      case True
      then show ?thesis using Inl less.prems
        by (intro exI [of _ start]) (auto simp: retry_from.simps ends_at_def)
    next
      case False
      then have lt: "start < ?m" using less.prems by auto
      have "?m - Suc start < ?m - start" "Suc start \<le> ?m" using lt by auto
      from less.hyps [OF this] obtain n where n: "ends_at ?m should_retry invoke (Suc start) n"
        "retry_from p should_retry invoke (Suc start) = Some (invoke n, retry_trace p (Suc start) (n - Suc start))" by blast
      have "Suc start \<le> n" using n(1) by (simp add: ends_at_def)
      then have "n - start = Suc (n - Suc start)" by simp
      moreover have "retry_from p should_retry invoke start = Some (invoke n,
          Called start # Slept (backoff_for_attempt p (Suc start)) # retry_trace p (Suc start) (n - Suc start))"
        using Inl False lt n(2) by (subst retry_from.simps) (simp add: Let_def)
      ultimately show ?thesis using ends_at_later [OF Inl _ n(1)] False
        by (intro exI [of _ n]) simp
    qed
  qed
qed

lemma retry_exact:
  assumes "max_attempts p \<ge> 1"
  shows "\<exists>n. ends_at (unat (max_attempts p)) should_retry invoke 1 n
    \<and> retry_with_backoff p should_retry invoke = Some (invoke n, retry_trace p 1 (n - 1))"
  using retry_from_exact [of 1 p should_retry invoke] assms
  by (simp add: retry_with_backoff_def word_le_nat_alt)

section \<open>Captive portals\<close>

datatype NetworkState = Direct | CaptivePortal | Limited | Unknown

fun as_stdout_value :: "NetworkState \<Rightarrow> string" where
  "as_stdout_value Direct = ''direct''"
| "as_stdout_value CaptivePortal = ''captive_portal''"
| "as_stdout_value Limited = ''limited''"
| "as_stdout_value Unknown = ''unknown''"

datatype ProbeVerdict = ProbeOk | ProbeCaptive | ProbeUnexpected | ProbeFailed

definition HTTP_511_NETWORK_AUTH_REQUIRED :: nat where
  "HTTP_511_NETWORK_AUTH_REQUIRED = 511"

definition APPLE_URL :: string where "APPLE_URL = ''http://captive.apple.com/hotspot-detect.html''"
definition GOOGLE_URL :: string where "GOOGLE_URL = ''http://www.google.com/generate_204''"
definition MS_URL :: string where "MS_URL = ''http://www.msftncsi.com/ncsi.txt''"
definition APPLE_EXPECTED_BODY_FRAGMENT :: string where "APPLE_EXPECTED_BODY_FRAGMENT = ''Success''"
definition MS_EXPECTED_BODY :: string where "MS_EXPECTED_BODY = ''Microsoft NCSI''"

text \<open>An answer: its status and, once read, its text; or a transport error.\<close>

record probe_response =
  pr_status :: nat
  pr_text :: "string + string"

type_synonym prober = "string \<Rightarrow> string + probe_response"

definition classify_apple_response :: "probe_response \<Rightarrow> ProbeVerdict" where
  "classify_apple_response resp =
     (if pr_status resp = HTTP_511_NETWORK_AUTH_REQUIRED then ProbeCaptive
      else if is_redirection (pr_status resp) then ProbeCaptive
      else if \<not> success_status (pr_status resp) then ProbeUnexpected
      else case pr_text resp of
        Inr body \<Rightarrow> (if contains_str body APPLE_EXPECTED_BODY_FRAGMENT then ProbeOk else ProbeCaptive)
      | Inl _ \<Rightarrow> ProbeFailed)"

definition probe_apple :: "prober \<Rightarrow> string \<Rightarrow> ProbeVerdict" where
  "probe_apple get u = (case get u of Inr resp \<Rightarrow> classify_apple_response resp | Inl _ \<Rightarrow> ProbeFailed)"

definition probe_google :: "prober \<Rightarrow> string \<Rightarrow> ProbeVerdict" where
  "probe_google get u =
     (case get u of
        Inr resp \<Rightarrow>
          (if pr_status resp = HTTP_511_NETWORK_AUTH_REQUIRED \<or> is_redirection (pr_status resp) then ProbeCaptive
           else if pr_status resp = 204 then ProbeOk
           else ProbeUnexpected)
      | Inl _ \<Rightarrow> ProbeFailed)"

definition probe_ms :: "prober \<Rightarrow> string \<Rightarrow> ProbeVerdict" where
  "probe_ms get u =
     (case get u of
        Inr resp \<Rightarrow>
          (if pr_status resp = HTTP_511_NETWORK_AUTH_REQUIRED then ProbeCaptive
           else if is_redirection (pr_status resp) then ProbeCaptive
           else if \<not> success_status (pr_status resp) then ProbeUnexpected
           else case pr_text resp of
             Inr body \<Rightarrow> (if trim body = MS_EXPECTED_BODY then ProbeOk else ProbeCaptive)
           | Inl _ \<Rightarrow> ProbeFailed)
      | Inl _ \<Rightarrow> ProbeFailed)"

definition consensus :: "ProbeVerdict list \<Rightarrow> NetworkState" where
  "consensus results =
     (if ProbeCaptive \<in> set results then CaptivePortal
      else if list_all (\<lambda>v. v = ProbeOk) results then Direct
      else if list_all (\<lambda>v. v = ProbeFailed) results then Unknown
      else Limited)"

definition detect_with_urls :: "prober \<Rightarrow> string \<Rightarrow> string \<Rightarrow> string \<Rightarrow> NetworkState" where
  "detect_with_urls get apple_url google_url ms_url =
     consensus [probe_apple get apple_url, probe_google get google_url, probe_ms get ms_url]"

definition detect_network_state :: "prober \<Rightarrow> NetworkState" where
  "detect_network_state get = detect_with_urls get APPLE_URL GOOGLE_URL MS_URL"

text \<open>The network is reported as direct only if all three servers gave their expected answers.\<close>

lemma detect_direct_iff:
  "detect_network_state get = Direct \<longleftrightarrow>
     (\<exists>ra rg rm body_a body_m. get APPLE_URL = Inr ra \<and> success_status (pr_status ra) \<and> pr_text ra = Inr body_a
        \<and> sublist APPLE_EXPECTED_BODY_FRAGMENT body_a
        \<and> get GOOGLE_URL = Inr rg \<and> pr_status rg = 204
        \<and> get MS_URL = Inr rm \<and> success_status (pr_status rm) \<and> pr_text rm = Inr body_m \<and> trim body_m = MS_EXPECTED_BODY)"
proof -
  have "detect_network_state get = Direct \<longleftrightarrow> probe_apple get APPLE_URL = ProbeOk
      \<and> probe_google get GOOGLE_URL = ProbeOk \<and> probe_ms get MS_URL = ProbeOk"
    by (auto simp: detect_network_state_def detect_with_urls_def consensus_def)
  also have "probe_apple get APPLE_URL = ProbeOk \<longleftrightarrow> (\<exists>ra body. get APPLE_URL = Inr ra \<and> success_status (pr_status ra)
      \<and> pr_text ra = Inr body \<and> sublist APPLE_EXPECTED_BODY_FRAGMENT body)"
    by (auto simp: probe_apple_def classify_apple_response_def success_status_def is_redirection_def
        HTTP_511_NETWORK_AUTH_REQUIRED_def contains_str_iff split: sum.splits if_splits)
  also have "probe_google get GOOGLE_URL = ProbeOk \<longleftrightarrow> (\<exists>rg. get GOOGLE_URL = Inr rg \<and> pr_status rg = 204)"
    by (auto simp: probe_google_def is_redirection_def HTTP_511_NETWORK_AUTH_REQUIRED_def split: sum.splits if_splits)
  also have "probe_ms get MS_URL = ProbeOk \<longleftrightarrow> (\<exists>rm body. get MS_URL = Inr rm \<and> success_status (pr_status rm)
      \<and> pr_text rm = Inr body \<and> trim body = MS_EXPECTED_BODY)"
    by (auto simp: probe_ms_def success_status_def is_redirection_def HTTP_511_NETWORK_AUTH_REQUIRED_def
        split: sum.splits if_splits)
  finally show ?thesis by blast
qed

end
