(* ===== verification/Webhook.thy ===== *)
theory Webhook
  imports Connectivity Policy
begin

text \<open>
  The webhook decision sink (\<open>aex-policy/src/sink/webhook.rs\<close>).  The parser of URLs, the resolver
  of the operating system and the answers of the webhook, by the number of the attempt, are inputs;
  the 8-bit counter of attempts is checked for overflow, which the lemmas exclude.
\<close>

definition DEFAULT_MAX_RETRIES :: u8 where
  "DEFAULT_MAX_RETRIES = 3"

record WebhookConfig =
  wc_url :: string
  wc_bearer_token :: "string option"
  wc_timeout_secs :: u64
  wc_max_retries :: u8
  wc_allow_internal_targets :: bool

datatype WebhookSinkError =
    WebhookInvalidUrl string
  | WebhookInternalTarget
  | WebhookHttpStatus nat
  | WebhookTransport string

fun webhook_error_text :: "WebhookSinkError \<Rightarrow> string" where
  "webhook_error_text (WebhookInvalidUrl e) = ''invalid webhook URL: '' @ e"
| "webhook_error_text WebhookInternalTarget =
     ''webhook URL resolves to internal address (set allow_internal_targets to override)''"
| "webhook_error_text (WebhookHttpStatus c) = ''webhook returned HTTP '' @ show_nat c"
| "webhook_error_text (WebhookTransport e) = ''webhook transport error after retries: '' @ e"

text \<open>What the sink calls: the URL parser, the resolver, the construction of the client and a request.\<close>

record webhook_env =
  we_parse :: "string \<Rightarrow> string + Url"
  we_socket_addrs :: "string \<Rightarrow> string + IpAddr list"
  we_client :: "string + unit"
  we_post :: "nat \<Rightarrow> Url \<Rightarrow> string option \<Rightarrow> DecisionRequest \<Rightarrow> string + nat"

definition WebhookDecisionSink_new :: "webhook_env \<Rightarrow> WebhookConfig \<Rightarrow> WebhookSinkError + WebhookConfig" where
  "WebhookDecisionSink_new W config =
     bindE (map_err WebhookInvalidUrl (we_parse W (wc_url config))) (\<lambda>url.
     bindE (ensure (url_scheme url = ''https'')
       (WebhookInvalidUrl (''scheme must be https, got '' @ [CHR 0x27] @ url_scheme url @ [CHR 0x27]))) (\<lambda>_.
     bindE (map_err WebhookTransport (we_client W)) (\<lambda>_.
     Inr config)))"

definition check_host :: "webhook_env \<Rightarrow> WebhookConfig \<Rightarrow> Url \<Rightarrow> WebhookSinkError + unit" where
  "check_host W config url =
     (if wc_allow_internal_targets config then Inr ()
      else
        bindE (ok_or (WebhookInvalidUrl ''URL has no host'') (url_host url)) (\<lambda>host.
        case we_socket_addrs W host of
          Inl _ \<Rightarrow> Inr ()
        | Inr resolved \<Rightarrow> ensure (\<not> list_ex is_forbidden_ip resolved) WebhookInternalTarget))"

definition is_retriable :: "nat \<Rightarrow> bool" where
  "is_retriable c \<longleftrightarrow> c = 408 \<or> c = 425 \<or> c = 429 \<or> (500 \<le> c \<and> c \<le> 599)"

datatype webhook_event = Posted nat | Paused u64

text \<open>The pause after an attempt; the shift is at most five, so the product does not saturate.\<close>

definition backoff_ms :: "u8 \<Rightarrow> u64" where
  "backoff_ms attempts = 250 * push_bit (unat (min attempts 5)) 1"

text \<open>The loop; \<open>None\<close> is the overflow of the counter.\<close>

function submit_loop :: "webhook_env \<Rightarrow> WebhookConfig \<Rightarrow> DecisionRequest \<Rightarrow> Url \<Rightarrow> u8 \<Rightarrow> u8 \<Rightarrow>
    ((DecisionSinkError + unit) \<times> webhook_event list) option" where
  "submit_loop W config request url maxi attempts0 =
     (if attempts0 = 255 then None
      else
        let attempts = attempts0 + 1;
            again = map_option (\<lambda>(r, tr). (r, Posted (unat attempts) # Paused (backoff_ms attempts) # tr))
                      (submit_loop W config request url maxi attempts)
        in case we_post W (unat attempts) url (wc_bearer_token config) request of
             Inr c \<Rightarrow>
               (if success_status c then Some (Inr (), [Posted (unat attempts)])
                else if attempts \<ge> maxi \<or> \<not> is_retriable c
                then Some (Inl (SinkInfra (''webhook returned '' @ show_nat c @ '' after ''
                       @ show_nat (unat attempts) @ '' attempts'')), [Posted (unat attempts)])
                else again)
           | Inl e \<Rightarrow>
               (if attempts \<ge> maxi
                then Some (Inl (SinkInfra (''webhook transport failed after '' @ show_nat (unat attempts)
                       @ '' attempts: '' @ e)), [Posted (unat attempts)])
                else again))"
  by pat_completeness auto
termination
proof (relation "measure (\<lambda>(_, _, _, _, _, a). 255 - unat a)")
  fix a x :: u8
  assume a: "a \<noteq> 255" "x = a + 1"
  have "unat a \<noteq> 255" using a(1) by (simp add: word_unat_eq_iff)
  then have "unat a < 255" using octet_bound [of a] by simp
  moreover from this have "unat x = Suc (unat a)" using a(2) by (simp add: unat_word_ariths)
  ultimately show "((W, config, request, url, maxi, x), (W, config, request, url, maxi, a))
      \<in> measure (\<lambda>(_, _, _, _, _, a). 255 - unat a)"
    for W :: webhook_env and config :: WebhookConfig and request :: DecisionRequest and url :: Url and maxi :: u8
    by simp
qed simp

declare submit_loop.simps [simp del]

definition WebhookDecisionSink_submit ::
  "webhook_env \<Rightarrow> WebhookConfig \<Rightarrow> DecisionRequest \<Rightarrow> ((DecisionSinkError + unit) \<times> webhook_event list) option" where
  "WebhookDecisionSink_submit W config request =
     (case we_parse W (wc_url config) of
        Inl e \<Rightarrow> Some (Inl (SinkInfra (''invalid url: '' @ e)), [])
      | Inr url \<Rightarrow>
          (case check_host W config url of
             Inl e \<Rightarrow> Some (Inl (SinkInfra (webhook_error_text e)), [])
           | Inr _ \<Rightarrow> submit_loop W config request url (max (wc_max_retries config) 1) 0))"

section \<open>What a submission does\<close>

text \<open>The outcome of an attempt: delivered, a status that is not a success, or a transport error.\<close>

definition attempt_outcome :: "webhook_env \<Rightarrow> WebhookConfig \<Rightarrow> DecisionRequest \<Rightarrow> Url \<Rightarrow> nat \<Rightarrow> (nat + string) + unit" where
  "attempt_outcome W config request url k =
     (case we_post W k url (wc_bearer_token config) request of
        Inr c \<Rightarrow> (if success_status c then Inr () else Inl (Inl c))
      | Inl e \<Rightarrow> Inl (Inr e))"

fun transient :: "nat + string \<Rightarrow> bool" where
  "transient (Inl c) = is_retriable c"
| "transient (Inr e) = True"

fun final_result :: "nat \<Rightarrow> (nat + string) + unit \<Rightarrow> DecisionSinkError + unit" where
  "final_result n (Inr u) = Inr ()"
| "final_result n (Inl (Inl c)) = Inl (SinkInfra (''webhook returned '' @ show_nat c @ '' after '' @ show_nat n @ '' attempts''))"
| "final_result n (Inl (Inr e)) =
     Inl (SinkInfra (''webhook transport failed after '' @ show_nat n @ '' attempts: '' @ e))"

fun post_trace :: "nat \<Rightarrow> nat \<Rightarrow> webhook_event list" where
  "post_trace start 0 = [Posted start]"
| "post_trace start (Suc k) = Posted start # Paused (backoff_ms (of_nat start)) # post_trace (Suc start) k"

lemma u8_Suc: "unat (a :: u8) < 255 \<Longrightarrow> unat (a + 1) = Suc (unat a)"
  by (simp add: unat_word_ariths)

lemma submit_loop_exact:
  assumes "unat a < unat maxi"
  shows "\<exists>n. ends_at (unat maxi) transient (attempt_outcome W config request url) (Suc (unat a)) n
    \<and> submit_loop W config request url maxi a
        = Some (final_result n (attempt_outcome W config request url n), post_trace (Suc (unat a)) (n - Suc (unat a)))"
  using assms
proof (induction "255 - unat a" arbitrary: a rule: less_induct)
  case less
  let ?out = "attempt_outcome W config request url"
  have lt: "unat a < 255" using less.prems octet_bound [of maxi] by simp
  note suc = u8_Suc [OF lt]
  have ne: "a \<noteq> 255" using lt by auto
  have ge: "a + 1 \<ge> maxi \<longleftrightarrow> Suc (unat a) = unat maxi" using less.prems suc by (auto simp: word_le_nat_alt)
  show ?case
  proof (cases "Suc (unat a) = unat maxi \<or> (case ?out (Suc (unat a)) of Inr _ \<Rightarrow> True | Inl x \<Rightarrow> \<not> transient x)")
    case True
    then have "submit_loop W config request url maxi a = Some (final_result (Suc (unat a)) (?out (Suc (unat a))), [Posted (Suc (unat a))])"
      using ne ge suc by (subst submit_loop.simps) (auto simp: Let_def attempt_outcome_def split: sum.splits if_splits)
    moreover have "ends_at (unat maxi) transient ?out (Suc (unat a)) (Suc (unat a))"
      using True less.prems by (auto simp: ends_at_def)
    ultimately show ?thesis by (intro exI [of _ "Suc (unat a)"]) simp
  next
    case False
    then obtain x where x: "?out (Suc (unat a)) = Inl x" "transient x" by (auto split: sum.splits)
    have m: "255 - unat (a + 1) < 255 - unat a" "unat (a + 1) < unat maxi" using lt suc False less.prems by auto
    from less.hyps [OF m] obtain n where
      n: "ends_at (unat maxi) transient ?out (Suc (Suc (unat a))) n"
      "submit_loop W config request url maxi (a + 1) = Some (final_result n (?out n), post_trace (Suc (Suc (unat a))) (n - Suc (Suc (unat a))))"
      unfolding suc by blast
    have "Suc (Suc (unat a)) \<le> n" using n(1) by (simp add: ends_at_def)
    then have d: "n - Suc (unat a) = Suc (n - Suc (Suc (unat a)))" by simp
    have w: "1 + a = a + 1" by (rule add.commute)
    have "submit_loop W config request url maxi a = Some (final_result n (?out n), post_trace (Suc (unat a)) (n - Suc (unat a)))"
      unfolding d using x ne ge suc False n(2)
      by (subst submit_loop.simps) (auto simp: Let_def attempt_outcome_def w split: sum.splits if_splits)
    with ends_at_later [OF x n(1)] show ?thesis by blast
  qed
qed

lemma submit_exact:
  assumes "we_parse W (wc_url config) = Inr url" "check_host W config url = Inr ()"
  shows "\<exists>n. ends_at (unat (max (wc_max_retries config) 1)) transient (attempt_outcome W config request url) 1 n
    \<and> WebhookDecisionSink_submit W config request
        = Some (final_result n (attempt_outcome W config request url n), post_trace 1 (n - 1))"
proof -
  have "(1 :: u8) \<le> max (wc_max_retries config) 1" by simp
  then have "unat (0 :: u8) < unat (max (wc_max_retries config) 1)" by (simp add: word_le_nat_alt del: max.cobounded2)
  from submit_loop_exact [OF this, of W config request url] show ?thesis
    by (simp add: WebhookDecisionSink_submit_def assms)
qed

text \<open>Without the opt-in nothing is posted when a resolved address is internal; but an unresolved host passes.\<close>

lemma internal_target_refused:
  assumes "WebhookDecisionSink_submit W config request = Some (r, tr)" "\<not> wc_allow_internal_targets config" "tr \<noteq> []"
  shows "\<exists>url host. we_parse W (wc_url config) = Inr url \<and> url_host url = Some host
    \<and> (case we_socket_addrs W host of Inl _ \<Rightarrow> True | Inr ips \<Rightarrow> list_all (\<lambda>ip. \<not> is_forbidden_ip ip) ips)"
  using assms
  by (auto simp: WebhookDecisionSink_submit_def check_host_def step_iffs list_all_iff list_ex_iff split: sum.splits)

end
