(* ===== verification/Tunnels.thy ===== *)
theory Tunnels
  imports Endpoint TextOps ApiErrors "HOL-Library.Product_Lexorder"
begin

text \<open>
  Tunnels (\<open>aex-tunnel/src\<close>): the orchestrator that starts several transports and lists the
  endpoints of those that came up, the parser of the output of \<open>cloudflared\<close>, and the stub
  provider.  The locale \<open>tunnel_provider\<close> is the contract of the \<open>TunnelProvider\<close> trait: a provider
  that started has a public address, one that stopped has none.  The lemmas say which endpoints
  are listed and in which order.
\<close>

section \<open>Providers\<close>

datatype TunnelStatus =
    Disconnected string
  | Connecting
  | Reconnecting "32 word"
  | Connected string

datatype TunnelError =
    CloudflaredNotFound "string list"
  | Spawn string
  | UrlTimeout u64
  | ChannelClosed
  | AlreadyRunning
  | TunnelOther string

text \<open>Texts of errors; the debug rendering of a list of strings is an argument.\<close>

fun tunnel_error_text :: "(string list \<Rightarrow> string) \<Rightarrow> TunnelError \<Rightarrow> string" where
  "tunnel_error_text dbg (CloudflaredNotFound tried) = ''cloudflared binary not found: tried '' @ dbg tried"
| "tunnel_error_text dbg (Spawn e) = ''cloudflared failed to start: '' @ e"
| "tunnel_error_text dbg (UrlTimeout secs) = ''timed out after '' @ show_u64 secs @ ''s waiting for tunnel URL''"
| "tunnel_error_text dbg ChannelClosed = ''tunnel URL channel closed before URL was observed''"
| "tunnel_error_text dbg AlreadyRunning = ''tunnel is already running''"
| "tunnel_error_text dbg (TunnelOther e) = e"

text \<open>The methods of a provider, over its state.\<close>

record 'p tunnel_methods =
  tm_start :: "nat \<Rightarrow> ('p, TunnelError, unit) action"
  tm_stop :: "('p, TunnelError, unit) action"
  tm_public_url :: "'p \<Rightarrow> string option"
  tm_status :: "'p \<Rightarrow> TunnelStatus"

section \<open>The stub provider\<close>

record StubTunnel =
  configured_url :: string
  stub_status :: TunnelStatus
  stub_public_url :: "string option"

definition StubTunnel_new :: "string \<Rightarrow> StubTunnel" where
  "StubTunnel_new u = \<lparr>configured_url = u, stub_status = Disconnected ''not started'', stub_public_url = None\<rparr>"

definition stub_methods :: "StubTunnel tunnel_methods" where
  "stub_methods = \<lparr>
     tm_start = (\<lambda>_. modifyS (\<lambda>s. s\<lparr>stub_public_url := Some (configured_url s), stub_status := Connected (configured_url s)\<rparr>)),
     tm_stop = modifyS (\<lambda>s. s\<lparr>stub_public_url := None, stub_status := Disconnected ''stopped''\<rparr>),
     tm_public_url = stub_public_url,
     tm_status = stub_status\<rparr>"

section \<open>The orchestrator\<close>

record 'p TransportEntry =
  te_kind :: string
  te_priority :: "32 word"
  te_provider :: 'p

datatype TransportStartOutcome =
    Started string string "32 word"
  | StartFailed string string

fun outcome_kind :: "TransportStartOutcome \<Rightarrow> string" where
  "outcome_kind (Started k u p) = k"
| "outcome_kind (StartFailed k r) = k"

record 'p TunnelOrchestrator =
  entries :: "'p TransportEntry list"
  start_outcomes :: "TransportStartOutcome list"

definition TunnelOrchestrator_new :: "'p TransportEntry list \<Rightarrow> 'p TunnelOrchestrator" where
  "TunnelOrchestrator_new es = \<lparr>entries = es, start_outcomes = []\<rparr>"

definition start_one :: "(string list \<Rightarrow> string) \<Rightarrow> 'p tunnel_methods \<Rightarrow> nat \<Rightarrow> 'p TransportEntry \<Rightarrow> TransportStartOutcome \<times> 'p TransportEntry" where
  "start_one dbg M local_port e =
     (case tm_start M local_port (te_provider e) of (r, p) \<Rightarrow>
        (case r of
           Inr _ \<Rightarrow> (case tm_public_url M p of
               Some u \<Rightarrow> Started (te_kind e) u (te_priority e)
             | None \<Rightarrow> StartFailed (te_kind e) ''provider returned no public_url after start'')
         | Inl err \<Rightarrow> StartFailed (te_kind e) (tunnel_error_text dbg err),
         e\<lparr>te_provider := p\<rparr>))"

text \<open>Both loops run over all entries; no failure ends them.\<close>

definition start_all :: "(string list \<Rightarrow> string) \<Rightarrow> 'p tunnel_methods \<Rightarrow> nat \<Rightarrow> 'p TunnelOrchestrator \<Rightarrow> 'p TunnelOrchestrator" where
  "start_all dbg M local_port s =
     (let started = map (start_one dbg M local_port) (entries s)
      in \<lparr>entries = map snd started, start_outcomes = map fst started\<rparr>)"

definition stop_all :: "'p tunnel_methods \<Rightarrow> 'p TunnelOrchestrator \<Rightarrow> 'p TunnelOrchestrator" where
  "stop_all M s = \<lparr>entries = map (\<lambda>e. e\<lparr>te_provider := snd (tm_stop M (te_provider e))\<rparr>) (entries s), start_outcomes = []\<rparr>"

fun started_entry :: "nat \<times> TransportStartOutcome \<Rightarrow> (nat \<times> string \<times> string \<times> 32 word) option" where
  "started_entry (idx, Started k u p) = Some (idx, k, u, p)"
| "started_entry (idx, StartFailed k r) = None"

definition tunnel_endpoints :: "'p TunnelOrchestrator \<Rightarrow> Endpoint list" where
  "tunnel_endpoints s =
     (let eps = List.map_filter started_entry (List.enumerate 0 (start_outcomes s));
          sorted = sort_key (\<lambda>(idx, k, u, p). (sint p, idx)) eps
      in map (\<lambda>(idx, k, u, p). \<lparr>kind = k, url = u, priority = p, health_hint_unix = None, health = None\<rparr>) sorted)"

section \<open>The output of cloudflared\<close>

text \<open>Maximal runs of characters that are not white space.\<close>

fun words_from :: "string \<Rightarrow> string list \<Rightarrow> string list" where
  "words_from cur [] = (if cur = [] then [] else [cur])"
| "words_from cur (ch # chs) =
     (if is_space_char ch then (if cur = [] then words_from [] chs else cur # words_from [] chs)
      else words_from (cur @ ch) chs)"

definition split_whitespace :: "string \<Rightarrow> string list" where
  "split_whitespace s = words_from [] (utf8_chars s)"

definition is_decoration :: "char \<Rightarrow> bool" where
  "is_decoration c \<longleftrightarrow> c \<in> {CHR ''|'', CHR '','', CHR 0x22, CHR 0x27, CHR ''<'', CHR ''>''}"

definition trim_matches :: "(char \<Rightarrow> bool) \<Rightarrow> string \<Rightarrow> string" where
  "trim_matches p s = rev (dropWhile p (rev (dropWhile p s)))"

definition is_trailing_punct :: "char \<Rightarrow> bool" where
  "is_trailing_punct c \<longleftrightarrow> c \<in> {CHR ''.'', CHR '','', CHR '';'', CHR '':'', CHR ''!'', CHR ''?'', CHR '')''}"

definition strip_trailing_punct :: "string \<Rightarrow> string option" where
  "strip_trailing_punct s = (let r = rev (dropWhile is_trailing_punct (rev s)) in if r = [] then None else Some r)"

definition is_trycloudflare_url :: "string \<Rightarrow> bool" where
  "is_trycloudflare_url s \<longleftrightarrow> starts_with s ''https://'' \<and> contains_str s ''trycloudflare.com''"

fun first_tunnel_url :: "string list \<Rightarrow> string option" where
  "first_tunnel_url [] = None"
| "first_tunnel_url (raw # raws) =
     (case strip_trailing_punct (trim_matches is_decoration raw) of
        Some stripped \<Rightarrow> (if is_trycloudflare_url stripped then Some stripped else first_tunnel_url raws)
      | None \<Rightarrow> first_tunnel_url raws)"

definition extract_tunnel_url :: "string \<Rightarrow> string option" where
  "extract_tunnel_url line = first_tunnel_url (split_whitespace line)"

lemma extract_tunnel_url_shape:
  assumes "extract_tunnel_url line = Some u"
  shows "starts_with u ''https://'' \<and> sublist ''trycloudflare.com'' u"
proof -
  have "first_tunnel_url raws = Some u \<Longrightarrow> is_trycloudflare_url u" for raws
    by (induction raws) (auto split: option.splits if_splits)
  with assms show ?thesis by (auto simp: extract_tunnel_url_def is_trycloudflare_url_def contains_str_iff)
qed

section \<open>The contract of a provider\<close>

locale tunnel_provider =
  fixes M :: "'p tunnel_methods"
  assumes start_up: "tm_start M port p = (Inr u, p') \<Longrightarrow> \<exists>a. tm_public_url M p' = Some a \<and> tm_status M p' = Connected a"
    and stop_down: "tm_stop M p = (Inr u, p') \<Longrightarrow> tm_public_url M p' = None \<and> (\<exists>r. tm_status M p' = Disconnected r)"
begin

text \<open>A transport is reported as started exactly when its provider started, with the address it has then.\<close>

lemma start_one_started:
  "fst (start_one dbg M port e) = Started k a pr \<longleftrightarrow> k = te_kind e \<and> pr = te_priority e
     \<and> (\<exists>p'. tm_start M port (te_provider e) = (Inr (), p') \<and> tm_public_url M p' = Some a)"
  by (cases "tm_start M port (te_provider e)") (auto simp: start_one_def split: sum.splits option.splits)

lemma start_one_failed:
  "fst (start_one dbg M port e) = StartFailed k r \<longleftrightarrow> k = te_kind e
     \<and> (\<exists>err p'. tm_start M port (te_provider e) = (Inl err, p') \<and> r = tunnel_error_text dbg err)"
  by (cases "tm_start M port (te_provider e)")
    (auto simp: start_one_def split: sum.splits option.splits dest: start_up)

end

interpretation stub: tunnel_provider stub_methods
  by unfold_locales (auto simp: stub_methods_def)

section \<open>The endpoints of an orchestrator\<close>

text \<open>Breaking ties by the position in the list is stability.\<close>

lemma insort_tie:
  assumes "\<forall>y \<in> set ys. pos x < pos y"
  shows "insort_key (\<lambda>z. (f z, pos z)) x ys = insort_key f x ys"
  using assms by (induction ys) (auto simp: less_eq_prod_def)

lemma sort_tie:
  fixes pos :: "'a \<Rightarrow> nat" and f :: "'a \<Rightarrow> int"
  assumes "sorted_wrt (<) (map pos xs)"
  shows "sort_key (\<lambda>z. (f z, pos z)) xs = sort_key f xs"
  using assms
proof (induction xs)
  case (Cons x xs)
  then show ?case by (simp add: insort_tie)
qed simp

lemma insort_key_map: "insort_key k (f x) (map f xs) = map f (insort_key (\<lambda>z. k (f z)) x xs)"
  by (induction xs) auto

lemma sort_key_map: "sort_key k (map f xs) = map f (sort_key (\<lambda>z. k (f z)) xs)"
  by (induction xs) (simp_all add: insort_key_map)

fun outcome_endpoint :: "TransportStartOutcome \<Rightarrow> Endpoint option" where
  "outcome_endpoint (Started k u p) = Some \<lparr>kind = k, url = u, priority = p, health_hint_unix = None, health = None\<rparr>"
| "outcome_endpoint (StartFailed k r) = None"

lemma started_positions: "sorted_wrt (<) (map fst (List.map_filter started_entry (List.enumerate n os)))
    \<and> (\<forall>i \<in> set (map fst (List.map_filter started_entry (List.enumerate n os))). n \<le> i)"
proof (induction os arbitrary: n)
  case (Cons a os)
  let ?rest = "map fst (List.map_filter started_entry (List.enumerate (Suc n) os))"
  have "sorted_wrt (<) ?rest" "\<forall>i \<in> set ?rest. n < i" using Cons.IH [of "Suc n"] by auto
  moreover from this(2) have "\<forall>i \<in> set ?rest. n \<le> i" by (meson less_imp_le)
  ultimately show ?case by (cases a) (simp_all add: List.map_filter_simps)
qed (simp add: List.map_filter_simps)

lemma started_endpoints:
  "map (\<lambda>(idx, k, u, p). \<lparr>kind = k, url = u, priority = p, health_hint_unix = None, health = None\<rparr>)
     (List.map_filter started_entry (List.enumerate n os)) = List.map_filter outcome_endpoint os"
proof (induction os arbitrary: n)
  case (Cons a os)
  then show ?case by (cases a) (auto simp: List.map_filter_simps)
qed (simp add: List.map_filter_simps)

lemma tunnel_endpoints_sorted:
  "tunnel_endpoints s = sort_key (\<lambda>e. sint (priority e)) (List.map_filter outcome_endpoint (start_outcomes s))"
proof -
  let ?eps = "List.map_filter started_entry (List.enumerate 0 (start_outcomes s))"
  let ?ep = "\<lambda>(idx, k, u, p). \<lparr>kind = k, url = u, priority = p, health_hint_unix = None, health = None\<rparr> :: Endpoint"
  have tie: "(\<lambda>(idx, k, u, p). (sint p, idx)) = (\<lambda>z :: nat \<times> string \<times> string \<times> 32 word. (sint (snd (snd (snd z))), fst z))"
    by auto
  have by_priority: "sort_key (\<lambda>(idx, k, u, p). (sint p, idx)) ?eps = sort_key (\<lambda>z. sint (snd (snd (snd z)))) ?eps"
    unfolding tie using started_positions [of 0 "start_outcomes s"] by (intro sort_tie) blast
  have key: "(\<lambda>z. sint (priority (?ep z))) = (\<lambda>z. sint (snd (snd (snd z))))" by auto
  show ?thesis
    unfolding tunnel_endpoints_def Let_def started_endpoints [of 0 "start_outcomes s", symmetric] sort_key_map key by_priority ..
qed

end
