(* ===== verification/Billing.thy ===== *)
theory Billing
  imports Policy Platform
begin

text \<open>
  Billing providers (\<open>aex-billing/src\<close>): tiers of organisations and usage records.  The locale
  \<open>billing_provider\<close> is the contract of the \<open>BillingProvider\<close> trait: asking and recording do not
  change the tiers.  The in-memory provider keeps a bounded list of records; the lemmas say that
  it is always the recent end of the full history, and how much of it is kept.
\<close>

datatype BillingError =
    Unavailable string
  | UnknownOrg string
  | Stripe string
  | BillingOther string

fun billing_error_text :: "BillingError \<Rightarrow> string" where
  "billing_error_text (Unavailable e) = ''billing backend unavailable: '' @ e"
| "billing_error_text (UnknownOrg org) = ''org '' @ org @ '' not recognised by billing backend''"
| "billing_error_text (Stripe e) = ''stripe API error: '' @ e"
| "billing_error_text (BillingOther e) = e"

record UsageRecord =
  ur_org :: string
  ur_transfer_id :: string
  ur_size_bytes :: u64
  ur_at :: instant

section \<open>The in-memory provider\<close>

definition USAGE_RING_MAX :: nat where
  "USAGE_RING_MAX = 10000"

record InMemoryBilling =
  ib_tiers :: "string \<rightharpoonup> TierName"
  ib_default_tier :: TierName
  ib_usage :: "UsageRecord list"

definition InMemoryBilling_new :: "TierName \<Rightarrow> InMemoryBilling" where
  "InMemoryBilling_new d = \<lparr>ib_tiers = Map.empty, ib_default_tier = d, ib_usage = []\<rparr>"

definition set_tier :: "string \<Rightarrow> TierName \<Rightarrow> InMemoryBilling \<Rightarrow> InMemoryBilling" where
  "set_tier org tier b = b\<lparr>ib_tiers := (ib_tiers b)(org \<mapsto> tier)\<rparr>"

definition usage_snapshot :: "InMemoryBilling \<Rightarrow> UsageRecord list" where
  "usage_snapshot b = ib_usage b"

definition usage_for_org :: "string \<Rightarrow> InMemoryBilling \<Rightarrow> UsageRecord list" where
  "usage_for_org org b = filter (\<lambda>r. ur_org r = org) (ib_usage b)"

text \<open>The sum wraps at 64 bits.\<close>

definition total_bytes_for_org :: "string \<Rightarrow> InMemoryBilling \<Rightarrow> u64" where
  "total_bytes_for_org org b = sum_list (map ur_size_bytes (usage_for_org org b))"

definition memory_tier_for :: "string \<Rightarrow> (InMemoryBilling, BillingError, TierName) action" where
  "memory_tier_for org =
     getS (\<lambda>b. case ib_tiers b org of Some t \<Rightarrow> t | None \<Rightarrow> ib_default_tier b)"

text \<open>The list after making room for one more record.\<close>

definition make_room :: "UsageRecord list \<Rightarrow> UsageRecord list" where
  "make_room us = (if length us \<ge> USAGE_RING_MAX then drop (USAGE_RING_MAX div 10) us else us)"

definition memory_record_usage :: "instant \<Rightarrow> string \<Rightarrow> string \<Rightarrow> u64 \<Rightarrow> (InMemoryBilling, BillingError, unit) action" where
  "memory_record_usage now org transfer_id size_bytes =
     modifyS (\<lambda>b. b\<lparr>ib_usage := make_room (ib_usage b)
       @ [\<lparr>ur_org = org, ur_transfer_id = transfer_id, ur_size_bytes = size_bytes, ur_at = now\<rparr>]\<rparr>)"

section \<open>The Stripe provider\<close>

record StripeBilling =
  sb_secret_key :: string
  sb_meter_event_name :: string
  sb_org_to_customer :: "string \<rightharpoonup> string"
  sb_customer_tiers :: "string \<rightharpoonup> TierName"

definition StripeBilling_new :: "string \<Rightarrow> string \<Rightarrow> StripeBilling" where
  "StripeBilling_new sk meter = \<lparr>sb_secret_key = sk, sb_meter_event_name = meter,
     sb_org_to_customer = Map.empty, sb_customer_tiers = Map.empty\<rparr>"

definition StripeBilling_from_env :: "string option \<Rightarrow> BillingError + StripeBilling" where
  "StripeBilling_from_env var =
     bindE (ok_or (Unavailable ''STRIPE_SECRET_KEY env var is required'') var) (\<lambda>secret_key.
     Inr (StripeBilling_new secret_key ''spize.transfers''))"

definition register_org :: "string \<Rightarrow> string \<Rightarrow> TierName \<Rightarrow> StripeBilling \<Rightarrow> StripeBilling" where
  "register_org org cid tier b =
     b\<lparr>sb_org_to_customer := (sb_org_to_customer b)(org \<mapsto> cid), sb_customer_tiers := (sb_customer_tiers b)(cid \<mapsto> tier)\<rparr>"

definition customer_for :: "string \<Rightarrow> (StripeBilling, BillingError, string) action" where
  "customer_for org =
     bindS (getS (\<lambda>b. sb_org_to_customer b org)) (\<lambda>found. liftS (ok_or (UnknownOrg org) found))"

definition stripe_tier_for :: "string \<Rightarrow> (StripeBilling, BillingError, TierName) action" where
  "stripe_tier_for org =
     bindS (customer_for org) (\<lambda>customer.
     getS (\<lambda>b. case sb_customer_tiers b customer of Some t \<Rightarrow> t | None \<Rightarrow> FreeHuman))"

definition stripe_record_usage :: "string \<Rightarrow> string \<Rightarrow> u64 \<Rightarrow> (StripeBilling, BillingError, unit) action" where
  "stripe_record_usage org transfer_id size_bytes = bindS (customer_for org) (\<lambda>customer. returnS ())"

section \<open>The contract\<close>

locale billing_provider =
  fixes tier_for :: "string \<Rightarrow> ('b, BillingError, TierName) action"
    and record_usage :: "instant \<Rightarrow> string \<Rightarrow> string \<Rightarrow> u64 \<Rightarrow> ('b, BillingError, unit) action"
  assumes tier_pure: "tier_for org b = (r, b') \<Longrightarrow> b' = b"
    and usage_keeps_tiers: "record_usage now org' tid n b = (u, b') \<Longrightarrow> fst (tier_for org b') = fst (tier_for org b)"
begin

text \<open>The tier of an organisation does not depend on what was metered in between.\<close>

lemma tier_stable:
  "fst (tier_for org (fold (\<lambda>(now, o1, tid, n) s. snd (record_usage now o1 tid n s)) calls b)) = fst (tier_for org b)"
proof (induction calls arbitrary: b)
  case (Cons c calls)
  obtain now o1 tid n where c: "c = (now, o1, tid, n)" by (cases c)
  have "fst (tier_for org (snd (record_usage now o1 tid n b))) = fst (tier_for org b)"
    using usage_keeps_tiers [of now o1 tid n b _ _ org] by (metis prod.collapse)
  with Cons.IH [of "snd (record_usage now o1 tid n b)"] show ?case by (simp add: c)
qed simp

end

interpretation membill: billing_provider memory_tier_for memory_record_usage
  by unfold_locales (auto simp: memory_tier_for_def memory_record_usage_def split: option.splits)

interpretation stripebill: billing_provider stripe_tier_for "\<lambda>_. stripe_record_usage"
proof unfold_locales
  fix org b r b'
  assume "stripe_tier_for org b = (r, b')"
  then show "b' = b"
    by (auto simp: stripe_tier_for_def customer_for_def bindS_def split: sum.splits)
next
  fix now :: instant and org' tid n b u b' org
  assume "stripe_record_usage org' tid n b = (u, b')"
  then have "b' = b" by (auto simp: stripe_record_usage_def customer_for_def bindS_def split: sum.splits)
  then show "fst (stripe_tier_for org b') = fst (stripe_tier_for org b)" by simp
qed

section \<open>The recent end of the history\<close>

text \<open>\<open>hist\<close> is every record made since the start.\<close>

definition usage_inv :: "UsageRecord list \<Rightarrow> UsageRecord list \<Rightarrow> bool" where
  "usage_inv hist us \<longleftrightarrow> (\<exists>dropped. hist = dropped @ us) \<and> length us \<le> USAGE_RING_MAX
     \<and> min (length hist) (USAGE_RING_MAX - USAGE_RING_MAX div 10 + 1) \<le> length us"

lemma usage_inv_Nil: "usage_inv [] []"
  by (simp add: usage_inv_def)

lemma usage_inv_record:
  assumes "usage_inv hist us"
  shows "usage_inv (hist @ [r]) (make_room us @ [r])"
proof -
  from assms obtain d where d: "hist = d @ us" by (auto simp: usage_inv_def)
  have "hist @ [r] = (d @ (if length us \<ge> USAGE_RING_MAX then take (USAGE_RING_MAX div 10) us else []))
      @ (make_room us @ [r])"
    by (simp add: d make_room_def)
  then have "\<exists>d'. hist @ [r] = d' @ (make_room us @ [r])" by blast
  with assms show ?thesis unfolding usage_inv_def make_room_def by (auto simp: USAGE_RING_MAX_def)
qed

fun record_all :: "(instant \<times> string \<times> string \<times> u64) list \<Rightarrow> InMemoryBilling \<Rightarrow> InMemoryBilling" where
  "record_all [] b = b"
| "record_all ((now, org, tid, n) # calls) b = record_all calls (snd (memory_record_usage now org tid n b))"

definition usage_of :: "instant \<times> string \<times> string \<times> u64 \<Rightarrow> UsageRecord" where
  "usage_of = (\<lambda>(now, org, tid, n). \<lparr>ur_org = org, ur_transfer_id = tid, ur_size_bytes = n, ur_at = now\<rparr>)"

lemma record_all_inv:
  assumes "usage_inv hist (ib_usage b)"
  shows "usage_inv (hist @ map usage_of calls) (ib_usage (record_all calls b))"
  using assms
proof (induction calls b arbitrary: hist rule: record_all.induct)
  case (2 now org tid n calls b)
  have "usage_inv (hist @ [usage_of (now, org, tid, n)]) (ib_usage (snd (memory_record_usage now org tid n b)))"
    using usage_inv_record [OF "2.prems"] by (simp add: memory_record_usage_def usage_of_def)
  from "2.IH" [OF this] show ?case by simp
qed simp

lemma recent_usage:
  "usage_inv (map usage_of calls) (usage_snapshot (record_all calls (InMemoryBilling_new d)))"
  using record_all_inv [of "[]" "InMemoryBilling_new d" calls] usage_inv_Nil
  by (simp add: usage_snapshot_def InMemoryBilling_new_def)

end
