(* ===== verification/ServiceProperties.thy ===== *)
theory ServiceProperties
  imports Deployment Webhook Tunnels Billing Demo
begin

text \<open>
  The properties of the services around the transfers: administration and API keys, the webhook
  sink and its retries, the detection of captive portals, tunnels, billing and the signing key.
\<close>

section \<open>Administration\<close>

text \<open>
  The administration routes are reached only with the configured token: a request is served
  exactly when the server has a token, the header is that token after \<open>Bearer\<close>, and the token has
  at least 32 characters and is printable; every other request is answered with 503, 401 or 403 by
  the gate and changes nothing.
\<close>

theorem admin_gate_exact:
  "if \<exists>token. admin_token = Some token \<and> authorization = Some (''Bearer '' @ token) \<and> 32 \<le> length token
        \<and> header_to_str (''Bearer '' @ token) \<noteq> None
   then admin_request P d f buf admin_token authorization call t =
     (case admin_route P d f buf call t of (Inl e, t') \<Rightarrow> (AdminApiError e, t') | (Inr resp, t') \<Rightarrow> (resp, t'))
   else \<exists>st c m. st \<in> {503, 401, 403} \<and> admin_request P d f buf admin_token authorization call t = (AdminError st c m, t)"
proof -
  define ok where "ok \<longleftrightarrow> (\<exists>token. admin_token = Some token \<and> authorization = Some (''Bearer '' @ token)
    \<and> 32 \<le> length token \<and> header_to_str (''Bearer '' @ token) \<noteq> None)"
  have iff: "require_admin_token admin_token authorization = Inr () \<longleftrightarrow> ok"
    unfolding ok_def by (rule require_admin_token_iff)
  show ?thesis
  proof (cases "require_admin_token admin_token authorization")
    case (Inr u)
    with iff have "ok = True" by simp
    with Inr show ?thesis unfolding ok_def [symmetric] by (simp add: admin_request_def)
  next
    case (Inl e)
    with iff have "ok = False" by simp
    moreover from require_admin_token_refusal [OF Inl] obtain st c m
      where "st \<in> {503, 401, 403}" "e = AdminError st c m" by (elim exE conjE)
    ultimately show ?thesis using Inl unfolding ok_def [symmetric] by (auto simp: admin_request_def)
  qed
qed

text \<open>
  C38: An API key that was handed out works until it is revoked and never after: whatever statements
  run on the table after its creation, the lookup by the hash of its plaintext changes nothing and answers
  with this key, under its identifier and its customer, if none of them revoked this identifier or this
  customer, and with no key at all otherwise.
\<close>

theorem api_key_lifecycle:
  assumes "keys_wf t" "create_returning_plaintext P d buf customer name tier t = (Inr k, t')"
  shows "\<exists>found. find_active_by_hash (hash_plaintext P (ck_plaintext k)) (fold (run_op P) ops t') = (Inr found, fold (run_op P) ops t')
    \<and> (if list_ex (revokes (kr_id (ck_row k)) customer) ops then found = None
       else \<exists>r \<in> set (fold (run_op P) ops t'). found = Some r \<and> kr_id r = kr_id (ck_row k) \<and> kr_customer_id r = customer)"
  by (rule issued_key_found [OF assms])

definition demo_created :: CreatedApiKey where
  "demo_created = \<lparr>ck_row = \<lparr>kr_id = ''row'', kr_key_hash = hash_plaintext demo_platform (generate_plaintext demo_platform []),
     kr_key_prefix = prefix_of (generate_plaintext demo_platform []), kr_customer_id = ''acme'', kr_name = ''ci'', kr_tier = ''team'',
     kr_created_at = demo_time, kr_last_used_at = None, kr_revoked_at = None, kr_usage_count = 0\<rparr>,
   ck_plaintext = generate_plaintext demo_platform []\<rparr>"

theorem api_key_lifecycle_witness:
  "\<exists>t'. create_returning_plaintext demo_platform demo_dbe [] ''acme'' ''ci'' ''team'' [] = (Inr demo_created, t')
     \<and> (\<exists>r. fst (find_active_by_hash (kr_key_hash (ck_row demo_created)) (fold (run_op demo_platform) [OpBump demo_dbe ''row''] t'))
          = Inr (Some r) \<and> kr_id r = ''row'')
     \<and> fst (find_active_by_hash (kr_key_hash (ck_row demo_created))
          (fold (run_op demo_platform) [OpBump demo_dbe ''row'', OpRevokeCustomer demo_dbe ''acme''] t')) = Inr None"
proof -
  have c: "create_returning_plaintext demo_platform demo_dbe [] ''acme'' ''ci'' ''team'' [] = (Inr demo_created, [ck_row demo_created])"
    by (simp add: create_Inr insert_row_Inr demo_created_def demo_dbe_def)
  have wf: "keys_wf []" by (simp add: keys_wf_def)
  have k: "hash_plaintext demo_platform (ck_plaintext demo_created) = kr_key_hash (ck_row demo_created)" "kr_id (ck_row demo_created) = ''row''"
    by (simp_all add: demo_created_def)
  from api_key_lifecycle [OF wf c, of "[OpBump demo_dbe ''row'']"]
  have "\<exists>r. fst (find_active_by_hash (kr_key_hash (ck_row demo_created)) (fold (run_op demo_platform) [OpBump demo_dbe ''row''] [ck_row demo_created]))
      = Inr (Some r) \<and> kr_id r = ''row''" unfolding k by auto
  moreover from api_key_lifecycle [OF wf c, of "[OpBump demo_dbe ''row'', OpRevokeCustomer demo_dbe ''acme'']"]
  have "fst (find_active_by_hash (kr_key_hash (ck_row demo_created))
      (fold (run_op demo_platform) [OpBump demo_dbe ''row'', OpRevokeCustomer demo_dbe ''acme''] [ck_row demo_created])) = Inr None"
    unfolding k by auto
  ultimately show ?thesis using c by blast
qed

section \<open>Webhooks and retries\<close>

text \<open>
  C40: A webhook submission ends: with a valid address it posts at most as often as configured (at
  least once), stops at the first success or permanent status, returns the outcome of its last
  attempt, pauses between attempts and never overflows its 8-bit counter.  Without the opt-in for
  internal targets it posts only if the host did not resolve to an internal address.
\<close>

theorem webhook_submission:
  assumes "we_parse W (wc_url config) = Inr u"
  shows "(case check_host W config u of
      Inl e \<Rightarrow> WebhookDecisionSink_submit W config request = Some (Inl (SinkInfra (webhook_error_text e)), [])
    | Inr _ \<Rightarrow> (\<exists>n. ends_at (unat (max (wc_max_retries config) 1)) transient (attempt_outcome W config request u) 1 n
        \<and> WebhookDecisionSink_submit W config request
            = Some (final_result n (attempt_outcome W config request u n), post_trace 1 (n - 1))))
    \<and> (check_host W config u = Inr () \<longrightarrow> wc_allow_internal_targets config \<or> (\<exists>host. url_host u = Some host
        \<and> (case we_socket_addrs W host of Inl _ \<Rightarrow> True | Inr ips \<Rightarrow> list_all (\<lambda>ip. \<not> is_forbidden_ip ip) ips)))"
proof (cases "check_host W config u")
  case (Inl e)
  then show ?thesis by (simp add: WebhookDecisionSink_submit_def assms)
next
  case (Inr v)
  then show ?thesis using submit_exact [OF assms, of request]
    by (auto simp: check_host_def step_iffs list_all_iff list_ex_iff split: sum.splits if_splits)
qed

definition demo_url :: Url where
  "demo_url = \<lparr>url_text = ''https://h'', url_scheme = ''https'', url_host = Some ''h'', url_port = None\<rparr>"

definition demo_hook :: webhook_env where
  "demo_hook = \<lparr>we_parse = (\<lambda>_. Inr demo_url), we_socket_addrs = (\<lambda>_. Inl []), we_client = Inr (),
     we_post = (\<lambda>k _ _ _. if k < 3 then Inr 503 else Inr 200)\<rparr>"

definition demo_hook_config :: WebhookConfig where
  "demo_hook_config = \<lparr>wc_url = ''https://h'', wc_bearer_token = None, wc_timeout_secs = 10,
     wc_max_retries = DEFAULT_MAX_RETRIES, wc_allow_internal_targets = False\<rparr>"

definition demo_decision :: DecisionRequest where
  "demo_decision = \<lparr>dr_decision_id = ''d'', dr_transfer_id = ''t'', dr_sender_agent_id = alice, dr_recipient_agent_id = bob,
     dr_declared_mime = [], dr_filename = [], dr_size_bytes = 3, dr_summary = []\<rparr>"

theorem webhook_submission_witness:
  "\<exists>n \<le> 3. WebhookDecisionSink_submit demo_hook demo_hook_config demo_decision
     = Some (final_result n (attempt_outcome demo_hook demo_hook_config demo_decision demo_url n), post_trace 1 (n - 1))"
proof -
  have "we_parse demo_hook (wc_url demo_hook_config) = Inr demo_url" by (simp add: demo_hook_def)
  moreover have "check_host demo_hook demo_hook_config demo_url = Inr ()"
    by (simp add: check_host_def demo_hook_def demo_hook_config_def demo_url_def)
  moreover have "unat (max (wc_max_retries demo_hook_config) 1) = 3"
    by (simp add: demo_hook_config_def DEFAULT_MAX_RETRIES_def)
  ultimately show ?thesis
    using webhook_submission [of demo_hook demo_hook_config demo_url demo_decision] by (auto simp: ends_at_def)
qed

text \<open>
  Retrying ends after at most the configured number of attempts, with the outcome of the first
  attempt that succeeds or fails for good, or else of the last; the pauses between are those of the
  policy, and the assertion on the policy is the only panic.
\<close>

theorem retry_outcome:
  "(case retry_with_backoff p should_retry invoke of
      None \<Rightarrow> max_attempts p = 0
    | Some (r, trace) \<Rightarrow> (\<exists>n. ends_at (unat (max_attempts p)) should_retry invoke 1 n
        \<and> r = invoke n \<and> trace = retry_trace p 1 (n - 1)))"
proof (cases "max_attempts p \<ge> 1")
  case True
  then show ?thesis using retry_exact [OF True, of should_retry invoke] by auto
next
  case False
  then have "max_attempts p = 0" by (simp add: not_le word_less_nat_alt unat_eq_0)
  then show ?thesis by (simp add: retry_with_backoff_def)
qed

section \<open>Networks and tunnels\<close>

text \<open>
  The network is reported as direct exactly when all three probes gave their canonical answers;
  one sign of a portal (a redirect, status 511, or another page) is enough to report a portal.
\<close>

theorem captive_detection:
  "(detect_network_state get = Direct \<longleftrightarrow>
     (\<exists>ra rg rm body_a body_m. get APPLE_URL = Inr ra \<and> success_status (pr_status ra) \<and> pr_text ra = Inr body_a
        \<and> sublist APPLE_EXPECTED_BODY_FRAGMENT body_a
        \<and> get GOOGLE_URL = Inr rg \<and> pr_status rg = 204
        \<and> get MS_URL = Inr rm \<and> success_status (pr_status rm) \<and> pr_text rm = Inr body_m \<and> trim body_m = MS_EXPECTED_BODY))
   \<and> (detect_network_state get = CaptivePortal \<longleftrightarrow> ProbeCaptive \<in> {probe_apple get APPLE_URL, probe_google get GOOGLE_URL, probe_ms get MS_URL})"
  unfolding detect_direct_iff by (auto simp: detect_network_state_def detect_with_urls_def consensus_def)

text \<open>
  The endpoints that an orchestrator offers are exactly the transports that came up, by
  ascending priority, those of equal priority in the order of the configuration; a failing
  transport never keeps the others from starting.
\<close>

theorem tunnel_endpoints_order:
  "tunnel_endpoints (start_all dbg M port s) = sort_key (\<lambda>e. sint (priority e))
     (List.map_filter (\<lambda>e. outcome_endpoint (fst (start_one dbg M port e))) (entries s))"
  by (simp add: tunnel_endpoints_sorted start_all_def Let_def List.map_filter_def o_def filter_map)

section \<open>Billing and the signing key\<close>

text \<open>
  The in-memory usage log is bounded and recent: it holds at most 10000 records, they are the
  last ones recorded, in order, and the last 9001 (or all, if there are fewer) are never dropped.
\<close>

theorem usage_bounded_recent:
  "\<exists>dropped. map usage_of calls = dropped @ usage_snapshot (record_all calls (InMemoryBilling_new d))
     \<and> length (usage_snapshot (record_all calls (InMemoryBilling_new d))) \<le> 10000
     \<and> min (length calls) 9001 \<le> length (usage_snapshot (record_all calls (InMemoryBilling_new d)))"
  using recent_usage [of calls d] by (auto simp: usage_inv_def USAGE_RING_MAX_def)

text \<open>
  The signing key survives restarts: after a start that succeeded, every later start that can
  read the file gets the same key and changes nothing, whatever key it drew; and a start that fails
  leaves the stored key as it was.
\<close>

theorem signing_key_stable:
  assumes "load_or_generate dir_fault read_fault out fresh path fs = (r1, fs1)" "length fresh = 32"
    and "with_extension_tmp path \<noteq> path" "fs2 path = fs1 path"
  shows "case r1 of
      Inr sg \<Rightarrow> load_or_generate None None out' fresh' path fs2 = (Inr sg, fs2)
    | Inl e \<Rightarrow> fs1 path = fs path"
proof (cases r1)
  case (Inl e)
  obtain r fs' where p: "persist out path fresh fs = (r, fs')" by fastforce
  show ?thesis
    using assms(1) persist_atomic [OF p assms(3)] Inl p
    by (cases "fs path")
      (auto simp: load_or_generate_def bindS_def mapErrS_apply split: option.splits if_splits sum.splits prod.splits)
next
  case (Inr sg)
  then show ?thesis
    using key_survives_restart [of dir_fault read_fault out fresh path fs sg fs1 fs2 out' fresh'] assms
    by (cases "load_or_generate None None out' fresh' path fs2") auto
qed

theorem signing_key_stable_witness:
  "load_or_generate None None PersistOk bob_pk ''./data/signing-key.bin''
     (snd (load_or_generate None None PersistOk alice_pk ''./data/signing-key.bin'' Map.empty))
   = (Inr \<lparr>cs_key = alice_pk, cs_path = ''./data/signing-key.bin''\<rparr>,
      snd (load_or_generate None None PersistOk alice_pk ''./data/signing-key.bin'' Map.empty))"
proof -
  have tmp: "with_extension_tmp ''./data/signing-key.bin'' \<noteq> ''./data/signing-key.bin''" by code_simp
  obtain r1 fs1 where st: "load_or_generate None None PersistOk alice_pk ''./data/signing-key.bin'' Map.empty = (r1, fs1)"
    by fastforce
  then have "r1 = Inr \<lparr>cs_key = alice_pk, cs_path = ''./data/signing-key.bin''\<rparr>"
    by (auto simp: load_or_generate_def persist_def bindS_def mapErrS_apply Let_def)
  with signing_key_stable [OF st _ tmp, of fs1 PersistOk bob_pk] st show ?thesis by simp
qed

end
