(* ===== verification/TunnelProviders.thy ===== *)
theory TunnelProviders
  imports Tunnels EndpointValidator
begin

text \<open>
  The providers of \<open>aex-tunnel/src\<close> that run other programs: quick and named Cloudflare tunnels,
  FRP, Tailscale Funnel, and Iroh.  What the operating system and the network answer is the record
  \<open>tunnel_world\<close>; times are in milliseconds.  A child process is its handle: it is killed when the
  handle is dropped.  All providers fulfil \<open>tunnel_provider\<close>; those whose failed start leaves
  nothing behind fulfil \<open>restartable_provider\<close>, and those that watch a child \<open>tunnel_family\<close>, over
  worlds that change.
\<close>

section \<open>The world of a provider\<close>

record tunnel_world =
  program_runs :: "string \<Rightarrow> bool"
  spawn_child :: "string \<Rightarrow> string list \<Rightarrow> string + nat"
  child_exited :: "nat \<Rightarrow> string + bool"
  client_built :: "string + unit"
  probe_time :: "nat \<Rightarrow> nat"
  probe_answer :: "nat \<Rightarrow> string \<Rightarrow> string + nat"
  stderr_lines :: "(nat \<times> string) list"
  stderr_closed :: "nat option"
  waiter_lag :: nat
  temp_config :: "string + string"
  write_config :: "string \<Rightarrow> string \<Rightarrow> string + unit"
  run_command :: "string \<Rightarrow> string list \<Rightarrow> string + bool \<times> string \<times> string"
  iroh_bind :: "bytes \<Rightarrow> bytes option \<Rightarrow> string + string \<times> string list"
  iroh_online :: nat

section \<open>Shared by the providers\<close>

text \<open>The first candidate that runs, unless a path is pinned.\<close>

definition resolve_binary_from :: "tunnel_world \<Rightarrow> string list \<Rightarrow> TunnelError \<Rightarrow> string option \<Rightarrow> TunnelError + string" where
  "resolve_binary_from W candidates missing binary_path =
     (case binary_path of
        Some p \<Rightarrow> Inr p
      | None \<Rightarrow> ok_or missing (List.find (program_runs W) candidates))"

definition PROBE_INTERVAL :: nat where
  "PROBE_INTERVAL = 2000"

text \<open>
  The polling loop under its timeout, from a moment on: probe \<open>k\<close> is sent at \<open>t\<close>.  A loop that is
  past the timeout when a probe ends, or would end, is cancelled.
\<close>

function poll_ready :: "tunnel_world \<Rightarrow> string \<Rightarrow> nat \<Rightarrow> nat \<Rightarrow> nat \<Rightarrow> bool" where
  "poll_ready W healthz limit k t =
     (let finished = t + probe_time W k in
      if finished > limit then False
      else case probe_answer W k healthz of
        Inr c \<Rightarrow> (if is_success c then True else poll_ready W healthz limit (k + 1) (finished + PROBE_INTERVAL))
      | Inl _ \<Rightarrow> poll_ready W healthz limit (k + 1) (finished + PROBE_INTERVAL))"
  by pat_completeness auto
termination
  by (relation "measure (\<lambda>(W, h, limit, k, t). Suc limit - t)") (auto simp: PROBE_INTERVAL_def)

declare poll_ready.simps [simp del]

definition probe_until_ready :: "tunnel_world \<Rightarrow> string \<Rightarrow> nat \<Rightarrow> TunnelError + unit" where
  "probe_until_ready W public_url ready_timeout =
     bindE (map_err (\<lambda>e. TunnelOther (''reqwest build: '' @ e)) (client_built W)) (\<lambda>_.
     ensure (poll_ready W (healthz_url public_url) ready_timeout 0 0) (UrlTimeout (of_nat (ready_timeout div 1000))))"

definition local_url :: "nat \<Rightarrow> string" where
  "local_url port = ''http://127.0.0.1:'' @ show_nat port"

section \<open>Cloudflare quick tunnels\<close>

definition URL_TIMEOUT :: nat where
  "URL_TIMEOUT = 30000"

definition CLOUDFLARED_PATHS :: "string list" where
  "CLOUDFLARED_PATHS = [''cloudflared'', ''/opt/homebrew/bin/cloudflared'', ''/usr/local/bin/cloudflared'']"

record CloudflareQuickTunnel =
  cq_child :: "nat option"
  cq_public_url :: "string option"
  cq_status :: TunnelStatus
  cq_binary_path :: "string option"

definition CloudflareQuickTunnel_new :: CloudflareQuickTunnel where
  "CloudflareQuickTunnel_new = \<lparr>cq_child = None, cq_public_url = None, cq_status = Disconnected ''not started'', cq_binary_path = None\<rparr>"

definition cq_with_binary_path :: "string \<Rightarrow> CloudflareQuickTunnel \<Rightarrow> CloudflareQuickTunnel" where
  "cq_with_binary_path p s = s\<lparr>cq_binary_path := Some p\<rparr>"

definition cq_is_alive :: "tunnel_world \<Rightarrow> CloudflareQuickTunnel \<Rightarrow> bool \<times> CloudflareQuickTunnel" where
  "cq_is_alive W s =
     (case cq_child s of
        None \<Rightarrow> (False, s)
      | Some c \<Rightarrow> (case child_exited W c of
          Inr True \<Rightarrow> (False, s\<lparr>cq_status := Disconnected ''process exited'', cq_public_url := None\<rparr>)
        | Inr False \<Rightarrow> (True, s)
        | Inl _ \<Rightarrow> (False, s)))"

definition cq_resolve_binary :: "tunnel_world \<Rightarrow> string option \<Rightarrow> TunnelError + string" where
  "cq_resolve_binary W = resolve_binary_from W CLOUDFLARED_PATHS (CloudflaredNotFound CLOUDFLARED_PATHS)"

text \<open>
  The reader sends every address that it finds; the waiter is woken by the first and takes the last
  that was sent when it looks, \<open>waiter_lag\<close> lines later.
\<close>

definition urls_sent :: "(nat \<times> string) list \<Rightarrow> (nat \<times> nat \<times> string) list" where
  "urls_sent lines = List.map_filter (\<lambda>(i, at, line). map_option (\<lambda>u. (i, at, u)) (extract_tunnel_url line)) (List.enumerate 0 lines)"

definition url_seen :: "tunnel_world \<Rightarrow> nat \<Rightarrow> string" where
  "url_seen W i = snd (snd (last (filter (\<lambda>(j, _). j \<le> i + waiter_lag W) (urls_sent (stderr_lines W)))))"

definition wait_for_url :: "tunnel_world \<Rightarrow> (unit + string option)" where
  "wait_for_url W =
     (case urls_sent (stderr_lines W) of
        (i, at, _) # _ \<Rightarrow> (if at \<le> URL_TIMEOUT then Inr (Some (url_seen W i)) else Inl ())
      | [] \<Rightarrow> (case stderr_closed W of
          Some at \<Rightarrow> (if at \<le> URL_TIMEOUT then Inr None else Inl ())
        | None \<Rightarrow> Inl ()))"

definition cq_start :: "tunnel_world \<Rightarrow> nat \<Rightarrow> (CloudflareQuickTunnel, TunnelError, unit) action" where
  "cq_start W local_port = (\<lambda>s.
     if cq_child s \<noteq> None then (Inl AlreadyRunning, s)
     else let s1 = s\<lparr>cq_status := Connecting\<rparr> in
       case cq_resolve_binary W (cq_binary_path s1) of
         Inl e \<Rightarrow> (Inl e, s1)
       | Inr binary \<Rightarrow> (case spawn_child W binary [''tunnel'', ''--url'', local_url local_port, ''--no-autoupdate''] of
           Inl e \<Rightarrow> (Inl (Spawn e), s1)
         | Inr c \<Rightarrow> (let s2 = s1\<lparr>cq_child := Some c\<rparr> in
             case wait_for_url W of
               Inr (Some u) \<Rightarrow> (Inr (), s2\<lparr>cq_public_url := Some u, cq_status := Connected u\<rparr>)
             | Inr None \<Rightarrow> (Inl ChannelClosed, s2\<lparr>cq_status := Disconnected ''cloudflared closed stderr without emitting URL''\<rparr>)
             | Inl _ \<Rightarrow> (Inl (UrlTimeout (of_nat (URL_TIMEOUT div 1000))), s2\<lparr>cq_status := Disconnected ''timeout waiting for URL''\<rparr>))))"

definition cq_stop :: "(CloudflareQuickTunnel, TunnelError, unit) action" where
  "cq_stop = modifyS (\<lambda>s. s\<lparr>cq_child := None, cq_public_url := None, cq_status := Disconnected ''stopped''\<rparr>)"

definition quick_methods :: "tunnel_world \<Rightarrow> CloudflareQuickTunnel tunnel_methods" where
  "quick_methods W = \<lparr>tm_start = cq_start W, tm_stop = cq_stop, tm_public_url = cq_public_url, tm_status = cq_status\<rparr>"

section \<open>Named Cloudflare tunnels\<close>

record NamedCloudflareTunnel =
  nt_token :: string
  nt_public_url :: string
  nt_binary_path :: "string option"
  nt_ready_timeout :: nat
  nt_child :: "nat option"
  nt_status :: TunnelStatus
  nt_cached_url :: "string option"

definition NamedCloudflareTunnel_new :: "string \<Rightarrow> string \<Rightarrow> NamedCloudflareTunnel" where
  "NamedCloudflareTunnel_new token u = \<lparr>nt_token = token, nt_public_url = u, nt_binary_path = None, nt_ready_timeout = 60000,
     nt_child = None, nt_status = Disconnected ''not started'', nt_cached_url = None\<rparr>"

definition nt_with_binary_path :: "string \<Rightarrow> NamedCloudflareTunnel \<Rightarrow> NamedCloudflareTunnel" where
  "nt_with_binary_path p s = s\<lparr>nt_binary_path := Some p\<rparr>"

definition nt_with_ready_timeout :: "nat \<Rightarrow> NamedCloudflareTunnel \<Rightarrow> NamedCloudflareTunnel" where
  "nt_with_ready_timeout d s = s\<lparr>nt_ready_timeout := d\<rparr>"

definition nt_is_alive :: "tunnel_world \<Rightarrow> NamedCloudflareTunnel \<Rightarrow> bool \<times> NamedCloudflareTunnel" where
  "nt_is_alive W s =
     (case nt_child s of
        None \<Rightarrow> (False, s)
      | Some c \<Rightarrow> (case child_exited W c of
          Inr True \<Rightarrow> (False, s\<lparr>nt_status := Disconnected ''process exited'', nt_cached_url := None\<rparr>)
        | Inr False \<Rightarrow> (True, s)
        | Inl _ \<Rightarrow> (False, s)))"

definition nt_resolve_binary :: "tunnel_world \<Rightarrow> string option \<Rightarrow> TunnelError + string" where
  "nt_resolve_binary W = resolve_binary_from W CLOUDFLARED_PATHS (CloudflaredNotFound CLOUDFLARED_PATHS)"

definition nt_start :: "(string list \<Rightarrow> string) \<Rightarrow> tunnel_world \<Rightarrow> nat \<Rightarrow> (NamedCloudflareTunnel, TunnelError, unit) action" where
  "nt_start dbg W local_port = (\<lambda>s.
     if nt_child s \<noteq> None then (Inl AlreadyRunning, s)
     else let s1 = s\<lparr>nt_status := Connecting\<rparr> in
       case nt_resolve_binary W (nt_binary_path s1) of
         Inl e \<Rightarrow> (Inl e, s1\<lparr>nt_status := Disconnected (tunnel_error_text dbg e)\<rparr>)
       | Inr binary \<Rightarrow>
           (case spawn_child W binary [''tunnel'', ''--url'', local_url local_port, ''--no-autoupdate'', ''run'', ''--token'', nt_token s1] of
             Inl e \<Rightarrow> (Inl (Spawn e), s1\<lparr>nt_status := Disconnected (''spawn: '' @ e)\<rparr>)
           | Inr c \<Rightarrow> (let s2 = s1\<lparr>nt_child := Some c\<rparr> in
               case probe_until_ready W (nt_public_url s2) (nt_ready_timeout s2) of
                 Inl e \<Rightarrow> (Inl e, s2\<lparr>nt_status := Disconnected (tunnel_error_text dbg e), nt_child := None\<rparr>)
               | Inr _ \<Rightarrow> (Inr (), s2\<lparr>nt_cached_url := Some (nt_public_url s2), nt_status := Connected (nt_public_url s2)\<rparr>))))"

definition nt_stop :: "(NamedCloudflareTunnel, TunnelError, unit) action" where
  "nt_stop = modifyS (\<lambda>s. s\<lparr>nt_child := None, nt_cached_url := None, nt_status := Disconnected ''stopped''\<rparr>)"

definition named_methods :: "(string list \<Rightarrow> string) \<Rightarrow> tunnel_world \<Rightarrow> NamedCloudflareTunnel tunnel_methods" where
  "named_methods dbg W = \<lparr>tm_start = nt_start dbg W, tm_stop = nt_stop, tm_public_url = nt_cached_url, tm_status = nt_status\<rparr>"

section \<open>FRP\<close>

definition FRPC_PATHS :: "string list" where
  "FRPC_PATHS = [''frpc'', ''/opt/homebrew/bin/frpc'', ''/usr/local/bin/frpc'']"

record FrpServer =
  fs_addr :: string
  fs_port :: nat
  fs_token :: string
  fs_subdomain :: string

record FrpTunnel =
  ft_server :: FrpServer
  ft_public_url :: string
  ft_binary_path :: "string option"
  ft_ready_timeout :: nat
  ft_child :: "nat option"
  ft_config_file :: "string option"
  ft_status :: TunnelStatus
  ft_cached_url :: "string option"

definition FrpTunnel_new :: "FrpServer \<Rightarrow> string \<Rightarrow> FrpTunnel" where
  "FrpTunnel_new srv u = \<lparr>ft_server = srv, ft_public_url = u, ft_binary_path = None, ft_ready_timeout = 60000,
     ft_child = None, ft_config_file = None, ft_status = Disconnected ''not started'', ft_cached_url = None\<rparr>"

definition ft_with_binary_path :: "string \<Rightarrow> FrpTunnel \<Rightarrow> FrpTunnel" where
  "ft_with_binary_path p s = s\<lparr>ft_binary_path := Some p\<rparr>"

definition ft_with_ready_timeout :: "nat \<Rightarrow> FrpTunnel \<Rightarrow> FrpTunnel" where
  "ft_with_ready_timeout d s = s\<lparr>ft_ready_timeout := d\<rparr>"

definition ft_is_alive :: "tunnel_world \<Rightarrow> FrpTunnel \<Rightarrow> bool \<times> FrpTunnel" where
  "ft_is_alive W s =
     (case ft_child s of
        None \<Rightarrow> (False, s)
      | Some c \<Rightarrow> (case child_exited W c of
          Inr True \<Rightarrow> (False, s\<lparr>ft_status := Disconnected ''process exited'', ft_cached_url := None\<rparr>)
        | Inr False \<Rightarrow> (True, s)
        | Inl _ \<Rightarrow> (False, s)))"

definition ft_resolve_binary :: "(string list \<Rightarrow> string) \<Rightarrow> tunnel_world \<Rightarrow> string option \<Rightarrow> TunnelError + string" where
  "ft_resolve_binary dbg W = resolve_binary_from W FRPC_PATHS (TunnelOther (''frpc binary not found; tried '' @ dbg FRPC_PATHS))"

text \<open>The texts between the double quotes are inserted as they are.\<close>

definition toml_text :: "string \<Rightarrow> string" where
  "toml_text t = [DQ] @ t @ [DQ]"

definition render_config :: "FrpServer \<Rightarrow> nat \<Rightarrow> string" where
  "render_config srv local_port =
     ''serverAddr = '' @ toml_text (fs_addr srv) @ [LF] @
     ''serverPort = '' @ show_nat (fs_port srv) @ [LF] @
     ''auth.token = '' @ toml_text (fs_token srv) @ [LF] @
     [LF] @
     ''['' @ ''[proxies]'' @ '']'' @ [LF] @
     ''name = '' @ toml_text (''aex-'' @ fs_subdomain srv) @ [LF] @
     ''type = '' @ toml_text ''http'' @ [LF] @
     ''localIP = '' @ toml_text ''127.0.0.1'' @ [LF] @
     ''localPort = '' @ show_nat local_port @ [LF] @
     ''subdomain = '' @ toml_text (fs_subdomain srv) @ [LF]"

definition ft_probe_until_ready :: "tunnel_world \<Rightarrow> FrpTunnel \<Rightarrow> TunnelError + unit" where
  "ft_probe_until_ready W s = probe_until_ready W (ft_public_url s) (ft_ready_timeout s)"

definition ft_start :: "(string list \<Rightarrow> string) \<Rightarrow> tunnel_world \<Rightarrow> nat \<Rightarrow> (FrpTunnel, TunnelError, unit) action" where
  "ft_start dbg W local_port = (\<lambda>s.
     if ft_child s \<noteq> None then (Inl AlreadyRunning, s)
     else let s1 = s\<lparr>ft_status := Connecting\<rparr> in
       case ft_resolve_binary dbg W (ft_binary_path s1) of
         Inl e \<Rightarrow> (Inl e, s1\<lparr>ft_status := Disconnected (tunnel_error_text dbg e)\<rparr>)
       | Inr binary \<Rightarrow> (case temp_config W of
           Inl e \<Rightarrow> (Inl (Spawn e), s1\<lparr>ft_status := Disconnected (''tempfile: '' @ e)\<rparr>)
         | Inr cfg \<Rightarrow> (case write_config W cfg (render_config (ft_server s1) local_port) of
             Inl e \<Rightarrow> (Inl (Spawn e), s1\<lparr>ft_status := Disconnected (''config write: '' @ e)\<rparr>)
           | Inr _ \<Rightarrow> (case spawn_child W binary [''-c'', cfg] of
               Inl e \<Rightarrow> (Inl (Spawn e), s1\<lparr>ft_status := Disconnected (''spawn: '' @ e)\<rparr>)
             | Inr c \<Rightarrow> (let s2 = s1\<lparr>ft_child := Some c, ft_config_file := Some cfg\<rparr> in
                 case ft_probe_until_ready W s2 of
                   Inl e \<Rightarrow> (Inl e, s2\<lparr>ft_status := Disconnected (tunnel_error_text dbg e), ft_child := None, ft_config_file := None\<rparr>)
                 | Inr _ \<Rightarrow> (Inr (), s2\<lparr>ft_cached_url := Some (ft_public_url s2), ft_status := Connected (ft_public_url s2)\<rparr>))))))"

definition ft_stop :: "(FrpTunnel, TunnelError, unit) action" where
  "ft_stop = modifyS (\<lambda>s. s\<lparr>ft_child := None, ft_config_file := None, ft_cached_url := None, ft_status := Disconnected ''stopped''\<rparr>)"

definition frp_methods :: "(string list \<Rightarrow> string) \<Rightarrow> tunnel_world \<Rightarrow> FrpTunnel tunnel_methods" where
  "frp_methods dbg W = \<lparr>tm_start = ft_start dbg W, tm_stop = ft_stop, tm_public_url = ft_cached_url, tm_status = ft_status\<rparr>"

section \<open>Tailscale Funnel\<close>

definition TAILSCALE_PATHS :: "string list" where
  "TAILSCALE_PATHS = [''tailscale'', ''/opt/homebrew/bin/tailscale'', ''/usr/local/bin/tailscale'',
     ''/Applications/Tailscale.app/Contents/MacOS/Tailscale'']"

record TailscaleFunnelTunnel =
  tf_public_url :: string
  tf_binary_path :: "string option"
  tf_ready_timeout :: nat
  tf_status :: TunnelStatus
  tf_active :: bool
  tf_cached_url :: "string option"

definition TailscaleFunnelTunnel_new :: "string \<Rightarrow> TailscaleFunnelTunnel" where
  "TailscaleFunnelTunnel_new u = \<lparr>tf_public_url = u, tf_binary_path = None, tf_ready_timeout = 30000,
     tf_status = Disconnected ''not started'', tf_active = False, tf_cached_url = None\<rparr>"

definition tf_with_binary_path :: "string \<Rightarrow> TailscaleFunnelTunnel \<Rightarrow> TailscaleFunnelTunnel" where
  "tf_with_binary_path p s = s\<lparr>tf_binary_path := Some p\<rparr>"

definition tf_with_ready_timeout :: "nat \<Rightarrow> TailscaleFunnelTunnel \<Rightarrow> TailscaleFunnelTunnel" where
  "tf_with_ready_timeout d s = s\<lparr>tf_ready_timeout := d\<rparr>"

definition tf_resolve_binary :: "(string list \<Rightarrow> string) \<Rightarrow> tunnel_world \<Rightarrow> string option \<Rightarrow> TunnelError + string" where
  "tf_resolve_binary dbg W = resolve_binary_from W TAILSCALE_PATHS (TunnelOther (''tailscale binary not found; tried '' @ dbg TAILSCALE_PATHS))"

definition tf_probe_until_ready :: "tunnel_world \<Rightarrow> TailscaleFunnelTunnel \<Rightarrow> TunnelError + unit" where
  "tf_probe_until_ready W s = probe_until_ready W (tf_public_url s) (tf_ready_timeout s)"

definition tf_stop :: "(string list \<Rightarrow> string) \<Rightarrow> tunnel_world \<Rightarrow> (TailscaleFunnelTunnel, TunnelError, unit) action" where
  "tf_stop dbg W = (\<lambda>s.
     if \<not> tf_active s then (Inr (), s\<lparr>tf_status := Disconnected ''stopped'', tf_cached_url := None\<rparr>)
     else case tf_resolve_binary dbg W (tf_binary_path s) of
       Inl e \<Rightarrow> (Inl e, s)
     | Inr binary \<Rightarrow> (Inr (), s\<lparr>tf_active := False, tf_cached_url := None, tf_status := Disconnected ''stopped''\<rparr>))"

definition tf_start :: "(string list \<Rightarrow> string) \<Rightarrow> tunnel_world \<Rightarrow> nat \<Rightarrow> (TailscaleFunnelTunnel, TunnelError, unit) action" where
  "tf_start dbg W local_port = (\<lambda>s.
     if tf_active s then (Inl AlreadyRunning, s)
     else let s1 = s\<lparr>tf_status := Connecting\<rparr> in
       case tf_resolve_binary dbg W (tf_binary_path s1) of
         Inl e \<Rightarrow> (Inl e, s1\<lparr>tf_status := Disconnected (tunnel_error_text dbg e)\<rparr>)
       | Inr binary \<Rightarrow> (case run_command W binary [''funnel'', ''--bg'', show_nat local_port] of
           Inl e \<Rightarrow> (Inl (Spawn e), s1\<lparr>tf_status := Disconnected (''spawn: '' @ e)\<rparr>)
         | Inr (ok, exit_text, stderr) \<Rightarrow>
             (if \<not> ok then (Inl (TunnelOther (''tailscale funnel exited '' @ exit_text @ '': '' @ stderr)), s1\<lparr>tf_status := Disconnected stderr\<rparr>)
              else let s2 = s1\<lparr>tf_active := True\<rparr> in
                case tf_probe_until_ready W s2 of
                  Inl e \<Rightarrow> (Inl e, snd (tf_stop dbg W s2))
                | Inr _ \<Rightarrow> (Inr (), s2\<lparr>tf_cached_url := Some (tf_public_url s2), tf_status := Connected (tf_public_url s2)\<rparr>))))"

definition funnel_methods :: "(string list \<Rightarrow> string) \<Rightarrow> tunnel_world \<Rightarrow> TailscaleFunnelTunnel tunnel_methods" where
  "funnel_methods dbg W = \<lparr>tm_start = tf_start dbg W, tm_stop = tf_stop dbg W, tm_public_url = tf_cached_url, tm_status = tf_status\<rparr>"

section \<open>Iroh\<close>

definition IROH_ALPN :: bytes where
  "IROH_ALPN = as_bytes ''aex/v1''"

record IrohTunnel =
  ir_endpoint :: "(string \<times> string list) option"
  ir_public_url :: "string option"
  ir_status :: TunnelStatus
  ir_alpn :: bytes
  ir_online_timeout :: nat
  ir_secret_key :: "bytes option"
  ir_accept_task :: bool

definition IrohTunnel_new :: IrohTunnel where
  "IrohTunnel_new = \<lparr>ir_endpoint = None, ir_public_url = None, ir_status = Disconnected ''not started'', ir_alpn = IROH_ALPN,
     ir_online_timeout = 30000, ir_secret_key = None, ir_accept_task = False\<rparr>"

definition ir_with_online_timeout :: "nat \<Rightarrow> IrohTunnel \<Rightarrow> IrohTunnel" where
  "ir_with_online_timeout d s = s\<lparr>ir_online_timeout := d\<rparr>"

definition ir_with_alpn :: "bytes \<Rightarrow> IrohTunnel \<Rightarrow> IrohTunnel" where
  "ir_with_alpn a s = s\<lparr>ir_alpn := a\<rparr>"

text \<open>A secret key is its 32 bytes.\<close>

definition ir_with_secret_key :: "bytes \<Rightarrow> IrohTunnel \<Rightarrow> IrohTunnel" where
  "ir_with_secret_key k s = s\<lparr>ir_secret_key := Some k\<rparr>"

definition iroh_url :: "string \<Rightarrow> string list \<Rightarrow> string" where
  "iroh_url endpoint_id relays = ''iroh:'' @ endpoint_id @ (case relays of u # _ \<Rightarrow> ''@'' @ u | [] \<Rightarrow> [])"

definition ir_start :: "tunnel_world \<Rightarrow> nat \<Rightarrow> (IrohTunnel, TunnelError, unit) action" where
  "ir_start W local_port = (\<lambda>s.
     if ir_endpoint s \<noteq> None then (Inl AlreadyRunning, s)
     else let s1 = s\<lparr>ir_status := Connecting\<rparr> in
       case iroh_bind W (ir_alpn s1) (ir_secret_key s1) of
         Inl e \<Rightarrow> (let reason = ''iroh bind failed: '' @ e in (Inl (TunnelOther reason), s1\<lparr>ir_status := Disconnected reason\<rparr>))
       | Inr (endpoint_id, relays) \<Rightarrow>
           (if iroh_online W > ir_online_timeout s1
            then (Inl (UrlTimeout (of_nat (ir_online_timeout s1 div 1000))),
                  s1\<lparr>ir_status := Disconnected (''timeout after '' @ show_nat (ir_online_timeout s1 div 1000) @ ''s waiting for iroh relay'')\<rparr>)
            else let u = iroh_url endpoint_id relays in
              (Inr (), s1\<lparr>ir_accept_task := True, ir_public_url := Some u, ir_status := Connected u, ir_endpoint := Some (endpoint_id, relays)\<rparr>)))"

definition ir_stop :: "(IrohTunnel, TunnelError, unit) action" where
  "ir_stop = modifyS (\<lambda>s. s\<lparr>ir_accept_task := False, ir_endpoint := None, ir_public_url := None, ir_status := Disconnected ''stopped''\<rparr>)"

definition iroh_methods :: "tunnel_world \<Rightarrow> IrohTunnel tunnel_methods" where
  "iroh_methods W = \<lparr>tm_start = ir_start W, tm_stop = ir_stop, tm_public_url = ir_public_url, tm_status = ir_status\<rparr>"

section \<open>Contracts\<close>

definition probe_ok :: "tunnel_world \<Rightarrow> string \<Rightarrow> nat \<Rightarrow> bool" where
  "probe_ok W healthz n \<longleftrightarrow> (\<exists>c. probe_answer W n healthz = Inr c \<and> is_success c)"

text \<open>The moment at which probe \<open>n\<close> ends, if the loop sends probe \<open>k\<close> at \<open>t\<close>.\<close>

definition probe_ends :: "tunnel_world \<Rightarrow> nat \<Rightarrow> nat \<Rightarrow> nat \<Rightarrow> nat" where
  "probe_ends W k t n = t + sum (probe_time W) {k..n} + (n - k) * PROBE_INTERVAL"

lemma probe_ends_first [simp]: "probe_ends W k t k = t + probe_time W k"
  by (simp add: probe_ends_def)

lemma probe_ends_later:
  assumes "Suc k \<le> n"
  shows "probe_ends W k t n = probe_ends W (Suc k) (t + probe_time W k + PROBE_INTERVAL) n"
proof -
  have "n - k = Suc (n - Suc k)" using assms by simp
  moreover have "sum (probe_time W) {k..n} = probe_time W k + sum (probe_time W) {Suc k..n}"
    using assms by (simp add: sum.atLeast_Suc_atMost)
  ultimately show ?thesis by (simp add: probe_ends_def)
qed

lemma poll_ready_step:
  "poll_ready W healthz limit k t \<longleftrightarrow> t + probe_time W k \<le> limit
     \<and> (probe_ok W healthz k \<or> poll_ready W healthz limit (Suc k) (t + probe_time W k + PROBE_INTERVAL))"
  by (subst poll_ready.simps) (auto simp: probe_ok_def Let_def not_less split: sum.splits)

lemma poll_ready_late: "limit < t \<Longrightarrow> \<not> poll_ready W healthz limit k t"
  by (subst poll_ready_step) simp

text \<open>Polling succeeds exactly if some probe succeeds that ends in time.\<close>

lemma poll_ready_iff:
  "poll_ready W healthz limit k t \<longleftrightarrow> (\<exists>n \<ge> k. probe_ends W k t n \<le> limit \<and> probe_ok W healthz n)"
proof (induction "Suc limit - t" arbitrary: k t rule: less_induct)
  case less
  let ?t = "t + probe_time W k + PROBE_INTERVAL"
  have rest: "(\<exists>n \<ge> k. probe_ends W k t n \<le> limit \<and> probe_ok W healthz n) \<longleftrightarrow>
      t + probe_time W k \<le> limit \<and> probe_ok W healthz k
      \<or> (\<exists>n \<ge> Suc k. probe_ends W (Suc k) ?t n \<le> limit \<and> probe_ok W healthz n)" (is "?L \<longleftrightarrow> ?F \<or> ?R")
  proof
    assume ?L
    then obtain n where n: "k \<le> n" "probe_ends W k t n \<le> limit" "probe_ok W healthz n" by blast
    then show "?F \<or> ?R" using probe_ends_later [of k n W t] by (cases "n = k") auto
  next
    assume "?F \<or> ?R"
    then show ?L using probe_ends_later [of k _ W t] by (auto dest: Suc_leD)
  qed
  show ?case
  proof (cases "t \<le> limit")
    case True
    then have "Suc limit - ?t < Suc limit - t" by (simp add: PROBE_INTERVAL_def)
    from less [OF this, of "Suc k"] have ih: "poll_ready W healthz limit (Suc k) ?t \<longleftrightarrow>
        (\<exists>n \<ge> Suc k. probe_ends W (Suc k) ?t n \<le> limit \<and> probe_ok W healthz n)" .
    have late: "poll_ready W healthz limit (Suc k) ?t \<longrightarrow> t + probe_time W k \<le> limit"
      using poll_ready_late [of limit ?t W healthz "Suc k"] by (cases "?t \<le> limit") auto
    show ?thesis unfolding rest poll_ready_step [of W healthz limit k t] ih [symmetric] using late by blast
  next
    case False
    then show ?thesis using poll_ready_late [of limit t W healthz k] by (auto simp: probe_ends_def)
  qed
qed

text \<open>A provider whose failed start leaves it idle, and that can always be stopped.\<close>

locale restartable_provider = tunnel_provider M for M :: "'p tunnel_methods" +
  fixes running :: "'p \<Rightarrow> bool"
  assumes start_busy: "running p \<Longrightarrow> tm_start M port p = (Inl AlreadyRunning, p)"
    and start_runs: "tm_start M port p = (Inr u, p') \<Longrightarrow> running p'"
    and start_fails: "\<not> running p \<Longrightarrow> tm_start M port p = (Inl e, p') \<Longrightarrow>
      \<not> running p' \<and> tm_public_url M p' = tm_public_url M p \<and> (\<exists>r. tm_status M p' = Disconnected r)"
    and stop_idle: "\<exists>p'. tm_stop M p = (Inr (), p') \<and> \<not> running p'"
begin

definition consistent :: "'p \<Rightarrow> bool" where
  "consistent p \<longleftrightarrow> (if running p then \<exists>a. tm_public_url M p = Some a \<and> tm_status M p = Connected a
     else tm_public_url M p = None \<and> (\<exists>r. tm_status M p = Disconnected r))"

lemma consistent_start: "consistent p \<Longrightarrow> consistent (snd (tm_start M port p))"
proof -
  assume c: "consistent p"
  obtain r p' where s: "tm_start M port p = (r, p')" by fastforce
  show ?thesis
  proof (cases r)
    case (Inr u)
    with s start_up [of port p u p'] start_runs [of port p u p'] show ?thesis by (auto simp: consistent_def)
  next
    case (Inl e)
    with s c start_fails [of p port e p'] start_busy [of p port] show ?thesis
      by (cases "running p") (auto simp: consistent_def)
  qed
qed

lemma consistent_stop: "consistent (snd (tm_stop M p))"
  using stop_idle [of p] stop_down [of p "()"] by (auto simp: consistent_def)

end

interpretation quick: tunnel_provider "quick_methods W" for W
  by unfold_locales
    (auto simp: quick_methods_def cq_start_def cq_stop_def Let_def split: if_splits sum.splits option.splits)

interpretation named: restartable_provider "named_methods dbg W" "\<lambda>s. nt_child s \<noteq> None" for dbg W
  by unfold_locales
    (auto simp: named_methods_def nt_start_def nt_stop_def Let_def split: if_splits sum.splits)

interpretation frp: restartable_provider "frp_methods dbg W" "\<lambda>s. ft_child s \<noteq> None" for dbg W
  by unfold_locales
    (auto simp: frp_methods_def ft_start_def ft_stop_def Let_def split: if_splits sum.splits)

interpretation iroh: restartable_provider "iroh_methods W" "\<lambda>s. ir_endpoint s \<noteq> None" for W
  by unfold_locales
    (auto simp: iroh_methods_def ir_start_def ir_stop_def Let_def split: if_splits sum.splits prod.splits)

interpretation funnel: tunnel_provider "funnel_methods dbg W" for dbg W
  by unfold_locales
    (auto simp: funnel_methods_def tf_start_def tf_stop_def Let_def split: if_splits sum.splits prod.splits)

text \<open>
  The answers of the world change from one operation to the next; the provider's own state is what
  it shows.  A provider that watches its child withdraws the address when the child has exited, but
  keeps the handle, so that it must be stopped before it starts again.
\<close>

datatype tunnel_op = OpStart nat | OpStop | OpIsAlive

fun tunnel_step :: "'p tunnel_methods \<Rightarrow> ('p \<Rightarrow> bool \<times> 'p) \<Rightarrow> tunnel_op \<Rightarrow> 'p \<Rightarrow> 'p" where
  "tunnel_step M alive (OpStart port) p = snd (tm_start M port p)"
| "tunnel_step M alive OpStop p = snd (tm_stop M p)"
| "tunnel_step M alive OpIsAlive p = snd (alive p)"

locale tunnel_family =
  fixes M :: "'w \<Rightarrow> 'p tunnel_methods" and running :: "'p \<Rightarrow> bool"
    and shown :: "'p \<Rightarrow> string option" and shown_status :: "'p \<Rightarrow> TunnelStatus"
    and alive :: "'w \<Rightarrow> 'p \<Rightarrow> bool \<times> 'p"
  assumes member: "restartable_provider (M w) running"
    and views: "tm_public_url (M w) = shown" "tm_status (M w) = shown_status"
    and watch: "alive w p = (b, p') \<Longrightarrow> running p' = running p \<and> (b \<longrightarrow> running p)
      \<and> (p' = p \<or> shown p' = None \<and> (\<exists>r. shown_status p' = Disconnected r))"
begin

definition settled :: "'p \<Rightarrow> bool" where
  "settled p \<longleftrightarrow> (case shown p of
      Some a \<Rightarrow> running p \<and> shown_status p = Connected a
    | None \<Rightarrow> (\<exists>r. shown_status p = Disconnected r))"

lemma settled_start:
  assumes "settled p"
  shows "settled (snd (tm_start (M w) port p))"
proof -
  obtain r p' where s: "tm_start (M w) port p = (r, p')" by fastforce
  have up: "tunnel_provider (M w)" using member [of w] by (simp add: restartable_provider_def)
  show ?thesis
  proof (cases r)
    case (Inr u)
    with s tunnel_provider.start_up [OF up, of port p u p'] restartable_provider.start_runs [OF member, of w port p u p']
    show ?thesis by (auto simp: settled_def views)
  next
    case (Inl e)
    with s assms restartable_provider.start_fails [OF member, of p w port e p'] restartable_provider.start_busy [OF member, of p w port]
    show ?thesis by (cases "running p") (auto simp: settled_def views split: option.splits)
  qed
qed

lemma settled_stop: "settled (snd (tm_stop (M w) p))"
proof -
  have up: "tunnel_provider (M w)" using member [of w] by (simp add: restartable_provider_def)
  obtain p' where "tm_stop (M w) p = (Inr (), p')" using restartable_provider.stop_idle [OF member] by blast
  with tunnel_provider.stop_down [OF up this] show ?thesis by (auto simp: settled_def views)
qed

lemma settled_alive: "settled p \<Longrightarrow> settled (snd (alive w p))"
  using watch [of w p] by (cases "alive w p") (force simp: settled_def split: option.splits)

lemma settled_step: "settled p \<Longrightarrow> settled (tunnel_step (M w) (alive w) x p)"
  by (cases x) (simp_all add: settled_start settled_stop settled_alive)

lemma settled_run: "settled p \<Longrightarrow> settled (fold (\<lambda>(w, x). tunnel_step (M w) (alive w) x) ops p)"
  by (induction ops arbitrary: p) (auto simp: settled_step)

end

interpretation named_family: tunnel_family "named_methods dbg" "\<lambda>s. nt_child s \<noteq> None" nt_cached_url nt_status nt_is_alive for dbg
  by unfold_locales
    (auto simp: named_methods_def nt_is_alive_def split: option.splits sum.splits bool.splits)

interpretation frp_family: tunnel_family "frp_methods dbg" "\<lambda>s. ft_child s \<noteq> None" ft_cached_url ft_status ft_is_alive for dbg
  by unfold_locales
    (auto simp: frp_methods_def ft_is_alive_def split: option.splits sum.splits bool.splits)

text \<open>The exact condition for a named tunnel to be up after a start: the child, and a probe in time.\<close>

lemma nt_start_up:
  "fst (nt_start dbg W port s) = Inr () \<longleftrightarrow> nt_child s = None
    \<and> (\<exists>b c. nt_resolve_binary W (nt_binary_path s) = Inr b
      \<and> spawn_child W b [''tunnel'', ''--url'', local_url port, ''--no-autoupdate'', ''run'', ''--token'', nt_token s] = Inr c
      \<and> client_built W = Inr ()
      \<and> (\<exists>n. probe_ends W 0 0 n \<le> nt_ready_timeout s \<and> probe_ok W (healthz_url (nt_public_url s)) n))"
proof -
  let ?r = "probe_until_ready W (nt_public_url s) (nt_ready_timeout s)"
  have "?r = Inr () \<longleftrightarrow> client_built W = Inr ()
      \<and> (\<exists>n. probe_ends W 0 0 n \<le> nt_ready_timeout s \<and> probe_ok W (healthz_url (nt_public_url s)) n)"
    by (simp add: probe_until_ready_def step_iffs poll_ready_iff)
  then show ?thesis
    by (cases "nt_child s"; cases ?r) (auto simp: nt_start_def Let_def split: sum.splits)
qed

text \<open>A quick tunnel whose start found no address keeps its child and refuses to start again.\<close>

lemma quick_start_stuck:
  assumes "cq_start W port s = (Inl e, s')" "cq_child s = None" "e = ChannelClosed \<or> (\<exists>n. e = UrlTimeout n)"
  shows "cq_child s' \<noteq> None \<and> cq_start W' port' s' = (Inl AlreadyRunning, s')"
  using assms
  by (auto simp: cq_start_def Let_def cq_resolve_binary_def resolve_binary_from_def step_iffs
      split: if_splits sum.splits option.splits)

end
