(* ===== verification/DataPlaneHost.thy ===== *)
theory DataPlaneHost
  imports TunnelProviders DataPlane Deployment Connectivity AddressText
begin

text \<open>
  The data plane as a program (\<open>aex-data-plane/src/main.rs\<close>): its options, the transport, the
  preloaded blob, the readiness check, what it prints, and the administration endpoint that inserts
  blobs while the server runs.  The environment variables and the answers of the operating system
  and the network are the record \<open>host_world\<close>; times are in milliseconds from the readiness check on.
\<close>

section \<open>Command line and options\<close>

datatype CliAction = CliRun | PrintVersion bool | PrintHelp

definition parse_cli :: "string list \<Rightarrow> CliAction" where
  "parse_cli args =
     (if list_ex (\<lambda>a. a = ''--help'' \<or> a = ''-h'') args then PrintHelp
      else if list_ex (\<lambda>a. a = ''--version'' \<or> a = ''-V'') args
      then PrintVersion (list_ex (\<lambda>a. a = ''--verbose'' \<or> a = ''-v'') args)
      else CliRun)"

record Opts =
  op_bind_addr :: string
  op_control_plane_public_key_hex :: string
  op_tunnel_provider :: string
  op_cloudflared_binary :: "string option"
  op_public_url_override :: "string option"
  op_blob_path :: "string option"
  op_blob_transfer_id :: "string option"
  op_blob_mime :: "string option"
  op_blob_filename :: "string option"
  op_max_transfer_bytes :: u64
  op_admin_token :: "string option"

definition parse_ok :: "string \<Rightarrow> u64 option" where
  "parse_ok s = (case parse_u64 s of Inr n \<Rightarrow> Some n | Inl _ \<Rightarrow> None)"

definition Opts_from_env :: "(string \<rightharpoonup> string) \<Rightarrow> string + Opts" where
  "Opts_from_env var =
     bindE (ok_or ''AEX_CONTROL_PLANE_PUBLIC_KEY_HEX is required'' (var ''AEX_CONTROL_PLANE_PUBLIC_KEY_HEX'')) (\<lambda>key.
     Inr \<lparr>op_bind_addr = unwrap_or (var ''AEX_BIND_ADDR'') ''127.0.0.1:0'',
       op_control_plane_public_key_hex = key,
       op_tunnel_provider = unwrap_or (var ''AEX_TUNNEL_PROVIDER'') ''cloudflare'',
       op_cloudflared_binary = var ''AEX_CLOUDFLARED_BINARY'',
       op_public_url_override = var ''AEX_PUBLIC_URL'',
       op_blob_path = var ''AEX_BLOB_PATH'',
       op_blob_transfer_id = var ''AEX_BLOB_TRANSFER_ID'',
       op_blob_mime = var ''AEX_BLOB_MIME'',
       op_blob_filename = var ''AEX_BLOB_FILENAME'',
       op_max_transfer_bytes = unwrap_or (Option.bind (var ''AEX_MAX_TRANSFER_BYTES'') parse_ok) (100 * 1024 * 1024),
       op_admin_token = Option.bind (var ''AEX_ADMIN_TOKEN'') (\<lambda>s. if s \<noteq> [] then Some s else None)\<rparr>)"

definition DEFAULT_READINESS_TIMEOUT_SECS :: u64 where
  "DEFAULT_READINESS_TIMEOUT_SECS = 60"

definition readiness_timeout :: "(string \<rightharpoonup> string) \<Rightarrow> u64" where
  "readiness_timeout var = unwrap_or (Option.bind (var ''AEX_READINESS_TIMEOUT_SECS'') parse_ok) DEFAULT_READINESS_TIMEOUT_SECS"

section \<open>The world of the program\<close>

datatype connect_result = Connects | ConnectFails string | ConnectTimesOut

record host_world =
  hw_var :: "string \<rightharpoonup> string"
  hw_bind :: "string \<Rightarrow> string + nat"
  hw_tunnel :: tunnel_world
  hw_preflight :: "string \<Rightarrow> string + unit"
  hw_read_file :: "string \<Rightarrow> string + bytes"
  hw_platform :: platform
  hw_verifying_key :: "bytes \<Rightarrow> string + bytes"
  hw_parse_url :: "string \<Rightarrow> string + Url"
  hw_instant_max :: nat
  hw_lookup :: "nat \<Rightarrow> string \<Rightarrow> string + IpAddr list"
  hw_lookup_time :: "nat \<Rightarrow> nat"
  hw_connect :: "nat \<Rightarrow> IpAddr \<Rightarrow> nat \<Rightarrow> connect_result"
  hw_connect_time :: "nat \<Rightarrow> nat"
  hw_set_matches :: "bytes \<Rightarrow> nat list"
  hw_transports_json :: "Endpoint list \<Rightarrow> string"
  hw_captive_client :: "string + prober"
  hw_network_slot :: "nat option"

section \<open>The transport\<close>

definition preflight_cloudflared :: "host_world \<Rightarrow> string option \<Rightarrow> string + unit" where
  "preflight_cloudflared W explicit_path =
     (let (label, path) = (case explicit_path of
            Some p \<Rightarrow> (''AEX_CLOUDFLARED_BINARY'', p)
          | None \<Rightarrow> (''cloudflared (from PATH)'', ''cloudflared''))
      in map_err (\<lambda>e. ''cannot execute '' @ label @ '' at '' @ BACKQUOTE @ path @ BACKQUOTE @ '': '' @ e
           @ ''. Install the Cloudflare tunnel daemon (https://developers.cloudflare.com/cloudflare-one/connections/connect-networks/downloads/) ''
           @ ''or set AEX_TUNNEL_PROVIDER=none with AEX_PUBLIC_URL=<your-url>.'') (hw_preflight W path))"

record ResolvedTransport =
  rt_url :: string
  rt_kind :: string
  rt_guard :: "CloudflareQuickTunnel option"

text \<open>The debug rendering of strings, for the texts of tunnel errors, is an argument.\<close>

definition resolve_public_url :: "(string list \<Rightarrow> string) \<Rightarrow> host_world \<Rightarrow> Opts \<Rightarrow> nat \<Rightarrow> string + ResolvedTransport" where
  "resolve_public_url dbg W opts local_port =
     (if op_tunnel_provider opts = ''none'' then
        bindE (ok_or ''AEX_PUBLIC_URL is required when AEX_TUNNEL_PROVIDER=none'' (op_public_url_override opts)) (\<lambda>u.
        Inr \<lparr>rt_url = u, rt_kind = ''cloudflare_named'', rt_guard = None\<rparr>)
      else if op_tunnel_provider opts = ''cloudflare'' then
        bindE (preflight_cloudflared W (op_cloudflared_binary opts)) (\<lambda>_.
        let t = (case op_cloudflared_binary opts of
               Some p \<Rightarrow> cq_with_binary_path p CloudflareQuickTunnel_new
             | None \<Rightarrow> CloudflareQuickTunnel_new)
        in case cq_start (hw_tunnel W) local_port t of
             (Inl e, _) \<Rightarrow> Inl (tunnel_error_text dbg e)
           | (Inr _, t') \<Rightarrow>
               bindE (ok_or ''cloudflared returned no URL despite connecting'' (cq_public_url t')) (\<lambda>u.
               Inr \<lparr>rt_url = u, rt_kind = ''cloudflare_quick'', rt_guard = Some t'\<rparr>))
      else Inl (''unknown AEX_TUNNEL_PROVIDER='' @ op_tunnel_provider opts
        @ '' (expected '' @ [CHR 0x27] @ ''cloudflare'' @ [CHR 0x27] @ '' or '' @ [CHR 0x27] @ ''none'' @ [CHR 0x27] @ '')''))"

section \<open>The preloaded blob\<close>

text \<open>\<open>Path::file_name\<close>: the last component, unless it is \<open>..\<close> or there is none.\<close>

definition file_name :: "string \<Rightarrow> string option" where
  "file_name path =
     (let cs = filter (\<lambda>c. c \<noteq> [] \<and> c \<noteq> ''.'') (split_char (CHR ''/'') path)
      in if cs = [] \<or> last cs = ''..'' then None else Some (last cs))"

definition load_blob_source :: "host_world \<Rightarrow> Opts \<Rightarrow> string + InMemoryBlobSource" where
  "load_blob_source W opts =
     (case op_blob_path opts of
        None \<Rightarrow> Inr (\<lambda>_. None)
      | Some blob_path \<Rightarrow>
          bindE (ok_or ''AEX_BLOB_TRANSFER_ID is required when AEX_BLOB_PATH is set'' (op_blob_transfer_id opts)) (\<lambda>transfer_id.
          bindE (hw_read_file W blob_path) (\<lambda>bs.
          let mime = unwrap_or (op_blob_mime opts) ''application/octet-stream'';
              filename = (case op_blob_filename opts of Some f \<Rightarrow> f | None \<Rightarrow> unwrap_or (file_name blob_path) ''blob'');
              metadata = \<lparr>bm_size = of_nat (length bs), bm_mime = mime, bm_filename = filename\<rparr>
          in Inr (InMemoryBlobSource_insert transfer_id metadata bs (\<lambda>_. None)))))"

section \<open>Readiness\<close>

definition RETRY_PAUSE :: nat where
  "RETRY_PAUSE = 2000"

text \<open>
  The loop, at the moment \<open>t\<close> after \<open>attempt\<close> attempts.  It gives up with the number of attempts and
  the last error.  An attempt takes at least two seconds, so that the 32-bit counter does not
  overflow.
\<close>

function ready_loop :: "host_world \<Rightarrow> string \<Rightarrow> nat \<Rightarrow> nat \<Rightarrow> nat \<Rightarrow> nat \<Rightarrow> string \<Rightarrow> (nat \<times> string) + nat" where
  "ready_loop W host port deadline attempt t last_err =
     (if \<not> t < deadline then Inl (attempt, last_err)
      else
        let a = attempt + 1; t1 = t + hw_lookup_time W a in
        case hw_lookup W a host of
          Inl e \<Rightarrow> ready_loop W host port deadline a (t1 + RETRY_PAUSE) (''dns: '' @ e)
        | Inr [] \<Rightarrow> ready_loop W host port deadline a (t1 + RETRY_PAUSE) ''dns: empty address list''
        | Inr (ip # _) \<Rightarrow>
            (let t2 = t1 + hw_connect_time W a in
             case hw_connect W a ip port of
               Connects \<Rightarrow> Inr a
             | ConnectFails e \<Rightarrow> ready_loop W host port deadline a (t2 + RETRY_PAUSE)
                 (''tcp connect '' @ socket_text ip port @ '': '' @ e)
             | ConnectTimesOut \<Rightarrow> ready_loop W host port deadline a (t2 + RETRY_PAUSE)
                 (''tcp connect '' @ socket_text ip port @ '': 5s timeout'')))"
  by pat_completeness auto
termination
  by (relation "measure (\<lambda>(W, host, port, deadline, attempt, t, l). deadline - t)") (auto simp: RETRY_PAUSE_def)

declare ready_loop.simps [simp del]

datatype 'a outcome = Panics | Fails string | Done 'a

text \<open>Adding the timeout to the current instant panics when the instant does not fit.\<close>

definition verify_tunnel_reachable :: "host_world \<Rightarrow> string \<Rightarrow> u64 \<Rightarrow> nat outcome" where
  "verify_tunnel_reachable W public_url timeout_secs =
     (case hw_parse_url W public_url of
        Inl e \<Rightarrow> Fails e
      | Inr parsed \<Rightarrow> (case url_host parsed of
          None \<Rightarrow> Fails (''public URL '' @ public_url @ '' has no host component'')
        | Some host \<Rightarrow>
            (let port = unwrap_or (url_port parsed) 443; deadline = 1000 * unat timeout_secs in
             if deadline > hw_instant_max W then Panics
             else case ready_loop W host port deadline 0 0 ''no attempts made'' of
               Inr a \<Rightarrow> Done a
             | Inl (attempt, last_err) \<Rightarrow> Fails (''tunnel '' @ public_url @ '' did not pass DNS+TCP readiness within ''
                 @ show_u64 timeout_secs @ ''s after '' @ show_nat attempt @ '' attempts (last error: '' @ last_err
                 @ ''). Either the Cloudflare quick-tunnel record never propagated into public DNS, or this host cannot ''
                 @ ''reach the Cloudflare edge on port 443.''))))"

section \<open>Start-up\<close>

definition transports_json :: "host_world \<Rightarrow> string \<Rightarrow> string \<Rightarrow> string" where
  "transports_json W k u = hw_transports_json W [\<lparr>kind = k, url = u, priority = 0, health_hint_unix = None, health = None\<rparr>]"

text \<open>
  The task that \<open>main\<close> spawns beside the start-up prints one line about the network; it never fails.
  \<open>hw_captive_client\<close> is its HTTP client, or the error of building it.  \<open>hw_network_slot\<close> is the moment
  the line comes: after that many lines of the start-up itself, or not before the start-up ends.
\<close>

definition emit_network_state :: "string + prober \<Rightarrow> string" where
  "emit_network_state client =
     (case client of
        Inl _ \<Rightarrow> ''AEX_NETWORK_STATE=unknown''
      | Inr get \<Rightarrow> ''AEX_NETWORK_STATE='' @ as_stdout_value (detect_network_state get))"

definition beside :: "host_world \<Rightarrow> string list \<Rightarrow> string list" where
  "beside W printed =
     (case hw_network_slot W of
        None \<Rightarrow> printed
      | Some n \<Rightarrow> take n printed @ [emit_network_state (hw_captive_client W)] @ drop n printed)"

record data_plane =
  pl_public_url :: string
  pl_kind :: string
  pl_port :: nat
  pl_source :: InMemoryBlobSource
  pl_verifier :: TicketVerifier
  pl_scanners :: "scanner list"
  pl_admin_token :: "string option"

definition host_scanners :: "host_world \<Rightarrow> u64 \<Rightarrow> scanner list" where
  "host_scanners W limit =
     [SizeLimitScanner limit 0, MagicByteScanner 0, EicarScanner 0, RegexInjectionScanner (hw_set_matches W) 0]"

text \<open>Everything from the binding of the listener up to the spawning of the server.\<close>

definition build_plane :: "(string list \<Rightarrow> string) \<Rightarrow> host_world \<Rightarrow> Opts \<Rightarrow> string + data_plane" where
  "build_plane dbg W opts =
     bindE (hw_bind W (op_bind_addr opts)) (\<lambda>port.
     bindE (resolve_public_url dbg W opts port) (\<lambda>transport.
     bindE (load_blob_source W opts) (\<lambda>source.
     bindE (hex_dec (hw_platform W) (op_control_plane_public_key_hex opts)) (\<lambda>key_bytes.
     bindE (ensure (length key_bytes = 32) ''AEX_CONTROL_PLANE_PUBLIC_KEY_HEX must decode to 32 bytes'') (\<lambda>_.
     bindE (hw_verifying_key W key_bytes) (\<lambda>cp_pubkey.
     Inr \<lparr>pl_public_url = rt_url transport, pl_kind = rt_kind transport, pl_port = port, pl_source = source,
       pl_verifier = TicketVerifier_new cp_pubkey (rt_url transport),
       pl_scanners = host_scanners W (op_max_transfer_bytes opts),
       pl_admin_token = op_admin_token opts\<rparr>))))))"

text \<open>
  The whole start-up: how it ends, and what the process has printed on standard output by then, the task
  spawned after the options are read included.
\<close>

definition start_plane :: "(string list \<Rightarrow> string) \<Rightarrow> host_world \<Rightarrow> data_plane outcome \<times> string list" where
  "start_plane dbg W =
     (case Opts_from_env (hw_var W) of
        Inl e \<Rightarrow> (Fails e, [])
      | Inr opts \<Rightarrow> (case build_plane dbg W opts of
          Inl e \<Rightarrow> (Fails e, beside W [])
        | Inr plane \<Rightarrow>
            (case verify_tunnel_reachable W (pl_public_url plane) (readiness_timeout (hw_var W)) of
               Panics \<Rightarrow> (Panics, beside W [])
             | Fails e \<Rightarrow> (Fails e, beside W [])
             | Done _ \<Rightarrow> (Done plane, beside W
                 [''AEX_DATA_PLANE_URL='' @ pl_public_url plane, ''AEX_READY=1'',
                  ''AEX_TRANSPORTS_JSON='' @ transports_json W (pl_kind plane) (pl_public_url plane)]))))"

section \<open>The program\<close>

definition CARGO_PKG_REPOSITORY :: string where
  "CARGO_PKG_REPOSITORY = ''https://github.com/icaroholding/aex''"

definition print_help :: "string list" where
  "print_help = [
     ''aex-data-plane '' @ CARGO_PKG_VERSION @ '' '' @ EM_DASH @ '' sender-side data plane for the AEX protocol.'', [],
     ''USAGE:'', ''    aex-data-plane [FLAGS]'', [],
     ''FLAGS:'', ''    -h, --help       Print this help and exit.'', ''    -V, --version    Print version and exit.'',
     ''    -v, --verbose    With --version: also print compiled-in transports and DNS config.'', [],
     ''With no flags, the binary is controlled by environment variables '' @ EM_DASH @ '' see'',
     ''the docstring at the top of src/main.rs ('' @ BACKQUOTE @ ''cargo doc -p aex-data-plane'' @ BACKQUOTE @ '')'',
     ''for the full list. Common ones:'', [],
     ''    AEX_CONTROL_PLANE_PUBLIC_KEY_HEX  (required) 64-hex control-plane signing key'',
     ''    AEX_TUNNEL_PROVIDER                cloudflare | none     (default: cloudflare)'',
     ''    AEX_BLOB_PATH                      pre-load a blob from disk'',
     ''    AEX_ADMIN_TOKEN                    enable POST /admin/blob/:id for orchestrators'', []]"

definition SECTION_SIGN :: string where
  "SECTION_SIGN = [CHR 0xC2, CHR 0xA7]"

definition print_version :: "bool \<Rightarrow> string list" where
  "print_version verbose =
     (''aex-data-plane '' @ CARGO_PKG_VERSION) #
     (if \<not> verbose then []
      else [[], ''Compiled-in tunnel providers:'',
        ''  cloudflare  Cloudflare Quick Tunnels, orchestrated via '' @ BACKQUOTE @ ''cloudflared'' @ BACKQUOTE @ ''.'',
        ''  none        No tunnel; AEX_PUBLIC_URL must be supplied.'', [], ''DNS:'',
        ''  Readiness probe resolver  hickory-resolver via Cloudflare 1.1.1.1 / 1.0.0.1'',
        ''                            (cache_size=0, ndots=1; bypasses OS resolv.conf)'',
        ''  Network-state probes      DoH via aex-net (protocol-v1 '' @ SECTION_SIGN @ ''5.3)'', [],
        ''Repository: '' @ CARGO_PKG_REPOSITORY])"

datatype main_result = Printed "string list" | Started "data_plane outcome" "string list"

definition data_plane_main :: "(string list \<Rightarrow> string) \<Rightarrow> string list \<Rightarrow> host_world \<Rightarrow> main_result" where
  "data_plane_main dbg args W =
     (case parse_cli args of
        PrintHelp \<Rightarrow> Printed print_help
      | PrintVersion verbose \<Rightarrow> Printed (print_version verbose)
      | CliRun \<Rightarrow> (case start_plane dbg W of (r, out) \<Rightarrow> Started r out))"

text \<open>Help and version work in any environment, and every other command line starts the server.\<close>

lemma data_plane_main_cases:
  "(\<exists>out. data_plane_main dbg args W = Printed out \<and> (\<forall>W'. data_plane_main dbg args W' = Printed out)
      \<and> set args \<inter> {''--help'', ''-h'', ''--version'', ''-V''} \<noteq> {})
   \<or> data_plane_main dbg args W = Started (fst (start_plane dbg W)) (snd (start_plane dbg W))
      \<and> set args \<inter> {''--help'', ''-h'', ''--version'', ''-V''} = {}"
  by (auto simp: data_plane_main_def parse_cli_def list_ex_iff split: prod.splits)

section \<open>The administration endpoint\<close>

record AdminInsertQuery =
  aq_mime :: "string option"
  aq_filename :: "string option"

definition admin_insert_blob ::
  "string \<Rightarrow> string \<Rightarrow> AdminInsertQuery \<Rightarrow> string option \<Rightarrow> bytes \<Rightarrow> InMemoryBlobSource \<Rightarrow> (nat \<times> string) \<times> InMemoryBlobSource" where
  "admin_insert_blob token transfer_id q header body src =
     (let provided = Option.bind header header_to_str in
      if provided \<noteq> Some token then ((401, ''bad admin token''), src)
      else
        let metadata = \<lparr>bm_size = of_nat (length body), bm_mime = unwrap_or (aq_mime q) ''application/octet-stream'',
              bm_filename = unwrap_or (aq_filename q) ''blob''\<rparr>
        in ((201, ''ok''), InMemoryBlobSource_insert transfer_id metadata body src))"

section \<open>The running server\<close>

text \<open>The blobs, the nonces and the verdicts; a request is answered in one step.\<close>

record host_state =
  hs_source :: InMemoryBlobSource
  hs_plane :: dp_state

definition boot :: "data_plane \<Rightarrow> host_state" where
  "boot plane = \<lparr>hs_source = pl_source plane, hs_plane = fresh_data_plane\<rparr>"

text \<open>What a request for a blob takes from outside: the clock and the text functions of other crates.\<close>

record fetch_env =
  fe_platform :: platform
  fe_now :: i64
  fe_parse_ticket :: "string \<Rightarrow> string + Ticket"
  fe_header_value_ok :: "string \<Rightarrow> bool"
  fe_millis :: u64
  fe_verdict_text :: "PipelineVerdict \<Rightarrow> string"

definition plane_env :: "data_plane \<Rightarrow> fetch_env \<Rightarrow> InMemoryBlobSource \<Rightarrow> dp_env" where
  "plane_env plane F src = \<lparr>dp_plat = fe_platform F, dp_verifier = pl_verifier plane, dp_now = fe_now F,
     parse_ticket = fe_parse_ticket F, header_value_ok = fe_header_value_ok F,
     src_metadata = InMemoryBlobSource_metadata src, src_bytes = (\<lambda>_. InMemoryBlobSource_bytes src),
     dp_scanner = Some (pl_scanners plane), dp_scan_millis = fe_millis F, verdict_text = fe_verdict_text F\<rparr>"

text \<open>
  The route of the administration endpoint keeps the framework's limit for a request body, 2 MB, which
  is tested before the handler runs.
\<close>

definition DEFAULT_BODY_LIMIT :: nat where
  "DEFAULT_BODY_LIMIT = 2 * 1024 * 1024"

record HealthPayload =
  hp_service :: string
  hp_version :: string
  hp_ok :: bool

definition dp_healthz :: HealthPayload where
  "dp_healthz = \<lparr>hp_service = ''aex-data-plane'', hp_version = CARGO_PKG_VERSION, hp_ok = True\<rparr>"

datatype host_request =
    Health
  | Fetch fetch_env string "header_value option"
  | AdminInsert string AdminInsertQuery "string option" bytes

datatype host_reply = HealthyReply HealthPayload | BlobReply blob_reply | AdminReply nat string | BodyTooLarge | NoRoute

fun handle :: "data_plane \<Rightarrow> host_request \<Rightarrow> host_state \<Rightarrow> host_reply \<times> host_state" where
  "handle plane Health s = (HealthyReply dp_healthz, s)"
| "handle plane (Fetch F t h) s =
     (case get_blob (plane_env plane F (hs_source s)) t h (hs_plane s) of
        (r, p) \<Rightarrow> (BlobReply r, s\<lparr>hs_plane := p\<rparr>))"
| "handle plane (AdminInsert t q h body) s =
     (case pl_admin_token plane of
        None \<Rightarrow> (NoRoute, s)
      | Some token \<Rightarrow> if length body > DEFAULT_BODY_LIMIT then (BodyTooLarge, s) else (case admin_insert_blob token t q h body (hs_source s) of
          ((c, m), src) \<Rightarrow> (AdminReply c m, s\<lparr>hs_source := src\<rparr>)))"

fun handle_all :: "data_plane \<Rightarrow> host_request list \<Rightarrow> host_state \<Rightarrow> host_reply list \<times> host_state" where
  "handle_all plane [] s = ([], s)"
| "handle_all plane (r # rs) s =
     (case handle plane r s of (a, s1) \<Rightarrow> (case handle_all plane rs s1 of (as, s2) \<Rightarrow> (a # as, s2)))"

section \<open>When the program is ready\<close>

definition attempt_ok :: "host_world \<Rightarrow> string \<Rightarrow> nat \<Rightarrow> nat \<Rightarrow> bool" where
  "attempt_ok W host port a \<longleftrightarrow> (\<exists>ip ips. hw_lookup W a host = Inr (ip # ips) \<and> hw_connect W a ip port = Connects)"

text \<open>The time of an attempt that does not connect, with the pause after it.\<close>

definition attempt_cost :: "host_world \<Rightarrow> string \<Rightarrow> nat \<Rightarrow> nat" where
  "attempt_cost W host a = hw_lookup_time W a
     + (case hw_lookup W a host of Inr (ip # ips) \<Rightarrow> hw_connect_time W a | _ \<Rightarrow> 0) + RETRY_PAUSE"

lemma attempt_cost_pos: "0 < attempt_cost W host a"
  by (simp add: attempt_cost_def RETRY_PAUSE_def)

lemma ready_loop_step:
  obtains l' where "ready_loop W host port deadline a t l =
    (if t < deadline then
       if attempt_ok W host port (Suc a) then Inr (Suc a)
       else ready_loop W host port deadline (Suc a) (t + attempt_cost W host (Suc a)) l'
     else Inl (a, l))"
proof (cases "hw_lookup W (Suc a) host")
  case (Inl e)
  then show thesis
    by (intro that [of "''dns: '' @ e"]) (subst ready_loop.simps, simp add: attempt_ok_def attempt_cost_def Let_def add.assoc)
next
  case (Inr ips)
  show thesis
  proof (cases ips)
    case Nil
    with Inr show thesis
      by (intro that [of "''dns: empty address list''"]) (subst ready_loop.simps, simp add: attempt_ok_def attempt_cost_def Let_def add.assoc)
  next
    case (Cons ip rest)
    show thesis
    proof (cases "hw_connect W (Suc a) ip port")
      case Connects
      with Inr Cons show thesis
        by (intro that [of l]) (subst ready_loop.simps, simp add: attempt_ok_def Let_def)
    next
      case (ConnectFails e)
      with Inr Cons show thesis
        by (intro that [of "''tcp connect '' @ socket_text ip port @ '': '' @ e"])
          (subst ready_loop.simps, simp add: attempt_ok_def attempt_cost_def Let_def add.assoc)
    next
      case ConnectTimesOut
      with Inr Cons show thesis
        by (intro that [of "''tcp connect '' @ socket_text ip port @ '': 5s timeout''"])
          (subst ready_loop.simps, simp add: attempt_ok_def attempt_cost_def Let_def add.assoc)
    qed
  qed
qed

text \<open>The first attempt that connects, if it begins before the deadline.\<close>

definition first_ready :: "host_world \<Rightarrow> string \<Rightarrow> nat \<Rightarrow> nat \<Rightarrow> nat \<Rightarrow> nat \<Rightarrow> nat \<Rightarrow> bool" where
  "first_ready W host port deadline a t n \<longleftrightarrow> a < n \<and> attempt_ok W host port n
     \<and> (\<forall>m. a < m \<longrightarrow> m < n \<longrightarrow> \<not> attempt_ok W host port m)
     \<and> t + sum (attempt_cost W host) {Suc a..<n} < deadline"

lemma first_ready_step:
  "first_ready W host port deadline a t n \<longleftrightarrow> t < deadline
     \<and> (if attempt_ok W host port (Suc a) then n = Suc a
        else first_ready W host port deadline (Suc a) (t + attempt_cost W host (Suc a)) n)"
proof (cases "attempt_ok W host port (Suc a)")
  case True
  have "n = Suc a" if "a < n" "\<forall>m. a < m \<longrightarrow> m < n \<longrightarrow> \<not> attempt_ok W host port m"
    using that True by (metis Suc_lessI lessI)
  with True show ?thesis by (auto simp: first_ready_def)
next
  case False
  have "sum (attempt_cost W host) {Suc a..<n} = attempt_cost W host (Suc a) + sum (attempt_cost W host) {Suc (Suc a)..<n}"
    if "Suc a < n" using that by (simp add: sum.atLeast_Suc_lessThan)
  moreover have "a < n \<and> attempt_ok W host port n \<longleftrightarrow> Suc a < n \<and> attempt_ok W host port n"
    using False by (metis Suc_lessD Suc_lessI)
  moreover have "(\<forall>m. a < m \<longrightarrow> m < n \<longrightarrow> \<not> attempt_ok W host port m) \<longleftrightarrow> (\<forall>m. Suc a < m \<longrightarrow> m < n \<longrightarrow> \<not> attempt_ok W host port m)"
    using False by (metis Suc_lessD Suc_lessI)
  ultimately show ?thesis using False by (auto simp: first_ready_def)
qed

lemma ready_loop_iff: "ready_loop W host port deadline a t l = Inr n \<longleftrightarrow> first_ready W host port deadline a t n"
proof (induction "deadline - t" arbitrary: a t l rule: less_induct)
  case less
  obtain l' where step: "ready_loop W host port deadline a t l =
    (if t < deadline then
       if attempt_ok W host port (Suc a) then Inr (Suc a)
       else ready_loop W host port deadline (Suc a) (t + attempt_cost W host (Suc a)) l'
     else Inl (a, l))" by (rule ready_loop_step)
  show ?case
  proof (cases "t < deadline")
    case True
    then have "deadline - (t + attempt_cost W host (Suc a)) < deadline - t"
      using attempt_cost_pos [of W host "Suc a"] by linarith
    from less [OF this, of "Suc a" l'] True show ?thesis
      unfolding step first_ready_step [of W host port deadline a t] by auto
  qed (simp add: step first_ready_step [of W host port deadline a t])
qed

text \<open>The condition under which the readiness check succeeds.\<close>

definition reachable_url :: "host_world \<Rightarrow> string \<Rightarrow> u64 \<Rightarrow> bool" where
  "reachable_url W u secs \<longleftrightarrow> (\<exists>parsed host n. hw_parse_url W u = Inr parsed \<and> url_host parsed = Some host
     \<and> 1000 * unat secs \<le> hw_instant_max W
     \<and> first_ready W host (unwrap_or (url_port parsed) 443) (1000 * unat secs) 0 0 n)"

lemma verify_tunnel_Done: "(\<exists>n. verify_tunnel_reachable W u secs = Done n) \<longleftrightarrow> reachable_url W u secs"
proof -
  have "(\<exists>n. (case r of Inr a \<Rightarrow> Done a | Inl (k, l) \<Rightarrow> Fails (f k l)) = Done n) \<longleftrightarrow> (\<exists>n. r = Inr n)"
    for r :: "(nat \<times> string) + nat" and f
    by (cases r) (auto split: prod.splits)
  then show ?thesis
    by (cases "hw_parse_url W u")
      (auto simp: verify_tunnel_reachable_def reachable_url_def Let_def ready_loop_iff not_less split: option.splits)
qed

lemma start_plane_Done:
  "fst (start_plane dbg W) = Done plane \<longleftrightarrow> (\<exists>opts. Opts_from_env (hw_var W) = Inr opts \<and> build_plane dbg W opts = Inr plane)
     \<and> reachable_url W (pl_public_url plane) (readiness_timeout (hw_var W))"
  by (auto simp: start_plane_def verify_tunnel_Done [symmetric] split: sum.splits outcome.splits)

lemma build_plane_verifier: "build_plane dbg W opts = Inr plane \<Longrightarrow> data_plane_url (pl_verifier plane) = pl_public_url plane"
  by (auto simp: build_plane_def step_iffs TicketVerifier_new_def)

text \<open>What the start-up prints on its own, and the line of the task beside it.\<close>

definition announced :: "host_world \<Rightarrow> data_plane outcome \<Rightarrow> string list" where
  "announced W r = (case r of
     Done p \<Rightarrow> [''AEX_DATA_PLANE_URL='' @ pl_public_url p, ''AEX_READY=1'',
       ''AEX_TRANSPORTS_JSON='' @ transports_json W (pl_kind p) (pl_public_url p)]
   | _ \<Rightarrow> [])"

lemma start_plane_prints:
  "snd (start_plane dbg W) = (if is_ok (Opts_from_env (hw_var W)) then beside W (announced W (fst (start_plane dbg W))) else [])"
  by (auto simp: start_plane_def announced_def is_ok_iff split: sum.splits outcome.splits)

lemma emit_network_state_values:
  "\<exists>v \<in> {''direct'', ''captive_portal'', ''limited'', ''unknown''}. emit_network_state client = ''AEX_NETWORK_STATE='' @ v"
proof (cases client)
  case (Inr get)
  then show ?thesis by (cases "detect_network_state get") (simp_all add: emit_network_state_def)
qed (simp add: emit_network_state_def)

section \<open>Blobs that change under the cache of verdicts\<close>

lemma plane_env_stable:
  "stable_source (pl_scanners plane) (InMemoryBlobSource_metadata src) (InMemoryBlobSource_bytes src) (plane_env plane F src)"
  by (simp add: stable_source_def plane_env_def)

lemma serve_caches_only: "dom (scan_cache s) \<subseteq> A \<Longrightarrow> dom (scan_cache (snd (serve E t h s))) \<subseteq> insert t A"
proof -
  have "keeps (\<lambda>s. dom (scan_cache s) \<subseteq> insert t A) (serve E t h)"
    unfolding serve_def check_scan_def unwrap_header_def Let_def
    by (intro keeps_on_nonces_other keeps_bindS keeps_liftS keeps_mapErrS keeps_ensureS keeps_returnS keeps_getS
        keeps_case_header keeps_throwS keeps_if keeps_case_option keeps_case_cache keeps_modifyS) auto
  then show "dom (scan_cache s) \<subseteq> A \<Longrightarrow> dom (scan_cache (snd (serve E t h s))) \<subseteq> insert t A"
    by (rule keepsD) auto
qed

text \<open>Every insertion comes before the first request for its blob.\<close>

fun inserts_first :: "string set \<Rightarrow> host_request list \<Rightarrow> bool" where
  "inserts_first asked [] = True"
| "inserts_first asked (Health # rs) = inserts_first asked rs"
| "inserts_first asked (Fetch F t h # rs) = inserts_first (insert t asked) rs"
| "inserts_first asked (AdminInsert t q h body # rs) = (t \<notin> asked \<and> inserts_first asked rs)"

definition host_inv :: "data_plane \<Rightarrow> string set \<Rightarrow> host_state \<Rightarrow> bool" where
  "host_inv plane asked s \<longleftrightarrow> dom (scan_cache (hs_plane s)) \<subseteq> asked
     \<and> cache_sound (pl_scanners plane) (InMemoryBlobSource_metadata (hs_source s)) (InMemoryBlobSource_bytes (hs_source s)) (hs_plane s)"

lemma host_inv_boot: "host_inv plane {} (boot plane)"
  by (simp add: host_inv_def boot_def cache_sound_def fresh_data_plane_def)

lemma host_inv_fetch: "host_inv plane asked s \<Longrightarrow> host_inv plane (insert t asked) (snd (handle plane (Fetch F t h) s))"
  using keepsD [OF serve_sound [OF plane_env_stable], of plane "hs_source s" "hs_plane s" F t h]
    serve_caches_only [of "hs_plane s" asked "plane_env plane F (hs_source s)" t h]
    get_blob_state [of "plane_env plane F (hs_source s)" t h "hs_plane s"]
  by (cases "get_blob (plane_env plane F (hs_source s)) t h (hs_plane s)") (simp add: host_inv_def)

lemma host_inv_insert:
  assumes "host_inv plane asked s" "t \<notin> asked"
  shows "host_inv plane asked (snd (handle plane (AdminInsert t q h body) s))"
proof -
  have "scan_cache (hs_plane s) t = None" using assms by (auto simp: host_inv_def)
  with assms show ?thesis
    by (auto simp: host_inv_def cache_sound_def admin_insert_blob_def memory_source_insert Let_def split: option.splits)
qed

lemma asked_source_kept:
  "t \<in> asked \<Longrightarrow> inserts_first asked rs \<Longrightarrow> hs_source (snd (handle_all plane rs s)) t = hs_source s t"
proof (induction rs arbitrary: asked s)
  case (Cons r rs)
  obtain a s1 where h: "handle plane r s = (a, s1)" by fastforce
  have "hs_source s1 t = hs_source s t"
    using Cons.prems h
    by (cases r) (auto simp: admin_insert_blob_def InMemoryBlobSource_insert_def Let_def split: prod.splits option.splits if_splits)
  moreover have "hs_source (snd (handle_all plane rs s1)) t = hs_source s1 t"
    using Cons.prems Cons.IH [of "insert t asked" s1] Cons.IH [of asked s1] Cons.IH [of _ s1] by (cases r) auto
  ultimately show ?case using h by (auto split: prod.splits)
qed simp

text \<open>
  A request that was answered with a blob got the blob of its transfer in the source, which no
  scanner calls malicious.
\<close>

definition host_scanned :: "data_plane \<Rightarrow> InMemoryBlobSource \<Rightarrow> host_request \<Rightarrow> host_reply \<Rightarrow> bool" where
  "host_scanned plane src r a = (case (r, a) of
      (Fetch F t h, BlobReply (Sent resp)) \<Rightarrow> (\<exists>m. src t = Some (m, br_body resp) \<and> \<not> scan_blocks (pl_scanners plane) m (br_body resp))
    | _ \<Rightarrow> True)"

lemma handle_scanned: "host_inv plane asked s \<Longrightarrow> host_scanned plane (hs_source s) r (fst (handle plane r s))"
proof (cases r)
  case (Fetch F t h)
  obtain b p where g: "get_blob (plane_env plane F (hs_source s)) t h (hs_plane s) = (b, p)" by fastforce
  assume "host_inv plane asked s"
  then have "b = Sent resp \<Longrightarrow> \<exists>m. hs_source s t = Some (m, br_body resp) \<and> \<not> scan_blocks (pl_scanners plane) m (br_body resp)" for resp
    using g served_unblocked [OF plane_env_stable, of plane "hs_source s" "hs_plane s" F t h resp p]
    by (auto simp: host_inv_def InMemoryBlobSource_metadata_def InMemoryBlobSource_bytes_def step_iffs)
  then show ?thesis using Fetch g by (cases b) (auto simp: host_scanned_def)
qed (simp_all add: host_scanned_def)

lemma handle_all_scanned:
  "host_inv plane asked s \<Longrightarrow> inserts_first asked rs \<Longrightarrow> handle_all plane rs s = (as, s') \<Longrightarrow>
   list_all2 (host_scanned plane (hs_source s')) rs as"
proof (induction rs arbitrary: asked s as)
  case (Cons r rs)
  obtain a s1 where h: "handle plane r s = (a, s1)" by fastforce
  obtain bs where hs: "handle_all plane rs s1 = (bs, s')" "as = a # bs" using Cons.prems(3) h by (auto split: prod.splits)
  have now: "host_scanned plane (hs_source s) r a" using handle_scanned [OF Cons.prems(1), of r] h by simp
  show ?case
  proof (cases r)
    case Health
    with Cons.prems h hs Cons.IH [of asked s1 bs] show ?thesis by (simp add: host_scanned_def)
  next
    case (Fetch F t hd)
    then have "hs_source s' t = hs_source s1 t" "hs_source s1 = hs_source s"
      using Cons.prems(2) h hs(1) asked_source_kept [of t "insert t asked" rs plane s1] by (auto split: prod.splits)
    with now Fetch have "host_scanned plane (hs_source s') r a" by (auto simp: host_scanned_def split: host_reply.splits blob_reply.splits)
    with Cons.prems Fetch h hs Cons.IH [of "insert t asked" s1 bs] host_inv_fetch [OF Cons.prems(1), of t F hd] show ?thesis by simp
  next
    case (AdminInsert t q hd body)
    with Cons.prems h hs Cons.IH [of asked s1 bs] host_inv_insert [OF Cons.prems(1), of t q hd body]
    show ?thesis by (simp add: host_scanned_def)
  qed
qed simp

text \<open>
  Documented behaviour of the parser of header values: it takes visible ASCII, spaces and tabs, and
  nothing else.
\<close>

definition printable_header :: "string \<Rightarrow> bool" where
  "printable_header v \<longleftrightarrow> list_all (\<lambda>c. 32 \<le> code c \<and> code c < 127 \<or> code c = 9) v"

definition header_value_law :: "(string \<Rightarrow> bool) \<Rightarrow> bool" where
  "header_value_law ok \<longleftrightarrow> (\<forall>v. ok v \<longleftrightarrow> printable_header v)"

lemma printable_header_append: "printable_header (a @ b) \<longleftrightarrow> printable_header a \<and> printable_header b"
  by (simp add: printable_header_def)

lemma printable_header_size: "printable_header (show_u64 n)"
  using show_nat_digits [of _ "unat n"] by (force simp: show_u64_def list_all_iff is_ascii_digit_def printable_header_def)

lemma printable_header_attachment: "printable_header (''attachment; filename='' @ [DQ] @ name @ [DQ]) \<longleftrightarrow> printable_header name"
proof -
  have "printable_header ''attachment; filename=''" "printable_header [DQ]" by code_simp+
  then show ?thesis by (simp only: printable_header_append simp_thms)
qed

text \<open>Once a blob was served, its verdict stays: what is inserted later is served as it is.\<close>

lemma served_cached:
  "handle plane (Fetch F t h) s = (BlobReply (Sent resp), s1) \<Longrightarrow> scan_cache (hs_plane s1) t = Some CachedClean"
proof -
  assume "handle plane (Fetch F t h) s = (BlobReply (Sent resp), s1)"
  then have "serve (plane_env plane F (hs_source s)) t h (hs_plane s) = (Inr resp, hs_plane s1)"
    by (auto simp: get_blob_Sent_iff split: prod.splits)
  from serve_Inr [OF this] obtain ticket m p where
    "check_scan (plane_env plane F (hs_source s)) t m p = (Inr (), hs_plane s1)" by blast
  then show ?thesis
    by (cases "scan_cache p t") (auto simp: check_scan_Inr_iff plane_env_def split: ScanVerdictCache.splits)
qed

lemma cached_served:
  assumes "scan_cache (hs_plane s) t = Some CachedClean" "hs_source s t = Some (m, body)"
    and "h = Some (AsciiHeader tx)" "fe_parse_ticket F tx = Inr ticket" "ti_transfer_id ticket = t"
    and "ticket_authentic (fe_platform F) (pl_verifier plane) (fe_now F) ticket" "ti_nonce ticket \<notin> used_nonces (hs_plane s)"
    and "fe_header_value_ok F (show_u64 (bm_size m))" "fe_header_value_ok F (''attachment; filename='' @ [DQ] @ bm_filename m @ [DQ])"
  shows "\<exists>resp s'. handle plane (Fetch F t h) s = (BlobReply (Sent resp), s') \<and> br_body resp = body"
proof -
  let ?E = "plane_env plane F (hs_source s)"
  let ?p = "(hs_plane s)\<lparr>used_nonces := insert (ti_nonce ticket) (used_nonces (hs_plane s))\<rparr>"
  have "check_scan ?E t m ?p = (Inr (), ?p)"
    using assms(1) by (simp add: check_scan_Inr_iff plane_env_def)
  then have "\<exists>resp. serve ?E t h (hs_plane s) = (Inr resp, ?p) \<and> br_body resp = body"
    using assms(2-9)
    by (auto simp: serve_def step_iffs verify_ticket_Inr_iff on_nonces_iff plane_env_def Let_def
        InMemoryBlobSource_metadata_def InMemoryBlobSource_bytes_def)
  then show ?thesis by (auto simp: get_blob_Sent_iff [symmetric])
qed

text \<open>The administration endpoint replaces a blob that is there, and answers as for a new one.\<close>

lemma admin_replaces:
  assumes "pl_admin_token plane = Some token" "header_to_str token = Some token" "length body \<le> DEFAULT_BODY_LIMIT"
  shows "handle plane (AdminInsert t q (Some token) body) s = (AdminReply 201 ''ok'', s\<lparr>hs_source := (hs_source s)(t \<mapsto>
    (\<lparr>bm_size = of_nat (length body), bm_mime = unwrap_or (aq_mime q) ''application/octet-stream'',
      bm_filename = unwrap_or (aq_filename q) ''blob''\<rparr>, body))\<rparr>)"
  using assms by (simp add: admin_insert_blob_def InMemoryBlobSource_insert_def Let_def)

end
