(* ===== verification/Conformance.thy ===== *)
theory Conformance
  imports WireV2 Capability DidWeb
begin

text \<open>
  The conformance suite (\<open>aex-conformance/src/lib.rs\<close>), run on the model of the stack it tests.  A
  test returns unit or a message; \<open>None\<close> for a message is a panic.  The keys, the JSON printer and
  the debug renderings of values come from other crates and are the record \<open>suite\<close>; the crates
  behind JWS and \<open>did:key\<close> are those of \<open>Jws\<close> and \<open>Identity\<close>.
\<close>

section \<open>Registration and running\<close>

record suite =
  cf_jose :: jose
  cf_platform :: platform
  cf_ring :: keyring
  cf_json_print :: "json \<Rightarrow> bytes"
  cf_key_1 :: signing_key
  cf_key_2 :: signing_key
  cf_fresh_key :: signing_key
  cf_debug_str :: "string \<Rightarrow> string"
  cf_debug_verified :: "JwsError + VerifiedPayload \<Rightarrow> string"
  cf_debug_capability :: "Capability \<Rightarrow> string"

type_synonym test_result = "string option + unit"

datatype Outcome = Pass | Fail string

fun is_pass :: "Outcome \<Rightarrow> bool" where
  "is_pass Pass = True"
| "is_pass (Fail m) = False"

fun outcome_text :: "Outcome \<Rightarrow> string" where
  "outcome_text Pass = ''PASS''"
| "outcome_text (Fail m) = ''FAIL: '' @ m"

record ConformanceTest =
  ct_id :: string
  ct_category :: string
  ct_run :: "suite \<Rightarrow> test_result"

record ConformanceResult =
  cres_id :: string
  cres_category :: string
  cres_outcome :: Outcome

text \<open>What the tests use: a message, a panic of \<open>unwrap\<close>, and a slice, which panics out of range.\<close>

definition or_msg :: "('e \<Rightarrow> string) \<Rightarrow> 'e + 'a \<Rightarrow> string option + 'a" where
  "or_msg f r = map_err (\<lambda>e. Some (f e)) r"

definition or_panic :: "'e + 'a \<Rightarrow> string option + 'a" where
  "or_panic r = map_err (\<lambda>_. None) r"

definition fails_if :: "bool \<Rightarrow> string \<Rightarrow> test_result" where
  "fails_if c m = (if c then Inl (Some m) else Inr ())"

definition slice_to :: "nat \<Rightarrow> string \<Rightarrow> string option + string" where
  "slice_to n s = (if is_char_boundary n s then Inr (take n s) else Inl None)"

section \<open>The tests\<close>

definition NONCE :: string where
  "NONCE = ''0123456789abcdef0123456789abcdef''"

definition test_wire_v2_roundtrip :: "suite \<Rightarrow> test_result" where
  "test_wire_v2_roundtrip E =
     bindE (or_msg (\<lambda>e. ''encode failed: '' @ core_error_text e)
       (transfer_intent_bytes_v2 ''did:web:acme.com#agent'' ''did:web:beta.com#bob'' 12345 ''application/pdf'' ''x.pdf'' NONCE 1700000000)) (\<lambda>bs.
     bindE (or_msg id (from_utf8 bs)) (\<lambda>s.
     if \<not> starts_with s (''aex-transfer-intent:v2'' @ [LF])
     then bindE (slice_to 30 s) (\<lambda>x. Inl (Some (''unexpected prefix: '' @ cf_debug_str E x)))
     else Inr ()))"

definition test_wire_v1_still_functional :: "suite \<Rightarrow> test_result" where
  "test_wire_v1_still_functional E =
     bindE (or_msg core_error_text
       (transfer_intent_bytes ''spize:acme/alice:aabbcc'' ''spize:acme/bob:ddeeff'' 100 [] [] NONCE 1700000000)) (\<lambda>bs.
     bindE (or_msg id (from_utf8 bs)) (\<lambda>s.
     if \<not> starts_with s (''spize-transfer-intent:v1'' @ [LF])
     then bindE (slice_to 30 s) (\<lambda>x. Inl (Some (''v1 prefix missing: '' @ cf_debug_str E x)))
     else Inr ()))"

definition test_cross_version_isolation :: "suite \<Rightarrow> test_result" where
  "test_cross_version_isolation E =
     bindE (or_msg core_error_text (registration_challenge_bytes ''aa'' ''acme'' ''alice'' NONCE 1700000000)) (\<lambda>v1.
     bindE (or_msg core_error_text (registration_challenge_bytes_v2 ''aa'' ''acme'' ''alice'' NONCE 1700000000)) (\<lambda>v2.
     bindE (fails_if (v1 = v2) ''v1 and v2 bytes collide for identical inputs'') (\<lambda>_.
     bindE (or_panic (from_utf8 v1)) (\<lambda>s1.
     bindE (fails_if (\<not> starts_with s1 ''spize-'') ''v1 missing spize- prefix'') (\<lambda>_.
     bindE (or_panic (from_utf8 v2)) (\<lambda>s2.
     fails_if (\<not> starts_with s2 ''aex-'') ''v2 missing aex- prefix''))))))"

definition test_jws_algorithm_whitelist :: "suite \<Rightarrow> test_result" where
  "test_jws_algorithm_whitelist E =
     (let sk = cf_key_1 E in
      bindE (or_msg jws_error_text (sign_ed25519 (cf_jose E) (as_bytes ''payload'') (sk_sign sk) ''did:key:test'')) (\<lambda>jws.
      bindE (or_msg jws_error_text (jws_verify (cf_jose E) jws (\<lambda>_. Inr (Some (Ed25519Key (sk_public sk)))))) (\<lambda>_.
      Inr ())))"

definition forged_header :: "string \<Rightarrow> json" where
  "forged_header alg = JObject [(''alg'', JString alg), (''kid'', JString ''did:web:attacker'')]"

fun refused_algorithm :: "suite \<Rightarrow> string \<Rightarrow> JwsError + VerifiedPayload \<Rightarrow> test_result" where
  "refused_algorithm E a (Inl (AlgorithmNotPermitted s)) =
     (if s = a then Inr () else Inl (Some (''expected AlgorithmNotPermitted, got '' @ cf_debug_verified E (Inl (AlgorithmNotPermitted s)))))"
| "refused_algorithm E a other = Inl (Some (''expected AlgorithmNotPermitted, got '' @ cf_debug_verified E other))"

definition test_jws_alg_none_rejected :: "suite \<Rightarrow> test_result" where
  "test_jws_alg_none_rejected E =
     (let h = b64url_enc (cf_jose E) (cf_json_print E (forged_header ''none''));
          p = b64url_enc (cf_jose E) (as_bytes ''forged'');
          jws = h @ ''.'' @ p @ ''.''
      in refused_algorithm E ''none'' (jws_verify (cf_jose E) jws (\<lambda>_. Inr None)))"

definition test_jws_alg_hs256_rejected :: "suite \<Rightarrow> test_result" where
  "test_jws_alg_hs256_rejected E =
     (let h = b64url_enc (cf_jose E) (cf_json_print E (forged_header ''HS256''));
          p = b64url_enc (cf_jose E) (as_bytes ''forged'');
          s = b64url_enc (cf_jose E) (replicate 32 0);
          jws = h @ ''.'' @ p @ ''.'' @ s
      in refused_algorithm E ''HS256'' (jws_verify (cf_jose E) jws (\<lambda>_. Inr None)))"

text \<open>Indexing into the list of segments panics if there are too few.\<close>

definition test_jws_tampered_payload_rejected :: "suite \<Rightarrow> test_result" where
  "test_jws_tampered_payload_rejected E =
     (let sk = cf_key_2 E in
      bindE (or_panic (sign_ed25519 (cf_jose E) (as_bytes ''original'') (sk_sign sk) ''did:web:bob'')) (\<lambda>jws.
      case split_char (CHR ''.'') jws of
        p0 # p1 # p2 # _ \<Rightarrow>
          (let bad = p0 @ ''.'' @ b64url_enc (cf_jose E) (as_bytes ''forged'') @ ''.'' @ p2
           in case jws_verify (cf_jose E) bad (\<lambda>_. Inr (Some (Ed25519Key (sk_public sk)))) of
                Inl (JwsBadSignature _) \<Rightarrow> Inr ()
              | other \<Rightarrow> Inl (Some (''expected BadSignature, got '' @ cf_debug_verified E other)))
      | _ \<Rightarrow> Inl None))"

definition v4 :: "u8 \<Rightarrow> u8 \<Rightarrow> u8 \<Rightarrow> u8 \<Rightarrow> IpAddr" where
  "v4 a b c d = V4 \<lparr>octet0 = a, octet1 = b, octet2 = c, octet3 = d\<rparr>"

definition v6 :: "u16 \<Rightarrow> u16 \<Rightarrow> IpAddr" where
  "v6 hi lo = V6 \<lparr>seg0 = hi, seg1 = 0, seg2 = 0, seg3 = 0, seg4 = 0, seg5 = 0, seg6 = 0, seg7 = lo\<rparr>"

definition test_ssrf_rejects_loopback :: "suite \<Rightarrow> test_result" where
  "test_ssrf_rejects_loopback E =
     bindE (fails_if (\<not> is_forbidden_ip (v4 127 0 0 1)) ''127.0.0.1 not flagged forbidden'') (\<lambda>_.
     fails_if (\<not> is_forbidden_ip (v6 0 1)) ''::1 not flagged forbidden'')"

text \<open>A loop over addresses that stops at the first failure.\<close>

fun for_all :: "('a \<Rightarrow> test_result) \<Rightarrow> 'a list \<Rightarrow> test_result" where
  "for_all f [] = Inr ()"
| "for_all f (x # xs) = bindE (f x) (\<lambda>_. for_all f xs)"

definition test_ssrf_rejects_rfc1918 :: "suite \<Rightarrow> test_result" where
  "test_ssrf_rejects_rfc1918 E =
     for_all (\<lambda>(t, ip). fails_if (\<not> is_forbidden_ip ip) (t @ '' not flagged forbidden''))
       [(''10.0.0.1'', v4 10 0 0 1), (''172.16.0.1'', v4 172 16 0 1), (''192.168.0.1'', v4 192 168 0 1)]"

definition test_ssrf_rejects_link_local :: "suite \<Rightarrow> test_result" where
  "test_ssrf_rejects_link_local E =
     bindE (fails_if (\<not> is_forbidden_ip (v4 169 254 169 254)) ''EC2 metadata IP 169.254.169.254 not flagged'') (\<lambda>_.
     fails_if (\<not> is_forbidden_ip (v6 0xfe80 1)) ''fe80::1 not flagged'')"

definition test_ssrf_accepts_public_ips :: "suite \<Rightarrow> test_result" where
  "test_ssrf_accepts_public_ips E =
     for_all (\<lambda>(t, ip). fails_if (is_forbidden_ip ip) (''public IP '' @ t @ '' unexpectedly flagged''))
       [(''1.1.1.1'', v4 1 1 1 1), (''8.8.8.8'', v4 8 8 8 8)]"

definition test_clock_skew_60s_window :: "suite \<Rightarrow> test_result" where
  "test_clock_skew_60s_window E =
     (let now = 1700000000 in
      bindE (fails_if (\<not> is_within_clock_skew_v2 now now) ''zero skew rejected'') (\<lambda>_.
      bindE (fails_if (\<not> is_within_clock_skew_v2 now (now - 60)) ''-60s skew rejected'') (\<lambda>_.
      fails_if (\<not> is_within_clock_skew_v2 now (now + 60)) ''+60s skew rejected'')))"

definition test_clock_skew_rejects_outside_window :: "suite \<Rightarrow> test_result" where
  "test_clock_skew_rejects_outside_window E =
     (let now = 1700000000 in
      bindE (fails_if (is_within_clock_skew_v2 now (now - 61)) ''-61s skew accepted'') (\<lambda>_.
      fails_if (is_within_clock_skew_v2 now (now + 61)) ''+61s skew accepted''))"

definition test_did_uri_parser_strict :: "suite \<Rightarrow> test_result" where
  "test_did_uri_parser_strict E =
     bindE (or_msg core_error_text (AgentId_new ''did:web:acme.com#'')) (\<lambda>i.
     bindE (fails_if (as_did_uri i \<noteq> None) ''empty fragment accepted by parser'') (\<lambda>_.
     bindE (or_msg core_error_text (AgentId_new ''did:WEB:acme.com'')) (\<lambda>j.
     bindE (fails_if (as_did_uri j \<noteq> None) ''uppercase method accepted'') (\<lambda>_.
     bindE (or_msg core_error_text (AgentId_new ''did:web:acme.com#x'')) (\<lambda>k.
     bindE (ok_or (Some ''well-formed URI failed to parse'') (as_did_uri k)) (\<lambda>u.
     fails_if (did_method u \<noteq> ''web'' \<or> method_specific_id u \<noteq> ''acme.com'') ''parse extracted wrong components''))))))"

definition test_did_key_roundtrip :: "suite \<Rightarrow> test_result" where
  "test_did_key_roundtrip E =
     bindE (or_msg core_error_text (did_key_from_signing_key (cf_ring E) (cf_fresh_key E))) (\<lambda>p.
     bindE (fails_if (scheme (dk_agent_id p) \<noteq> DidKey) ''generated did:key has wrong scheme'') (\<lambda>_.
     bindE (or_msg core_error_text (decode_pubkey (cf_platform E) (cf_ring E) (dk_agent_id p))) (\<lambda>_.
     Inr ())))"

definition test_did_key_rejects_malformed :: "suite \<Rightarrow> test_result" where
  "test_did_key_rejects_malformed E =
     bindE (or_msg core_error_text (AgentId_new ''did:key:fabc'')) (\<lambda>i.
     fails_if (is_ok (decode_pubkey (cf_platform E) (cf_ring E) i)) ''malformed did:key accepted'')"

definition expected_capabilities :: "(Capability \<times> nat \<times> string) list" where
  "expected_capabilities = [(WireV2, 0, ''wire-v2''), (JwsAgentCard, 1, ''jws-agent-card''), (CardEtag, 2, ''card-etag''),
     (A2ABridge, 3, ''a2a-bridge''), (EtereCitizenTrust, 4, ''etere-citizen-trust''), (SafeHttp, 5, ''safe-http''),
     (ClockSkew60s, 6, ''clock-skew-60s''), (StreamingTransfer, 7, ''streaming-transfer'')]"

definition test_capability_bits_stable :: "suite \<Rightarrow> test_result" where
  "test_capability_bits_stable E =
     for_all (\<lambda>(cap, bit_no, name).
       bindE (fails_if (as_bit cap \<noteq> bit_no) (''capability '' @ cf_debug_capability E cap @ '' bit changed: ''
         @ show_nat (as_bit cap) @ '' != '' @ show_nat bit_no)) (\<lambda>_.
       fails_if (capability_name cap \<noteq> name) (''capability '' @ cf_debug_capability E cap @ '' name changed: ''
         @ cf_debug_str E (capability_name cap) @ '' != '' @ cf_debug_str E name))) expected_capabilities"

definition test_capability_forward_compat :: "suite \<Rightarrow> test_result" where
  "test_capability_forward_compat E =
     (let caps = from_string_array [''wire-v2'', ''future-capability-the-future-invented'', ''jws-agent-card''] in
      bindE (fails_if (\<not> has_cap caps WireV2 \<or> \<not> has_cap caps JwsAgentCard) ''known caps lost during forward-compat parse'') (\<lambda>_.
      fails_if (length (to_string_array caps) \<noteq> 2)
        (''expected 2 known caps after dropping unknown, got '' @ show_nat (length (to_string_array caps)))))"

definition test_wire_v2_rejects_nonce_too_short :: "suite \<Rightarrow> test_result" where
  "test_wire_v2_rejects_nonce_too_short E =
     fails_if (is_ok (registration_challenge_bytes_v2 ''aa'' ''acme'' ''alice'' ''deadbeef'' 1700000000)) ''short nonce accepted''"

definition test_wire_v2_rejects_newline_in_fields :: "suite \<Rightarrow> test_result" where
  "test_wire_v2_rejects_newline_in_fields E =
     fails_if (is_ok (registration_challenge_bytes_v2 ''aa'' (''ac'' @ [LF] @ ''me'') ''alice'' NONCE 1700000000))
       ''newline in org field accepted''"

definition test_wire_v2_rotate_key_same_keys_rejected :: "suite \<Rightarrow> test_result" where
  "test_wire_v2_rotate_key_same_keys_rejected E =
     (let same = replicate 64 (CHR ''a'') in
      fails_if (is_ok (rotate_key_challenge_bytes_v2 ''did:spize:acme/alice#aabbcc'' same same NONCE 1700000000))
        ''identical old/new keys accepted in rotate'')"

definition test_wire_v2_receipt_action_whitelist :: "suite \<Rightarrow> test_result" where
  "test_wire_v2_receipt_action_whitelist E =
     bindE (for_all (\<lambda>action.
         bindE (or_msg (\<lambda>e. ''action '' @ action @ '' rejected: '' @ core_error_text e)
           (transfer_receipt_bytes_v2 ''did:web:bob.com#x'' ''tx_abc'' action NONCE 1700000000)) (\<lambda>_. Inr ()))
       [''download'', ''ack'', ''inbox'', ''request_ticket'']) (\<lambda>_.
     fails_if (is_ok (transfer_receipt_bytes_v2 ''did:web:bob.com#x'' ''tx_abc'' ''overwrite'' NONCE 1700000000))
       ''non-whitelisted action accepted'')"

definition test_decision_request_bytes_stable :: "suite \<Rightarrow> test_result" where
  "test_decision_request_bytes_stable E =
     bindE (or_msg core_error_text
       (decision_request_bytes_v2 ''did:web:acme.com#agent-vendite'' ''tx_abc123'' ''dec_0001'' 86400 NONCE 1700000000)) (\<lambda>bs.
     bindE (or_msg id (from_utf8 bs)) (\<lambda>s.
     bindE (if \<not> starts_with s (''aex-decision-request:v2'' @ [LF])
       then bindE (slice_to 40 s) (\<lambda>x. Inl (Some (''unexpected prefix: '' @ cf_debug_str E x))) else Inr ()) (\<lambda>_.
     bindE (fails_if (\<not> contains_str s (''decision=dec_0001'' @ [LF])) ''decision id field missing'') (\<lambda>_.
     fails_if (\<not> contains_str s (''eta_secs=86400'' @ [LF])) ''eta_secs field missing or malformed''))))"

definition test_decision_response_bytes_stable :: "suite \<Rightarrow> test_result" where
  "test_decision_response_bytes_stable E =
     bindE (or_msg core_error_text
       (decision_response_bytes_v2 ''did:web:acme.com#agent-vendite'' ''tx_abc123'' ''dec_0001'' ''accepted'' [] NONCE 1700000000)) (\<lambda>accepted.
     bindE (or_panic (from_utf8 accepted)) (\<lambda>s.
     bindE (fails_if (\<not> starts_with s (''aex-decision-response:v2'' @ [LF])) ''accepted prefix wrong'') (\<lambda>_.
     fails_if (is_ok (decision_response_bytes_v2 ''x'' ''tx'' ''dec'' ''maybe'' [] NONCE 1700000000))
       ''non-whitelisted outcome accepted'')))"

definition test_deferred_decision_capability_bit_stable :: "suite \<Rightarrow> test_result" where
  "test_deferred_decision_capability_bit_stable E =
     bindE (fails_if (as_bit DeferredDecision \<noteq> 8) (''DeferredDecision bit changed: '' @ show_nat (as_bit DeferredDecision))) (\<lambda>_.
     bindE (fails_if (capability_name DeferredDecision \<noteq> ''deferred-decision'')
       (''DeferredDecision name changed: '' @ cf_debug_str E (capability_name DeferredDecision))) (\<lambda>_.
     let caps = with_cap empty_caps DeferredDecision in
     bindE (fails_if (\<not> has_cap caps DeferredDecision) ''set membership broken'') (\<lambda>_.
     fails_if (''deferred-decision'' \<notin> set (to_string_array caps)) ''string array missing deferred-decision'')))"

section \<open>The suite\<close>

definition all_tests :: "ConformanceTest list" where
  "all_tests =
    [\<lparr>ct_id = ''wire-v2-roundtrip'', ct_category = ''wire'', ct_run = test_wire_v2_roundtrip\<rparr>,
     \<lparr>ct_id = ''wire-v1-still-functional'', ct_category = ''wire'', ct_run = test_wire_v1_still_functional\<rparr>,
     \<lparr>ct_id = ''cross-version-isolation'', ct_category = ''wire'', ct_run = test_cross_version_isolation\<rparr>,
     \<lparr>ct_id = ''jws-algorithm-whitelist'', ct_category = ''jws'', ct_run = test_jws_algorithm_whitelist\<rparr>,
     \<lparr>ct_id = ''jws-alg-none-rejected'', ct_category = ''jws'', ct_run = test_jws_alg_none_rejected\<rparr>,
     \<lparr>ct_id = ''jws-alg-hs256-rejected'', ct_category = ''jws'', ct_run = test_jws_alg_hs256_rejected\<rparr>,
     \<lparr>ct_id = ''jws-tampered-payload-rejected'', ct_category = ''jws'', ct_run = test_jws_tampered_payload_rejected\<rparr>,
     \<lparr>ct_id = ''ssrf-rejects-loopback'', ct_category = ''ssrf'', ct_run = test_ssrf_rejects_loopback\<rparr>,
     \<lparr>ct_id = ''ssrf-rejects-rfc1918'', ct_category = ''ssrf'', ct_run = test_ssrf_rejects_rfc1918\<rparr>,
     \<lparr>ct_id = ''ssrf-rejects-link-local'', ct_category = ''ssrf'', ct_run = test_ssrf_rejects_link_local\<rparr>,
     \<lparr>ct_id = ''ssrf-accepts-public-ips'', ct_category = ''ssrf'', ct_run = test_ssrf_accepts_public_ips\<rparr>,
     \<lparr>ct_id = ''clock-skew-60s-window'', ct_category = ''time'', ct_run = test_clock_skew_60s_window\<rparr>,
     \<lparr>ct_id = ''clock-skew-rejects-outside-window'', ct_category = ''time'', ct_run = test_clock_skew_rejects_outside_window\<rparr>,
     \<lparr>ct_id = ''did-uri-parser-strict'', ct_category = ''identity'', ct_run = test_did_uri_parser_strict\<rparr>,
     \<lparr>ct_id = ''did-key-roundtrip'', ct_category = ''identity'', ct_run = test_did_key_roundtrip\<rparr>,
     \<lparr>ct_id = ''did-key-rejects-malformed'', ct_category = ''identity'', ct_run = test_did_key_rejects_malformed\<rparr>,
     \<lparr>ct_id = ''capability-bits-stable'', ct_category = ''capability'', ct_run = test_capability_bits_stable\<rparr>,
     \<lparr>ct_id = ''capability-forward-compat'', ct_category = ''capability'', ct_run = test_capability_forward_compat\<rparr>,
     \<lparr>ct_id = ''wire-v2-rejects-nonce-too-short'', ct_category = ''wire'', ct_run = test_wire_v2_rejects_nonce_too_short\<rparr>,
     \<lparr>ct_id = ''wire-v2-rejects-newline-in-fields'', ct_category = ''wire'', ct_run = test_wire_v2_rejects_newline_in_fields\<rparr>,
     \<lparr>ct_id = ''wire-v2-rotate-key-same-keys-rejected'', ct_category = ''wire'', ct_run = test_wire_v2_rotate_key_same_keys_rejected\<rparr>,
     \<lparr>ct_id = ''wire-v2-receipt-action-whitelist'', ct_category = ''wire'', ct_run = test_wire_v2_receipt_action_whitelist\<rparr>,
     \<lparr>ct_id = ''decision-request-bytes-stable'', ct_category = ''deferred-decision'', ct_run = test_decision_request_bytes_stable\<rparr>,
     \<lparr>ct_id = ''decision-response-bytes-stable'', ct_category = ''deferred-decision'', ct_run = test_decision_response_bytes_stable\<rparr>,
     \<lparr>ct_id = ''deferred-decision-capability-bit-stable'', ct_category = ''deferred-decision'', ct_run = test_deferred_decision_capability_bit_stable\<rparr>]"

text \<open>Every test runs, in order; a panic ends the run.\<close>

fun run_tests :: "suite \<Rightarrow> ConformanceTest list \<Rightarrow> ConformanceResult list option" where
  "run_tests E [] = Some []"
| "run_tests E (t # ts) =
     (case (case ct_run t E of Inr _ \<Rightarrow> Some Pass | Inl (Some m) \<Rightarrow> Some (Fail m) | Inl None \<Rightarrow> None) of
        None \<Rightarrow> None
      | Some result \<Rightarrow>
          map_option (\<lambda>rs. \<lparr>cres_id = ct_id t, cres_category = ct_category t, cres_outcome = result\<rparr> # rs) (run_tests E ts))"

definition run_all :: "suite \<Rightarrow> ConformanceResult list option" where
  "run_all E = run_tests E all_tests"

section \<open>The tests on messages\<close>

text \<open>Messages are printed in ASCII, so that the tests can read them as text.\<close>

definition ascii_text :: "string \<Rightarrow> bool" where
  "ascii_text s \<longleftrightarrow> list_all (\<lambda>c. code c < 128) s"

lemma ascii_text_simps [simp]:
  "ascii_text []" "ascii_text (c # s) \<longleftrightarrow> code c < 128 \<and> ascii_text s" "ascii_text (s @ t) \<longleftrightarrow> ascii_text s \<and> ascii_text t"
  by (simp_all add: ascii_text_def)

lemma ascii_Char [simp]: "code (Char b0 b1 b2 b3 b4 b5 b6 b7) < 128 \<longleftrightarrow> \<not> b7"
  unfolding code_def of_char_def by (cases b0; cases b1; cases b2; cases b3; cases b4; cases b5; cases b6; cases b7) simp_all

lemma ascii_line_text: "ascii_line s \<Longrightarrow> ascii_text s"
  by (auto simp: ascii_text_def ascii_line_def list_all_iff bad_line_char_def is_ascii_def)

lemma ascii_nonce: "valid_nonce s \<Longrightarrow> ascii_text s"
  using valid_nonce_ascii_line ascii_line_text by blast

lemma ascii_show_nat: "ascii_text (show_nat n)"
  using show_nat_digits [of _ n] by (fastforce simp: ascii_text_def list_all_iff is_ascii_digit_def)

lemma ascii_show_i64: "ascii_text (show_i64 w)"
  by (simp add: show_i64_def show_int_def ascii_show_nat)

lemma ascii_show_u64: "ascii_text (show_u64 w)"
  by (simp add: show_u64_def ascii_show_nat)

lemma ascii_join_lines: "list_all ascii_text ls \<Longrightarrow> ascii_text (join_lines ls)"
  by (induction ls rule: join_lines.induct) (auto simp: code_def)

lemmas ascii_rules = ascii_line_text ascii_nonce ascii_show_i64 ascii_show_u64

lemma ascii_headers: "ascii_text (header_v1 m)" "ascii_text (header_v2 n)"
  by (cases m; simp add: code_def) (cases n; simp add: code_def)

lemma ascii_body_v1: "render_v1 m = Inr bs \<Longrightarrow> list_all ascii_text (body_v1 m)"
  by (cases m) (auto simp: message_defs step_iffs ascii_rules)

lemma ascii_body_v2: "render_v2 m = Inr bs \<Longrightarrow> list_all ascii_text (body_v2 m)"
  by (cases m) (auto simp: message_v2_defs validators_v2_eq step_iffs ascii_rules)

text \<open>A rendered message is text that begins with its header line.\<close>

lemma message_text:
  assumes "bs = as_bytes (join_lines (h # b # ls))" "ascii_text h" "list_all ascii_text (b # ls)"
  shows "from_utf8 bs = Inr (h @ [LF] @ join_lines (b # ls))"
  using from_utf8_ascii [of "join_lines (h # b # ls)"] ascii_join_lines [of "h # b # ls"] assms
  by (simp add: ascii_text_def)

lemma body_cons: "\<exists>b ls. body_v1 m = b # ls" "\<exists>b ls. body_v2 n = b # ls"
  by (cases m; simp) (cases n; simp)

lemma v1_text: "render_v1 m = Inr bs \<Longrightarrow> from_utf8 bs = Inr (header_v1 m @ [LF] @ join_lines (body_v1 m))"
  using render_v1_lines [of m bs] ascii_body_v1 [of m bs] ascii_headers(1) [of m] body_cons(1) [of m] message_text by metis

lemma v2_text: "render_v2 m = Inr bs \<Longrightarrow> from_utf8 bs = Inr (header_v2 m @ [LF] @ join_lines (body_v2 m))"
  using render_v2_lines [of m bs] ascii_body_v2 [of m bs] ascii_headers(2) [of m] body_cons(2) [of m] message_text by metis

lemma valid_NONCE: "valid_nonce NONCE"
  by code_simp

lemma suite_lines:
  "ascii_line ''did:web:acme.com#agent''" "ascii_line ''did:web:beta.com#bob''" "ascii_line ''application/pdf''" "ascii_line ''x.pdf''"
  "ascii_line ''spize:acme/alice:aabbcc''" "ascii_line ''spize:acme/bob:ddeeff''" "ascii_line ''aa''" "ascii_line ''acme''" "ascii_line ''alice''"
  "ascii_line ''did:web:bob.com#x''" "ascii_line ''tx_abc''" "ascii_line ''download''" "ascii_line ''ack''" "ascii_line ''inbox''"
  "ascii_line ''request_ticket''" "ascii_line ''did:web:acme.com#agent-vendite''" "ascii_line ''tx_abc123''" "ascii_line ''dec_0001''"
  "ascii_line ''accepted''"
  by code_simp+

lemma passes_wire_v2_roundtrip: "test_wire_v2_roundtrip E = Inr ()"
proof -
  let ?m = "IntentV2 ''did:web:acme.com#agent'' ''did:web:beta.com#bob'' 12345 ''application/pdf'' ''x.pdf'' NONCE 1700000000"
  obtain bs where bs: "render_v2 ?m = Inr bs"
    by (simp add: transfer_intent_bytes_v2_def validators_v2_eq step_iffs valid_NONCE suite_lines)
  from v2_text [OF bs] bs show ?thesis
    unfolding test_wire_v2_roundtrip_def by (simp add: or_msg_def starts_with_iff)
qed

lemma passes_wire_v1_still_functional: "test_wire_v1_still_functional E = Inr ()"
proof -
  let ?m = "IntentV1 ''spize:acme/alice:aabbcc'' ''spize:acme/bob:ddeeff'' 100 [] [] NONCE 1700000000"
  obtain bs where bs: "render_v1 ?m = Inr bs"
    by (simp add: transfer_intent_bytes_def step_iffs valid_NONCE suite_lines)
  from v1_text [OF bs] bs show ?thesis
    unfolding test_wire_v1_still_functional_def by (simp add: or_msg_def starts_with_iff)
qed

lemma passes_cross_version_isolation: "test_cross_version_isolation E = Inr ()"
proof -
  let ?m = "RegisterV1 ''aa'' ''acme'' ''alice'' NONCE 1700000000" and ?n = "RegisterV2 ''aa'' ''acme'' ''alice'' NONCE 1700000000"
  obtain v1 where v1: "render_v1 ?m = Inr v1"
    by (simp add: registration_challenge_bytes_def step_iffs valid_NONCE suite_lines)
  obtain v2 where v2: "render_v2 ?n = Inr v2"
    by (simp add: registration_challenge_bytes_v2_def validators_v2_eq step_iffs valid_NONCE suite_lines)
  have "v1 \<noteq> v2" using v12.families_disjoint [OF v1, of ?n] v2 by auto
  with v1_text [OF v1] v2_text [OF v2] v1 v2 show ?thesis
    unfolding test_cross_version_isolation_def by (simp add: or_msg_def or_panic_def fails_if_def starts_with_iff)
qed

lemma passes_rejections:
  "test_wire_v2_rejects_nonce_too_short E = Inr ()"
  "test_wire_v2_rejects_newline_in_fields E = Inr ()"
  "test_wire_v2_rotate_key_same_keys_rejected E = Inr ()"
proof -
  have n: "\<not> valid_nonce ''deadbeef''" and l: "\<not> ascii_line (''ac'' @ [LF] @ ''me'')" by code_simp+
  show "test_wire_v2_rejects_nonce_too_short E = Inr ()"
    using n unfolding test_wire_v2_rejects_nonce_too_short_def
    by (simp add: fails_if_def is_ok_iff registration_challenge_bytes_v2_def validators_v2_eq step_iffs)
  show "test_wire_v2_rejects_newline_in_fields E = Inr ()"
    using l unfolding test_wire_v2_rejects_newline_in_fields_def
    by (simp add: fails_if_def is_ok_iff registration_challenge_bytes_v2_def validators_v2_eq step_iffs)
  show "test_wire_v2_rotate_key_same_keys_rejected E = Inr ()"
    unfolding test_wire_v2_rotate_key_same_keys_rejected_def Let_def
    by (simp add: fails_if_def is_ok_iff rotate_key_challenge_bytes_v2_def validators_v2_eq step_iffs)
qed

lemma receipt_accepted:
  assumes "ascii_line a" "a \<in> set receipt_actions"
  shows "\<exists>bs. transfer_receipt_bytes_v2 ''did:web:bob.com#x'' ''tx_abc'' a NONCE 1700000000 = Inr bs"
  using assms by (simp add: transfer_receipt_bytes_v2_def validators_v2_eq step_iffs valid_NONCE suite_lines)

lemma passes_receipt_action_whitelist: "test_wire_v2_receipt_action_whitelist E = Inr ()"
proof -
  have a: "''download'' \<in> set receipt_actions" "''ack'' \<in> set receipt_actions" "''inbox'' \<in> set receipt_actions"
    "''request_ticket'' \<in> set receipt_actions" "''overwrite'' \<notin> set receipt_actions" by code_simp+
  have "\<not> is_ok (transfer_receipt_bytes_v2 ''did:web:bob.com#x'' ''tx_abc'' ''overwrite'' NONCE 1700000000)"
    using a(5) by (simp add: is_ok_iff transfer_receipt_bytes_v2_def validators_v2_eq step_iffs)
  with receipt_accepted [OF suite_lines(12) a(1)] receipt_accepted [OF suite_lines(13) a(2)]
    receipt_accepted [OF suite_lines(14) a(3)] receipt_accepted [OF suite_lines(15) a(4)]
  show ?thesis unfolding test_wire_v2_receipt_action_whitelist_def by (auto simp: or_msg_def fails_if_def)
qed

lemma line_within: "sublist (l @ [LF]) (join_lines (pre @ l # k # post))"
proof (induction pre)
  case Nil
  have "join_lines ([] @ l # k # post) = [] @ (l @ [LF]) @ join_lines (k # post)" by simp
  then show ?case unfolding sublist_def by blast
next
  case (Cons p pre)
  have "join_lines ((p # pre) @ l # k # post) = (p @ [LF]) @ join_lines (pre @ l # k # post)" by (cases pre) simp_all
  with Cons show ?case by (metis sublist_append)
qed

lemma line_of_message: "sublist (l @ [LF]) (h @ [LF] @ join_lines (pre @ l # k # post))"
  using sublist_order.order.trans [OF line_within [of l pre k post] sublist_append_leftI [of _ "h @ [LF]"]] by simp

lemma passes_decision_request_bytes_stable: "test_decision_request_bytes_stable E = Inr ()"
proof -
  let ?m = "DecisionRequestV2 ''did:web:acme.com#agent-vendite'' ''tx_abc123'' ''dec_0001'' 86400 NONCE 1700000000"
  obtain bs where bs: "render_v2 ?m = Inr bs"
    by (simp add: decision_request_bytes_v2_def validators_v2_eq step_iffs valid_NONCE suite_lines)
  have eta: "show_u64 86400 = ''86400''" by (simp add: show_u64_def show_nat.simps digit_def) code_simp
  let ?r = "''recipient='' @ ''did:web:acme.com#agent-vendite''" and ?t = "''transfer='' @ ''tx_abc123''"
  let ?d = "''decision='' @ ''dec_0001''" and ?e = "''eta_secs='' @ ''86400''"
  let ?n = "''nonce='' @ NONCE" and ?i = "''ts='' @ show_i64 1700000000"
  let ?s = "header_v2 ?m @ [LF] @ join_lines (body_v2 ?m)"
  have body: "body_v2 ?m = [?r, ?t] @ ?d # ?e # [?n, ?i]" "body_v2 ?m = [?r, ?t, ?d] @ ?e # ?n # [?i]"
    by (simp_all add: eta)
  have d: "sublist (?d @ [LF]) ?s" unfolding body(1) by (rule line_of_message)
  have e: "sublist (?e @ [LF]) ?s" unfolding body(2) by (rule line_of_message)
  from d e have "contains_str ?s (''decision=dec_0001'' @ [LF])" "contains_str ?s (''eta_secs=86400'' @ [LF])"
    unfolding contains_str_iff by simp_all
  moreover have "starts_with ?s (''aex-decision-request:v2'' @ [LF])" by (simp add: starts_with_iff)
  moreover have "decision_request_bytes_v2 ''did:web:acme.com#agent-vendite'' ''tx_abc123'' ''dec_0001'' 86400 NONCE 1700000000 = Inr bs"
    using bs by simp
  ultimately show ?thesis
    unfolding test_decision_request_bytes_stable_def
    using v2_text [OF bs] by (simp only: or_msg_def fails_if_def map_err.simps bindE.simps) simp
qed

lemma passes_decision_response_bytes_stable: "test_decision_response_bytes_stable E = Inr ()"
proof -
  let ?m = "DecisionResponseV2 ''did:web:acme.com#agent-vendite'' ''tx_abc123'' ''dec_0001'' ''accepted'' [] NONCE 1700000000"
  have o: "''accepted'' \<in> set decision_outcomes" "''maybe'' \<notin> set decision_outcomes" by code_simp+
  obtain bs where bs: "render_v2 ?m = Inr bs"
    using o(1) by (simp add: decision_response_bytes_v2_def validators_v2_eq step_iffs valid_NONCE suite_lines)
  have "\<not> is_ok (decision_response_bytes_v2 ''x'' ''tx'' ''dec'' ''maybe'' [] NONCE 1700000000)"
    using o(2) by (simp add: is_ok_iff decision_response_bytes_v2_def validators_v2_eq step_iffs)
  with v2_text [OF bs] bs show ?thesis
    unfolding test_decision_response_bytes_stable_def
    by (simp add: or_msg_def or_panic_def fails_if_def starts_with_iff)
qed

section \<open>The tests that sign\<close>

text \<open>
  What the suite needs of the crates below the stack: the round trips of \<open>Jws\<close> and \<open>Identity\<close>;
  the encodings at most double the length, and the empty segment decodes; the JSON of the headers
  is printed, briefly, and parses back; the two fixed keys sign with 64 bytes that verify, and the
  signature over the original message of the tampering test is not one of the tampered message; the
  fresh key is a key.
\<close>

definition eddsa_header :: "string \<Rightarrow> JwsHeader" where
  "eddsa_header kid = \<lparr>jh_alg = EdDsa, jh_kid = kid, jh_typ = Some ''JOSE+JSON''\<rparr>"

definition key_signs :: "jose \<Rightarrow> signing_key \<Rightarrow> bool" where
  "key_signs J sk \<longleftrightarrow> (\<forall>m. length (sk_sign sk m) = 64 \<and> ed25519_ok J (sk_public sk) m (sk_sign sk m))"

definition header_prints :: "jose \<Rightarrow> string \<Rightarrow> bool" where
  "header_prints J kid \<longleftrightarrow> (\<exists>b. header_print J (eddsa_header kid) = Inr b \<and> length b \<le> 256)"

definition forged_prints :: "suite \<Rightarrow> string \<Rightarrow> bool" where
  "forged_prints E a \<longleftrightarrow> json_parse (cf_jose E) (cf_json_print E (forged_header a)) = Inr (forged_header a)
     \<and> length (cf_json_print E (forged_header a)) \<le> 256"

definition tampering_detected :: "jose \<Rightarrow> signing_key \<Rightarrow> bool" where
  "tampering_detected J sk \<longleftrightarrow> (\<forall>b. header_print J (eddsa_header ''did:web:bob'') = Inr b \<longrightarrow>
     \<not> ed25519_ok J (sk_public sk) (as_bytes (b64url_enc J b @ ''.'' @ b64url_enc J (as_bytes ''forged'')))
         (sk_sign sk (as_bytes (b64url_enc J b @ ''.'' @ b64url_enc J (as_bytes ''original'')))))"

definition suite_laws :: "suite \<Rightarrow> bool" where
  "suite_laws E \<longleftrightarrow>
     jose_laws (cf_jose E) \<and> (\<forall>b. length (b64url_enc (cf_jose E) b) \<le> 2 * length b) \<and> b64url_dec (cf_jose E) [] = Inr []
     \<and> header_prints (cf_jose E) ''did:key:test'' \<and> header_prints (cf_jose E) ''did:web:bob''
     \<and> forged_prints E ''none'' \<and> forged_prints E ''HS256''
     \<and> key_signs (cf_jose E) (cf_key_1 E) \<and> key_signs (cf_jose E) (cf_key_2 E) \<and> tampering_detected (cf_jose E) (cf_key_2 E)
     \<and> bs58_laws (cf_ring E) \<and> (\<forall>b. length (bs58_enc (cf_ring E) b) \<le> 2 * length b)
     \<and> length (sk_public (cf_fresh_key E)) = 32 \<and> ed25519_key_ok (cf_platform E) (sk_public (cf_fresh_key E))"

lemma encoded_short: "\<forall>b. length (f b) \<le> 2 * length b \<Longrightarrow> length b \<le> 256 \<Longrightarrow> length (f b) \<le> SEGMENT_MAX_BYTES"
  by (rule order.trans [of _ "2 * length b"]) (simp_all add: SEGMENT_MAX_BYTES_def)

lemma segments_of:
  assumes "jose_laws J"
  shows "split_char (CHR ''.'') (b64url_enc J h @ ''.'' @ b64url_enc J p @ ''.'' @ b64url_enc J g)
    = [b64url_enc J h, b64url_enc J p, b64url_enc J g]"
    "split_char (CHR ''.'') (b64url_enc J h @ ''.'' @ b64url_enc J p @ ''.'') = [b64url_enc J h, b64url_enc J p, []]"
proof -
  have dots: "CHR ''.'' \<notin> set (b64url_enc J b)" for b using assms by (simp add: jose_laws_def)
  show "split_char (CHR ''.'') (b64url_enc J h @ ''.'' @ b64url_enc J p @ ''.'' @ b64url_enc J g)
      = [b64url_enc J h, b64url_enc J p, b64url_enc J g]"
    by (simp add: split_char_append split_char_free dots)
  show "split_char (CHR ''.'') (b64url_enc J h @ ''.'' @ b64url_enc J p @ ''.'') = [b64url_enc J h, b64url_enc J p, []]"
    by (simp add: split_char_append split_char_free dots)
qed

lemma sign_ed25519_eq:
  assumes "kid \<noteq> []" "header_print J (eddsa_header kid) = Inr b"
  shows "sign_ed25519 J pl sg kid = Inr (b64url_enc J b @ ''.'' @ b64url_enc J pl @ ''.''
     @ b64url_enc J (sg (as_bytes (b64url_enc J b @ ''.'' @ b64url_enc J pl))))"
  using assms by (simp add: sign_ed25519_def sign_inner_def eddsa_header_def ensure_def Let_def)

lemma signed_verifies:
  assumes laws: "jose_laws J" "\<forall>b. length (b64url_enc J b) \<le> 2 * length b"
    and hdr: "kid \<noteq> []" "header_prints J kid" and sk: "key_signs J sk" and pl: "length pl \<le> 256"
  shows "\<exists>jws vp. sign_ed25519 J pl (sk_sign sk) kid = Inr jws
    \<and> jws_verify J jws (\<lambda>_. Inr (Some (Ed25519Key (sk_public sk)))) = Inr vp"
proof -
  from hdr(2) obtain b where b: "header_print J (eddsa_header kid) = Inr b" "length b \<le> 256"
    by (auto simp: header_prints_def)
  note jws = sign_ed25519_eq [OF hdr(1) b(1), of pl "sk_sign sk"]
  have "length (sk_sign sk m) \<le> 256" for m using sk by (simp add: key_signs_def)
  then have cap: "list_all (\<lambda>seg. length seg \<le> SEGMENT_MAX_BYTES) (split_char (CHR ''.'') (b64url_enc J b @ ''.'' @ b64url_enc J pl @ ''.''
     @ b64url_enc J (sk_sign sk (as_bytes (b64url_enc J b @ ''.'' @ b64url_enc J pl)))))"
    using encoded_short [OF laws(2)] b(2) pl by (simp add: segments_of [OF laws(1), simplified])
  show ?thesis
    using sign_verify [OF laws(1) jws [unfolded sign_ed25519_def], of "\<lambda>_. Inr (Some (Ed25519Key (sk_public sk)))"
        "Ed25519Key (sk_public sk)"] jws sk cap
    by (auto simp: key_signs_def)
qed

lemma passes_jws_algorithm_whitelist:
  assumes "suite_laws E"
  shows "test_jws_algorithm_whitelist E = Inr ()"
  using signed_verifies [of "cf_jose E" "''did:key:test''" "cf_key_1 E" "as_bytes ''payload''"] assms
  by (auto simp: test_jws_algorithm_whitelist_def suite_laws_def or_msg_def Let_def)

lemma jws_alg_refused:
  assumes laws: "jose_laws J" "\<forall>b. length (b64url_enc J b) \<le> 2 * length b"
    and hdr: "json_parse J hj = Inr (forged_header a)" "length hj \<le> 256" "alg_parse a = None" and pl: "length pl \<le> 256"
    and g: "split_char (CHR ''.'') jws = [b64url_enc J hj, b64url_enc J pl, g]" "length g \<le> SEGMENT_MAX_BYTES" "b64url_dec J g = Inr sig"
  shows "jws_verify J jws f = Inl (AlgorithmNotPermitted a)"
proof -
  have dec: "b64url_dec J (b64url_enc J b) = Inr b" for b using laws(1) by (simp add: jose_laws_def)
  have "json_get ''alg'' (forged_header a) = Some (JString a)" by (simp add: forged_header_def)
  then have "check_alg (forged_header a) = Inl (AlgorithmNotPermitted a)" using hdr(3) by (simp add: check_alg_def)
  with encoded_short [OF laws(2) hdr(2)] encoded_short [OF laws(2) pl] g dec hdr(1) show ?thesis
    by (simp add: jws_verify_def ensure_def)
qed

lemma no_alg: "alg_parse ''none'' = None" "alg_parse ''HS256'' = None"
  by (simp_all add: alg_parse_def)

lemma passes_jws_alg_none_rejected:
  assumes "suite_laws E"
  shows "test_jws_alg_none_rejected E = Inr ()"
proof -
  let ?J = "cf_jose E"
  have l: "jose_laws ?J" "\<forall>b. length (b64url_enc ?J b) \<le> 2 * length b" "b64url_dec ?J [] = Inr []" "forged_prints E ''none''"
    using assms by (simp_all add: suite_laws_def)
  have "jws_verify ?J (b64url_enc ?J (cf_json_print E (forged_header ''none'')) @ ''.'' @ b64url_enc ?J (as_bytes ''forged'') @ ''.'')
      (\<lambda>_. Inr None) = Inl (AlgorithmNotPermitted ''none'')"
    using l(3,4) by (intro jws_alg_refused [OF l(1,2) _ _ no_alg(1) _ segments_of(2) [OF l(1)]])
      (auto simp: forged_prints_def)
  then show ?thesis by (simp add: test_jws_alg_none_rejected_def Let_def)
qed

lemma passes_jws_alg_hs256_rejected:
  assumes "suite_laws E"
  shows "test_jws_alg_hs256_rejected E = Inr ()"
proof -
  let ?J = "cf_jose E"
  have l: "jose_laws ?J" "\<forall>b. length (b64url_enc ?J b) \<le> 2 * length b" "forged_prints E ''HS256''"
    using assms by (simp_all add: suite_laws_def)
  have g: "length (b64url_enc ?J (replicate 32 0)) \<le> SEGMENT_MAX_BYTES" "b64url_dec ?J (b64url_enc ?J (replicate 32 0)) = Inr (replicate 32 0)"
    using encoded_short [OF l(2), of "replicate 32 0"] l(1) by (simp_all add: jose_laws_def)
  have "jws_verify ?J (b64url_enc ?J (cf_json_print E (forged_header ''HS256'')) @ ''.'' @ b64url_enc ?J (as_bytes ''forged'') @ ''.''
      @ b64url_enc ?J (replicate 32 0)) (\<lambda>_. Inr None) = Inl (AlgorithmNotPermitted ''HS256'')"
    using l(3) g by (intro jws_alg_refused [OF l(1,2) _ _ no_alg(2) _ segments_of(1) [OF l(1)]])
      (auto simp: forged_prints_def)
  then show ?thesis by (simp add: test_jws_alg_hs256_rejected_def Let_def)
qed

lemma jws_bad_signature:
  assumes laws: "jose_laws J" "\<forall>b. length (b64url_enc J b) \<le> 2 * length b"
    and hdr: "kid \<noteq> []" "header_print J (eddsa_header kid) = Inr b" "length b \<le> 256" and pl: "length pl \<le> 256"
    and sig: "length sig = 64" "\<not> ed25519_ok J vk (as_bytes (b64url_enc J b @ ''.'' @ b64url_enc J pl)) sig"
  shows "jws_verify J (b64url_enc J b @ ''.'' @ b64url_enc J pl @ ''.'' @ b64url_enc J sig) (\<lambda>_. Inr (Some (Ed25519Key vk)))
    = Inl (JwsBadSignature kid)"
proof -
  have dec: "b64url_dec J (b64url_enc J b) = Inr b" for b using laws(1) by (simp add: jose_laws_def)
  have "json_parse J b = Inr (header_json (eddsa_header kid))" using laws(1) hdr(2) by (simp add: jose_laws_def)
  moreover note header_of_alg [OF header_of_json [of "eddsa_header kid"]]
  moreover have "length (b64url_enc J sig) \<le> SEGMENT_MAX_BYTES" using encoded_short [OF laws(2), of sig] sig(1) by simp
  ultimately show ?thesis
    using encoded_short [OF laws(2) hdr(3)] encoded_short [OF laws(2) pl] dec sig hdr(1)
    unfolding jws_verify_def segments_of(1) [OF laws(1)]
    by (simp add: ensure_def header_of_json eddsa_header_def)
qed

lemma passes_jws_tampered_payload_rejected:
  assumes "suite_laws E"
  shows "test_jws_tampered_payload_rejected E = Inr ()"
proof -
  let ?J = "cf_jose E" and ?k = "cf_key_2 E"
  have l: "jose_laws ?J" "\<forall>b. length (b64url_enc ?J b) \<le> 2 * length b" "header_prints ?J ''did:web:bob''" "key_signs ?J ?k"
    "tampering_detected ?J ?k"
    using assms by (simp_all add: suite_laws_def)
  then obtain b where b: "header_print ?J (eddsa_header ''did:web:bob'') = Inr b" "length b \<le> 256" by (auto simp: header_prints_def)
  let ?sig = "sk_sign ?k (as_bytes (b64url_enc ?J b @ ''.'' @ b64url_enc ?J (as_bytes ''original'')))"
  have "sign_ed25519 ?J (as_bytes ''original'') (sk_sign ?k) ''did:web:bob''
      = Inr (b64url_enc ?J b @ ''.'' @ b64url_enc ?J (as_bytes ''original'') @ ''.'' @ b64url_enc ?J ?sig)"
    by (rule sign_ed25519_eq [OF _ b(1)]) simp
  moreover have "jws_verify ?J (b64url_enc ?J b @ ''.'' @ b64url_enc ?J (as_bytes ''forged'') @ ''.'' @ b64url_enc ?J ?sig)
      (\<lambda>_. Inr (Some (Ed25519Key (sk_public ?k)))) = Inl (JwsBadSignature ''did:web:bob'')"
    using l(4,5) b(1) by (intro jws_bad_signature [OF l(1,2) _ b]) (auto simp: key_signs_def tampering_detected_def)
  ultimately show ?thesis
    unfolding test_jws_tampered_payload_rejected_def Let_def or_panic_def
    by (simp only: map_err.simps bindE.simps segments_of(1) [OF l(1)] list.case sum.case JwsError.case)
qed

lemma passes_did_key_roundtrip:
  assumes "suite_laws E"
  shows "test_did_key_roundtrip E = Inr ()"
proof -
  let ?K = "cf_ring E" and ?pk = "sk_public (cf_fresh_key E)"
  let ?t = "bs58_enc ?K (ED25519_MULTICODEC_PREFIX @ ?pk)"
  have l: "bs58_laws ?K" "length ?t \<le> 2 * (2 + length ?pk)" "length ?pk = 32" "ed25519_key_ok (cf_platform E) ?pk"
    using assms spec [of "\<lambda>b. length (bs58_enc ?K b) \<le> 2 * length b" "ED25519_MULTICODEC_PREFIX @ ?pk"]
    by (simp_all add: suite_laws_def ED25519_MULTICODEC_PREFIX_def)
  have "list_all (\<lambda>c. 33 \<le> code c \<and> code c \<le> 126) ''did:key:z''" by code_simp
  moreover have "33 \<le> code c \<and> code c \<le> 126" if "is_ascii_alphanumeric c" for c
    using that by (auto simp: is_ascii_alphanumeric_def is_ascii_digit_def is_ascii_lowercase_def is_ascii_uppercase_def)
  moreover have "list_all is_ascii_alphanumeric ?t" using l(1) by (simp add: bs58_laws_def)
  ultimately have "list_all (\<lambda>c. 33 \<le> code c \<and> code c \<le> 126) (encode_did_key ?K ?pk)"
    unfolding encode_did_key_def list_all_append by (auto simp only: list_all_iff)
  then have "valid_agent_id (encode_did_key ?K ?pk)"
    using l(2,3) by (auto simp: valid_agent_id_def encode_did_key_def MAX_AGENT_ID_LEN_def)
  then have "did_key_from_signing_key ?K (cf_fresh_key E)
      = Inr \<lparr>dk_agent_id = AgentId (encode_did_key ?K ?pk), dk_key = cf_fresh_key E\<rparr>"
    by (simp add: did_key_from_signing_key_def step_iffs)
  moreover have "scheme (AgentId (encode_did_key ?K ?pk)) = DidKey"
    by (simp add: scheme_def starts_with_iff encode_did_key_def)
  ultimately show ?thesis
    using did_key_roundtrip [OF l(1,3,4)]
    by (simp add: test_did_key_roundtrip_def or_msg_def fails_if_def)
qed

section \<open>The whole suite\<close>

lemma passes_pure:
  "test_ssrf_rejects_loopback E = Inr ()" "test_ssrf_rejects_rfc1918 E = Inr ()" "test_ssrf_rejects_link_local E = Inr ()"
  "test_ssrf_accepts_public_ips E = Inr ()" "test_clock_skew_60s_window E = Inr ()" "test_clock_skew_rejects_outside_window E = Inr ()"
  "test_did_uri_parser_strict E = Inr ()" "test_did_key_rejects_malformed E = Inr ()" "test_capability_bits_stable E = Inr ()"
  "test_capability_forward_compat E = Inr ()" "test_deferred_decision_capability_bit_stable E = Inr ()"
  by code_simp+

lemmas suite_passes = passes_wire_v2_roundtrip passes_wire_v1_still_functional passes_cross_version_isolation passes_rejections
  passes_receipt_action_whitelist passes_decision_request_bytes_stable passes_decision_response_bytes_stable passes_pure
  passes_jws_algorithm_whitelist passes_jws_alg_none_rejected passes_jws_alg_hs256_rejected passes_jws_tampered_payload_rejected
  passes_did_key_roundtrip

lemma all_tests_pass: "suite_laws E \<Longrightarrow> list_all (\<lambda>t. ct_run t E = Inr ()) all_tests"
  by (simp add: all_tests_def suite_passes)

lemma run_tests_pass:
  "list_all (\<lambda>t. ct_run t E = Inr ()) ts \<Longrightarrow>
   run_tests E ts = Some (map (\<lambda>t. \<lparr>cres_id = ct_id t, cres_category = ct_category t, cres_outcome = Pass\<rparr>) ts)"
  by (induction ts) simp_all

lemma all_tests_distinct: "distinct (map ct_id all_tests)" "length all_tests = 25"
  by (simp_all add: all_tests_def)

end
