(* ===== verification/HostProperties.thy ===== *)
theory HostProperties
  imports DataPlaneHost Conformance NetworkProperties
begin

text \<open>
  The properties of the data plane as a program, of the tunnels it runs behind, and of the
  conformance suite.
\<close>

section \<open>A concrete host\<close>

definition demo_tunnel_world :: tunnel_world where
  "demo_tunnel_world = \<lparr>program_runs = (\<lambda>_. True), spawn_child = (\<lambda>_ _. Inr 7), child_exited = (\<lambda>_. Inr False),
     client_built = Inr (), probe_time = (\<lambda>_. 100), probe_answer = (\<lambda>_ _. Inr 200), stderr_lines = [], stderr_closed = Some 5,
     waiter_lag = 0, temp_config = Inr ''/tmp/f'', write_config = (\<lambda>_ _. Inr ()), run_command = (\<lambda>_ _. Inl []),
     iroh_bind = (\<lambda>_ _. Inr (''n'', [])), iroh_online = 0\<rparr>"

definition demo_vars :: "string \<rightharpoonup> string" where
  "demo_vars = [''AEX_CONTROL_PLANE_PUBLIC_KEY_HEX'' \<mapsto> hex_encode plane_pk, ''AEX_TUNNEL_PROVIDER'' \<mapsto> ''none'',
     ''AEX_PUBLIC_URL'' \<mapsto> ''https://t'', ''AEX_ADMIN_TOKEN'' \<mapsto> ''secret'']"

definition demo_host_url :: Url where
  "demo_host_url = \<lparr>url_text = ''https://t'', url_scheme = ''https'', url_host = Some ''h'', url_port = None\<rparr>"

definition demo_host :: host_world where
  "demo_host = \<lparr>hw_var = demo_vars, hw_bind = (\<lambda>_. Inr 4000), hw_tunnel = demo_tunnel_world, hw_preflight = (\<lambda>_. Inr ()),
     hw_read_file = (\<lambda>_. Inl []), hw_platform = demo_platform, hw_verifying_key = Inr, hw_parse_url = (\<lambda>_. Inr demo_host_url),
     hw_instant_max = 1000000, hw_lookup = (\<lambda>_ _. Inr [demo_ip]), hw_lookup_time = (\<lambda>_. 1), hw_connect = (\<lambda>_ _ _. Connects),
     hw_connect_time = (\<lambda>_. 1), hw_set_matches = (\<lambda>_. []), hw_transports_json = (\<lambda>_. []),
     hw_captive_client = Inl [], hw_network_slot = Some 1\<rparr>"

definition demo_host_plane :: data_plane where
  "demo_host_plane = \<lparr>pl_public_url = ''https://t'', pl_kind = ''cloudflare_named'', pl_port = 4000, pl_source = (\<lambda>_. None),
     pl_verifier = TicketVerifier_new plane_pk ''https://t'', pl_scanners = host_scanners demo_host (100 * 1024 * 1024),
     pl_admin_token = Some ''secret''\<rparr>"

definition demo_host_opts :: Opts where
  "demo_host_opts = \<lparr>op_bind_addr = ''127.0.0.1:0'', op_control_plane_public_key_hex = hex_encode plane_pk,
     op_tunnel_provider = ''none'', op_cloudflared_binary = None, op_public_url_override = Some ''https://t'', op_blob_path = None,
     op_blob_transfer_id = None, op_blob_mime = None, op_blob_filename = None, op_max_transfer_bytes = 100 * 1024 * 1024,
     op_admin_token = Some ''secret''\<rparr>"

lemma demo_opts: "Opts_from_env (hw_var demo_host) = Inr demo_host_opts"
  by (simp add: Opts_from_env_def demo_host_def demo_vars_def unwrap_or_def demo_host_opts_def)

lemma demo_plane_built: "build_plane dbg demo_host demo_host_opts = Inr demo_host_plane"
proof -
  have "hex_dec demo_platform (hex_encode plane_pk) = Inr plane_pk" using demo_hex_inverse by (simp add: demo_platform_def)
  moreover have "length plane_pk = 32" by (simp add: plane_pk_def)
  ultimately show ?thesis
    unfolding build_plane_def
    by (simp add: demo_host_def demo_host_opts_def resolve_public_url_def load_blob_source_def ensure_def demo_host_plane_def
        host_scanners_def)
qed

lemma demo_reachable: "reachable_url demo_host ''https://t'' 60"
  unfolding reachable_url_def
  by (intro exI [of _ demo_host_url] exI [of _ "''h''"] exI [of _ "Suc 0"])
    (simp add: demo_host_def demo_host_url_def first_ready_def attempt_ok_def)

lemma demo_started: "fst (start_plane dbg demo_host) = Done demo_host_plane"
proof -
  have "readiness_timeout (hw_var demo_host) = 60"
    by (simp add: readiness_timeout_def demo_host_def demo_vars_def unwrap_or_def DEFAULT_READINESS_TIMEOUT_SECS_def)
  with demo_opts demo_plane_built demo_reachable show ?thesis by (simp add: start_plane_Done) (simp add: demo_host_plane_def)
qed


definition demo_ticket :: "string \<Rightarrow> Ticket" where
  "demo_ticket n = \<lparr>ti_transfer_id = ''tx_0'', ti_recipient = bob, ti_data_plane_url = ''https://t'', ti_expires = 1060,
     ti_nonce = n, ti_signature = signed plane_pk (data_ticket_bytes ''tx_0'' bob ''https://t'' 1060 n)\<rparr>"

lemma demo_ticket_authentic:
  assumes "valid_nonce n"
  shows "ticket_authentic demo_platform (TicketVerifier_new plane_pk ''https://t'') 1000 (demo_ticket n)"
proof -
  have "ascii_line ''tx_0''" "ascii_line ''https://t''" by code_simp+
  then have "\<exists>c. data_ticket_bytes ''tx_0'' bob ''https://t'' 1060 n = Inr c"
    using assms by (simp add: data_ticket_bytes_def step_iffs)
  then show ?thesis
    by (auto simp: ticket_authentic_def demo_ticket_def TicketVerifier_new_def demo_sign_def demo_sha256_def plane_pk_def)
      (simp_all add: demo_platform_def demo_sign_def demo_sha256_def plane_pk_def)
qed

definition demo_fetch :: fetch_env where
  "demo_fetch = \<lparr>fe_platform = demo_platform, fe_now = 1000, fe_parse_ticket = (\<lambda>n. Inr (demo_ticket n)),
     fe_header_value_ok = printable_header, fe_millis = 0, fe_verdict_text = (\<lambda>_. [])\<rparr>"

definition demo_query :: AdminInsertQuery where
  "demo_query = \<lparr>aq_mime = None, aq_filename = None\<rparr>"

definition demo_inserted :: host_state where
  "demo_inserted = \<lparr>hs_source = [''tx_0'' \<mapsto> (\<lparr>bm_size = 3, bm_mime = ''application/octet-stream'', bm_filename = ''blob''\<rparr>, demo_blob)],
     hs_plane = fresh_data_plane\<rparr>"

lemma demo_token: "pl_admin_token demo_host_plane = Some ''secret''" "header_to_str ''secret'' = Some ''secret''"
  by (simp add: demo_host_plane_def) code_simp

lemma demo_inserts:
  assumes "length body \<le> DEFAULT_BODY_LIMIT"
  shows "handle demo_host_plane (AdminInsert ''tx_0'' demo_query (Some ''secret'') body) s
    = (AdminReply 201 ''ok'', s\<lparr>hs_source := (hs_source s)(''tx_0'' \<mapsto>
        (\<lparr>bm_size = of_nat (length body), bm_mime = ''application/octet-stream'', bm_filename = ''blob''\<rparr>, body))\<rparr>)"
  using admin_replaces [OF demo_token assms] by (simp add: demo_query_def unwrap_or_def)

lemma demo_bodies_fit: "length demo_blob \<le> DEFAULT_BODY_LIMIT" "length EICAR_SIGNATURE \<le> DEFAULT_BODY_LIMIT"
  by (simp_all add: DEFAULT_BODY_LIMIT_def demo_blob_def EICAR_SIGNATURE_def as_bytes_def)

lemma demo_blob_clean:
  "\<not> scan_blocks (host_scanners demo_host (100 * 1024 * 1024)) \<lparr>bm_size = 3, bm_mime = ''application/octet-stream'', bm_filename = ''blob''\<rparr> demo_blob"
  unfolding scan_blocks_def host_scanners_def demo_host_def host_world.simps by code_simp

lemma demo_fetched:
  "\<exists>resp. handle demo_host_plane (Fetch demo_fetch ''tx_0'' (Some (AsciiHeader demo_nonce))) demo_inserted
    = (BlobReply (Sent resp), demo_inserted\<lparr>hs_plane := \<lparr>used_nonces = {demo_nonce}, scan_cache = [''tx_0'' \<mapsto> CachedClean]\<rparr>\<rparr>)"
proof -
  let ?E = "plane_env demo_host_plane demo_fetch (hs_source demo_inserted)"
  let ?u = "fresh_data_plane\<lparr>used_nonces := {demo_nonce}\<rparr>"
  let ?m = "\<lparr>bm_size = 3, bm_mime = ''application/octet-stream'', bm_filename = ''blob''\<rparr>"
  have "valid_nonce demo_nonce" by code_simp
  note ticket = demo_ticket_authentic [OF this]
  have "printable_header ''blob''" by code_simp
  then have headers: "printable_header (show_u64 3)" "printable_header (''attachment; filename='' @ [DQ] @ ''blob'' @ [DQ])"
    by (simp_all only: printable_header_size printable_header_attachment)
  have "check_scan ?E ''tx_0'' ?m ?u = (Inr (), ?u\<lparr>scan_cache := [''tx_0'' \<mapsto> CachedClean]\<rparr>)"
    using demo_blob_clean
    by (simp add: check_scan_Inr_iff plane_env_def demo_host_plane_def demo_inserted_def InMemoryBlobSource_bytes_def fresh_data_plane_def)
  then have "\<exists>resp. serve ?E ''tx_0'' (Some (AsciiHeader demo_nonce)) fresh_data_plane
      = (Inr resp, \<lparr>used_nonces = {demo_nonce}, scan_cache = [''tx_0'' \<mapsto> CachedClean]\<rparr>)"
    using ticket headers
    by (auto simp: serve_def step_iffs verify_ticket_Inr_iff on_nonces_iff plane_env_def Let_def demo_fetch_def demo_host_plane_def
        demo_inserted_def InMemoryBlobSource_metadata_def InMemoryBlobSource_bytes_def fresh_data_plane_def demo_ticket_def)
  then show ?thesis by (auto simp: get_blob_Sent_iff [symmetric] demo_inserted_def)
qed

section \<open>Starting\<close>


section \<open>Serving\<close>

lemma started_scanners:
  assumes "fst (start_plane dbg W) = Done plane"
  obtains limit where "pl_scanners plane = host_scanners W limit"
  using assms by (auto simp: start_plane_Done build_plane_def step_iffs)

text \<open>
  C9: A data plane that has started and whose blobs are all inserted before they are first asked for
  sends nothing that one of its four scanners calls malicious, the EICAR file in particular, whatever
  requests it gets and in whatever order.
\<close>

theorem host_sends_no_malware:
  assumes "fst (start_plane dbg W) = Done plane"
    and "handle_all plane rs (boot plane) = (as, s')" "inserts_first {} rs"
    and "i < length rs" "rs ! i = Fetch F t h" "as ! i = BlobReply (Sent resp)"
  shows "\<not> sublist EICAR_SIGNATURE (br_body resp)
    \<and> (\<exists>m. hs_source s' t = Some (m, br_body resp)
         \<and> (\<nexists>sc. sc \<in> set (pl_scanners plane) \<and> sv_result (scan_one sc (dp_scan_input m (br_body resp))) = Malicious))"
proof -
  have "list_all2 (host_scanned plane (hs_source s')) rs as"
    by (rule handle_all_scanned [OF host_inv_boot assms(3,2)])
  then have "host_scanned plane (hs_source s') (rs ! i) (as ! i)" using assms(4) by (simp add: list_all2_nthD)
  then obtain m where m: "hs_source s' t = Some (m, br_body resp)" "\<not> scan_blocks (pl_scanners plane) m (br_body resp)"
    by (auto simp: assms(5,6) host_scanned_def)
  then have clean: "\<nexists>sc. sc \<in> set (pl_scanners plane) \<and> sv_result (scan_one sc (dp_scan_input m (br_body resp))) = Malicious"
    by (auto simp: scan_blocks_def)
  obtain limit where "pl_scanners plane = host_scanners W limit" by (rule started_scanners [OF assms(1)])
  then have "EicarScanner 0 \<in> set (pl_scanners plane)" by (simp add: host_scanners_def)
  with clean have "\<not> sublist EICAR_SIGNATURE (br_body resp)"
    using Eicar_verdict [of 0 "dp_scan_input m (br_body resp)"] by (auto simp: dp_scan_input_def split: if_splits)
  with m clean show ?thesis by blast
qed

definition demo_host_requests :: "host_request list" where
  "demo_host_requests = [AdminInsert ''tx_0'' demo_query (Some ''secret'') demo_blob,
     Fetch demo_fetch ''tx_0'' (Some (AsciiHeader demo_nonce))]"

theorem host_sends_no_malware_witness:
  "\<exists>as s' resp. handle_all demo_host_plane demo_host_requests (boot demo_host_plane) = (as, s')
     \<and> as ! 1 = BlobReply (Sent resp) \<and> \<not> sublist EICAR_SIGNATURE (br_body resp)"
proof -
  have "snd (handle demo_host_plane (AdminInsert ''tx_0'' demo_query (Some ''secret'') demo_blob) (boot demo_host_plane)) = demo_inserted"
    unfolding demo_inserts [OF demo_bodies_fit(1)] by (simp add: boot_def demo_host_plane_def demo_inserted_def demo_blob_def)
  then obtain resp s' where run: "handle_all demo_host_plane demo_host_requests (boot demo_host_plane)
      = ([AdminReply 201 ''ok'', BlobReply (Sent resp)], s')"
    using demo_fetched demo_inserts [OF demo_bodies_fit(1), of "boot demo_host_plane"]
    by (auto simp: demo_host_requests_def simp del: handle.simps)
  moreover have "inserts_first {} demo_host_requests" by (simp add: demo_host_requests_def)
  ultimately show ?thesis
    using host_sends_no_malware [OF demo_started run, of 1 demo_fetch "''tx_0''" "Some (AsciiHeader demo_nonce)" resp]
    by (auto simp: demo_host_requests_def)
qed

text \<open>
  C10: The verdict on a blob stays when the blob is replaced: after a transfer's blob was sent once, the
  holder of the administration token can put any bytes of at most 2 MB in its place under any printable
  file name; the second insertion is answered like the first, and the next holder of a valid ticket gets
  the new bytes, unscanned.
\<close>

theorem blob_rewritten_unscanned:
  assumes "handle plane (Fetch F0 t h0) s0 = (BlobReply (Sent resp0), s1)"
    and "pl_admin_token plane = Some token" "header_to_str token = Some token" "length body \<le> 2 * 1024 * 1024"
    and "fe_parse_ticket F tx = Inr ticket" "ti_transfer_id ticket = t"
    and "ticket_authentic (fe_platform F) (pl_verifier plane) (fe_now F) ticket" "ti_nonce ticket \<notin> used_nonces (hs_plane s1)"
    and "header_value_law (fe_header_value_ok F)"
    and "printable_header (unwrap_or (aq_filename q) ''blob'')"
  shows "\<exists>s2 resp s3. handle plane (AdminInsert t q (Some token) body) s1 = (AdminReply 201 ''ok'', s2)
    \<and> handle plane (Fetch F t (Some (AsciiHeader tx))) s2 = (BlobReply (Sent resp), s3) \<and> br_body resp = body"
proof -
  let ?m = "\<lparr>bm_size = of_nat (length body), bm_mime = unwrap_or (aq_mime q) ''application/octet-stream'',
      bm_filename = unwrap_or (aq_filename q) ''blob''\<rparr>"
  let ?s2 = "s1\<lparr>hs_source := (hs_source s1)(t \<mapsto> (?m, body))\<rparr>"
  have put: "handle plane (AdminInsert t q (Some token) body) s1 = (AdminReply 201 ''ok'', ?s2)"
    using assms(4) by (intro admin_replaces assms(2,3)) (simp add: DEFAULT_BODY_LIMIT_def)
  have "scan_cache (hs_plane ?s2) t = Some CachedClean" using served_cached [OF assms(1)] by simp
  then have "\<exists>resp s3. handle plane (Fetch F t (Some (AsciiHeader tx))) ?s2 = (BlobReply (Sent resp), s3) \<and> br_body resp = body"
    using assms(9,10) printable_header_attachment [of "unwrap_or (aq_filename q) ''blob''"]
    by (intro cached_served [OF _ _ refl assms(5,6,7), of ?s2 ?m])
      (simp_all add: header_value_law_def printable_header_size assms(8))
  with put show ?thesis by blast
qed

theorem blob_rewritten_unscanned_witness:
  "\<exists>s1 s2 resp s3. handle demo_host_plane (AdminInsert ''tx_0'' demo_query (Some ''secret'') EICAR_SIGNATURE) s1 = (AdminReply 201 ''ok'', s2)
   \<and> handle demo_host_plane (Fetch demo_fetch ''tx_0'' (Some (AsciiHeader (replicate 32 (CHR ''b''))))) s2
     = (BlobReply (Sent resp), s3) \<and> br_body resp = EICAR_SIGNATURE
   \<and> sv_result (scan_one (EicarScanner 0) (dp_scan_input \<lparr>bm_size = 68, bm_mime = [], bm_filename = []\<rparr> (br_body resp))) = Malicious
   \<and> EicarScanner 0 \<in> set (pl_scanners demo_host_plane)"
proof -
  let ?b = "replicate 32 (CHR ''b'')"
  let ?s1 = "demo_inserted\<lparr>hs_plane := \<lparr>used_nonces = {demo_nonce}, scan_cache = [''tx_0'' \<mapsto> CachedClean]\<rparr>\<rparr>"
  obtain resp0 where first: "handle demo_host_plane (Fetch demo_fetch ''tx_0'' (Some (AsciiHeader demo_nonce))) demo_inserted
      = (BlobReply (Sent resp0), ?s1)" using demo_fetched by blast
  have b: "valid_nonce ?b" "?b \<noteq> demo_nonce" by code_simp+
  have ticket: "ticket_authentic (fe_platform demo_fetch) (pl_verifier demo_host_plane) (fe_now demo_fetch) (demo_ticket ?b)"
    using demo_ticket_authentic [OF b(1)] by (simp add: demo_fetch_def demo_host_plane_def)
  have name: "printable_header (unwrap_or (aq_filename demo_query) ''blob'')" by code_simp
  have fits: "length EICAR_SIGNATURE \<le> 2 * 1024 * 1024" using demo_bodies_fit(2) by (simp add: DEFAULT_BODY_LIMIT_def)
  have law: "header_value_law (fe_header_value_ok demo_fetch)" by (simp add: header_value_law_def demo_fetch_def)
  from blob_rewritten_unscanned [OF first demo_token fits _ _ ticket _ law name, of ?b] b(2)
  obtain s2 resp s3 where "handle demo_host_plane (AdminInsert ''tx_0'' demo_query (Some ''secret'') EICAR_SIGNATURE) ?s1 = (AdminReply 201 ''ok'', s2)"
    "handle demo_host_plane (Fetch demo_fetch ''tx_0'' (Some (AsciiHeader ?b))) s2 = (BlobReply (Sent resp), s3)"
    "br_body resp = EICAR_SIGNATURE"
    by (auto simp: demo_fetch_def demo_ticket_def simp del: handle.simps)
  moreover have "EicarScanner 0 \<in> set (pl_scanners demo_host_plane)" by (simp add: demo_host_plane_def host_scanners_def)
  moreover have "sv_result (scan_one (EicarScanner 0) (dp_scan_input n EICAR_SIGNATURE)) = Malicious" for n
    by (simp add: Eicar_verdict dp_scan_input_def)
  ultimately show ?thesis by metis
qed

section \<open>Tunnels\<close>

text \<open>
  C36: Whatever a named Cloudflare or an FRP tunnel is told to do (start, stop, look at its child) and
  however the system answers each time, it shows an address only while it holds a child and reports
  itself connected at that address, and is otherwise disconnected.  A named tunnel starts exactly if
  it is idle, finds and spawns its program, and a health probe succeeds that ends in time.
\<close>

theorem tunnels_settled:
  "(let s = fold (\<lambda>(W, x). tunnel_step (named_methods dbg W) (nt_is_alive W) x) ops (NamedCloudflareTunnel_new token u)
    in case nt_cached_url s of
         Some a \<Rightarrow> nt_child s \<noteq> None \<and> nt_status s = Connected a
       | None \<Rightarrow> (\<exists>r. nt_status s = Disconnected r))
   \<and> (let s = fold (\<lambda>(W, x). tunnel_step (frp_methods dbg W) (ft_is_alive W) x) ops (FrpTunnel_new srv u)
      in case ft_cached_url s of
           Some a \<Rightarrow> ft_child s \<noteq> None \<and> ft_status s = Connected a
         | None \<Rightarrow> (\<exists>r. ft_status s = Disconnected r))
   \<and> (fst (nt_start dbg W port p) = Inr () \<longleftrightarrow> nt_child p = None
      \<and> (\<exists>b c. nt_resolve_binary W (nt_binary_path p) = Inr b
          \<and> spawn_child W b [''tunnel'', ''--url'', local_url port, ''--no-autoupdate'', ''run'', ''--token'', nt_token p] = Inr c
          \<and> client_built W = Inr ()
          \<and> (\<exists>n. probe_ends W 0 0 n \<le> nt_ready_timeout p \<and> probe_ok W (healthz_url (nt_public_url p)) n)))"
proof -
  have "named_family.settled (NamedCloudflareTunnel_new token u)"
    unfolding named_family.settled_def by (simp add: NamedCloudflareTunnel_new_def)
  from named_family.settled_run [OF this, of dbg ops]
  have n: "named_family.settled (fold (\<lambda>(W, x). tunnel_step (named_methods dbg W) (nt_is_alive W) x) ops (NamedCloudflareTunnel_new token u))" .
  have "frp_family.settled (FrpTunnel_new srv u)" unfolding frp_family.settled_def by (simp add: FrpTunnel_new_def)
  from frp_family.settled_run [OF this, of dbg ops]
  have f: "frp_family.settled (fold (\<lambda>(W, x). tunnel_step (frp_methods dbg W) (ft_is_alive W) x) ops (FrpTunnel_new srv u))" .
  show ?thesis
    using n f unfolding named_family.settled_def frp_family.settled_def Let_def nt_start_up by blast
qed

section \<open>Conformance\<close>

text \<open>
  C37: If the crates below the stack behave as documented, the whole conformance suite runs without a
  panic and passes: all twenty-five tests, in order, each under an identifier of its own.
\<close>

theorem conformance_suite_passes:
  assumes "suite_laws E"
  shows "run_all E = Some (map (\<lambda>t. \<lparr>cres_id = ct_id t, cres_category = ct_category t, cres_outcome = Pass\<rparr>) all_tests)
    \<and> length all_tests = 25 \<and> distinct (map ct_id all_tests)"
  using run_tests_pass [OF all_tests_pass [OF assms]] all_tests_distinct by (simp add: run_all_def)

definition demo_suite_jose :: jose where
  "demo_suite_jose = demo_jose\<lparr>
     json_parse := (\<lambda>b. if b = [1] then Inr (header_json (eddsa_header ''did:key:test''))
       else if b = [2] then Inr (header_json (eddsa_header ''did:web:bob''))
       else if b = [3] then Inr (forged_header ''none'') else Inr (forged_header ''HS256'')),
     header_print := (\<lambda>h. if h = eddsa_header ''did:key:test'' then Inr [1]
       else if h = eddsa_header ''did:web:bob'' then Inr [2] else Inl [])\<rparr>"

definition demo_suite :: suite where
  "demo_suite = \<lparr>cf_jose = demo_suite_jose, cf_platform = demo_platform, cf_ring = demo_ring,
     cf_json_print = (\<lambda>j. if j = forged_header ''none'' then [3] else [4]),
     cf_key_1 = \<lparr>sk_public = alice_pk, sk_sign = demo_sign alice_pk\<rparr>,
     cf_key_2 = \<lparr>sk_public = alice_pk, sk_sign = demo_sign alice_pk\<rparr>,
     cf_fresh_key = \<lparr>sk_public = alice_pk, sk_sign = demo_sign alice_pk\<rparr>,
     cf_debug_str = (\<lambda>t. t), cf_debug_verified = (\<lambda>_. []), cf_debug_capability = (\<lambda>_. [])\<rparr>"

lemma demo_suite_laws: "suite_laws demo_suite"
proof -
  let ?J = demo_suite_jose
  have enc: "b64url_enc ?J = hex_encode" "b64url_dec ?J = demo_hex_dec" by (simp_all add: demo_suite_jose_def demo_jose_def)
  have "jose_laws ?J" unfolding jose_laws_def enc by (simp add: demo_suite_jose_def)
  moreover have "demo_hex_dec [] = Inr []" using demo_hex_inverse [of "[]"] by (simp add: hex_encode_def)
  moreover have "header_prints ?J ''did:key:test''" "header_prints ?J ''did:web:bob''"
    by (simp_all add: header_prints_def demo_suite_jose_def)
  moreover have "forged_prints demo_suite ''none''" "forged_prints demo_suite ''HS256''"
    by (simp_all add: forged_prints_def demo_suite_def demo_suite_jose_def forged_header_def)
  moreover have "key_signs ?J \<lparr>sk_public = alice_pk, sk_sign = demo_sign alice_pk\<rparr>"
    by (simp add: key_signs_def demo_suite_jose_def demo_jose_def)
  moreover have "tampering_detected ?J \<lparr>sk_public = alice_pk, sk_sign = demo_sign alice_pk\<rparr>"
    unfolding tampering_detected_def enc by (simp add: demo_suite_jose_def demo_jose_def) code_simp
  moreover have "length (hex_encode b) = 2 * length b" for b by (induction b) (simp_all add: hex_encode_def hex_byte_def)
  moreover have "ed25519_key_ok demo_platform alice_pk" by code_simp
  ultimately show ?thesis
    unfolding suite_laws_def
    by (simp add: enc demo_bs58_laws demo_suite_def demo_ring_def [symmetric])
      (simp add: demo_ring_def)
qed

theorem conformance_suite_passes_witness:
  "suite_laws demo_suite \<and> (\<exists>rs. run_all demo_suite = Some rs \<and> length rs = 25 \<and> list_all (is_pass \<circ> cres_outcome) rs)"
  using conformance_suite_passes [OF demo_suite_laws] demo_suite_laws by (auto simp: list_all_iff)

end
