(* ===== verification/MonitorLoop.thy ===== *)
theory MonitorLoop
  imports HealthMonitor
begin

text \<open>
  The loop around the pass of the health monitor and its shutdown handle
  (\<open>health_monitor.rs\<close>, \<open>HealthMonitor::run\<close>).  What the system answers to a pass, how long it
  takes, and what happens to the handle are the record \<open>loop_env\<close>; times are in seconds.  The loop
  may run for ever, so that it is a partial function; it is shown to return once it is told to, and
  not to pause any more once the handle is gone.
\<close>

section \<open>The loop\<close>

text \<open>What becomes of the handle: \<open>shutdown\<close> is called, or it is dropped.\<close>

datatype handle_fate = ShutdownCalled nat | HandleDropped nat | HandleKept

record loop_env =
  le_monitor :: "nat \<Rightarrow> monitor"
  le_duration :: "nat \<Rightarrow> nat"
  le_handle :: handle_fate

text \<open>
  Pass \<open>k\<close>, begun at \<open>t\<close>, and the pause after it: the sleep, or the change of the channel if that is
  earlier.  The value of the channel becomes true by \<open>shutdown\<close>; a channel whose sender is gone has
  always changed, and its value stays false.
\<close>

definition monitor_round :: "loop_env \<Rightarrow> nat \<Rightarrow> nat \<Rightarrow> ('l, 'b) app_state \<Rightarrow> (nat + nat) \<times> ('l, 'b) app_state" where
  "monitor_round L k t s =
     (case tick (le_monitor L k) s of (tick_result, s1) \<Rightarrow>
        (let t1 = t + le_duration L k; wake = t1 + next_interval tick_result in
         (case le_handle L of
            HandleKept \<Rightarrow> Inr wake
          | ShutdownCalled c \<Rightarrow> (if c < wake then Inl (max t1 c) else Inr wake)
          | HandleDropped c \<Rightarrow> (if c < wake then Inr (max t1 c) else Inr wake), s1)))"

partial_function (option) monitor_run ::
  "loop_env \<Rightarrow> nat \<Rightarrow> nat \<Rightarrow> ('l, 'b) app_state \<Rightarrow> (nat list \<times> nat \<times> ('l, 'b) app_state) option" where
  "monitor_run L k t s =
     (case monitor_round L k t s of
        (Inl finished, s1) \<Rightarrow> Some ([t], finished, s1)
      | (Inr t', s1) \<Rightarrow>
          Option.bind (monitor_run L (Suc k) t' s1) (\<lambda>(begun, finished, s2). Some (t # begun, finished, s2)))"

section \<open>It stops\<close>

lemma next_interval_pos: "0 < next_interval r"
  by (auto simp: next_interval_def IN_FLIGHT_INTERVAL_def AT_REST_INTERVAL_def split: sum.splits)

lemma monitor_round_later:
  assumes "monitor_round L k t s = (Inr t', s')" "le_handle L = ShutdownCalled c"
  shows "t < t' \<and> t' \<le> c"
  using assms next_interval_pos by (auto simp: monitor_round_def Let_def not_less trans_less_add1 split: prod.splits if_splits)

lemma monitor_round_stops:
  assumes "monitor_round L k t s = (Inl finished, s')"
  shows "\<exists>c. le_handle L = ShutdownCalled c \<and> finished = max (t + le_duration L k) c"
  using assms by (auto simp: monitor_round_def Let_def split: prod.splits if_splits handle_fate.splits)

text \<open>
  The passes begin in order and none begins after the call; the loop ends with the pass that the call
  met, or at the call if it met the pause.
\<close>

definition stops_at :: "loop_env \<Rightarrow> nat \<Rightarrow> nat \<Rightarrow> nat list \<Rightarrow> nat \<Rightarrow> bool" where
  "stops_at L k c begun finished \<longleftrightarrow> begun \<noteq> [] \<and> sorted_wrt (<) begun \<and> list_all (\<lambda>b. b \<le> c) begun
     \<and> finished = max (last begun + le_duration L (k + length begun - 1)) c"

lemma monitor_run_stops:
  assumes "le_handle L = ShutdownCalled c" "t \<le> c"
  shows "\<exists>begun finished s'. monitor_run L k t s = Some (begun, finished, s') \<and> hd begun = t \<and> stops_at L k c begun finished"
  using assms(2)
proof (induction "c - t" arbitrary: k t s rule: less_induct)
  case less
  obtain r s1 where r: "monitor_round L k t s = (r, s1)" by fastforce
  show ?case
  proof (cases r)
    case (Inl finished)
    then have "finished = max (t + le_duration L k) c" using monitor_round_stops r assms(1) by fastforce
    with r Inl less.prems show ?thesis by (subst monitor_run.simps) (simp add: stops_at_def)
  next
    case (Inr t')
    then have t': "t < t'" "t' \<le> c" using monitor_round_later [of L k t s t' s1 c] r assms(1) by simp_all
    then have "c - t' < c - t" by linarith
    from less.hyps [OF this, of "Suc k" s1] t' obtain begun finished s' where run: "monitor_run L (Suc k) t' s1 = Some (begun, finished, s')" "hd begun = t'"
      "stops_at L (Suc k) c begun finished" by blast
    then obtain bs where bs: "begun = t' # bs" by (cases begun) (auto simp: stops_at_def)
    have "stops_at L k c (t # begun) finished"
      using run(3) t' less.prems by (auto simp: stops_at_def bs)
    with r Inr run show ?thesis by (subst monitor_run.simps) simp
  qed
qed

text \<open>Whatever every pass keeps, the loop keeps.\<close>

lemma monitor_run_keeps:
  assumes "\<And>j. keeps Q (tick (le_monitor L j))"
  shows "monitor_run L k t s = Some (begun, finished, s') \<Longrightarrow> Q s \<Longrightarrow> Q s'"
proof (induction begun arbitrary: k t s)
  case Nil
  then show ?case by (subst (asm) monitor_run.simps) (auto split: prod.splits sum.splits Option.bind_splits)
next
  case (Cons b bs)
  obtain r s1 where r: "monitor_round L k t s = (r, s1)" by fastforce
  then have "Q s1" using keepsD [OF assms Cons.prems(2), of k] by (auto simp: monitor_round_def Let_def split: prod.splits)
  moreover from Cons.prems(1) have "r = Inl finished \<and> s' = s1 \<or> (\<exists>t'. monitor_run L (Suc k) t' s1 = Some (bs, finished, s'))"
    by (subst (asm) monitor_run.simps) (auto simp: r split: sum.splits Option.bind_splits)
  ultimately show ?case using Cons.IH by blast
qed

section \<open>It does not pause without its handle\<close>

lemma dropped_handle_spins:
  assumes "le_handle L = HandleDropped c" "c \<le> t + le_duration L k"
  shows "fst (monitor_round L k t s) = Inr (t + le_duration L k)"
  using assms next_interval_pos [of "fst (tick (le_monitor L k) s)"]
  by (auto simp: monitor_round_def Let_def max_absorb1 split: prod.splits)

end
