(* ===== verification/NetClient.thy ===== *)
theory NetClient
  imports SafeHttp TextOps
begin

text \<open>
  The HTTP clients that the services build (\<open>aex-net/src/dns.rs\<close>, \<open>aex-net/src/http.rs\<close>) and the
  construction of the endpoint validator around one (\<open>endpoint_validator.rs\<close>).  The resolver and the
  client are library objects: here they are the settings they are made with.  Times are in
  milliseconds.
\<close>

record ResolverOpts =
  rs_nameservers :: "string list"
  rs_cache_size :: nat
  rs_ndots :: nat

definition cloudflare_config :: "string list \<Rightarrow> ResolverOpts" where
  "cloudflare_config cloudflare = \<lparr>rs_nameservers = cloudflare, rs_cache_size = 0, rs_ndots = 1\<rparr>"

text \<open>An answer of the resolver, with the port left to the client.\<close>

definition dns_resolve :: "(string \<Rightarrow> string + IpAddr list) \<Rightarrow> string \<Rightarrow> string + (IpAddr \<times> nat) list" where
  "dns_resolve lookup name = map_sum id (map (\<lambda>ip. (ip, 0))) (lookup name)"

record client_settings =
  ch_timeout :: nat
  ch_resolver :: ResolverOpts
  ch_user_agent :: string

definition DEFAULT_TIMEOUT :: nat where
  "DEFAULT_TIMEOUT = 30000"

text \<open>The arguments are the library's builder, its preset of name servers, and the version of the crate.\<close>

definition build_http_client_with_timeout ::
  "(client_settings \<Rightarrow> string + 'c) \<Rightarrow> string list \<Rightarrow> string \<Rightarrow> string \<Rightarrow> nat \<Rightarrow> string + 'c" where
  "build_http_client_with_timeout build cloudflare version component_name timeout =
     build \<lparr>ch_timeout = timeout, ch_resolver = cloudflare_config cloudflare,
       ch_user_agent = ''aex-'' @ component_name @ ''/'' @ version\<rparr>"

definition build_http_client :: "(client_settings \<Rightarrow> string + 'c) \<Rightarrow> string list \<Rightarrow> string \<Rightarrow> string \<Rightarrow> string + 'c" where
  "build_http_client build cloudflare version component_name =
     build_http_client_with_timeout build cloudflare version component_name DEFAULT_TIMEOUT"

section \<open>The endpoint validator\<close>

definition DEFAULT_PERMITS :: nat where "DEFAULT_PERMITS = 50"
definition DEFAULT_BUDGET :: nat where "DEFAULT_BUDGET = 15000"
definition HTTP_REQUEST_TIMEOUT :: nat where "HTTP_REQUEST_TIMEOUT = 5000"

record 'c validator =
  va_permits :: nat
  va_budget :: nat
  va_http :: 'c

text \<open>
  The first argument is the result of building the client, the second that of building a bare one,
  which is tried after a failure and never used: the error is its error if it fails too, and if it
  succeeds the code panics, the value \<open>None\<close>.
\<close>

definition EndpointValidator_new :: "string + 'c \<Rightarrow> string + 'c \<Rightarrow> nat \<Rightarrow> nat \<Rightarrow> string option + 'c validator" where
  "EndpointValidator_new client fallback permits budget =
     bindE (case client of Inr c \<Rightarrow> Inr c | Inl e \<Rightarrow> (case fallback of Inl e' \<Rightarrow> Inl (Some e') | Inr _ \<Rightarrow> Inl None)) (\<lambda>http.
     Inr \<lparr>va_permits = permits, va_budget = budget, va_http = http\<rparr>)"

definition EndpointValidator_with_defaults :: "string + 'c \<Rightarrow> string + 'c \<Rightarrow> string option + 'c validator" where
  "EndpointValidator_with_defaults client fallback =
     map_err (\<lambda>_. None) (EndpointValidator_new client fallback DEFAULT_PERMITS DEFAULT_BUDGET)"

lemma with_defaults_iff:
  "EndpointValidator_with_defaults client fallback = Inr v \<longleftrightarrow>
     (\<exists>c. client = Inr c \<and> v = \<lparr>va_permits = DEFAULT_PERMITS, va_budget = DEFAULT_BUDGET, va_http = c\<rparr>)"
  by (cases client) (auto simp: EndpointValidator_with_defaults_def EndpointValidator_new_def step_iffs split: sum.splits)

text \<open>A working fallback is what makes the construction panic.\<close>

lemma fallback_panics: "EndpointValidator_new (Inl e) (Inr c) permits budget = Inl None"
  by (simp add: EndpointValidator_new_def)

lemma resolved_addresses: "dns_resolve lookup name = Inr xs \<Longrightarrow> lookup name = Inr (map fst xs)"
  by (cases "lookup name") (auto simp: dns_resolve_def comp_def)

end
