(* ===== verification/ControlPlaneHost.thy ===== *)
theory ControlPlaneHost
  imports Deployment MonitorLoop AuditFile NetClient
begin

text \<open>
  The control plane as a program: its clocks (\<open>clock.rs\<close>), its configuration (\<open>config.rs\<close>), and the
  start-up of \<open>main.rs\<close>, step by step.  What the database, the network and the file system answer is
  the record \<open>cp_world\<close>; the files that outlive the process are the record \<open>disk\<close>.  A process that
  starts again keeps its signing key and its audit chain.
\<close>

section \<open>Clocks\<close>

text \<open>The clock of the tests is an atomic 64-bit integer, which wraps.\<close>

record FrozenClock =
  fc_now :: i64

definition FrozenClock_new :: "i64 \<Rightarrow> FrozenClock" where
  "FrozenClock_new initial_unix = \<lparr>fc_now = initial_unix\<rparr>"

definition FrozenClock_set :: "i64 \<Rightarrow> FrozenClock \<Rightarrow> FrozenClock" where
  "FrozenClock_set now c = c\<lparr>fc_now := now\<rparr>"

definition FrozenClock_advance :: "u64 \<Rightarrow> FrozenClock \<Rightarrow> FrozenClock" where
  "FrozenClock_advance secs c = c\<lparr>fc_now := fc_now c + ucast secs\<rparr>"

definition FrozenClock_now :: "(i64 \<Rightarrow> bool) \<Rightarrow> FrozenClock \<Rightarrow> i64 option" where
  "FrozenClock_now representable c = (if representable (fc_now c) then Some (fc_now c) else None)"

definition FrozenClock_now_unix :: "FrozenClock \<Rightarrow> i64" where
  "FrozenClock_now_unix c = fc_now c"

section \<open>Configuration\<close>

record Config =
  cfg_database_url :: string
  cfg_bind_addr :: string
  cfg_audit_log_path :: string
  cfg_blob_dir :: string
  cfg_signing_key_path :: string
  cfg_max_transfer_bytes :: u64
  cfg_cors_allowed_origins :: "string list"
  cfg_admin_token :: "string option"

definition DEFAULT_BIND_ADDR :: string where "DEFAULT_BIND_ADDR = ''127.0.0.1:8080''"
definition DEFAULT_AUDIT_LOG_PATH :: string where "DEFAULT_AUDIT_LOG_PATH = ''./data/audit.jsonl''"
definition DEFAULT_BLOB_DIR :: string where "DEFAULT_BLOB_DIR = ''./data/blobs''"
definition DEFAULT_SIGNING_KEY_PATH :: string where "DEFAULT_SIGNING_KEY_PATH = ''./data/signing-key.bin''"

fun config_error_text :: "ConfigError \<Rightarrow> string" where
  "config_error_text (ConfigMissing n) = ''env var '' @ n @ '' is required but was not set''"
| "config_error_text (ConfigInvalid n m) = ''env var '' @ n @ '' is invalid: '' @ m"

definition Config_from_env :: "(string \<Rightarrow> string + string) \<Rightarrow> (string \<rightharpoonup> string) \<Rightarrow> ConfigError + Config" where
  "Config_from_env parse_addr var =
     bindE (ok_or (ConfigMissing ''DATABASE_URL'') (var ''DATABASE_URL'')) (\<lambda>database_url.
     bindE (map_err (ConfigInvalid ''BIND_ADDR'') (parse_addr (unwrap_or (var ''BIND_ADDR'') DEFAULT_BIND_ADDR))) (\<lambda>bind_addr.
     bindE (config_max_transfer_bytes (var ''MAX_TRANSFER_BYTES'')) (\<lambda>max_transfer_bytes.
     bindE (config_admin_token (var ''AEX_ADMIN_TOKEN'')) (\<lambda>admin_token.
     Inr \<lparr>cfg_database_url = database_url, cfg_bind_addr = bind_addr,
       cfg_audit_log_path = unwrap_or (var ''AUDIT_LOG_PATH'') DEFAULT_AUDIT_LOG_PATH,
       cfg_blob_dir = unwrap_or (var ''BLOB_DIR'') DEFAULT_BLOB_DIR,
       cfg_signing_key_path = unwrap_or (var ''SIGNING_KEY_PATH'') DEFAULT_SIGNING_KEY_PATH,
       cfg_max_transfer_bytes = max_transfer_bytes,
       cfg_cors_allowed_origins = config_cors_allowed_origins (var ''CORS_ALLOWED_ORIGINS''),
       cfg_admin_token = admin_token\<rparr>))))"

section \<open>Start-up\<close>

record cp_world =
  cw_var :: "string \<rightharpoonup> string"
  cw_parse_addr :: "string \<Rightarrow> string + string"
  cw_connect :: "string \<Rightarrow> string + unit"
  cw_migrate :: "string + unit"
  cw_platform :: platform
  cw_parse_row :: "string \<Rightarrow> string + StoredEvent"
  cw_audit_fault :: "string option"
  cw_blob_dir_fault :: "string option"
  cw_key_dir_fault :: "string option"
  cw_key_read_fault :: "string option"
  cw_key_persist :: persist_outcome
  cw_fresh_key :: bytes
  cw_client :: "string + unit"
  cw_bare_client :: "string + unit"
  cw_bind :: "string \<Rightarrow> string + unit"
  cw_set_matches :: "bytes \<Rightarrow> nat list"

text \<open>The files of the process, and its audit log as text.\<close>

record disk =
  dk_files :: file_system
  dk_audit :: "string option"

record server =
  sv_config :: Config
  sv_scanners :: "scanner list"
  sv_policy :: TierPolicy
  sv_audit :: FileAuditLog
  sv_blob_root :: string
  sv_validator :: "unit validator"
  sv_signer :: ControlPlaneSigner
  sv_admin_token :: "string option"
  sv_cors :: CorsLayer

fun signer_error_text :: "SignerError \<Rightarrow> string" where
  "signer_error_text (SignerIo e) = ''I/O error loading signing key: '' @ io_text e"
| "signer_error_text (BadLength n) = ''signing key file is '' @ show_nat n @ '' bytes, expected 32''"

definition FileBlobStore_new :: "string option \<Rightarrow> string \<Rightarrow> string + string" where
  "FileBlobStore_new fault root = (case fault of Some m \<Rightarrow> Inl m | None \<Rightarrow> Inr root)"

definition production_scanners :: "cp_world \<Rightarrow> u64 \<Rightarrow> scanner list" where
  "production_scanners W limit =
     [SizeLimitScanner limit 0, MagicByteScanner 0, EicarScanner 0, RegexInjectionScanner (cw_set_matches W) 0]"

text \<open>An action on one part of the disk.\<close>

definition open_audit :: "cp_world \<Rightarrow> (disk, string option, FileAuditLog) action" where
  "open_audit W =
     bindS (case cw_audit_fault W of Some m \<Rightarrow> throwS (Some (audit_error_text (AuditIo m))) | None \<Rightarrow> returnS ()) (\<lambda>_.
     bindS (getS dk_audit) (\<lambda>found.
     bindS (liftS (map_err (\<lambda>e. Some (audit_error_text e)) (FileAuditLog_open (cw_platform W) (cw_parse_row W) found))) (\<lambda>log.
     bindS (modifyS (\<lambda>d. d\<lparr>dk_audit := Some (fl_file log)\<rparr>)) (\<lambda>_.
     returnS log))))"

definition load_signer :: "cp_world \<Rightarrow> string \<Rightarrow> (disk, string option, ControlPlaneSigner) action" where
  "load_signer W path = (\<lambda>d.
     case load_or_generate (cw_key_dir_fault W) (cw_key_read_fault W) (cw_key_persist W) (cw_fresh_key W) path (dk_files d) of
       (r, fs) \<Rightarrow> (map_err (\<lambda>e. Some (signer_error_text e)) r, d\<lparr>dk_files := fs\<rparr>))"

text \<open>The first characters of the token, if there is one, are logged: a slice of six bytes.\<close>

definition token_sliceable :: "string option \<Rightarrow> bool" where
  "token_sliceable t = (case t of Some token \<Rightarrow> is_char_boundary (min (length token) 6) token | None \<Rightarrow> True)"

text \<open>An error is its text; \<open>None\<close> is a panic.\<close>

definition start_control_plane :: "cp_world \<Rightarrow> (disk, string option, server) action" where
  "start_control_plane W =
     bindS (liftS (map_err (\<lambda>e. Some (config_error_text e)) (Config_from_env (cw_parse_addr W) (cw_var W)))) (\<lambda>cfg.
     bindS (liftS (map_err Some (cw_connect W (cfg_database_url cfg)))) (\<lambda>_.
     bindS (liftS (map_err Some (cw_migrate W))) (\<lambda>_.
     bindS (open_audit W) (\<lambda>audit.
     bindS (liftS (map_err Some (FileBlobStore_new (cw_blob_dir_fault W) (cfg_blob_dir cfg)))) (\<lambda>root.
     bindS (load_signer W (cfg_signing_key_path cfg)) (\<lambda>signer.
     bindS (liftS (EndpointValidator_with_defaults (cw_client W) (cw_bare_client W))) (\<lambda>validator.
     bindS (ensureS (token_sliceable (cfg_admin_token cfg)) None) (\<lambda>_.
     bindS (liftS (map_err Some (cw_bind W (cfg_bind_addr cfg)))) (\<lambda>_.
     returnS \<lparr>sv_config = cfg, sv_scanners = production_scanners W (cfg_max_transfer_bytes cfg), sv_policy = for_tier Dev,
       sv_audit = audit, sv_blob_root = root, sv_validator = validator, sv_signer = signer, sv_admin_token = cfg_admin_token cfg,
       sv_cors = build_cors_layer (cfg_cors_allowed_origins cfg)\<rparr>)))))))))"

section \<open>When it starts\<close>

lemma open_audit_Inr:
  "open_audit W d = (Inr log, d') \<longleftrightarrow> cw_audit_fault W = None
     \<and> FileAuditLog_open (cw_platform W) (cw_parse_row W) (dk_audit d) = Inr log \<and> d' = d\<lparr>dk_audit := Some (fl_file log)\<rparr>"
  by (auto simp: open_audit_def step_iffs split: option.splits)

lemma load_signer_Inr:
  "load_signer W path d = (Inr sg, d') \<longleftrightarrow> (\<exists>fs. load_or_generate (cw_key_dir_fault W) (cw_key_read_fault W) (cw_key_persist W)
     (cw_fresh_key W) path (dk_files d) = (Inr sg, fs) \<and> d' = d\<lparr>dk_files := fs\<rparr>)"
  by (auto simp: load_signer_def step_iffs split: prod.splits)

text \<open>What the surroundings have to answer once the configuration is read.\<close>

definition surroundings_ok :: "cp_world \<Rightarrow> Config \<Rightarrow> bool" where
  "surroundings_ok W cfg \<longleftrightarrow> cw_connect W (cfg_database_url cfg) = Inr () \<and> cw_migrate W = Inr ()
     \<and> cw_audit_fault W = None \<and> cw_blob_dir_fault W = None \<and> cw_client W = Inr () \<and> cw_bind W (cfg_bind_addr cfg) = Inr ()"

lemma start_control_plane_Inr:
  "start_control_plane W d = (Inr srv, d') \<longleftrightarrow>
     (\<exists>cfg log sg fs. Config_from_env (cw_parse_addr W) (cw_var W) = Inr cfg
        \<and> surroundings_ok W cfg \<and> token_sliceable (cfg_admin_token cfg)
        \<and> FileAuditLog_open (cw_platform W) (cw_parse_row W) (dk_audit d) = Inr log
        \<and> load_or_generate (cw_key_dir_fault W) (cw_key_read_fault W) (cw_key_persist W) (cw_fresh_key W)
            (cfg_signing_key_path cfg) (dk_files d) = (Inr sg, fs)
        \<and> d' = \<lparr>dk_files = fs, dk_audit = Some (fl_file log)\<rparr>
        \<and> srv = \<lparr>sv_config = cfg, sv_scanners = production_scanners W (cfg_max_transfer_bytes cfg), sv_policy = for_tier Dev,
            sv_audit = log, sv_blob_root = cfg_blob_dir cfg,
            sv_validator = \<lparr>va_permits = DEFAULT_PERMITS, va_budget = DEFAULT_BUDGET, va_http = ()\<rparr>, sv_signer = sg, sv_admin_token = cfg_admin_token cfg,
            sv_cors = build_cors_layer (cfg_cors_allowed_origins cfg)\<rparr>)"
  unfolding start_control_plane_def
  by (cases d) (auto simp: step_iffs open_audit_Inr load_signer_Inr surroundings_ok_def FileBlobStore_new_def with_defaults_iff
      simp del: for_tier.simps split: option.splits)

text \<open>
  A process that starts again, with the same variables and undisturbed files, comes up with the same
  signing key and with the audit log that its predecessor left, and changes nothing on the disk.
\<close>

lemma restart:
  assumes first: "start_control_plane W d = (Inr srv, d1)" "length (cw_fresh_key W) = 32"
    and path: "with_extension_tmp (cfg_signing_key_path (sv_config srv)) \<noteq> cfg_signing_key_path (sv_config srv)"
    and env: "cw_var W' = cw_var W" "cw_parse_addr W' = cw_parse_addr W"
    and ok: "surroundings_ok W' (sv_config srv)" "cw_key_dir_fault W' = None" "cw_key_read_fault W' = None"
    and files: "dk_files d2 (cfg_signing_key_path (sv_config srv)) = dk_files d1 (cfg_signing_key_path (sv_config srv))"
    and audit: "dk_audit d2 = Some (fl_file l)" "file_inv (cw_platform W') (cw_parse_row W') print_row l"
  shows "\<exists>srv'. start_control_plane W' d2 = (Inr srv', d2) \<and> sv_config srv' = sv_config srv
    \<and> sv_signer srv' = sv_signer srv \<and> sv_audit srv' = l"
proof -
  let ?cfg = "sv_config srv"
  from first(1) obtain sg fs where up: "Config_from_env (cw_parse_addr W) (cw_var W) = Inr ?cfg" "token_sliceable (cfg_admin_token ?cfg)"
    and sg: "load_or_generate (cw_key_dir_fault W) (cw_key_read_fault W) (cw_key_persist W) (cw_fresh_key W)
      (cfg_signing_key_path ?cfg) (dk_files d) = (Inr sg, fs)" "sv_signer srv = sg" "dk_files d1 = fs"
    by (auto simp: start_control_plane_Inr simp del: for_tier.simps)
  obtain r fs' where "load_or_generate None None (cw_key_persist W') (cw_fresh_key W') (cfg_signing_key_path ?cfg) (dk_files d2) = (r, fs')"
    by fastforce
  with key_survives_restart [OF sg(1) first(2) path _ this] files sg(3)
  have "load_or_generate None None (cw_key_persist W') (cw_fresh_key W') (cfg_signing_key_path ?cfg) (dk_files d2) = (Inr sg, dk_files d2)"
    by simp
  moreover have "FileAuditLog_open (cw_platform W') (cw_parse_row W') (dk_audit d2) = Inr l"
    using file_reopen [OF audit(2)] audit(1) by simp
  ultimately show ?thesis
    using up sg(2) env ok audit(1)
    by (cases d2) (simp add: start_control_plane_Inr del: for_tier.simps)
qed

text \<open>
  A configured token whose sixth and seventh byte belong to one character makes the process panic
  after all its stores have been opened.
\<close>

lemma token_panics:
  assumes "Config_from_env (cw_parse_addr W) (cw_var W) = Inr cfg" "surroundings_ok W cfg" "\<not> token_sliceable (cfg_admin_token cfg)"
    and "FileAuditLog_open (cw_platform W) (cw_parse_row W) (dk_audit d) = Inr log"
    and "load_signer W (cfg_signing_key_path cfg) (d\<lparr>dk_audit := Some (fl_file log)\<rparr>) = (Inr sg, d')"
  shows "start_control_plane W d = (Inl None, d')"
  using assms
  by (simp add: start_control_plane_def bindS_def open_audit_def surroundings_ok_def FileBlobStore_new_def liftS_def
      EndpointValidator_with_defaults_def EndpointValidator_new_def)

end
