(* ===== verification/Routes.thy ===== *)
theory Routes
  imports Agents TextOps "HOL-Library.Multiset"
begin

text \<open>
  The routes of the control plane (\<open>lib.rs\<close>, \<open>routes/mod.rs\<close> and the \<open>router\<close> function of each
  module), composed as the code composes them.  The lookup of a route belongs to the web framework:
  it is any function that meets the contract \<open>web_router\<close>, which states what the framework
  documents.  The contract implies that the order of registration does not matter, as a comment in
  \<open>routes/agents.rs\<close> says.  A request is its method and the raw segments of its path.
\<close>

section \<open>The routers\<close>

datatype seg = Seg string | Capture | CatchAll

datatype endpoint =
    Healthz | PublicKey | MetricsPage | AgentCard | CapabilitiesDoc | CreateIntent
  | RegisterAgent | RotateKey | GetAgent
  | CreateTransfer | GetTransfer | DownloadTransfer | AckTransfer | IssueTicket
  | WhoAmI | CreateApiKey | ListApiKeys | RevokeApiKey | ListInbox

record route =
  ro_path :: "seg list"
  ro_methods :: "(string \<times> endpoint) list"
  ro_gated :: bool

text \<open>\<open>get\<close> also answers \<open>HEAD\<close>.\<close>

definition get_with :: "endpoint \<Rightarrow> (string \<times> endpoint) list" where
  "get_with e = [(''GET'', e), (''HEAD'', e)]"

definition post_with :: "endpoint \<Rightarrow> (string \<times> endpoint) list" where
  "post_with e = [(''POST'', e)]"

definition delete_with :: "endpoint \<Rightarrow> (string \<times> endpoint) list" where
  "delete_with e = [(''DELETE'', e)]"

definition at_path :: "seg list \<Rightarrow> (string \<times> endpoint) list \<Rightarrow> route" where
  "at_path p ms = \<lparr>ro_path = p, ro_methods = ms, ro_gated = False\<rparr>"

definition nest :: "string \<Rightarrow> route list \<Rightarrow> route list" where
  "nest s rs = map (\<lambda>r. r\<lparr>ro_path := Seg s # ro_path r\<rparr>) rs"

definition route_layer :: "route list \<Rightarrow> route list" where
  "route_layer rs = map (\<lambda>r. r\<lparr>ro_gated := True\<rparr>) rs"

definition health_router :: "route list" where
  "health_router = [at_path [Seg ''healthz''] (get_with Healthz), at_path [Seg ''v1'', Seg ''public-key''] (get_with PublicKey)]"

definition metrics_router :: "route list" where
  "metrics_router = [at_path [Seg ''metrics''] (get_with MetricsPage)]"

definition agent_card_router :: "route list" where
  "agent_card_router = [at_path [Seg ''.well-known'', Seg ''agent-card.json''] (get_with AgentCard)]"

definition v2_router :: "route list" where
  "v2_router = [at_path [Seg ''v2'', Seg ''capabilities''] (get_with CapabilitiesDoc)]
     @ [at_path [Seg ''v2'', Seg ''intents''] (post_with CreateIntent)]"

definition agents_router :: "route list" where
  "agents_router = [at_path [Seg ''register''] (post_with RegisterAgent), at_path [Seg ''rotate-key''] (post_with RotateKey),
     at_path [CatchAll] (get_with GetAgent)]"

definition transfers_router :: "route list" where
  "transfers_router = [at_path [] (post_with CreateTransfer), at_path [Capture] (get_with GetTransfer),
     at_path [Capture, Seg ''download''] (post_with DownloadTransfer), at_path [Capture, Seg ''ack''] (post_with AckTransfer),
     at_path [Capture, Seg ''ticket''] (post_with IssueTicket)]"

definition admin_router :: "route list" where
  "admin_router = [at_path [Seg ''whoami''] (get_with WhoAmI),
     at_path [Seg ''api-keys''] (post_with CreateApiKey @ get_with ListApiKeys),
     at_path [Seg ''api-keys'', Capture] (delete_with RevokeApiKey)]"

definition inbox_router :: "route list" where
  "inbox_router = [at_path [Seg ''inbox''] (post_with ListInbox)]"

definition v1_router :: "route list" where
  "v1_router = nest ''agents'' agents_router @ nest ''transfers'' transfers_router
     @ nest ''admin'' (route_layer admin_router) @ inbox_router"

definition public_routes :: "route list" where
  "public_routes = health_router @ metrics_router @ agent_card_router @ v2_router @ nest ''v1'' v1_router"

section \<open>The contract of the web framework\<close>

text \<open>
  What the framework (crate \<open>axum\<close>) documents of a path: a capture takes one segment and a wildcard
  the rest of the path, neither may be empty, and among the paths that match, at the first segment
  where they differ, a fixed segment comes before a capture and a capture before a wildcard.
\<close>

fun seg_match :: "seg list \<Rightarrow> string list \<Rightarrow> string list option" where
  "seg_match [] [] = Some []"
| "seg_match (Seg s # ps) (x # xs) = (if s = x then seg_match ps xs else None)"
| "seg_match (Capture # ps) (x # xs) = (if x \<noteq> [] then map_option (Cons x) (seg_match ps xs) else None)"
| "seg_match [CatchAll] (x # xs) = (if join_with ''/'' (x # xs) \<noteq> [] then Some [join_with ''/'' (x # xs)] else None)"
| "seg_match _ _ = None"

fun seg_rank :: "seg \<Rightarrow> nat" where
  "seg_rank (Seg s) = 0"
| "seg_rank Capture = 1"
| "seg_rank CatchAll = 2"

definition rank :: "route \<Rightarrow> nat list" where
  "rank r = map seg_rank (ro_path r)"

text \<open>The answer to a request: no route, a route without the method, or a handler with its captures; behind a gate or not.\<close>

datatype dispatched = NoSuchRoute | WrongMethod bool | Reached endpoint "string list" bool

definition matching :: "string list \<Rightarrow> route list \<Rightarrow> route list" where
  "matching path rs = filter (\<lambda>r. seg_match (ro_path r) path \<noteq> None) rs"

definition preferred :: "string list \<Rightarrow> route list \<Rightarrow> route \<Rightarrow> bool" where
  "preferred path rs r \<longleftrightarrow> r \<in> set (matching path rs) \<and> (\<forall>q \<in> set (matching path rs). rank r \<le> rank q)"

definition served_by :: "route \<Rightarrow> string \<Rightarrow> string list \<Rightarrow> dispatched" where
  "served_by r verb path =
     (case map_of (ro_methods r) verb of
        None \<Rightarrow> WrongMethod (ro_gated r)
      | Some e \<Rightarrow> Reached e (the (seg_match (ro_path r) path)) (ro_gated r))"

text \<open>A lookup that does this, on which the properties below are evaluated.\<close>

definition dispatch :: "route list \<Rightarrow> string \<Rightarrow> string list \<Rightarrow> dispatched" where
  "dispatch rs verb path =
     (case sort_key rank (matching path rs) of [] \<Rightarrow> NoSuchRoute | r # _ \<Rightarrow> served_by r verb path)"

locale web_router =
  fixes route_request :: "route list \<Rightarrow> string \<Rightarrow> string list \<Rightarrow> dispatched"
  assumes unmatched: "distinct (map ro_path rs) \<Longrightarrow> matching path rs = [] \<Longrightarrow> route_request rs verb path = NoSuchRoute"
    and matched: "distinct (map ro_path rs) \<Longrightarrow> preferred path rs r \<Longrightarrow> route_request rs verb path = served_by r verb path"
begin

text \<open>The contract leaves no choice.\<close>

lemma route_request_dispatch:
  assumes "distinct (map ro_path rs)"
  shows "route_request rs verb path = dispatch rs verb path"
proof (cases "sort_key rank (matching path rs)")
  case Nil
  then have "set (matching path rs) = {}" by (metis set_sort list.set(1))
  with assms Nil show ?thesis by (simp add: unmatched dispatch_def)
next
  case (Cons r rest)
  have s: "set (matching path rs) = insert r (set rest)" by (metis Cons set_sort list.simps(15))
  have "sorted (map rank (sort_key rank (matching path rs)))" by simp
  then have "\<forall>q \<in> set rest. rank r \<le> rank q" unfolding Cons by simp
  with s have "preferred path rs r" by (simp add: preferred_def)
  with assms Cons show ?thesis by (simp add: matched dispatch_def)
qed

end

section \<open>The order of registration does not matter\<close>

lemma same_rank_same_path:
  "seg_match p xs \<noteq> None \<Longrightarrow> seg_match q xs \<noteq> None \<Longrightarrow> map seg_rank p = map seg_rank q \<Longrightarrow> p = q"
proof (induction p xs arbitrary: q rule: seg_match.induct)
  case (2 s ps x xs)
  then obtain z zs where q: "q = z # zs" by (cases q) auto
  with 2 have z: "z = Seg x" "s = x" by (cases z; simp split: if_splits)+
  with 2 q show ?case by simp
next
  case (3 ps x xs)
  then obtain z zs where q: "q = z # zs" by (cases q) auto
  with 3 have z: "z = Capture" "x \<noteq> []" by (cases z; simp split: if_splits)+
  with 3 q show ?case by simp
next
  case (4 x xs)
  then obtain z where q: "q = [z]" by (cases q) auto
  with 4 show ?case by (cases z) simp_all
qed simp_all

lemma rank_inj:
  assumes "distinct (map ro_path rs)"
  shows "inj_on rank (set (matching path rs))"
proof (rule inj_onI)
  fix r q assume r: "r \<in> set (matching path rs)" and q: "q \<in> set (matching path rs)" and e: "rank r = rank q"
  then have "ro_path r = ro_path q" by (intro same_rank_same_path [of _ path]) (auto simp: matching_def rank_def)
  with r q assms show "r = q" by (auto simp: matching_def distinct_map dest: inj_onD)
qed

lemma preferred_first:
  assumes "distinct (map ro_path rs)" "preferred path rs r"
  obtains rest where "sort_key rank (matching path rs) = r # rest"
proof -
  have r: "r \<in> set (matching path rs)" and min: "\<forall>q \<in> set (matching path rs). rank r \<le> rank q"
    using assms(2) by (simp_all add: preferred_def)
  then obtain q rest where q: "sort_key rank (matching path rs) = q # rest"
    by (cases "sort_key rank (matching path rs)") (metis list.set(1) set_sort empty_iff, blast)
  have s: "set (matching path rs) = insert q (set rest)" by (metis q set_sort list.simps(15))
  have "sorted (map rank (sort_key rank (matching path rs)))" by simp
  then have "\<forall>x \<in> set rest. rank q \<le> rank x" unfolding q by simp
  with r s have "rank q \<le> rank r" by auto
  moreover have "rank r \<le> rank q" using min s by simp
  ultimately have "r = q" using rank_inj [OF assms(1)] r s by (metis inj_onD insertI1 order_antisym)
  with q that show thesis by simp
qed

interpretation reference: web_router dispatch
proof unfold_locales
  fix rs path verb r
  assume "distinct (map ro_path rs)" "preferred path rs r"
  then obtain rest where "sort_key rank (matching path rs) = r # rest" by (rule preferred_first)
  then show "dispatch rs verb path = served_by r verb path" by (simp add: dispatch_def)
qed (simp add: dispatch_def)

lemma dispatch_order:
  assumes "distinct (map ro_path rs)" "mset rs = mset qs"
  shows "dispatch rs verb path = dispatch qs verb path"
proof -
  have "mset (matching path rs) = mset (matching path qs)" using assms(2) by (simp add: matching_def)
  then have "sort_key rank (matching path rs) = sort_key rank (matching path qs)"
    by (intro sort_key_inj_key_eq rank_inj [OF assms(1)]) simp_all
  then show ?thesis by (simp add: dispatch_def)
qed

lemma public_routes_distinct: "distinct (map ro_path public_routes)"
  by code_simp

section \<open>What a request reaches\<close>

definition admin_endpoints :: "endpoint list" where
  "admin_endpoints = [WhoAmI, CreateApiKey, ListApiKeys, RevokeApiKey]"

lemma route_gates:
  "list_all (\<lambda>r. ro_gated r \<longleftrightarrow> take 2 (ro_path r) = [Seg ''v1'', Seg ''admin'']) public_routes"
  "list_all (\<lambda>r. list_all (\<lambda>(v, e). ro_gated r \<longleftrightarrow> e \<in> set admin_endpoints) (ro_methods r)) public_routes"
  by code_simp+

lemma dispatch_route:
  assumes "dispatch rs verb path = Reached e caps g"
  shows "\<exists>r \<in> set rs. map_of (ro_methods r) verb = Some e \<and> seg_match (ro_path r) path = Some caps \<and> ro_gated r = g"
proof -
  from assms obtain r rest where r: "sort_key rank (matching path rs) = r # rest" and e: "map_of (ro_methods r) verb = Some e"
    "caps = the (seg_match (ro_path r) path)" "ro_gated r = g"
    by (auto simp: dispatch_def served_by_def split: list.splits option.splits)
  have "r \<in> set (sort_key rank (matching path rs))" unfolding r by simp
  then have "r \<in> set rs" "seg_match (ro_path r) path \<noteq> None" by (auto simp: matching_def)
  with e show ?thesis by auto
qed

lemma dispatch_gate:
  assumes "dispatch public_routes verb path = Reached e caps g"
  shows "g \<longleftrightarrow> e \<in> set admin_endpoints"
proof -
  from dispatch_route [OF assms] obtain r where r: "r \<in> set public_routes" "(verb, e) \<in> set (ro_methods r)" "ro_gated r = g"
    by (auto dest: map_of_SomeD)
  with route_gates(2) show ?thesis by (auto simp: list_all_iff)
qed

lemma join_split: "join_with [c] (split_char c s) = s"
proof (induction s)
  case (Cons x s)
  show ?case
  proof (cases "split_char c s")
    case (Cons p ps)
    with Cons.IH show ?thesis by (cases ps) auto
  qed simp
qed simp

text \<open>Every agent identifier reaches the lookup, its slashes included; none is shadowed by a fixed route.\<close>

lemma agent_lookup_reached:
  assumes "valid_agent_id a"
  shows "dispatch public_routes ''GET'' (''v1'' # ''agents'' # split_char (CHR ''/'') a) = Reached GetAgent [a] False"
proof -
  obtain x xs where x: "split_char (CHR ''/'') a = x # xs" by (cases "split_char (CHR ''/'') a") auto
  have a: "join_with ''/'' (x # xs) = a" using join_split [of "CHR ''/''" a] x by simp
  have "CHR '':'' \<in> set a" "a \<noteq> []" using assms by (auto simp: valid_agent_id_def)
  then have "\<not> (xs = [] \<and> (x = ''register'' \<or> x = ''rotate-key''))" using a by auto
  then have "matching (''v1'' # ''agents'' # x # xs) public_routes
      = [\<lparr>ro_path = [Seg ''v1'', Seg ''agents'', CatchAll], ro_methods = get_with GetAgent, ro_gated = False\<rparr>]"
    using a \<open>a \<noteq> []\<close>
    by (cases xs) (auto simp: matching_def public_routes_def health_router_def metrics_router_def agent_card_router_def v2_router_def
        v1_router_def nest_def route_layer_def agents_router_def transfers_router_def admin_router_def inbox_router_def at_path_def)
  then show ?thesis using a \<open>a \<noteq> []\<close> by (simp add: x dispatch_def served_by_def get_with_def)
qed

lemma endpoints_reached:
  "list_all (\<lambda>(verb, path, e). dispatch public_routes verb path = Reached e (filter (\<lambda>c. c = ''x'') path) (e \<in> set admin_endpoints))
    [(''GET'', [''healthz''], Healthz), (''GET'', [''v1'', ''public-key''], PublicKey), (''GET'', [''metrics''], MetricsPage),
     (''GET'', [''.well-known'', ''agent-card.json''], AgentCard), (''GET'', [''v2'', ''capabilities''], CapabilitiesDoc),
     (''POST'', [''v2'', ''intents''], CreateIntent), (''POST'', [''v1'', ''agents'', ''register''], RegisterAgent),
     (''POST'', [''v1'', ''agents'', ''rotate-key''], RotateKey), (''GET'', [''v1'', ''agents'', ''x''], GetAgent),
     (''POST'', [''v1'', ''transfers''], CreateTransfer), (''GET'', [''v1'', ''transfers'', ''x''], GetTransfer),
     (''POST'', [''v1'', ''transfers'', ''x'', ''download''], DownloadTransfer), (''POST'', [''v1'', ''transfers'', ''x'', ''ack''], AckTransfer),
     (''POST'', [''v1'', ''transfers'', ''x'', ''ticket''], IssueTicket), (''GET'', [''v1'', ''admin'', ''whoami''], WhoAmI),
     (''POST'', [''v1'', ''admin'', ''api-keys''], CreateApiKey), (''GET'', [''v1'', ''admin'', ''api-keys''], ListApiKeys),
     (''DELETE'', [''v1'', ''admin'', ''api-keys'', ''x''], RevokeApiKey), (''POST'', [''v1'', ''inbox''], ListInbox)]"
  by code_simp

end
