(* ===== verification/CommandLines.thy ===== *)
theory CommandLines
  imports Conformance
begin

text \<open>
  The two command lines (\<open>aex-cli/src/main.rs\<close>, \<open>aex-conformance/src/main.rs\<close>): what they print
  and the exit code.  The parser of the arguments, the QR code, the timings and the file for the
  report are inputs.  A line on standard output is \<open>OutLine\<close>, one on standard error \<open>ErrLine\<close>.
\<close>

section \<open>Output\<close>

datatype out_line = OutLine string | ErrLine string

datatype exit_code = ExitSuccess | ExitFailure

definition ARROW :: string where "ARROW = [CHR 0xE2, CHR 0x86, CHR 0x92]"
definition CHECK :: string where "CHECK = [CHR 0xE2, CHR 0x9C, CHR 0x93]"
definition CROSS :: string where "CROSS = [CHR 0xE2, CHR 0x9C, CHR 0x97]"
definition BULLET :: string where "BULLET = [CHR 0xE2, CHR 0x80, CHR 0xA2]"
definition ELLIPSIS :: string where "ELLIPSIS = [CHR 0xE2, CHR 0x80, CHR 0xA6]"
definition INFO_SIGN :: string where "INFO_SIGN = [CHR 0xE2, CHR 0x84, CHR 0xB9]"
definition WARNING_SIGN :: string where "WARNING_SIGN = [CHR 0xE2, CHR 0x9A, CHR 0xA0]"
definition LONG_DASH :: string where "LONG_DASH = [CHR 0xE2, CHR 0x80, CHR 0x94]"
definition RULE :: string where "RULE = concat (replicate 50 [CHR 0xE2, CHR 0x94, CHR 0x80])"
definition MICROS :: string where "MICROS = '' '' @ [CHR 0xC2, CHR 0xB5] @ ''s]''"

section \<open>The operator's tool\<close>

datatype cli_command = DebugResolve string | QrCommand string

record cli_world =
  cl_platform :: platform
  cl_ring :: keyring
  cl_micros :: "nat \<Rightarrow> nat"
  cl_qr :: "bytes \<Rightarrow> string + string"

fun scheme_debug :: "IdScheme \<Rightarrow> string" where
  "scheme_debug SpizeNative = ''SpizeNative''"
| "scheme_debug DidSpize = ''DidSpize''"
| "scheme_debug DidEthr = ''DidEthr''"
| "scheme_debug DidWeb = ''DidWeb''"
| "scheme_debug DidKey = ''DidKey''"
| "scheme_debug Unknown = ''Unknown''"

definition uri_lines :: "AgentId \<Rightarrow> string list" where
  "uri_lines agent_id =
     (case as_did_uri agent_id of
        Some uri \<Rightarrow>
          [''  '' @ CHECK @ '' parsed as W3C DID URI:'', ''      method            = '' @ did_method uri,
           ''      method_specific_id = '' @ method_specific_id uri]
          @ (case did_fragment uri of Some f \<Rightarrow> [''      fragment          = #'' @ f] | None \<Rightarrow> [])
      | None \<Rightarrow> [''  '' @ BULLET @ '' legacy (non-DID) AgentId '' @ LONG_DASH @ '' wire-v1 only''])"

text \<open>What was printed, and how it ended.\<close>

definition resolve_scheme :: "cli_world \<Rightarrow> AgentId \<Rightarrow> string list \<times> (string + unit)" where
  "resolve_scheme W agent_id =
     (case scheme agent_id of
        DidKey \<Rightarrow>
          (case decode_pubkey (cl_platform W) (cl_ring W) agent_id of
             Inl e \<Rightarrow> ([ARROW @ '' decoding did:key inline '' @ ELLIPSIS], Inl (core_error_text e))
           | Inr vk \<Rightarrow> ([ARROW @ '' decoding did:key inline '' @ ELLIPSIS,
               ''  '' @ CHECK @ '' Ed25519 public key extracted ['' @ show_nat (cl_micros W 1) @ MICROS,
               ''  public_key (hex) = '' @ concat (map hex_byte vk)], Inr ()))
      | Unknown \<Rightarrow> ([''  '' @ WARNING_SIGN @ '' unrecognised scheme; no resolver available''], Inr ())
      | s \<Rightarrow> ([''  '' @ INFO_SIGN @ '' network resolution for '' @ scheme_debug s @ '' is staged for v2.1 '' @ LONG_DASH
               @ '' ResolverChain wiring in this CLI is pending.''], Inr ()))"

definition cmd_debug_resolve :: "cli_world \<Rightarrow> string \<Rightarrow> string list \<times> (string + unit)" where
  "cmd_debug_resolve W handle =
     (let parsing = [ARROW @ '' parsing handle '' @ ELLIPSIS] in
      case AgentId_new handle of
        Inl e \<Rightarrow> (parsing, Inl (core_error_text e))
      | Inr agent_id \<Rightarrow>
          (let parsed = parsing @ [''  '' @ CHECK @ '' AgentId::new ok            ['' @ show_nat (cl_micros W 0) @ MICROS,
                 ''  '' @ CHECK @ '' scheme dispatch '' @ ARROW @ '' '' @ scheme_debug (scheme agent_id)] @ uri_lines agent_id;
               (lines, r) = resolve_scheme W agent_id
           in (case r of
                 Inl e \<Rightarrow> (parsed @ lines, Inl e)
               | Inr _ \<Rightarrow> (parsed @ lines @ [ARROW @ '' done                          [total '' @ show_nat (cl_micros W 2) @ MICROS],
                   Inr ()))))"

definition cmd_qr :: "cli_world \<Rightarrow> string \<Rightarrow> string list \<times> (string + unit)" where
  "cmd_qr W handle =
     (case AgentId_new handle of
        Inl e \<Rightarrow> ([], Inl (core_error_text e))
      | Inr agent_id \<Rightarrow> (case cl_qr W (as_bytes (as_str agent_id)) of
          Inl e \<Rightarrow> ([], Inl (''qr encode failed: '' @ e))
        | Inr rendered \<Rightarrow> ([rendered, ''Handle: '' @ as_str agent_id], Inr ())))"

fun cli_main :: "cli_world \<Rightarrow> cli_command \<Rightarrow> out_line list \<times> exit_code" where
  "cli_main W (DebugResolve handle) =
     (case cmd_debug_resolve W handle of
        (lines, Inr _) \<Rightarrow> (map OutLine lines, ExitSuccess)
      | (lines, Inl m) \<Rightarrow> (map OutLine lines @ [ErrLine (''error: '' @ m)], ExitFailure))"
| "cli_main W (QrCommand handle) =
     (case cmd_qr W handle of
        (lines, Inr _) \<Rightarrow> (map OutLine lines, ExitSuccess)
      | (lines, Inl m) \<Rightarrow> (map OutLine lines @ [ErrLine (''error: '' @ m)], ExitFailure))"

section \<open>The conformance runner\<close>

record JsonTest =
  jt_id :: string
  jt_category :: string
  jt_outcome :: string
  jt_message :: "string option"

record JsonReport =
  jr_total :: nat
  jr_passed :: nat
  jr_failed :: nat
  jr_tests :: "JsonTest list"

fun human_lines :: "string option \<Rightarrow> ConformanceResult list \<Rightarrow> string list" where
  "human_lines current [] = []"
| "human_lines current (r # rs) =
     (if current \<noteq> Some (cres_category r) then [[], ''# '' @ cres_category r] else [])
     @ (case cres_outcome r of
          Pass \<Rightarrow> [''  '' @ CHECK @ '' '' @ cres_id r]
        | Fail m \<Rightarrow> [''  '' @ CROSS @ '' '' @ cres_id r @ '' '' @ LONG_DASH @ '' '' @ m])
     @ human_lines (Some (cres_category r)) rs"

fun count_results :: "nat \<Rightarrow> nat \<Rightarrow> ConformanceResult list \<Rightarrow> nat \<times> nat" where
  "count_results passed failed [] = (passed, failed)"
| "count_results passed failed (r # rs) =
     (if is_pass (cres_outcome r) then count_results (passed + 1) failed rs else count_results passed (failed + 1) rs)"

definition json_test :: "ConformanceResult \<Rightarrow> JsonTest" where
  "json_test r = (case cres_outcome r of
      Pass \<Rightarrow> \<lparr>jt_id = cres_id r, jt_category = cres_category r, jt_outcome = ''pass'', jt_message = None\<rparr>
    | Fail m \<Rightarrow> \<lparr>jt_id = cres_id r, jt_category = cres_category r, jt_outcome = ''fail'', jt_message = Some m\<rparr>)"

definition json_report :: "ConformanceResult list \<Rightarrow> nat \<Rightarrow> nat \<Rightarrow> JsonReport" where
  "json_report results passed failed =
     \<lparr>jr_total = length results, jr_passed = passed, jr_failed = failed, jr_tests = map json_test results\<rparr>"

text \<open>The result is \<open>None\<close> if a test panics; the report is written to its path, if there is one.\<close>

definition conformance_main ::
  "suite \<Rightarrow> (string \<Rightarrow> JsonReport \<Rightarrow> string + unit) \<Rightarrow> string option \<Rightarrow> bool \<Rightarrow> (out_line list \<times> exit_code) option" where
  "conformance_main E write_report report_json quiet =
     map_option (\<lambda>results.
       let human = (if quiet then [] else map OutLine (human_lines None results));
           (passed, failed) = count_results 0 0 results;
           total = length results;
           warning = (case report_json of
               None \<Rightarrow> []
             | Some path \<Rightarrow> (case write_report path (json_report results passed failed) of
                 Inr _ \<Rightarrow> []
               | Inl e \<Rightarrow> [ErrLine (''warning: failed to write JSON report: '' @ e)]));
           opening = human @ warning @ [OutLine [], OutLine RULE]
       in if failed = 0
          then (opening @ [OutLine (''ALL PASSED '' @ LONG_DASH @ '' '' @ show_nat total @ '' tests''),
                  OutLine ''You can claim AEX v2 compliance.''], ExitSuccess)
          else (opening @ [OutLine (''FAILED '' @ LONG_DASH @ '' '' @ show_nat failed @ '' of '' @ show_nat total @ '' tests failed'')],
                  ExitFailure)) (run_all E)"

section \<open>What the exit codes mean\<close>

lemma count_results_eq:
  "count_results p f rs = (p + length (filter (is_pass \<circ> cres_outcome) rs), f + length (filter (Not \<circ> is_pass \<circ> cres_outcome) rs))"
  by (induction p f rs rule: count_results.induct) simp_all

lemma resolve_succeeds:
  "snd (cli_main W (DebugResolve h)) = ExitSuccess \<longleftrightarrow>
     valid_agent_id h \<and> (scheme (AgentId h) = DidKey \<longrightarrow> is_ok (decode_pubkey (cl_platform W) (cl_ring W) (AgentId h)))"
proof (cases "AgentId_new h")
  case (Inl e)
  moreover have "\<not> valid_agent_id h" using AgentId_new_Inr_iff [of h "AgentId h"] Inl by auto
  ultimately show ?thesis by (simp add: cmd_debug_resolve_def)
next
  case (Inr a)
  then have "valid_agent_id h" "a = AgentId h" by (simp_all add: AgentId_new_Inr_iff)
  with Inr show ?thesis
    by (cases "decode_pubkey (cl_platform W) (cl_ring W) (AgentId h)"; cases "scheme (AgentId h)")
      (simp_all add: cmd_debug_resolve_def resolve_scheme_def is_ok_iff Let_def)
qed

text \<open>For a \<open>did:key\<close> made from a public key, the tool prints that key.\<close>

lemma resolve_prints_key:
  assumes "bs58_laws (cl_ring W)" "length vk = 32" "ed25519_key_ok (cl_platform W) vk" "valid_agent_id (encode_did_key (cl_ring W) vk)"
  shows "OutLine (''  public_key (hex) = '' @ concat (map hex_byte vk)) \<in> set (fst (cli_main W (DebugResolve (encode_did_key (cl_ring W) vk))))"
proof -
  have "scheme (AgentId (encode_did_key (cl_ring W) vk)) = DidKey"
    by (simp add: scheme_def starts_with_iff encode_did_key_def)
  moreover have "AgentId_new (encode_did_key (cl_ring W) vk) = Inr (AgentId (encode_did_key (cl_ring W) vk))"
    using assms(4) by (simp add: AgentId_new_Inr_iff)
  ultimately show ?thesis
    using did_key_roundtrip [OF assms(1-3)]
    by (simp add: cmd_debug_resolve_def resolve_scheme_def Let_def)
qed

lemma conformance_exit:
  "map_option snd (conformance_main E write_report report quiet) =
     map_option (\<lambda>rs. if list_all (is_pass \<circ> cres_outcome) rs then ExitSuccess else ExitFailure) (run_all E)"
  by (cases "run_all E")
    (auto simp: conformance_main_def count_results_eq Let_def list_all_iff filter_empty_conv)

end
