(* ===== verification/TransferProperties.thy ===== *)
theory TransferProperties
  imports Demo
begin

text \<open>
  The properties of the transfer requests: creation in its three branches, download,
  acknowledgement, tickets, the inbox, and the health monitor.
\<close>

section \<open>Uploads\<close>

text \<open>
  C2: An upload that is answered was sent by a registered agent and signed by one of its valid keys
  over sender, recipient, size, type, name and a fresh nonce.  It adds exactly one row.  The row is
  rejected, and the blob not stored, iff the policy denies the request before or after the scan;
  otherwise it is ready, with the hash of the very blob that was stored under its identifier.
\<close>

theorem upload_screened:
  assumes "create_transfer E req s = (Inr resp, s')" "ct_reachable_at req = None" "ct_tunnel_url req = None"
  shows "\<exists>sender_row blob row st d. create_admissible E (db s) req sender_row
    \<and> hex_dec (plat E) (ct_blob_hex req) = Inr blob \<and> intent_authentic E (db s) req (of_nat (length blob))
    \<and> consume_intent_nonce (ct_nonce req) (ct_sender_agent_id req) (db s) = (Inr True, d)
    \<and> resp = (st, row_to_response row)
    \<and> screened_as E req (AgentId (ct_sender_agent_id req)) blob
         (screening E req (AgentId (ct_sender_agent_id req)) sender_row blob) (s\<lparr>db := d\<rparr>) row st s'"
  using assms by (rule create_blob_Inr)

theorem upload_screened_witness:
  "\<exists>resp s' row. create_transfer demo_env (demo_upload demo_blob) (demo_state []) = (Inr resp, s')
     \<and> transfers (db s') = [row] \<and> snd resp = row_to_response row"
proof -
  obtain resp s' where r: "create_transfer demo_env (demo_upload demo_blob) (demo_state []) = (Inr resp, s')"
    using demo_uploads by blast
  from upload_screened [OF r] obtain row st d where
    "resp = (st, row_to_response row)" "db s' = d\<lparr>transfers := transfers d @ [row]\<rparr>"
    "consume_intent_nonce demo_nonce alice (demo_db []) = (Inr True, d)"
    by (auto simp: screened_as_def)
  with r show ?thesis by (auto simp: consume_intent_nonce_def split: if_splits)
qed

text \<open>
  C18: An authentic upload of a registered agent with an unused nonce is answered with a transfer,
  stored or rejected, when database and blob store work and the generated identifier is new.
\<close>

theorem upload_answered:
  assumes "upload_services_ok E" "stored_id E \<notin> tr_transfer_id ` set (transfers (db s))"
    and "ct_reachable_at req = None" "ct_tunnel_url req = None"
    and "create_admissible E (db s) req sender_row" "hex_dec (plat E) (ct_blob_hex req) = Inr blob"
    and "intent_authentic E (db s) req (of_nat (length blob))"
    and "ct_nonce req \<notin> fst ` set (transfer_intent_nonces (db s))"
  shows "\<exists>resp s'. create_transfer E req s = (Inr resp, s')"
  using assms by (rule create_blob_succeeds)

theorem upload_answered_witness:
  "\<exists>resp s'. create_transfer demo_env (demo_upload demo_blob) (demo_state []) = (Inr resp, s')"
proof -
  obtain r where "create_admissible demo_env (demo_db []) (demo_upload demo_blob) r" using demo_admissible by blast
  then show ?thesis
    using demo_intent_authentic demo_services
    by (intro upload_answered [where sender_row = r and blob = demo_blob]) simp_all
qed

text \<open>
  C1: An upload that a scanner calls malicious is never stored and never offered: under the tier
  policy, whatever the outcome of the request, the blob store is unchanged and a row, if one is
  added, is rejected.
\<close>

theorem malicious_upload_blocked:
  assumes "policy_evaluate E = TierPolicy_evaluate p" "ct_reachable_at req = None" "ct_tunnel_url req = None"
    and "hex_dec (plat E) (ct_blob_hex req) = Inr blob"
    and "sc \<in> set (scanners E)" "sv_result (scan_one sc (scan_input_of req blob)) = Malicious"
    and "create_transfer E req s = (r, s')"
  shows "blobs s' = blobs s
    \<and> (\<exists>new. transfers (db s') = transfers (db s) @ new \<and> list_all (\<lambda>row. tr_state row = ''rejected'') new)"
proof -
  have "overall (blob_verdict E req b) = Malicious" if "hex_dec (plat E) (ct_blob_hex req) = Inr b" for b
    using that assms(4-6) by (auto simp: blob_verdict_def overall_scan overall_Malicious_iff)
  from tier.malicious_upload [OF assms(1-3) this]
  have "keeps (\<lambda>t. blobs t = blobs s) (create_transfer E req)"
    "keeps (\<lambda>t. only_rejected (transfers (db s)) (db t)) (create_transfer E req)" by blast+
  from this [THEN keepsE, OF assms(7)] show ?thesis by (simp add: only_rejected_def)
qed

lemma demo_eicar: "hex_dec demo_platform (ct_blob_hex (demo_upload EICAR_SIGNATURE)) = Inr EICAR_SIGNATURE"
  by simp

theorem malicious_upload_blocked_witness:
  "\<exists>resp s'. create_transfer demo_env (demo_upload EICAR_SIGNATURE) (demo_state []) = (Inr resp, s')
     \<and> blobs s' = blobs (demo_state [])"
proof -
  obtain resp s' where r: "create_transfer demo_env (demo_upload EICAR_SIGNATURE) (demo_state []) = (Inr resp, s')"
    using demo_uploads by blast
  have "sv_result (scan_one (EicarScanner 0) (scan_input_of (demo_upload EICAR_SIGNATURE) EICAR_SIGNATURE)) = Malicious"
    by (simp add: Eicar_verdict scan_input_of_def)
  from malicious_upload_blocked [OF _ _ _ demo_eicar [folded demo_env_simps(1)] _ this r, of "for_tier Dev"] r
  show ?thesis by auto
qed

text \<open>
  An intent nonce is accepted once for uploads: after a successful upload no upload with the same
  nonce succeeds, in whatever state later requests lead to.
\<close>

theorem upload_not_replayed:
  assumes "create_transfer E req s = (Inr resp, s1)" "ct_reachable_at req = None" "ct_tunnel_url req = None"
    and "(cp_step ok)\<^sup>*\<^sup>* s1 s2"
    and "ct_nonce req' = ct_nonce req" "ct_reachable_at req' = None" "ct_tunnel_url req' = None"
  shows "create_transfer E' req' s2 \<noteq> (Inr resp', s3)"
proof -
  from create_blob_Inr [OF assms(1-3)] obtain blob row st d dc where
    c: "consume_intent_nonce (ct_nonce req) (ct_sender_agent_id req) (db s) = (Inr True, d)"
    and sc: "screened_as E req (AgentId (ct_sender_agent_id req)) blob dc (s\<lparr>db := d\<rparr>) row st s1" by blast
  have "ct_nonce req \<in> fst ` set (transfer_intent_nonces d)"
    using intent.consume_used [OF c] by simp
  moreover have "transfer_intent_nonces (db s1) = transfer_intent_nonces d"
    using sc by (simp add: screened_as_def)
  ultimately have "ct_nonce req' \<in> fst ` set (transfer_intent_nonces (db s2))"
    using intent_nonces_kept [OF cp_steps_refine [OF assms(4)], of "ct_nonce req"] assms(5) by simp
  then show ?thesis using create_blob_nonce_used assms(6,7) by blast
qed

theorem upload_not_replayed_witness:
  "\<exists>resp s1. create_transfer demo_env (demo_upload demo_blob) (demo_state []) = (Inr resp, s1)
     \<and> (\<nexists>resp' s3. create_transfer demo_env (demo_upload demo_blob) s1 = (Inr resp', s3))"
proof -
  obtain resp s1 where r: "create_transfer demo_env (demo_upload demo_blob) (demo_state []) = (Inr resp, s1)"
    using demo_uploads by blast
  from upload_not_replayed [OF r _ _ rtranclp.rtrancl_refl, of "demo_upload demo_blob" demo_env] r show ?thesis by auto
qed

section \<open>Tunnel and endpoint transfers\<close>

text \<open>
  C28: Tunnel and endpoint transfers are not protected against replay: the same signed request, sent
  again at once, is accepted again as soon as the server draws another identifier, and leaves a
  second transfer, although its nonce was used before.
\<close>

theorem remote_transfer_replayed:
  assumes "create_transfer E req s = (Inr resp, s')" "ct_reachable_at req \<noteq> None \<or> ct_tunnel_url req \<noteq> None"
    and "random_transfer_id (E\<lparr>random16 := w\<rparr>) \<notin> tr_transfer_id ` set (transfers (db s'))"
  shows "\<exists>resp' s''. create_transfer (E\<lparr>random16 := w\<rparr>) req s' = (Inr resp', s'')
    \<and> length (transfers (db s'')) = length (transfers (db s)) + 2"
  using assms by (rule remote_replay)

theorem remote_transfer_replayed_witness:
  "\<exists>resp s' resp' s''. create_transfer demo_env demo_tunnel (demo_state []) = (Inr resp, s')
     \<and> create_transfer (demo_env\<lparr>random16 := []\<rparr>) demo_tunnel s' = (Inr resp', s'') \<and> length (transfers (db s'')) = 2"
proof -
  obtain resp s' where r: "create_transfer demo_env demo_tunnel (demo_state []) = (Inr resp, s')"
    using demo_tunnels by blast
  have t: "ct_reachable_at demo_tunnel \<noteq> None \<or> ct_tunnel_url demo_tunnel \<noteq> None" by simp
  obtain row where row: "transfers (db s') = [row]" "tr_transfer_id row = random_transfer_id demo_env"
    using remote_step [OF r t] by auto
  have "random_transfer_id (demo_env\<lparr>random16 := []\<rparr>) \<notin> tr_transfer_id ` set (transfers (db s'))"
    using row by (simp add: random_transfer_id_def numeral_eq_Suc)
  from remote_transfer_replayed [OF r t this] r show ?thesis by auto
qed

text \<open>
  The endpoints stored for a transfer are exactly the offered ones that passed their probe, in the
  offered order; there is at least one and all are of known kinds.
\<close>

theorem endpoints_validated:
  assumes "create_transfer E req s = (Inr resp, s')" "ct_reachable_at req = Some eps"
  shows "\<exists>row. transfers (db s') = transfers (db s) @ [row]
    \<and> tr_reachable_at row = map fst (filter (\<lambda>(e, r). ep_healthy r) (zip eps (validate_all E eps)))
    \<and> tr_reachable_at row \<noteq> [] \<and> list_all is_known_kind (tr_reachable_at row)"
proof -
  let ?h = "healthy_endpoints (validate_all E eps) eps"
  have "at_least_one_healthy (validate_all E eps)"
    "\<exists>row. transfers (db s') = transfers (db s) @ [row] \<and> tr_reachable_at row = ?h"
    using assms by (auto simp: create_transfer_Inr_iff create_via_endpoints_Inr_iff remote_row_def
        count_created_def on_metrics_def dest!: transfers_insert_Inr)
  then show ?thesis
    using healthy_endpoints_known [of _ E eps] healthy_endpoints_map [of "validate_all E eps" eps]
      at_least_one_healthy_iff [of E eps]
    by (auto simp: list_all_iff)
qed

definition demo_endpoints :: "Endpoint list" where
  "demo_endpoints = [cloudflare_quick ''https://t'', (cloudflare_quick ''https://u'')\<lparr>kind := ''carrier_pigeon''\<rparr>]"

definition demo_offer :: CreateTransferRequest where
  "demo_offer = (demo_request [] None 3)\<lparr>ct_reachable_at := Some demo_endpoints\<rparr>"

lemma demo_offers: "\<exists>resp s'. create_transfer demo_env demo_offer (demo_state []) = (Inr resp, s')"
proof -
  have offer: "create_admissible demo_env (demo_db []) demo_offer r = create_admissible demo_env (demo_db []) (demo_request [] None 3) r"
    "intent_authentic demo_env (demo_db []) demo_offer 3 = intent_authentic demo_env (demo_db []) (demo_request [] None 3) 3" for r
    by (simp_all add: demo_offer_def create_admissible_def intent_authentic_def)
  obtain r where adm: "create_admissible demo_env (demo_db []) demo_offer r" using demo_admissible offer by blast
  have healthy: "at_least_one_healthy (validate_all demo_env demo_endpoints)"
    by (simp add: at_least_one_healthy_def demo_endpoints_def validate_all_def probe_endpoint_def
        probe_http_healthz_def probe_result_def demo_env_def cloudflare_quick_def http_kinds_def is_success_def Let_def)
  let ?h = "healthy_endpoints (validate_all demo_env demo_endpoints) demo_endpoints"
  let ?t = "remote_row demo_env demo_offer 3 (legacy_url ?h) ?h"
  obtain row d where ins: "transfers_insert demo_dbe ?t (after_swapped_nonce demo_offer (demo_db [])) = (Inr row, d)"
    using transfers_insert_fresh [of ?t "after_swapped_nonce demo_offer (demo_db [])" demo_dbe] by auto
  have "create_via_endpoints demo_env demo_offer (AgentId (ct_sender_agent_id demo_offer)) demo_endpoints (demo_state [])
      = (Inr (201, row_to_response row), snd (count_created (classify_recipient (ct_recipient demo_offer)) ((demo_state [])\<lparr>db := d\<rparr>)))"
    unfolding create_via_endpoints_Inr_iff
    using demo_intent_authentic [of "[]" "[]" None 3] ins healthy offer(2)
    by (simp add: remote_queries_ok_def demo_endpoints_def) (simp add: demo_offer_def)
  then show ?thesis
    using adm create_transfer_Inr_iff [of demo_env demo_offer "demo_state []"]
    by (fastforce simp: demo_offer_def)
qed

theorem endpoints_validated_witness:
  "\<exists>resp s' row. create_transfer demo_env demo_offer (demo_state []) = (Inr resp, s') \<and> transfers (db s') = [row]
     \<and> tr_reachable_at row \<noteq> []"
proof -
  obtain resp s' where r: "create_transfer demo_env demo_offer (demo_state []) = (Inr resp, s')" using demo_offers by blast
  from endpoints_validated [OF r, of demo_endpoints] r show ?thesis by (auto simp: demo_offer_def)
qed

section \<open>Download, acknowledgement, tickets\<close>

text \<open>
  C3: A download is answered only to the recipient of the transfer, on a receipt signed by one of its
  valid keys for this very transfer and this action, and only while the transfer waits; the answer
  holds the bytes of the blob store and the hash of the row, and the transfer is then accepted.
\<close>

theorem download_authorised:
  assumes "download_transfer E tid req s = (Inr resp, s')"
  shows "\<exists>row bs b. row_of (db s) tid = Some row \<and> tr_recipient row = rq_recipient_agent_id req
    \<and> receipt_authentic E (db s) tid req ''download'' \<and> tr_state row \<in> set inbox_states
    \<and> blob_get E tid (blobs s) = (Inr bs, b) \<and> dl_blob_hex resp = hex_enc (plat E) bs
    \<and> dl_blob_sha256 resp = (case tr_blob_sha256 row of Some h \<Rightarrow> h | None \<Rightarrow> [])
    \<and> db s' = snd (mark_accepted (dbe E) tid (db s))"
  using download_Inr [OF assms] by auto

theorem download_authorised_witness:
  "\<exists>resp s'. download_transfer demo_env ''tx_0'' (demo_receipt ''tx_0'' ''download'') demo_waiting = (Inr resp, s')
     \<and> dl_blob_hex resp = hex_encode demo_blob \<and> dl_blob_sha256 resp = demo_hash"
proof -
  obtain resp s' where r: "download_transfer demo_env ''tx_0'' (demo_receipt ''tx_0'' ''download'') demo_waiting = (Inr resp, s')"
    using demo_downloads by blast
  from download_authorised [OF r] r show ?thesis
    by (auto simp: row_of_def MemoryBlobStore_get_def bindS_def)
qed

text \<open>
  C4: An acknowledgement succeeds only for the recipient, on a receipt signed for this transfer and
  this action, while the transfer waits.  It marks this transfer, and no other row, as delivered at the
  time of the database, has the blob store delete the blob, and writes the delivery as one more row of
  the audit file; its answer says delivered and carries the new head of the log, the hash of this
  delivery event chained to the head before.
\<close>

theorem acknowledgement_effect:
  assumes "ack_transfer E tid req s = (Inr resp, s')" "db_wf (db s)"
    and "audit_append E = FileAuditLog_append P print_row io"
  shows "\<exists>row b line. row_of (db s) tid = Some row \<and> tr_recipient row = rq_recipient_agent_id req
    \<and> receipt_authentic E (db s) tid req ''ack'' \<and> tr_state row \<in> {''ready_for_pickup'', ''accepted''}
    \<and> db s' = (db s)\<lparr>transfers := map (\<lambda>r. if tr_transfer_id r = tid
        then r\<lparr>tr_state := ''delivered'', tr_delivered_at := Some (db_now (dbe E))\<rparr> else r) (transfers (db s))\<rparr>
    \<and> blobs s' = snd (blob_delete E tid (blobs s))
    \<and> canonical_bytes P \<lparr>ev_kind = TransferDelivered, actor = rq_recipient_agent_id req, subject = tid,
        payload = JObject [(''nonce'', JString (rq_nonce req))]\<rparr> (audit_now E 0) (fl_head (audit s)) = Inr b
    \<and> resp = \<lparr>ack_transfer_id = tid, ack_state = ''delivered'', ack_audit_chain_head = hex_enc P (sha256 P b)\<rparr>
    \<and> print_row \<lparr>se_position = fl_len (audit s), se_event_id = ''evt_'' @ audit_uuid E 0, se_timestamp = audit_now E 0,
        se_prev_hash = fl_head (audit s), se_this_hash = hex_enc P (sha256 P b),
        se_event = \<lparr>ev_kind = TransferDelivered, actor = rq_recipient_agent_id req, subject = tid,
          payload = JObject [(''nonce'', JString (rq_nonce req))]\<rparr>\<rparr> = Inr line
    \<and> audit s' = \<lparr>fl_file = fl_file (audit s) @ line @ [LF], fl_head = ack_audit_chain_head resp, fl_len = fl_len (audit s) + 1\<rparr>"
proof -
  obtain row where r: "row_of (db s) tid = Some row" "tr_state row \<in> set inbox_states" using ack_open [OF assms(1,2)] .
  from ack_Inr [OF assms(1)] r(1) obtain receipt where
    a: "tr_recipient row = rq_recipient_agent_id req" "receipt_authentic E (db s) tid req ''ack''"
      "blobs s' = snd (blob_delete E tid (blobs s))"
      "resp = \<lparr>ack_transfer_id = tid, ack_state = ''delivered'', ack_audit_chain_head = er_chain_head receipt\<rparr>"
    and app: "FileAuditLog_append P print_row io (audit_now E 0) (audit_uuid E 0) (mk_event TransferDelivered (rq_recipient_agent_id req) tid
         (JObject [(''nonce'', JString (rq_nonce req))])) (audit s) = (Inr receipt, audit s')"
    unfolding assms(3) by auto
  show ?thesis
    using FileAuditLog_append_Inr [OF app] a r ack_delivers [OF assms(1,2)]
    by (intro exI [of _ row]) (auto simp: mk_event_def inbox_states_def)
qed

text \<open>The same agents and transfer with an audit file.\<close>

definition demo_ledger_env :: "(FileAuditLog, MemoryBlobStore) env" where
  "demo_ledger_env = \<lparr>plat = demo_platform, clock = (\<lambda>_. demo_time), db_fault_at = (\<lambda>_. NoFault), dbe = demo_dbe,
     policy_evaluate = TierPolicy_evaluate (for_tier Dev), scanners = [], scan_millis = 0,
     audit_append = FileAuditLog_append demo_platform (\<lambda>_. Inr ''row'') None, audit_now = (\<lambda>_. demo_time), audit_uuid = (\<lambda>_. ''a''),
     blob_put = MemoryBlobStore_put, blob_get = MemoryBlobStore_get, blob_delete = MemoryBlobStore_delete,
     uuid_simple = ''u1'', random16 = replicate 16 7, signer = None, skip_tunnel_validation = True, http_client_error = None,
     http_get = (\<lambda>_ _. HttpStatus 200 ''200 OK''), probe_late = (\<lambda>_. False), probe_timed_out = (\<lambda>_. False),
     probe_millis = (\<lambda>_. 0)\<rparr>"

definition demo_ledger :: "(FileAuditLog, MemoryBlobStore) app_state" where
  "demo_ledger = \<lparr>db = demo_db [demo_row (Some demo_hash) None], audit = \<lparr>fl_file = [], fl_head = GENESIS_HEAD, fl_len = 0\<rparr>,
     blobs = [''tx_0'' \<mapsto> demo_blob], metrics_of = Metrics_new\<rparr>"

lemma demo_ledger_acks:
  "\<exists>resp s'. ack_transfer demo_ledger_env ''tx_0'' (demo_receipt ''tx_0'' ''ack'') demo_ledger = (Inr resp, s')"
proof -
  let ?ev = "mk_event TransferDelivered bob ''tx_0'' (JObject [(''nonce'', JString demo_nonce)])"
  have "receipt_authentic demo_ledger_env (demo_db rows) ''tx_0'' (demo_receipt ''tx_0'' ''ack'') ''ack''" for rows
    using demo_receipt_authentic [of "''ack''" rows]
    by (simp add: receipt_authentic_def now_unix_def demo_ledger_env_def)
  moreover have "\<exists>r l. FileAuditLog_append demo_platform (\<lambda>_. Inr ''row'') None demo_time ''a'' ?ev \<lparr>fl_file = [], fl_head = GENESIS_HEAD, fl_len = 0\<rparr> = (Inr r, l)"
    by (simp add: FileAuditLog_append_cases compute_hash_def canonical_bytes_def mk_event_def demo_platform_def Let_def ensure_def
        split: sum.splits)
  ultimately show ?thesis
    using ack_succeeds [of demo_ledger_env demo_ledger "''tx_0''" "demo_row (Some demo_hash) None" "demo_receipt ''tx_0'' ''ack''"]
    by (auto simp: row_of_def inbox_states_def demo_ledger_def) (auto simp: demo_ledger_env_def)
qed

theorem acknowledgement_effect_witness:
  "\<exists>resp s'. ack_transfer demo_ledger_env ''tx_0'' (demo_receipt ''tx_0'' ''ack'') demo_ledger = (Inr resp, s')
     \<and> map tr_state (transfers (db s')) = [''delivered''] \<and> blobs s' ''tx_0'' = None
     \<and> fl_file (audit s') = ''row'' @ [LF] \<and> fl_head (audit s') = ack_audit_chain_head resp"
proof -
  obtain resp s' where r: "ack_transfer demo_ledger_env ''tx_0'' (demo_receipt ''tx_0'' ''ack'') demo_ledger = (Inr resp, s')"
    using demo_ledger_acks by blast
  have wf: "db_wf (db demo_ledger)" using demo_wf(2) by (simp add: demo_ledger_def)
  have "audit_append demo_ledger_env = FileAuditLog_append demo_platform (\<lambda>_. Inr ''row'') None"
    "blob_delete demo_ledger_env = MemoryBlobStore_delete" by (simp_all add: demo_ledger_env_def)
  from acknowledgement_effect [OF r wf this(1)] this(2) r show ?thesis
    by (auto simp: MemoryBlobStore_delete_def demo_ledger_def)
qed

text \<open>
  C5: A data-plane ticket is issued only to the recipient of a ready transfer with a tunnel, on a
  signed request; it names exactly this transfer, recipient and data plane, expires 60 seconds
  later, carries a nonce that no earlier ticket has, and is signed by the control plane.
\<close>

theorem ticket_authorised:
  assumes "issue_ticket E tid req s = (Inr t, s')"
  shows "\<exists>row sign canon. signer E = Some sign \<and> row_of (db s) tid = Some row
    \<and> tr_recipient row = rq_recipient_agent_id req \<and> tr_state row = ''ready_for_pickup''
    \<and> tr_tunnel_url row = Some (tk_data_plane_url t) \<and> receipt_authentic E (db s) tid req ''request_ticket''
    \<and> tk_transfer_id t = tid \<and> tk_recipient t = rq_recipient_agent_id req \<and> tk_expires t = now_unix E + 60
    \<and> tk_nonce t \<notin> fst ` set (data_plane_ticket_nonces (db s))
    \<and> tk_nonce t \<in> fst ` set (data_plane_ticket_nonces (db s'))
    \<and> data_ticket_bytes (tk_transfer_id t) (tk_recipient t) (tk_data_plane_url t) (tk_expires t) (tk_nonce t) = Inr canon
    \<and> tk_signature t = hex_enc (plat E) (sign canon)"
proof -
  from issue_ticket_Inr [OF assms] obtain row sign canon dp where
    i: "insert_ticket_nonce (hex_enc (plat E) (random16 E)) tid (now_unix E + 60) (db s) = (Inr (), db s')"
    and t: "t = \<lparr>tk_transfer_id = tid, tk_recipient = rq_recipient_agent_id req, tk_data_plane_url = dp,
        tk_expires = now_unix E + 60, tk_nonce = hex_enc (plat E) (random16 E),
        tk_signature = hex_enc (plat E) (sign canon)\<rparr>"
    and rest: "signer E = Some sign" "row_of (db s) tid = Some row"
    "tr_recipient row = rq_recipient_agent_id req" "tr_state row = ''ready_for_pickup''"
    "tr_tunnel_url row = Some dp" "receipt_authentic E (db s) tid req ''request_ticket''"
    "data_ticket_bytes tid (rq_recipient_agent_id req) dp (now_unix E + 60) (hex_enc (plat E) (random16 E)) = Inr canon"
    by blast
  have "hex_enc (plat E) (random16 E) \<notin> fst ` set (data_plane_ticket_nonces (db s))"
    "hex_enc (plat E) (random16 E) \<in> fst ` set (data_plane_ticket_nonces (db s'))"
    using i by (auto simp: insert_ticket_nonce_def list_ex_iff image_iff split: if_splits dest: sym)
  then show ?thesis using rest unfolding t
    by (intro exI [of _ row] exI [of _ sign] exI [of _ canon]) simp
qed

theorem ticket_authorised_witness:
  "\<exists>t s'. issue_ticket demo_env ''tx_0'' (demo_receipt ''tx_0'' ''request_ticket'') demo_tunnelled = (Inr t, s')
     \<and> tk_data_plane_url t = ''https://t''"
proof -
  obtain t s' where r: "issue_ticket demo_env ''tx_0'' (demo_receipt ''tx_0'' ''request_ticket'') demo_tunnelled = (Inr t, s')"
    using demo_tickets by blast
  from ticket_authorised [OF r] r show ?thesis by (auto simp: row_of_def)
qed

section \<open>Inbox and health monitor\<close>

text \<open>
  C23: The inbox is shown exactly on a signed request of the agent; it lists, newest first, at most 100
  transfers, all addressed to this agent and waiting, and every waiting transfer if they are at most
  100; it changes nothing.
\<close>

theorem inbox_exact:
  assumes "db_fault_at E ''valid_public_keys_at'' = NoFault" "db_fault_at E ''list_inbox'' = NoFault"
  shows "(\<exists>resp. list_inbox E req s = (Inr resp, s)
      \<and> ir_count resp = length (ir_entries resp) \<and> length (ir_entries resp) \<le> 100
      \<and> (\<exists>rows. ir_entries resp = map inbox_entry rows \<and> set rows \<subseteq> set (waiting_for (ib_recipient_agent_id req) (db s))
          \<and> sorted_wrt (\<lambda>a b. tr_created_at a \<ge> tr_created_at b) rows
          \<and> (length (waiting_for (ib_recipient_agent_id req) (db s)) \<le> 100 \<longrightarrow>
               set rows = set (waiting_for (ib_recipient_agent_id req) (db s)))))
    \<longleftrightarrow> receipt_authentic E (db s) ''inbox'' (inbox_receipt req) ''inbox''"
proof
  let ?w = "waiting_for (ib_recipient_agent_id req) (db s)"
  let ?rows = "take 100 (sort_key (\<lambda>r. - tr_created_at r) ?w)"
  let ?resp = "\<lparr>ir_agent_id = ib_recipient_agent_id req, ir_count = length ?rows, ir_entries = map inbox_entry ?rows\<rparr>"
  assume "receipt_authentic E (db s) ''inbox'' (inbox_receipt req) ''inbox''"
  then have "list_inbox E req s = (Inr ?resp, s)"
    using assms by (simp add: list_inbox_Inr_iff Let_def)
  moreover have "set ?rows \<subseteq> set ?w" by (metis set_sort set_take_subset)
  moreover have "length ?w \<le> 100 \<longrightarrow> set ?rows = set ?w" by simp
  ultimately show "\<exists>resp. list_inbox E req s = (Inr resp, s) \<and> ir_count resp = length (ir_entries resp)
      \<and> length (ir_entries resp) \<le> 100
      \<and> (\<exists>rows. ir_entries resp = map inbox_entry rows \<and> set rows \<subseteq> set ?w
          \<and> sorted_wrt (\<lambda>a b. tr_created_at a \<ge> tr_created_at b) rows
          \<and> (length ?w \<le> 100 \<longrightarrow> set rows = set ?w))"
    using sorted_newest_first by (intro exI [of _ ?resp] conjI exI [of _ ?rows]) simp_all
qed (auto simp: list_inbox_Inr_iff)

definition demo_inbox :: InboxRequest where
  "demo_inbox = \<lparr>ib_recipient_agent_id = bob, ib_nonce = demo_nonce, ib_issued_at = 1000,
     ib_signature_hex = signed bob_pk (transfer_receipt_bytes bob ''inbox'' ''inbox'' demo_nonce 1000)\<rparr>"

theorem inbox_exact_witness:
  "\<exists>resp rows. list_inbox demo_env demo_inbox demo_waiting = (Inr resp, demo_waiting)
     \<and> ir_entries resp = map inbox_entry rows \<and> set rows = {demo_row (Some demo_hash) None}"
proof -
  have "ascii_line ''inbox''" by code_simp
  then have "\<exists>c. transfer_receipt_bytes bob ''inbox'' ''inbox'' demo_nonce 1000 = Inr c"
    by (simp add: transfer_receipt_bytes_def step_iffs receipt_actions_def)
  then have "receipt_authentic demo_env (db demo_waiting) ''inbox'' (inbox_receipt demo_inbox) ''inbox''"
    by (auto simp: receipt_authentic_def inbox_receipt_def demo_inbox_def)
  moreover have "waiting_for (ib_recipient_agent_id demo_inbox) (db demo_waiting) = [demo_row (Some demo_hash) None]"
    by (simp add: waiting_for_def demo_inbox_def inbox_states_def)
  ultimately show ?thesis
    using inbox_exact [of demo_env demo_inbox demo_waiting] by auto
qed

text \<open>
  C24: A pass of the health monitor that succeeds takes at most 500 ready transfers with endpoints, oldest
  first, and leaves one out only if there are 500 that are no younger.  It asks the prober about every
  endpoint of these transfers, once each and in order; the answer to the question about an endpoint
  moves its health one debouncer step, by success or by failure, and a first answer finds it healthy.
  Nothing else changes in the state but the counters, which count these transfers and these answers.
\<close>

theorem health_pass_effect:
  assumes "tick M s = (Inr n, s')" "db_wf (db s)"
  shows "\<exists>sel m. oldest_first 500 (\<lambda>r. tr_state r = ''ready_for_pickup'' \<and> tr_reachable_at r \<noteq> []) (transfers (db s)) sel
    \<and> n = length sel
    \<and> s' = s\<lparr>db := (db s)\<lparr>transfers := map (after_pass M sel) (transfers (db s))\<rparr>, metrics_of := m\<rparr>
    \<and> (if mon_metrics M then in_flight_transfers m = int n
         \<and> health_probes_total m ''success'' = health_probes_total (metrics_of s) ''success''
             + count_list (answers M 0 (concat (map tr_reachable_at sel))) ProbeSuccess
         \<and> health_probes_total m ''failure'' = health_probes_total (metrics_of s) ''failure''
             + count_list (answers M 0 (concat (map tr_reachable_at sel))) ProbeFailure
       else m = metrics_of s)"
proof -
  have "distinct (map tr_transfer_id (transfers (db s)))" using assms(2) by (simp add: db_wf_def)
  from tick_Inr [OF assms(1) this] obtain sel m where
    t: "oldest_first 500 (\<lambda>r. tr_state r = ''ready_for_pickup'' \<and> tr_reachable_at r \<noteq> []) (transfers (db s)) sel" "n = length sel"
      "s' = s\<lparr>db := (db s)\<lparr>transfers := map (after_pass M sel) (transfers (db s))\<rparr>, metrics_of := m\<rparr>"
    and c: "probes_counted M (answers M 0 (concat (map tr_reachable_at sel)))
        (if mon_metrics M then (metrics_of s)\<lparr>in_flight_transfers := int n\<rparr> else metrics_of s) m" by blast
  from c show ?thesis
    by (intro exI [of _ sel] exI [of _ m] conjI t) (cases "mon_metrics M", simp_all add: probes_counted_def)
qed

definition demo_monitor :: monitor where
  "demo_monitor = \<lparr>mon_probe = (\<lambda>_ _. ProbeFailure), mon_now_unix = 1000, mon_metrics = True,
     mon_load_fault = NoFault, mon_persist_fault = (\<lambda>_. NoFault)\<rparr>"

definition demo_flight :: TransferRow where
  "demo_flight = (demo_row None None)\<lparr>tr_reachable_at := [cloudflare_quick ''https://t'']\<rparr>"

theorem health_pass_effect_witness:
  "\<exists>s'. tick demo_monitor (demo_state [demo_flight]) = (Inr 1, s')
     \<and> transfers (db s') = [demo_flight\<lparr>tr_reachable_at := [(cloudflare_quick ''https://t'')\<lparr>health :=
         Some (on_probe_failure (fresh_healthy 1000) 1000)\<rparr>]\<rparr>]
     \<and> health_probes_total (metrics_of s') ''failure'' = 1"
proof -
  have wf: "db_wf (db (demo_state [demo_flight]))"
    using demo_wf(2) by (simp add: db_wf_def demo_db_def demo_flight_def)
  have "\<exists>s'. tick demo_monitor (demo_state [demo_flight]) = (Inr 1, s')"
    by (simp add: tick_def demo_monitor_def on_db_def load_in_flight_transfers_def bindS_def demo_flight_def demo_row_def
        persist_reachable_at_def update_where_def Let_def)
  then obtain s' where r: "tick demo_monitor (demo_state [demo_flight]) = (Inr 1, s')" by blast
  from health_pass_effect [OF r wf] obtain sel m where
    old: "oldest_first 500 (\<lambda>r. tr_state r = ''ready_for_pickup'' \<and> tr_reachable_at r \<noteq> []) [demo_flight] sel" "length sel = 1"
    and s': "s' = (demo_state [demo_flight])\<lparr>db := (demo_db [demo_flight])\<lparr>transfers := [after_pass demo_monitor sel demo_flight]\<rparr>, metrics_of := m\<rparr>"
      "health_probes_total m ''failure'' = count_list (answers demo_monitor 0 (concat (map tr_reachable_at sel))) ProbeFailure"
    by (auto simp: demo_monitor_def demo_state_def Metrics_new_def)
  from old have sel: "sel = [demo_flight]" by (cases sel) (auto simp: oldest_first_def)
  have "health (cloudflare_quick u) = None" for u by (simp add: cloudflare_quick_def)
  then have "after_pass demo_monitor sel demo_flight = demo_flight\<lparr>tr_reachable_at := [(cloudflare_quick ''https://t'')\<lparr>health :=
         Some (on_probe_failure (fresh_healthy 1000) 1000)\<rparr>]\<rparr>"
    by (simp add: sel after_pass_def probes_before_def demo_flight_def after_probe_def demo_monitor_def)
  moreover have "health_probes_total m ''failure'' = 1"
    using s'(2) by (simp add: sel demo_flight_def demo_monitor_def)
  ultimately show ?thesis using r s'(1) by simp
qed

end
