(* ===== verification/OperationProperties.thy ===== *)
theory OperationProperties
  imports ControlPlaneHost Routes CommandLines CoreProperties TransferProperties
begin

text \<open>
  The properties of the control plane as a program: its restart, its health loop, and its routes.
\<close>

section \<open>Restart\<close>

text \<open>
  C22: A control plane that starts again, with the same environment and undisturbed files, after any
  events were logged, comes up with the same signing key and with exactly the audit log that was
  left, which verifies, and changes nothing on the disk.  Relies on the row format of the audit file:
  a printed row is one line that parses back.
\<close>

theorem control_plane_restarts:
  assumes "start_control_plane W d = (Inr srv, d1)" "length (cw_fresh_key W) = 32"
    and "with_extension_tmp (cfg_signing_key_path (sv_config srv)) \<noteq> cfg_signing_key_path (sv_config srv)"
    and "file_inv (cw_platform W) (cw_parse_row W) print_row (sv_audit srv)"
    and "l = flog.run (cw_platform W) print_row events (sv_audit srv)"
    and "cw_var W' = cw_var W" "cw_parse_addr W' = cw_parse_addr W" "cw_platform W' = cw_platform W" "cw_parse_row W' = cw_parse_row W"
    and "surroundings_ok W' (sv_config srv)" "cw_key_dir_fault W' = None" "cw_key_read_fault W' = None"
    and "dk_files d2 (cfg_signing_key_path (sv_config srv)) = dk_files d1 (cfg_signing_key_path (sv_config srv))"
    and "dk_audit d2 = Some (fl_file l)"
  shows "\<exists>srv'. start_control_plane W' d2 = (Inr srv', d2) \<and> sv_config srv' = sv_config srv
    \<and> sv_signer srv' = sv_signer srv \<and> sv_audit srv' = l
    \<and> FileAuditLog_verify_chain (cw_platform W') (cw_parse_row W') (sv_audit srv') = Inr ()"
proof -
  have inv: "file_inv (cw_platform W') (cw_parse_row W') print_row l"
    unfolding assms(5,8,9) using assms(4) by (rule flog.run_inv)
  from restart [OF assms(1-3,6,7,10-14) inv] flog.inv_verifies [OF inv] show ?thesis by auto
qed

definition demo_cp_world :: cp_world where
  "demo_cp_world = \<lparr>cw_var = [''DATABASE_URL'' \<mapsto> ''db''], cw_parse_addr = Inr, cw_connect = (\<lambda>_. Inr ()), cw_migrate = Inr (),
     cw_platform = demo_platform, cw_parse_row = demo_parse_row, cw_audit_fault = None, cw_blob_dir_fault = None,
     cw_key_dir_fault = None, cw_key_read_fault = None, cw_key_persist = PersistOk, cw_fresh_key = replicate 32 5,
     cw_client = Inr (), cw_bare_client = Inr (), cw_bind = (\<lambda>_. Inr ()), cw_set_matches = (\<lambda>_. [])\<rparr>"

definition demo_disk :: disk where
  "demo_disk = \<lparr>dk_files = (\<lambda>_. None), dk_audit = None\<rparr>"

lemma demo_key_path: "with_extension_tmp DEFAULT_SIGNING_KEY_PATH \<noteq> DEFAULT_SIGNING_KEY_PATH"
  by code_simp

lemma demo_cp_starts:
  "\<exists>srv. start_control_plane demo_cp_world demo_disk
      = (Inr srv, \<lparr>dk_files = [DEFAULT_SIGNING_KEY_PATH \<mapsto> replicate 32 5], dk_audit = Some []\<rparr>)
    \<and> cfg_signing_key_path (sv_config srv) = DEFAULT_SIGNING_KEY_PATH \<and> surroundings_ok demo_cp_world (sv_config srv)
    \<and> sv_audit srv = \<lparr>fl_file = [], fl_head = GENESIS_HEAD, fl_len = 0\<rparr> \<and> cs_key (sv_signer srv) = replicate 32 5"
proof -
  have "FileAuditLog_open demo_platform demo_parse_row None = Inr \<lparr>fl_file = [], fl_head = GENESIS_HEAD, fl_len = 0\<rparr>"
    using file_inv_open_empty [OF demo_row_laws] by blast
  then show ?thesis
    using demo_key_path
    by (auto simp: start_control_plane_Inr surroundings_ok_def token_sliceable_def demo_cp_world_def demo_disk_def Config_from_env_def
        config_max_transfer_bytes_def config_admin_token_def unwrap_or_def load_or_generate_def persist_def Let_def step_iffs
        simp del: for_tier.simps)
qed

theorem control_plane_restarts_witness:
  "\<exists>d2 srv'. dk_audit d2 = Some (''row'' @ [LF]) \<and> start_control_plane demo_cp_world d2 = (Inr srv', d2)
     \<and> sv_audit srv' = demo_file_log \<and> cs_key (sv_signer srv') = replicate 32 5"
proof -
  obtain srv where srv: "start_control_plane demo_cp_world demo_disk
      = (Inr srv, \<lparr>dk_files = [DEFAULT_SIGNING_KEY_PATH \<mapsto> replicate 32 5], dk_audit = Some []\<rparr>)"
    "cfg_signing_key_path (sv_config srv) = DEFAULT_SIGNING_KEY_PATH" "surroundings_ok demo_cp_world (sv_config srv)"
    "sv_audit srv = \<lparr>fl_file = [], fl_head = GENESIS_HEAD, fl_len = 0\<rparr>" "cs_key (sv_signer srv) = replicate 32 5"
    using demo_cp_starts by blast
  let ?d = "\<lparr>dk_files = [DEFAULT_SIGNING_KEY_PATH \<mapsto> replicate 32 5], dk_audit = Some (''row'' @ [LF])\<rparr> :: disk"
  have inv: "file_inv (cw_platform demo_cp_world) (cw_parse_row demo_cp_world) demo_print_row (sv_audit srv)"
    using file_inv_open_empty [OF demo_row_laws] srv(4) by (simp add: demo_cp_world_def)
  have l: "demo_file_log = flog.run (cw_platform demo_cp_world) demo_print_row [(demo_time, ''a'', demo_event)] (sv_audit srv)"
    unfolding demo_file_log_def srv(4) by (simp add: demo_cp_world_def)
  have "\<exists>srv'. start_control_plane demo_cp_world ?d = (Inr srv', ?d) \<and> sv_config srv' = sv_config srv
    \<and> sv_signer srv' = sv_signer srv \<and> sv_audit srv' = demo_file_log
    \<and> FileAuditLog_verify_chain (cw_platform demo_cp_world) (cw_parse_row demo_cp_world) (sv_audit srv') = Inr ()"
    by (rule control_plane_restarts [OF srv(1) _ _ inv l])
      (use demo_key_path srv in \<open>simp_all add: demo_file_written, simp_all add: demo_cp_world_def\<close>)
  then show ?thesis using srv(5) by (intro exI [of _ ?d]) auto
qed

section \<open>The health loop\<close>

text \<open>
  C25: Once shutdown is called, the health monitor stops: no pass begins after the call, the loop ends
  with the pass the call met, or at the call if it met the pause, without the further pass that the
  documentation of \<open>shutdown\<close> announces, whatever the passes meet and however long they take.  The
  passes run one after another, keep the schema, and change transfers only as the life cycle allows.
\<close>

theorem monitor_stops:
  assumes "le_handle L = ShutdownCalled c" "db_wf (db s)"
  shows "\<exists>begun finished s'. monitor_run L 0 0 s = Some (begun, finished, s')
    \<and> sorted_wrt (<) begun \<and> list_all (\<lambda>b. b \<le> c) begun
    \<and> finished = max (last begun + le_duration L (length begun - 1)) c
    \<and> db_wf (db s') \<and> transfers_evolve (db s) (db s')"
proof -
  obtain begun finished s' where run: "monitor_run L 0 0 s = Some (begun, finished, s')" "stops_at L 0 c begun finished"
    using monitor_run_stops [OF assms(1), of 0 0 s] by blast
  have "db_wf (db s')"
    by (rule monitor_run_keeps [OF tick_keeps_db [OF keeps_wf_persist] run(1) assms(2)])
  moreover have "transfers_evolve (db s) (db s')"
    by (rule monitor_run_keeps [OF tick_keeps_db [OF keeps_evolve_persist] run(1) transfers_evolve_same]) (rule refl)
  ultimately show ?thesis using run by (auto simp: stops_at_def)
qed

definition demo_loop :: loop_env where
  "demo_loop = \<lparr>le_monitor = (\<lambda>_. demo_monitor), le_duration = (\<lambda>_. 2), le_handle = ShutdownCalled 45\<rparr>"

theorem monitor_stops_witness:
  "\<exists>begun finished s'. monitor_run demo_loop 0 0 (demo_state [demo_flight]) = Some (begun, finished, s')
     \<and> list_all (\<lambda>b. b \<le> 45) begun \<and> 45 \<le> finished \<and> transfers_evolve (demo_db [demo_flight]) (db s')"
proof -
  have "db_wf (db (demo_state [demo_flight]))"
    using demo_wf(2) by (simp add: db_wf_def demo_db_def demo_flight_def)
  from monitor_stops [OF _ this, of demo_loop 45] show ?thesis by (auto simp: demo_loop_def)
qed

section \<open>Routes\<close>

text \<open>
  With a web framework that keeps its contract: in whatever order the routers are merged, a request
  reaches the same endpoint; exactly the administration endpoints are behind the gate; and every
  agent identifier can be looked up.
\<close>

theorem routes_sound:
  assumes "web_router route_request" "mset rs = mset public_routes"
  shows "route_request rs verb path = route_request public_routes verb path
    \<and> (route_request rs verb path = Reached e caps g \<longrightarrow> (g \<longleftrightarrow> e \<in> {WhoAmI, CreateApiKey, ListApiKeys, RevokeApiKey}))
    \<and> (valid_agent_id a \<longrightarrow> route_request rs ''GET'' (''v1'' # ''agents'' # split_char (CHR ''/'') a) = Reached GetAgent [a] False)"
proof -
  have "mset (map ro_path rs) = mset (map ro_path public_routes)" using assms(2) by simp
  then have d: "distinct (map ro_path rs)" using public_routes_distinct mset_eq_imp_distinct_iff by metis
  have "route_request rs = dispatch public_routes"
    using web_router.route_request_dispatch [OF assms(1) d] dispatch_order [OF public_routes_distinct assms(2) [symmetric]]
    by (intro ext) simp
  then show ?thesis
    using web_router.route_request_dispatch [OF assms(1) public_routes_distinct] dispatch_gate [of verb path e caps g]
      agent_lookup_reached [of a] by (auto simp: admin_endpoints_def)
qed

end
