(* ===== verification/MetricsText.thy ===== *)
theory MetricsText
  imports System Deployment TextOps
begin

text \<open>
  The metrics of the control plane as they are published (\<open>metrics.rs\<close>, \<open>routes/metrics.rs\<close>): the
  nine series that \<open>Metrics::new\<close> creates and registers, the text that \<open>render\<close> answers, and which
  labels the handlers ever count.  Creation of a series, the registry and the text encoder belong to
  the crate \<open>prometheus\<close>: they are arguments, and \<open>prometheus_ok\<close> states what is documented of them.
\<close>

section \<open>The series\<close>

text \<open>The bounds of a histogram are given in seconds with at most three decimals; here they are thousandths.\<close>

datatype series_kind = IntCounter | IntGauge | IntCounterVec "string list" | HistogramVec "nat list" "string list"

record series =
  sr_name :: string
  sr_help :: string
  sr_kind :: series_kind

definition metric :: "string \<Rightarrow> string \<Rightarrow> series_kind \<Rightarrow> series" where
  "metric n h k = \<lparr>sr_name = ''aex_'' @ n, sr_help = h, sr_kind = k\<rparr>"

definition METRIC_SERIES :: "series list" where
  "METRIC_SERIES =
     [metric ''agents_registered_total'' ''Number of POST /v1/agents/register calls that produced a new agent row.'' IntCounter,
      metric ''agents_key_rotated_total'' ''Successful POST /v1/agents/rotate-key calls (ADR-0024).'' IntCounter,
      metric ''transfers_created_total'' ''Successful POST /v1/transfers calls. Labelled by recipient_kind.''
        (IntCounterVec [''recipient_kind'']),
      metric ''transfers_delivered_total'' (''Transfers moved to the '' @ BACKQUOTE @ ''delivered'' @ BACKQUOTE @ '' state by a recipient ack.'')
        IntCounter,
      metric ''transfers_rejected_total''
        ''Rejected transfers, labelled by reason (scanner, policy, nonce_replay, endpoint_unreachable).'' (IntCounterVec [''reason'']),
      metric ''health_probes_total'' ''Endpoint probes performed by the background health monitor, labelled by outcome.''
        (IntCounterVec [''outcome'']),
      metric ''health_transitions_total''
        (''Endpoint health transitions (to_healthy / to_unhealthy) '' @ EM_DASH @ '' counts the asymmetric debouncer flipping (ADR-0021).'')
        (IntCounterVec [''direction'']),
      metric ''in_flight_transfers''
        (''Transfers currently in state '' @ BACKQUOTE @ ''ready_for_pickup'' @ BACKQUOTE @ ''. Refreshed each health-monitor tick.'') IntGauge,
      metric ''endpoint_probe_duration_seconds'' ''Latency of an endpoint reachability probe, labelled by transport kind.''
        (HistogramVec [10, 25, 50, 100, 250, 500, 1000, 2500, 5000, 10000] [''kind''])]"

text \<open>Creation and registration, one series after the other; both are unwrapped, so that an error is a panic.\<close>

fun register_series ::
  "(series \<Rightarrow> 'e + 'c) \<Rightarrow> ('c \<Rightarrow> 'r \<Rightarrow> 'e + 'r) \<Rightarrow> series list \<Rightarrow> 'r \<Rightarrow> 'c list \<Rightarrow> ('c list \<times> 'r) option" where
  "register_series create add [] reg made = Some (rev made, reg)"
| "register_series create add (d # ds) reg made =
     (case create d of
        Inl _ \<Rightarrow> None
      | Inr c \<Rightarrow> (case add c reg of
          Inl _ \<Rightarrow> None
        | Inr reg' \<Rightarrow> register_series create add ds reg' (c # made)))"

definition Metrics_register :: "(series \<Rightarrow> 'e + 'c) \<Rightarrow> ('c \<Rightarrow> 'r \<Rightarrow> 'e + 'r) \<Rightarrow> 'r \<Rightarrow> ('c list \<times> 'r) option" where
  "Metrics_register create add empty_registry = register_series create add METRIC_SERIES empty_registry []"

definition Metrics_render :: "('r \<Rightarrow> 'e + bytes) \<Rightarrow> 'r \<Rightarrow> string" where
  "Metrics_render encode registry =
     (case encode registry of
        Inl _ \<Rightarrow> ''# metrics encoding failed'' @ [CHR 0x0A]
      | Inr buf \<Rightarrow> (case from_utf8 buf of Inr t \<Rightarrow> t | Inl _ \<Rightarrow> ''# metrics encoding non-utf8'' @ [CHR 0x0A]))"

definition PROMETHEUS_TEXT_CONTENT_TYPE :: string where
  "PROMETHEUS_TEXT_CONTENT_TYPE = ''text/plain; version=0.0.4; charset=utf-8''"

definition metrics_route :: "('r \<Rightarrow> 'e + bytes) \<Rightarrow> 'r \<Rightarrow> (string \<times> string) list \<times> string" where
  "metrics_route encode registry =
     ([(''content-type'', PROMETHEUS_TEXT_CONTENT_TYPE)], Metrics_render encode registry)"

section \<open>The registration does not panic\<close>

text \<open>
  The documented rules of the crate: a name starts with a letter, an underscore or a colon and goes on with
  these or digits, a label likewise without the colon, and the help is not empty; a registry takes
  every series whose name is not taken.
\<close>

definition name_char :: "char \<Rightarrow> bool" where
  "name_char c \<longleftrightarrow> is_ascii_alphanumeric c \<or> c = CHR ''_'' \<or> c = CHR '':''"

definition valid_name :: "string \<Rightarrow> bool" where
  "valid_name n \<longleftrightarrow> n \<noteq> [] \<and> list_all name_char n \<and> \<not> is_ascii_digit (hd n)"

fun kind_labels :: "series_kind \<Rightarrow> string list" where
  "kind_labels IntCounter = []"
| "kind_labels IntGauge = []"
| "kind_labels (IntCounterVec ls) = ls"
| "kind_labels (HistogramVec bs ls) = ls"

fun kind_buckets :: "series_kind \<Rightarrow> nat list" where
  "kind_buckets (HistogramVec bs ls) = bs"
| "kind_buckets k = []"

definition valid_series :: "series \<Rightarrow> bool" where
  "valid_series d \<longleftrightarrow> valid_name (sr_name d) \<and> sr_help d \<noteq> [] \<and> distinct (kind_labels (sr_kind d))
     \<and> list_all (\<lambda>l. valid_name l \<and> CHR '':'' \<notin> set l) (kind_labels (sr_kind d)) \<and> sorted_wrt (<) (kind_buckets (sr_kind d))"

definition prometheus_ok :: "(series \<Rightarrow> 'e + 'c) \<Rightarrow> ('c \<Rightarrow> 'r \<Rightarrow> 'e + 'r) \<Rightarrow> ('r \<Rightarrow> string set) \<Rightarrow> bool" where
  "prometheus_ok create add taken \<longleftrightarrow>
     (\<forall>d. valid_series d \<longrightarrow> (\<exists>c. create d = Inr c
        \<and> (\<forall>reg. sr_name d \<notin> taken reg \<longrightarrow> (\<exists>reg'. add c reg = Inr reg' \<and> taken reg' = insert (sr_name d) (taken reg)))))"

lemma register_series_Some:
  assumes "prometheus_ok create add taken" "list_all valid_series ds" "distinct (map sr_name ds)"
    and "set (map sr_name ds) \<inter> taken reg = {}"
  shows "\<exists>cs reg'. register_series create add ds reg made = Some (rev made @ cs, reg') \<and> length cs = length ds
    \<and> taken reg' = taken reg \<union> set (map sr_name ds)"
  using assms(2-4)
proof (induction ds arbitrary: reg made)
  case (Cons d ds)
  then have d: "valid_series d" "sr_name d \<notin> taken reg" by auto
  with assms(1) obtain c reg1 where c: "create d = Inr c" "add c reg = Inr reg1" "taken reg1 = insert (sr_name d) (taken reg)"
    unfolding prometheus_ok_def by meson
  from Cons.IH [of reg1 "c # made"] Cons.prems c(3) obtain cs reg' where
    "register_series create add ds reg1 (c # made) = Some (rev (c # made) @ cs, reg')" "length cs = length ds"
    "taken reg' = taken reg1 \<union> set (map sr_name ds)" by auto
  with c show ?case by (intro exI [of _ "c # cs"] exI [of _ reg']) auto
qed simp

lemma metric_series_valid: "list_all valid_series METRIC_SERIES" "distinct (map sr_name METRIC_SERIES)"
  by code_simp+

theorem metrics_registered:
  assumes "prometheus_ok create add taken" "taken empty_registry = {}"
  shows "\<exists>cs reg. Metrics_register create add empty_registry = Some (cs, reg) \<and> length cs = 9
    \<and> taken reg = set (map sr_name METRIC_SERIES)"
proof -
  have "length METRIC_SERIES = 9" by (simp add: METRIC_SERIES_def)
  with register_series_Some [OF assms(1) metric_series_valid, of empty_registry "[]"] assms(2)
  show ?thesis by (auto simp: Metrics_register_def)
qed

text \<open>A registry that keeps the names and refuses a name that it has.\<close>

definition add_name :: "string \<Rightarrow> string list \<Rightarrow> string + string list" where
  "add_name n reg = (if n \<in> set reg then Inl ''Duplicate metrics collector registration attempted'' else Inr (reg @ [n]))"

lemma prometheus_ok_names: "prometheus_ok (\<lambda>d. Inr (sr_name d)) add_name set"
  by (simp add: prometheus_ok_def add_name_def)

lemma metrics_registered_names:
  "Metrics_register (\<lambda>d. Inr (sr_name d) :: string + string) add_name [] = Some (map sr_name METRIC_SERIES, map sr_name METRIC_SERIES)"
  by code_simp

section \<open>The labels that are counted\<close>

text \<open>
  A rejection is only ever counted under \<open>scanner\<close> or \<open>policy\<close>: a replayed nonce and an unreachable
  endpoint are not counted, although the help of the series names them.
\<close>

lemma keeps_rejected_metrics:
  "(\<And>m. transfers_rejected_total (f m) l = transfers_rejected_total m l) \<Longrightarrow>
   keeps (\<lambda>s. transfers_rejected_total (metrics_of s) l = n) (on_metrics f)"
  by (simp add: keeps_def on_metrics_def)

lemma keeps_rejected_count:
  "l \<notin> {''scanner'', ''policy''} \<Longrightarrow> keeps (\<lambda>s. transfers_rejected_total (metrics_of s) l = n)
     (persist_rejected E k t sender req kd sz v pd cd reason)"
  unfolding persist_rejected_def Let_def
  by (intro keeps_rejected_metrics keeps_rules) (simp_all add: inc_label_def)

lemmas rejected_rules = keeps_rejected_count keeps_rejected_metrics keeps_rules

lemma rejected_labels:
  assumes "l \<notin> {''scanner'', ''policy''}"
  shows "keeps (\<lambda>s. transfers_rejected_total (metrics_of s) l = n) (create_transfer E ct)"
    and "keeps (\<lambda>s. transfers_rejected_total (metrics_of s) l = n) (register E rg)"
    and "keeps (\<lambda>s. transfers_rejected_total (metrics_of s) l = n) (rotate_key E rk)"
    and "keeps (\<lambda>s. transfers_rejected_total (metrics_of s) l = n) (download_transfer E tid rq)"
    and "keeps (\<lambda>s. transfers_rejected_total (metrics_of s) l = n) (ack_transfer E tid rq)"
    and "keeps (\<lambda>s. transfers_rejected_total (metrics_of s) l = n) (issue_ticket E tid rq)"
  unfolding create_transfer_def create_via_endpoints_def create_via_tunnel_def create_with_blob_def screen_blob_def
    consume_intent_unchecked_def count_created_def register_def rotate_key_def download_transfer_def ack_transfer_def
    issue_ticket_def Let_def
  by (intro rejected_rules assms; simp)+

lemma probes_rejected: "transfers_rejected_total (snd (probe_endpoints M k eps m)) = transfers_rejected_total m"
  by (induction M k eps m rule: probe_endpoints.induct)
    (auto simp: Let_def count_probe_def count_transition_def split: prod.splits)

lemma tick_rows_rejected:
  fixes l n
  defines "P \<equiv> \<lambda>s :: ('l, 'b) app_state. transfers_rejected_total (metrics_of s) l = n"
  shows "keeps P (tick_rows M k i c rows)"
proof (induction M k i c rows rule: tick_rows.induct)
  case (2 M k i c tid eps rows)
  have rest: "keeps P (bindS (on_db (mon_persist_fault M i) (persist_reachable_at tid eps')) (\<lambda>_.
      tick_rows M (k + length eps) (Suc i) (Suc c) rows))" if "eps \<noteq> []" for eps'
    using 2(2) [OF that] by (intro keeps_rules) (simp_all add: P_def)
  show ?case
  proof (cases "eps = []")
    case False
    show ?thesis
    proof (rule keepsI)
      fix s :: "('l, 'b) app_state" assume "P s"
      moreover obtain eps' m where p: "probe_endpoints M k eps (metrics_of s) = (eps', m)" by fastforce
      ultimately have "P (s\<lparr>metrics_of := m\<rparr>)" using probes_rejected [of M k eps "metrics_of s"] by (simp add: P_def)
      from keepsD [OF rest [OF False] this] show "P (snd (tick_rows M k i c ((tid, eps) # rows) s))"
        using False p by (simp add: bindS_def [of "getS _"] bindS_def [of "modifyS _"])
    qed
  qed (use 2(1) in simp)
qed (simp add: keeps_def)

lemma run_rejected_labels:
  assumes "(cp_step ok)\<^sup>*\<^sup>* s s'" "l \<notin> {''scanner'', ''policy''}"
  shows "transfers_rejected_total (metrics_of s') l = transfers_rejected_total (metrics_of s) l"
  using assms(1)
proof (induction rule: rtranclp_induct)
  case (step t t')
  let ?I = "\<lambda>u. transfers_rejected_total (metrics_of u) l = transfers_rejected_total (metrics_of s) l"
  have tk: "keeps ?I (tick M)" for M
    unfolding tick_def load_in_flight_transfers_def getS_def
    by (intro keeps_rules tick_rows_rejected) (simp_all add: keeps_def)
  note h = rejected_labels [OF assms(2)]
  show ?case
    by (rule cp_step_keeps [where I = ?I, OF step(2) step.IH])
      (rule keepsD [OF tk step.IH] keepsD [OF h(1) step.IH] keepsD [OF h(2) step.IH] keepsD [OF h(3) step.IH]
        keepsD [OF h(4) step.IH] keepsD [OF h(5) step.IH] keepsD [OF h(6) step.IH])+
qed simp

end
