(* ===== verification/HttpService.thy ===== *)
theory HttpService
  imports Routes MetricsText ControlPlaneHost
begin

text \<open>
  The control plane behind its routes: \<open>AppState\<close> with its builders, \<open>build_app_with_cors\<close> with its
  layers (\<open>lib.rs\<close>), and a request from its method and path to the handler, the extractors of the
  handler, the gate of the administration routes, and the answer.  What belongs to the web framework
  and to libraries is the record \<open>framework\<close>: the lookup of a route, what the layers answer on their own,
  the extractors, the text of the metrics, and the operations of the key type.  A request that runs
  into the timeout of the outermost layer, and is dropped half done, is not modelled.
\<close>

section \<open>The application\<close>

definition MAX_UPLOAD_BODY_BYTES :: nat where
  "MAX_UPLOAD_BODY_BYTES = 500 * 1024 * 1024"

datatype app_layer = RequestBodyLimitLayer nat | Cors CorsLayer | TraceLayer | TimeoutLayer nat

text \<open>The layers in the order in which they are added: the last one is the outermost.\<close>

record app =
  ap_routes :: "route list"
  ap_layers :: "app_layer list"

definition build_app_with_cors :: "string list \<Rightarrow> app" where
  "build_app_with_cors origins = \<lparr>ap_routes = public_routes,
     ap_layers = [RequestBodyLimitLayer MAX_UPLOAD_BODY_BYTES, Cors (build_cors_layer origins), TraceLayer, TimeoutLayer 60]\<rparr>"

definition build_app :: app where
  "build_app = build_app_with_cors []"

text \<open>
  The part of \<open>AppState\<close> that no request changes; the database, the audit log, the blob store and the
  counters are the state.  \<open>None\<close> is the system clock.
\<close>

record AppState =
  as_scanner :: "scanner list"
  as_policy :: "PolicyRequest \<Rightarrow> PolicyDecision"
  as_signer :: "ControlPlaneSigner option"
  as_endpoint_validator :: "unit validator"
  as_clock :: "FrozenClock option"
  as_admin_token :: "string option"

text \<open>It panics where the default validator does; \<open>client\<close> and \<open>bare_client\<close> say whether the HTTP clients build.\<close>

definition AppState_new ::
  "string + unit \<Rightarrow> string + unit \<Rightarrow> scanner list \<Rightarrow> (PolicyRequest \<Rightarrow> PolicyDecision) \<Rightarrow> string option + AppState" where
  "AppState_new client bare_client scanner policy =
     bindE (EndpointValidator_with_defaults client bare_client) (\<lambda>v.
     Inr \<lparr>as_scanner = scanner, as_policy = policy, as_signer = None, as_endpoint_validator = v, as_clock = None,
       as_admin_token = None\<rparr>)"

definition with_admin_token :: "string \<Rightarrow> AppState \<Rightarrow> AppState" where
  "with_admin_token token A = A\<lparr>as_admin_token := Some token\<rparr>"

definition with_signer :: "ControlPlaneSigner \<Rightarrow> AppState \<Rightarrow> AppState" where
  "with_signer sg A = A\<lparr>as_signer := Some sg\<rparr>"

definition with_endpoint_validator :: "unit validator \<Rightarrow> AppState \<Rightarrow> AppState" where
  "with_endpoint_validator v A = A\<lparr>as_endpoint_validator := v\<rparr>"

definition with_clock :: "FrozenClock \<Rightarrow> AppState \<Rightarrow> AppState" where
  "with_clock c A = A\<lparr>as_clock := Some c\<rparr>"

section \<open>Requests and answers\<close>

record cp_request =
  hr_method :: string
  hr_path :: "string list"
  hr_header :: "string \<Rightarrow> string option"
  hr_body :: bytes

type_synonym rejection = "nat \<times> string"

record framework =
  route_request :: "route list \<Rightarrow> string \<Rightarrow> string list \<Rightarrow> dispatched"
  layers_answer :: "app_layer list \<Rightarrow> cp_request \<Rightarrow> rejection option"
  path_text :: "string \<Rightarrow> rejection + string"
  path_uuid :: "string \<Rightarrow> rejection + string"
  json_register :: "cp_request \<Rightarrow> rejection + RegisterRequest"
  json_rotate :: "cp_request \<Rightarrow> rejection + RotateKeyRequest"
  json_transfer :: "cp_request \<Rightarrow> rejection + CreateTransferRequest"
  json_receipt :: "cp_request \<Rightarrow> rejection + RecipientReceiptRequest"
  json_inbox :: "cp_request \<Rightarrow> rejection + InboxRequest"
  json_api_key :: "cp_request \<Rightarrow> rejection + CreateApiKeyRequest"
  json_intent_sender :: "cp_request \<Rightarrow> rejection + string"
  encode_metrics :: "metrics \<Rightarrow> string + bytes"
  verifying_key :: "bytes \<Rightarrow> bytes"
  signing :: "bytes \<Rightarrow> bytes \<Rightarrow> bytes"
  system_now :: "i64 option"

datatype cp_reply =
    FrameworkReply nat string
  | ErrorReply nat ErrorBody
  | StatusReply nat
  | HealthReply HealthBody
  | PublicKeyReply PublicKeyBody
  | MetricsReply "(string \<times> string) list" string
  | CardReply nat CardPayload
  | CapabilitiesReply CapabilitiesBody
  | IntentReply nat string StubBody
  | AgentReply nat AgentResponse
  | RotationReply nat RotateKeyResponse
  | TransferReply nat TransferResponse
  | DownloadReply DownloadResponse
  | AckReply AckResponse
  | TicketReply TicketResponse
  | InboxReply InboxResponse
  | AdministrationReply admin_response

text \<open>The state behind all requests: the one of the handlers, and the table of the API keys.\<close>

record ('l, 'b) cp_state =
  cp_app :: "('l, 'b) app_state"
  cp_keys :: key_table

section \<open>From a request to its answer\<close>

definition api_error_reply :: "ApiError \<Rightarrow> cp_reply" where
  "api_error_reply e = (case into_response e of (st, body) \<Rightarrow> ErrorReply st body)"

definition on_app :: "('a \<Rightarrow> cp_reply) \<Rightarrow> ('l, 'b, 'a) handler \<Rightarrow> ('l, 'b) cp_state \<Rightarrow> cp_reply \<times> ('l, 'b) cp_state" where
  "on_app reply h st = (case h (cp_app st) of
     (Inl e, s) \<Rightarrow> (api_error_reply e, st\<lparr>cp_app := s\<rparr>)
   | (Inr x, s) \<Rightarrow> (reply x, st\<lparr>cp_app := s\<rparr>))"

definition on_admin :: "(key_table, ApiError, admin_response) action \<Rightarrow> ('l, 'b) cp_state \<Rightarrow> cp_reply \<times> ('l, 'b) cp_state" where
  "on_admin h st = (case h (cp_keys st) of
     (Inl e, t) \<Rightarrow> (api_error_reply e, st\<lparr>cp_keys := t\<rparr>)
   | (Inr x, t) \<Rightarrow> (AdministrationReply x, st\<lparr>cp_keys := t\<rparr>))"

text \<open>An extractor of the framework runs before the handler and answers in its place when it fails.\<close>

definition extracted :: "rejection + 'a \<Rightarrow> ('a \<Rightarrow> 's \<Rightarrow> cp_reply \<times> 's) \<Rightarrow> 's \<Rightarrow> cp_reply \<times> 's" where
  "extracted x k st = (case x of Inl (c, t) \<Rightarrow> (FrameworkReply c t, st) | Inr a \<Rightarrow> k a st)"

text \<open>What a request takes from the application state.\<close>

definition wire :: "framework \<Rightarrow> AppState \<Rightarrow> ('l, 'b) env \<Rightarrow> ('l, 'b) env" where
  "wire W A E = E\<lparr>scanners := as_scanner A, policy_evaluate := as_policy A,
     signer := map_option (\<lambda>sg. signing W (cs_key sg)) (as_signer A)\<rparr>"

text \<open>\<open>buf\<close> is the random buffer of a new API key.\<close>

fun handle_endpoint ::
  "framework \<Rightarrow> AppState \<Rightarrow> ('l, 'b) env \<Rightarrow> bytes \<Rightarrow> cp_request \<Rightarrow> endpoint \<Rightarrow> string list
   \<Rightarrow> ('l, 'b) cp_state \<Rightarrow> cp_reply \<times> ('l, 'b) cp_state" where
  "handle_endpoint W A E buf rq Healthz caps st = (HealthReply healthz, st)"
| "handle_endpoint W A E buf rq PublicKey caps st =
     (case public_key_route (plat E) (verifying_key W) (as_signer A) of Inl c \<Rightarrow> StatusReply c | Inr b \<Rightarrow> PublicKeyReply b, st)"
| "handle_endpoint W A E buf rq MetricsPage caps st =
     (case metrics_route (encode_metrics W) (metrics_of (cp_app st)) of (hs, body) \<Rightarrow> MetricsReply hs body, st)"
| "handle_endpoint W A E buf rq AgentCard caps st =
     (case agent_card (plat E) (verifying_key W) (system_now W) (as_signer A) of
        Inl c \<Rightarrow> StatusReply c | Inr (c, x) \<Rightarrow> CardReply c x, st)"
| "handle_endpoint W A E buf rq CapabilitiesDoc caps st = (CapabilitiesReply capabilities_doc, st)"
| "handle_endpoint W A E buf rq CreateIntent caps st =
     extracted (json_intent_sender W rq) (\<lambda>sender st. (case create_intent sender of (c, link, body) \<Rightarrow> IntentReply c link body, st)) st"
| "handle_endpoint W A E buf rq RegisterAgent caps st =
     extracted (json_register W rq) (\<lambda>req. on_app (\<lambda>(c, x). AgentReply c x) (register E req)) st"
| "handle_endpoint W A E buf rq RotateKey caps st =
     extracted (json_rotate W rq) (\<lambda>req. on_app (\<lambda>(c, x). RotationReply c x) (rotate_key E req)) st"
| "handle_endpoint W A E buf rq GetAgent caps st =
     extracted (path_text W (hd caps)) (\<lambda>a. on_app (AgentReply 200) (get_agent E a)) st"
| "handle_endpoint W A E buf rq CreateTransfer caps st =
     extracted (json_transfer W rq) (\<lambda>req. on_app (\<lambda>(c, x). TransferReply c x) (create_transfer E req)) st"
| "handle_endpoint W A E buf rq GetTransfer caps st =
     extracted (path_text W (hd caps)) (\<lambda>t. on_app (TransferReply 200) (get_transfer E t)) st"
| "handle_endpoint W A E buf rq DownloadTransfer caps st =
     extracted (path_text W (hd caps)) (\<lambda>t. extracted (json_receipt W rq) (\<lambda>req. on_app DownloadReply (download_transfer E t req))) st"
| "handle_endpoint W A E buf rq AckTransfer caps st =
     extracted (path_text W (hd caps)) (\<lambda>t. extracted (json_receipt W rq) (\<lambda>req. on_app AckReply (ack_transfer E t req))) st"
| "handle_endpoint W A E buf rq IssueTicket caps st =
     extracted (path_text W (hd caps)) (\<lambda>t. extracted (json_receipt W rq) (\<lambda>req. on_app TicketReply (issue_ticket E t req))) st"
| "handle_endpoint W A E buf rq ListInbox caps st =
     extracted (json_inbox W rq) (\<lambda>req. on_app InboxReply (list_inbox E req)) st"
| "handle_endpoint W A E buf rq endpoint.WhoAmI caps st =
     on_admin (admin_route (plat E) (dbe E) (db_fault_at E ''api_keys'') buf CallWhoAmI) st"
| "handle_endpoint W A E buf rq CreateApiKey caps st =
     extracted (json_api_key W rq) (\<lambda>req. on_admin (admin_route (plat E) (dbe E) (db_fault_at E ''api_keys'') buf (CallCreate req))) st"
| "handle_endpoint W A E buf rq ListApiKeys caps st =
     on_admin (admin_route (plat E) (dbe E) (db_fault_at E ''api_keys'') buf CallList) st"
| "handle_endpoint W A E buf rq RevokeApiKey caps st =
     extracted (path_uuid W (hd caps)) (\<lambda>i. on_admin (admin_route (plat E) (dbe E) (db_fault_at E ''api_keys'') buf (CallRevoke i))) st"

definition behind_gate ::
  "bool \<Rightarrow> AppState \<Rightarrow> cp_request \<Rightarrow> ('s \<Rightarrow> cp_reply \<times> 's) \<Rightarrow> 's \<Rightarrow> cp_reply \<times> 's" where
  "behind_gate gated A rq k st =
     (if gated then case require_admin_token (as_admin_token A) (hr_header rq ''authorization'') of
        Inl resp \<Rightarrow> (AdministrationReply resp, st) | Inr _ \<Rightarrow> k st
      else k st)"

definition app_request ::
  "framework \<Rightarrow> app \<Rightarrow> AppState \<Rightarrow> ('l, 'b) env \<Rightarrow> bytes \<Rightarrow> cp_request
   \<Rightarrow> ('l, 'b) cp_state \<Rightarrow> cp_reply \<times> ('l, 'b) cp_state" where
  "app_request W ap A E buf rq st =
     (case layers_answer W (ap_layers ap) rq of
        Some (c, t) \<Rightarrow> (FrameworkReply c t, st)
      | None \<Rightarrow> (case route_request W (ap_routes ap) (hr_method rq) (hr_path rq) of
          NoSuchRoute \<Rightarrow> (FrameworkReply 404 [], st)
        | WrongMethod gated \<Rightarrow> behind_gate gated A rq (\<lambda>st. (FrameworkReply 405 [], st)) st
        | Reached e caps gated \<Rightarrow> behind_gate gated A rq (handle_endpoint W A (wire W A E) buf rq e caps) st))"

section \<open>What a request does to the state\<close>

lemma on_app_effect:
  "on_app reply h st = (resp, st') \<Longrightarrow> cp_app st' = snd (h (cp_app st)) \<and> cp_keys st' = cp_keys st"
  by (auto simp: on_app_def split: prod.splits sum.splits)

lemma on_admin_effect:
  "on_admin h st = (resp, st') \<Longrightarrow> cp_keys st' = snd (h (cp_keys st)) \<and> cp_app st' = cp_app st"
  by (auto simp: on_admin_def split: prod.splits sum.splits)

lemma extracted_cases:
  assumes "extracted x k st = (resp, st')"
  obtains "st' = st" | a where "x = Inr a" "k a st = (resp, st')"
  using assms by (cases x) (auto simp: extracted_def)

lemma behind_gate_cases:
  assumes "behind_gate gated A rq k st = (resp, st')"
  obtains "st' = st" | "k st = (resp, st')" "gated \<Longrightarrow> require_admin_token (as_admin_token A) (hr_header rq ''authorization'') = Inr ()"
  using assms by (auto simp: behind_gate_def split: if_splits sum.splits)

text \<open>An endpoint outside the administration is at most one step of the handlers and leaves the keys alone.\<close>

lemma handle_endpoint_step:
  assumes "handle_endpoint W A E buf rq e caps st = (resp, st')" "e \<notin> set admin_endpoints"
  shows "(cp_app st' = cp_app st \<or> cp_step (\<lambda>F s. F = E) (cp_app st) (cp_app st')) \<and> cp_keys st' = cp_keys st"
  using assms
  by (cases e) (auto simp: admin_endpoints_def elim!: extracted_cases dest!: on_app_effect intro: cp_step.intros)

text \<open>An administration endpoint touches nothing but the keys.\<close>

lemma handle_endpoint_admin:
  assumes "handle_endpoint W A E buf rq e caps st = (resp, st')" "e \<in> set admin_endpoints"
  shows "cp_app st' = cp_app st"
  using assms by (cases e) (auto simp: admin_endpoints_def elim!: extracted_cases dest!: on_admin_effect)

lemma app_request_cases:
  assumes "app_request W ap A E buf rq st = (resp, st')"
  obtains "st' = st"
  | e caps gated where "route_request W (ap_routes ap) (hr_method rq) (hr_path rq) = Reached e caps gated"
      "handle_endpoint W A (wire W A E) buf rq e caps st = (resp, st')"
      "gated \<Longrightarrow> require_admin_token (as_admin_token A) (hr_header rq ''authorization'') = Inr ()"
proof (cases "layers_answer W (ap_layers ap) rq")
  case None
  show thesis
  proof (cases "route_request W (ap_routes ap) (hr_method rq) (hr_path rq)")
    case (Reached e caps gated)
    with None assms have "behind_gate gated A rq (handle_endpoint W A (wire W A E) buf rq e caps) st = (resp, st')"
      by (simp add: app_request_def)
    then show thesis by (rule behind_gate_cases) (use Reached that in blast)+
  qed (use None assms that(1) in \<open>auto simp: app_request_def elim: behind_gate_cases\<close>)
qed (use assms that(1) in \<open>auto simp: app_request_def\<close>)

lemma public_app [simp]: "ap_routes (build_app_with_cors origins) = public_routes"
  by (simp add: build_app_with_cors_def)

lemma app_request_step:
  assumes "app_request W ap A E buf rq st = (resp, st')"
  shows "cp_app st' = cp_app st \<or> cp_step (\<lambda>F s. F = wire W A E) (cp_app st) (cp_app st')"
  using assms
proof (cases rule: app_request_cases)
  case (2 e caps gated)
  then show ?thesis
    using handle_endpoint_step [OF 2(2)] handle_endpoint_admin [OF 2(2)] by blast
qed simp

text \<open>
  The requests that never reach a handler: a layer answers, the lookup finds no route for path and method,
  or an extractor of the handler rejects.  They change nothing, and every answer that is the framework's
  own comes without a change.
\<close>

fun extraction_fails :: "framework \<Rightarrow> cp_request \<Rightarrow> endpoint \<Rightarrow> string list \<Rightarrow> bool" where
  "extraction_fails W rq CreateIntent caps = (\<not> is_ok (json_intent_sender W rq))"
| "extraction_fails W rq RegisterAgent caps = (\<not> is_ok (json_register W rq))"
| "extraction_fails W rq RotateKey caps = (\<not> is_ok (json_rotate W rq))"
| "extraction_fails W rq GetAgent caps = (\<not> is_ok (path_text W (hd caps)))"
| "extraction_fails W rq CreateTransfer caps = (\<not> is_ok (json_transfer W rq))"
| "extraction_fails W rq GetTransfer caps = (\<not> is_ok (path_text W (hd caps)))"
| "extraction_fails W rq DownloadTransfer caps = (\<not> is_ok (path_text W (hd caps)) \<or> \<not> is_ok (json_receipt W rq))"
| "extraction_fails W rq AckTransfer caps = (\<not> is_ok (path_text W (hd caps)) \<or> \<not> is_ok (json_receipt W rq))"
| "extraction_fails W rq IssueTicket caps = (\<not> is_ok (path_text W (hd caps)) \<or> \<not> is_ok (json_receipt W rq))"
| "extraction_fails W rq ListInbox caps = (\<not> is_ok (json_inbox W rq))"
| "extraction_fails W rq CreateApiKey caps = (\<not> is_ok (json_api_key W rq))"
| "extraction_fails W rq RevokeApiKey caps = (\<not> is_ok (path_uuid W (hd caps)))"
| "extraction_fails W rq _ caps = False"

definition reaches_no_handler :: "framework \<Rightarrow> app \<Rightarrow> cp_request \<Rightarrow> bool" where
  "reaches_no_handler W ap rq \<longleftrightarrow> layers_answer W (ap_layers ap) rq \<noteq> None
     \<or> (case route_request W (ap_routes ap) (hr_method rq) (hr_path rq) of
          Reached e caps gated \<Rightarrow> extraction_fails W rq e caps | _ \<Rightarrow> True)"

lemma extracted_rejects: "\<not> is_ok x \<Longrightarrow> snd (extracted x k st) = st"
  by (cases x) (auto simp: extracted_def is_ok_iff split: prod.splits)

lemma extracted_later: "(\<And>a. snd (k a st) = st) \<Longrightarrow> snd (extracted x k st) = st"
  by (cases x) (auto simp: extracted_def split: prod.splits)

lemma extraction_fails_keeps: "extraction_fails W rq e caps \<Longrightarrow> snd (handle_endpoint W A E buf rq e caps st) = st"
  by (cases e) (auto intro: extracted_rejects extracted_later)

lemma no_handler_keeps: "reaches_no_handler W ap rq \<Longrightarrow> snd (app_request W ap A E buf rq st) = st"
  by (auto simp: reaches_no_handler_def app_request_def behind_gate_def extraction_fails_keeps
      split: option.splits dispatched.splits prod.splits sum.splits)

lemma on_app_own:
  "(\<And>x c t. reply x \<noteq> FrameworkReply c t) \<Longrightarrow> fst (on_app reply h st) \<noteq> FrameworkReply c t"
  by (auto simp: on_app_def api_error_reply_def split: prod.splits sum.splits)

lemma on_admin_own: "fst (on_admin h st) \<noteq> FrameworkReply c t"
  by (auto simp: on_admin_def api_error_reply_def split: prod.splits sum.splits)

lemma extracted_own:
  "fst (extracted x k st) = FrameworkReply c t \<Longrightarrow> (\<And>a. fst (k a st) = FrameworkReply c t \<Longrightarrow> snd (k a st) = st) \<Longrightarrow>
   snd (extracted x k st) = st"
  by (cases x) (auto simp: extracted_def split: prod.splits)

lemma framework_reply_endpoint:
  "fst (handle_endpoint W A E buf rq e caps st) = FrameworkReply c t \<Longrightarrow> snd (handle_endpoint W A E buf rq e caps st) = st"
  by (cases e) (auto elim!: extracted_own simp: on_app_own on_admin_own split: prod.splits sum.splits)

lemma framework_reply_keeps:
  "fst (app_request W ap A E buf rq st) = FrameworkReply c t \<Longrightarrow> snd (app_request W ap A E buf rq st) = st"
  by (auto simp: app_request_def behind_gate_def framework_reply_endpoint split: option.splits dispatched.splits prod.splits sum.splits if_splits)

text \<open>With a framework that keeps its contract.\<close>

lemma app_request_keys:
  assumes "web_router (route_request W)" "app_request W (build_app_with_cors origins) A E buf rq st = (resp, st')"
    and "cp_keys st' \<noteq> cp_keys st"
  shows "\<exists>token. as_admin_token A = Some token \<and> hr_header rq ''authorization'' = Some (''Bearer '' @ token) \<and> 32 \<le> length token
    \<and> header_to_str (''Bearer '' @ token) \<noteq> None \<and> cp_app st' = cp_app st"
  using assms(2)
proof (cases rule: app_request_cases)
  case (2 e caps gated)
  have e: "e \<in> set admin_endpoints" using handle_endpoint_step [OF 2(2)] assms(3) by blast
  have "dispatch public_routes (hr_method rq) (hr_path rq) = Reached e caps gated"
    using 2(1) web_router.route_request_dispatch [OF assms(1) public_routes_distinct] by simp
  with e dispatch_gate have gated by blast
  with 2(3) handle_endpoint_admin [OF 2(2) e] show ?thesis by (auto simp: require_admin_token_iff)
qed (use assms(3) in simp)

text \<open>Only \<open>POST\<close> and \<open>DELETE\<close> change anything.\<close>

definition reading_endpoints :: "endpoint list" where
  "reading_endpoints = [Healthz, PublicKey, MetricsPage, AgentCard, CapabilitiesDoc, GetAgent, GetTransfer, endpoint.WhoAmI, ListApiKeys]"

lemma route_verbs:
  "list_all (\<lambda>r. list_all (\<lambda>(v, e). v \<in> {''GET'', ''HEAD''} \<and> e \<in> set reading_endpoints \<or> v \<in> {''POST'', ''DELETE''}) (ro_methods r)) public_routes"
  by code_simp

lemma dispatch_verb:
  assumes "dispatch public_routes verb path = Reached e caps g"
  shows "verb \<in> {''POST'', ''DELETE''} \<or> verb \<in> {''GET'', ''HEAD''} \<and> e \<in> set reading_endpoints"
proof -
  from dispatch_route [OF assms] obtain r where "r \<in> set public_routes" "(verb, e) \<in> set (ro_methods r)"
    by (auto dest: map_of_SomeD)
  with route_verbs show ?thesis unfolding list_all_iff by blast
qed

lemma handle_endpoint_reads:
  assumes "handle_endpoint W A E buf rq e caps st = (resp, st')" "e \<in> set reading_endpoints"
  shows "st' = st"
proof -
  have "snd (get_agent E a s) = s" "snd (get_transfer E t s) = s" for a t s
    using keepsD [OF get_agent_keeps, of "\<lambda>u. u = s" s E a] keepsD [OF get_transfer_keeps, of "\<lambda>u. u = s" s E t] by simp_all
  moreover have "snd (list_api_keys f t) = t" for f t
    by (cases f) (auto simp: list_api_keys_def on_keys_def list_all_keys_def bindS_def mapErrS_apply Let_def)
  ultimately have "cp_app st' = cp_app st \<and> cp_keys st' = cp_keys st" using assms
    by (cases e) (auto simp: reading_endpoints_def elim!: extracted_cases dest!: on_app_effect on_admin_effect)
  then show ?thesis by simp
qed

lemma app_request_reads:
  assumes "web_router (route_request W)" "app_request W (build_app_with_cors origins) A E buf rq st = (resp, st')"
    and "hr_method rq \<notin> {''POST'', ''DELETE''}"
  shows "st' = st"
  using assms(2)
proof (cases rule: app_request_cases)
  case (2 e caps gated)
  then have "dispatch public_routes (hr_method rq) (hr_path rq) = Reached e caps gated"
    using web_router.route_request_dispatch [OF assms(1) public_routes_distinct] by simp
  with dispatch_verb assms(3) have "e \<in> set reading_endpoints" by blast
  with handle_endpoint_reads [OF 2(2)] show ?thesis by blast
qed

section \<open>The check of a tunnel and the timeout\<close>

text \<open>
  How many seconds the check of a tunnel address takes, when an attempt takes \<open>took k\<close> seconds unless
  the client gives up.
\<close>

definition HEALTHZ_TIMEOUT :: nat where
  "HEALTHZ_TIMEOUT = 10"

definition HEALTHZ_PAUSE :: nat where
  "HEALTHZ_PAUSE = 3"

fun healthz_seconds :: "('l, 'b) env \<Rightarrow> (nat \<Rightarrow> nat) \<Rightarrow> string \<Rightarrow> nat list \<Rightarrow> nat" where
  "healthz_seconds E took u [] = 0"
| "healthz_seconds E took u (k # ks) = min (took k) HEALTHZ_TIMEOUT
     + (case env.http_get E k u of
          http_result.HttpStatus c t \<Rightarrow> if is_success c then 0 else if ks = [] then 0 else HEALTHZ_PAUSE + healthz_seconds E took u ks
        | HttpError m \<Rightarrow> if ks = [] then 0 else HEALTHZ_PAUSE + healthz_seconds E took u ks)"

text \<open>
  A tunnel that does not answer is checked for 75 seconds, longer than the 60 seconds after which the
  outermost layer drops the request: its caller never gets the answer that the code has for it.
\<close>

lemma tunnel_check_outlasts_timeout:
  assumes "\<forall>k. HEALTHZ_TIMEOUT \<le> took k" "\<forall>k. \<exists>m. env.http_get E k u = HttpError m"
  shows "healthz_seconds E took u [1..<Suc max_healthz_attempts] = 75"
    and "TimeoutLayer 60 \<in> set (ap_layers (build_app_with_cors origins))"
proof -
  have step: "healthz_seconds E took u (k # ks) = 10 + (if ks = [] then 0 else 3 + healthz_seconds E took u ks)" for k ks
    using assms(1) [rule_format, of k] assms(2) [rule_format, of k] by (auto simp: HEALTHZ_TIMEOUT_def HEALTHZ_PAUSE_def)
  have "[1..<Suc max_healthz_attempts] = [1, 2, 3, 4, 5, 6]" by (simp add: max_healthz_attempts_def upt_rec)
  then show "healthz_seconds E took u [1..<Suc max_healthz_attempts] = 75" by (simp only: step) simp
  show "TimeoutLayer 60 \<in> set (ap_layers (build_app_with_cors origins))" by (simp add: build_app_with_cors_def)
qed

end
