(* ===== verification/ServerRun.thy ===== *)
theory ServerRun
  imports HttpService
begin

text \<open>
  The control plane at work: any sequence of HTTP requests and health passes (\<open>app_step\<close>), and the
  program that \<open>main.rs\<close> wires and starts, with its file log, its blob directory and its four
  scanners.  Invariants of the started program are proved over every such sequence.
\<close>

section \<open>Runs of requests\<close>

text \<open>\<open>ok E\<close> is what is known of what a request meets.\<close>

inductive app_step ::
  "framework \<Rightarrow> string list \<Rightarrow> AppState \<Rightarrow> (('l, 'b) env \<Rightarrow> bool) \<Rightarrow> ('l, 'b) cp_state \<Rightarrow> ('l, 'b) cp_state \<Rightarrow> bool"
  for W origins A ok where
  request: "ok E \<Longrightarrow> app_step W origins A ok st (snd (app_request W (build_app_with_cors origins) A E buf rq st))"
| health_pass: "app_step W origins A ok st (st\<lparr>cp_app := snd (tick M (cp_app st))\<rparr>)"

lemma cp_step_weaken: "cp_step ok s s' \<Longrightarrow> (\<And>E. ok E s \<Longrightarrow> ok' E s) \<Longrightarrow> cp_step ok' s s'"
  by (erule cp_step.cases) (simp_all add: cp_step.intros)

lemma app_step_cp:
  assumes "app_step W origins A ok st st'"
  shows "(cp_step (\<lambda>F s. \<exists>E. ok E \<and> F = wire W A E))\<^sup>*\<^sup>* (cp_app st) (cp_app st')"
  using assms
proof cases
  case (request E buf rq)
  obtain resp where "app_request W (build_app_with_cors origins) A E buf rq st = (resp, st')"
    using request(1) by (metis prod.collapse)
  from app_request_step [OF this] show ?thesis
  proof
    assume "cp_step (\<lambda>F s. F = wire W A E) (cp_app st) (cp_app st')"
    then have "cp_step (\<lambda>F s. \<exists>E. ok E \<and> F = wire W A E) (cp_app st) (cp_app st')"
      by (rule cp_step_weaken) (use request(2) in blast)
    then show ?thesis by blast
  qed simp
next
  case (health_pass M)
  then show ?thesis by (auto intro: r_into_rtranclp cp_step.intros)
qed

lemma app_steps_cp:
  "(app_step W origins A ok)\<^sup>*\<^sup>* st st' \<Longrightarrow> (cp_step (\<lambda>F s. \<exists>E. ok E \<and> F = wire W A E))\<^sup>*\<^sup>* (cp_app st) (cp_app st')"
  by (induction rule: rtranclp_induct) (auto dest: app_step_cp intro: rtranclp_trans)

lemma app_steps_refine: "(app_step W origins A ok)\<^sup>*\<^sup>* st st' \<Longrightarrow> db_step\<^sup>*\<^sup>* (db (cp_app st)) (db (cp_app st'))"
  by (rule cp_steps_refine [OF app_steps_cp])

section \<open>The blob store over a run\<close>

text \<open>Every blob that a request stores is one that the scanners and the policy let pass.\<close>

lemma keeps_on_blobs_store: "keeps Q m \<Longrightarrow> keeps (\<lambda>s. Q (blobs s)) (on_blobs m)"
  by (auto simp: keeps_def on_blobs_def split: prod.splits)

lemma keeps_screen_blob:
  assumes "keeps Q (blob_put E (stored_id E) blob)"
  shows "keeps (\<lambda>s. Q (blobs s)) (screen_blob E req sender sender_row blob)"
  unfolding screen_blob_def Let_def persist_rejected_def count_created_def stored_id_def [symmetric]
  by (intro keeps_on_blobs_store [OF assms] keeps_rules) simp_all

lemma keeps_create_blobs:
  assumes "\<And>blob. hex_dec (plat E) (ct_blob_hex req) = Inr blob \<Longrightarrow> keeps Q (blob_put E (stored_id E) blob)"
  shows "keeps (\<lambda>s. Q (blobs s)) (create_transfer E req)"
proof -
  have decoded: "keeps P (bindS (decode_hex_field E ''blob_hex'' (ct_blob_hex req)) f)"
    if "\<And>blob. keeps Q (blob_put E (stored_id E) blob) \<Longrightarrow> keeps P (f blob)"
    for P and f :: "bytes \<Rightarrow> ('a, 'b, 'c) handler"
    using that assms by (intro keeps_bindS_outcome keeps_rules) (auto simp: decode_hex_field_Inr_iff)
  show ?thesis
    unfolding create_transfer_def create_via_endpoints_def create_via_tunnel_def create_with_blob_def
      consume_intent_unchecked_def count_created_def Let_def
    by (intro decoded keeps_screen_blob keeps_rules; simp)
qed

lemma handlers_blobs:
  assumes "\<And>t. keeps Q (blob_get E t)" "\<And>t. keeps Q (blob_delete E t)"
  shows "keeps (\<lambda>s. Q (blobs s)) (register E rg)"
    and "keeps (\<lambda>s. Q (blobs s)) (rotate_key E rk)"
    and "keeps (\<lambda>s. Q (blobs s)) (download_transfer E tid rq)"
    and "keeps (\<lambda>s. Q (blobs s)) (ack_transfer E tid rq)"
    and "keeps (\<lambda>s. Q (blobs s)) (issue_ticket E tid rq)"
  unfolding register_def rotate_key_def download_transfer_def ack_transfer_def issue_ticket_def Let_def
  by (intro keeps_on_blobs_store assms keeps_rules; simp)+

lemma tick_rows_blobs: "keeps (\<lambda>s. Q (blobs s)) (tick_rows M k i n rows)"
proof (induction M k i n rows rule: tick_rows.induct)
  case (2 M k i n tid eps rows)
  then show ?case
    by (cases "eps = []") (simp, simp only: tick_rows.simps if_False, intro keeps_rules, simp_all)
qed (simp add: keeps_def)

lemma tick_blobs: "keeps (\<lambda>s. Q (blobs s)) (tick M)"
  unfolding tick_def load_in_flight_transfers_def getS_def
  by (intro keeps_rules tick_rows_blobs) (simp_all add: keeps_def)

lemma run_blobs:
  assumes "(cp_step ok)\<^sup>*\<^sup>* s s'" "Q (blobs s)"
    and "\<And>E s t. ok E s \<Longrightarrow> keeps Q (blob_get E t)" "\<And>E s t. ok E s \<Longrightarrow> keeps Q (blob_delete E t)"
    and "\<And>E s ct. ok E s \<Longrightarrow> keeps (\<lambda>s. Q (blobs s)) (create_transfer E ct)"
  shows "Q (blobs s')"
  using assms(1)
proof (induction rule: rtranclp_induct)
  case base
  show ?case by (rule assms(2))
next
  case (step t t')
  define I where "I = (\<lambda>s :: ('a, 'b) app_state. Q (blobs s))"
  have IH: "I t" using step.IH by (simp add: I_def)
  have h: "keeps I (register E rg)" "keeps I (rotate_key E rk)" "keeps I (create_transfer E ct)"
      "keeps I (download_transfer E tid rq)" "keeps I (ack_transfer E tid rq)" "keeps I (issue_ticket E tid rq)"
    if "ok E t" for E rg rk ct tid rq
    using handlers_blobs [of Q E, OF assms(3,4) [OF that]] assms(5) [OF that] unfolding I_def by blast+
  have tk: "keeps I (tick M)" for M
    unfolding I_def by (rule tick_blobs)
  have "I t'"
    by (rule cp_step_keeps [where I = I, OF step(2) IH])
      (auto intro: keepsD [OF tk IH] keepsD [OF h(1) IH] keepsD [OF h(2) IH] keepsD [OF h(3) IH] keepsD [OF h(4) IH]
        keepsD [OF h(5) IH] keepsD [OF h(6) IH])
  then show ?case by (simp add: I_def)
qed

section \<open>The program as it is wired\<close>

text \<open>\<open>main\<close> makes the application state with \<open>AppState::new\<close>, gives it the signing key and, if there is one, the token.\<close>

definition server_app :: "server \<Rightarrow> AppState" where
  "server_app srv = \<lparr>as_scanner = sv_scanners srv, as_policy = TierPolicy_evaluate (sv_policy srv), as_signer = Some (sv_signer srv),
     as_endpoint_validator = sv_validator srv, as_clock = None, as_admin_token = sv_admin_token srv\<rparr>"

lemma server_app_built:
  assumes "start_control_plane CW d = (Inr srv, d')"
  shows "\<exists>A. AppState_new (cw_client CW) (cw_bare_client CW) (sv_scanners srv) (TierPolicy_evaluate (sv_policy srv)) = Inr A
    \<and> server_app srv = (case cfg_admin_token (sv_config srv) of
        Some token \<Rightarrow> with_admin_token token (with_signer (sv_signer srv) A) | None \<Rightarrow> with_signer (sv_signer srv) A)"
  using assms
  by (auto simp: start_control_plane_Inr server_app_def AppState_new_def with_signer_def with_admin_token_def step_iffs
      surroundings_ok_def with_defaults_iff simp del: for_tier.simps split: option.splits)

text \<open>What the operating system does to the file operations of one request.\<close>

record file_faults =
  ff_put :: put_outcome
  ff_get :: "string option"
  ff_delete :: "string option"

text \<open>The stores that a request of the started program meets; writes to the audit file do not fail.\<close>

definition server_env ::
  "cp_world \<Rightarrow> (StoredEvent \<Rightarrow> string + string) \<Rightarrow> server \<Rightarrow> file_faults \<Rightarrow> (FileAuditLog, file_system) env \<Rightarrow> (FileAuditLog, file_system) env" where
  "server_env CW print_row srv ff E = E\<lparr>plat := cw_platform CW,
     audit_append := FileAuditLog_append (cw_platform CW) print_row None,
     blob_put := FileBlobStore_put (sv_blob_root srv) (ff_put ff),
     blob_get := FileBlobStore_get (sv_blob_root srv) (ff_get ff),
     blob_delete := FileBlobStore_delete (sv_blob_root srv) (ff_delete ff)\<rparr>"

definition boot_state :: "server \<Rightarrow> database \<Rightarrow> file_system \<Rightarrow> key_table \<Rightarrow> (FileAuditLog, file_system) cp_state" where
  "boot_state srv d files keys = \<lparr>cp_app = \<lparr>db = d, audit = sv_audit srv, blobs = files, metrics_of = Metrics_new\<rparr>, cp_keys = keys\<rparr>"

definition server_step ::
  "framework \<Rightarrow> cp_world \<Rightarrow> (StoredEvent \<Rightarrow> string + string) \<Rightarrow> server \<Rightarrow> (FileAuditLog, file_system) cp_state \<Rightarrow> (FileAuditLog, file_system) cp_state \<Rightarrow> bool" where
  "server_step W CW print_row srv =
     app_step W (cfg_cors_allowed_origins (sv_config srv)) (server_app srv) (\<lambda>E. \<exists>ff E0. E = server_env CW print_row srv ff E0)"

section \<open>No malware in the blob directory\<close>

definition malware_free :: "file_system \<Rightarrow> bool" where
  "malware_free fs \<longleftrightarrow> (\<forall>p b. fs p = Some b \<longrightarrow> \<not> sublist EICAR_SIGNATURE b)"

lemma sublist_take: "sublist x (take n b) \<Longrightarrow> sublist x b"
  by (metis append_take_drop_id sublist_append)

lemma put_malware_free: "\<not> sublist EICAR_SIGNATURE b \<Longrightarrow> keeps malware_free (FileBlobStore_put root out t b)"
  by (auto simp: keeps_def FileBlobStore_put_def malware_free_def Let_def bindS_def dest: sublist_take split: put_outcome.splits if_splits)

lemma get_delete_malware_free:
  "keeps malware_free (FileBlobStore_get root fault t)" "keeps malware_free (FileBlobStore_delete root fault' t)"
  by (auto simp: keeps_def FileBlobStore_get_def FileBlobStore_delete_def malware_free_def bindS_def split: option.splits if_splits)

lemma keeps_remote_blobs:
  assumes "ct_reachable_at req \<noteq> None \<or> ct_tunnel_url req \<noteq> None"
  shows "keeps (\<lambda>s. Q (blobs s)) (create_transfer E req)"
proof -
  have e: "keeps (\<lambda>s. Q (blobs s)) (create_via_endpoints E req sender eps)" for sender eps
    unfolding create_via_endpoints_def consume_intent_unchecked_def count_created_def Let_def by (intro keeps_rules; simp)
  have t: "keeps (\<lambda>s. Q (blobs s)) (create_via_tunnel E req sender u)" for sender u
    unfolding create_via_tunnel_def consume_intent_unchecked_def count_created_def Let_def by (intro keeps_rules; simp)
  from assms show ?thesis
    by (cases "ct_reachable_at req"; cases "ct_tunnel_url req")
      (simp_all add: create_transfer_def, (intro e t keeps_rules; simp)+)
qed

lemma create_malware_free:
  assumes "policy_evaluate E = TierPolicy_evaluate p" "EicarScanner d \<in> set (scanners E)"
    and "blob_put E = FileBlobStore_put root out"
  shows "keeps (\<lambda>s. malware_free (blobs s)) (create_transfer E req)"
proof (cases "(ct_reachable_at req \<noteq> None \<or> ct_tunnel_url req \<noteq> None)")
  case False
  show ?thesis
  proof (cases "\<exists>blob. hex_dec (plat E) (ct_blob_hex req) = Inr blob \<and> sublist EICAR_SIGNATURE blob")
    case True
    then obtain blob where b: "hex_dec (plat E) (ct_blob_hex req) = Inr blob" "sublist EICAR_SIGNATURE blob" by blast
    then have "sv_result (scan_one (EicarScanner d) (scan_input_of req blob)) = Malicious"
      by (simp add: Eicar_verdict scan_input_of_def)
    with assms(2) have "overall (blob_verdict E req blob) = Malicious"
      by (auto simp: blob_verdict_def overall_scan overall_Malicious_iff)
    with b(1) have "keeps (\<lambda>s. blobs s = x) (create_transfer E req)" for x
      using False by (intro tier.malicious_upload(2) [OF assms(1)]) auto
    then show ?thesis by (auto simp: keeps_def)
  next
    case False
    then show ?thesis by (intro keeps_create_blobs) (auto simp: assms(3) intro!: put_malware_free)
  qed
qed (rule keeps_remote_blobs)

lemma server_scanners:
  assumes "start_control_plane CW d = (Inr srv, d')"
  shows "EicarScanner 0 \<in> set (sv_scanners srv)"
  using assms by (auto simp: start_control_plane_Inr production_scanners_def simp del: for_tier.simps)

lemma server_run_cp:
  assumes "(server_step W CW print_row srv)\<^sup>*\<^sup>* st st'"
  shows "(cp_step (\<lambda>F s. \<exists>ff E. F = wire W (server_app srv) (server_env CW print_row srv ff E)))\<^sup>*\<^sup>* (cp_app st) (cp_app st')"
proof -
  have "(\<lambda>F (s :: (FileAuditLog, file_system) app_state). \<exists>ff E. F = wire W (server_app srv) (server_env CW print_row srv ff E))
      = (\<lambda>F s. \<exists>E. (\<exists>ff E0. E = server_env CW print_row srv ff E0) \<and> F = wire W (server_app srv) E)"
    by (intro ext) blast
  then show ?thesis using app_steps_cp [OF assms [unfolded server_step_def]] by simp
qed

lemma server_run_malware_free:
  assumes "start_control_plane CW d = (Inr srv, d')" "(server_step W CW print_row srv)\<^sup>*\<^sup>* st st'"
    and "malware_free (blobs (cp_app st))"
  shows "malware_free (blobs (cp_app st'))"
proof (rule run_blobs [where Q = malware_free, OF server_run_cp [OF assms(2)] assms(3)])
  fix F :: "(FileAuditLog, file_system) env" and ct t
  assume "\<exists>ff E. F = wire W (server_app srv) (server_env CW print_row srv ff E)"
  then obtain ff E where F: "F = wire W (server_app srv) (server_env CW print_row srv ff E)" by blast
  show "keeps malware_free (blob_get F t)" "keeps malware_free (blob_delete F t)"
    by (simp_all add: F wire_def server_env_def get_delete_malware_free)
  show "keeps (\<lambda>s. malware_free (blobs s)) (create_transfer F ct)"
    by (rule create_malware_free [where d = 0 and p = "sv_policy srv" and root = "sv_blob_root srv" and out = "ff_put ff"])
      (use server_scanners [OF assms(1)] in \<open>simp_all add: F wire_def server_env_def server_app_def\<close>)
qed

text \<open>The audit file, the database and the downloads of the started program.\<close>

lemma server_run_audit:
  assumes "(server_step W CW print_row srv)\<^sup>*\<^sup>* st st'" "file_inv (cw_platform CW) (cw_parse_row CW) print_row (audit (cp_app st))"
  shows "file_inv (cw_platform CW) (cw_parse_row CW) print_row (audit (cp_app st'))
    \<and> (\<exists>new. file_events (cw_parse_row CW) (audit (cp_app st')) = file_events (cw_parse_row CW) (audit (cp_app st)) @ new)"
  by (rule flog.reach_audit [OF server_run_cp [OF assms(1)] _ assms(2)]) (auto simp: wire_def server_env_def)

lemma server_run_wf:
  "(server_step W CW print_row srv)\<^sup>*\<^sup>* st st' \<Longrightarrow> db_wf (db (cp_app st)) \<Longrightarrow> db_wf (db (cp_app st'))"
  unfolding server_step_def by (rule db_steps_wf [OF app_steps_refine])

lemma download_clean:
  assumes "download_transfer E t rq s = (Inr x, s')" "blob_get E t = FileBlobStore_get root fault t" "malware_free (blobs s)"
  shows "\<exists>b. dl_blob_hex x = hex_enc (plat E) b \<and> \<not> sublist EICAR_SIGNATURE b"
proof -
  from download_Inr [OF assms(1)] obtain bs fs where b: "blob_get E t (blobs s) = (Inr bs, fs)" "dl_blob_hex x = hex_enc (plat E) bs"
    by auto
  then have "blobs s (path_for root t) = Some bs"
    unfolding assms(2) by (auto simp: FileBlobStore_get_def step_iffs split: option.splits)
  with assms(3) b(2) show ?thesis by (auto simp: malware_free_def)
qed

lemma reply_download:
  assumes "app_request W ap A E buf rq st = (DownloadReply x, st')"
  obtains t req s' where "download_transfer (wire W A E) t req (cp_app st) = (Inr x, s')"
proof -
  have app: False if "on_app f h st = (DownloadReply x, st')" "\<And>y. f y \<noteq> DownloadReply x" for f h
    using that by (auto simp: on_app_def api_error_reply_def into_response_def split: prod.splits sum.splits)
  have adm: False if "on_admin h st = (DownloadReply x, st')" for h
    using that by (auto simp: on_admin_def api_error_reply_def into_response_def split: prod.splits sum.splits)
  have ex: "\<exists>a. y = Inr a \<and> k a st = (DownloadReply x, st')" if "extracted y k st = (DownloadReply x, st')" for y k
    using that by (cases y) (auto simp: extracted_def)
  obtain e caps where h: "handle_endpoint W A (wire W A E) buf rq e caps st = (DownloadReply x, st')"
    using assms by (auto simp: app_request_def behind_gate_def split: option.splits dispatched.splits if_splits sum.splits)
  show thesis
  proof (cases e)
    case DownloadTransfer
    with h obtain t req where "on_app DownloadReply (download_transfer (wire W A E) t req) st = (DownloadReply x, st')"
      by (auto dest!: ex)
    then have "download_transfer (wire W A E) t req (cp_app st) = (Inr x, cp_app st')"
      by (auto simp: on_app_def api_error_reply_def into_response_def split: prod.splits sum.splits)
    then show thesis by (rule that)
  qed (use h in \<open>auto split: sum.splits prod.splits dest!: ex adm app\<close>)
qed

end
