(* ===== verification/ServerProperties.thy ===== *)
theory ServerProperties
  imports ServerRun OperationProperties
begin

text \<open>
  The properties of the control plane as an HTTP service: what a request may change, who may
  administer it, and what holds of the started program after any sequence of requests.
\<close>

section \<open>Any request\<close>

text \<open>
  C13: Every run of HTTP requests, well-formed or not, and of health passes refines a sequence of atomic
  statements on the database, whatever the answers of clock, database, policy, stores, network and
  framework.  A request that a layer answers, that has no route for its path and method, or that an
  extractor of its handler rejects is no statement at all: it leaves the whole state as it was, and so
  does every request whose answer is the framework's own.
\<close>

theorem http_requests_refine:
  assumes "(app_step W origins A ok)\<^sup>*\<^sup>* st st'"
  shows "db_step\<^sup>*\<^sup>* (db (cp_app st)) (db (cp_app st')) \<and> (db_wf (db (cp_app st)) \<longrightarrow> db_wf (db (cp_app st')))
    \<and> (\<forall>t r. row_of (db (cp_app st)) t = Some r \<longrightarrow> (\<exists>r'. row_of (db (cp_app st')) t = Some r' \<and> row_evolves r r'))
    \<and> (\<forall>E buf rq. reaches_no_handler W (build_app_with_cors origins) rq
         \<or> (\<exists>c t. fst (app_request W (build_app_with_cors origins) A E buf rq st') = FrameworkReply c t) \<longrightarrow>
         snd (app_request W (build_app_with_cors origins) A E buf rq st') = st')"
proof -
  have s: "db_step\<^sup>*\<^sup>* (db (cp_app st)) (db (cp_app st'))" by (rule app_steps_refine [OF assms])
  with db_steps_wf row_of_evolves [OF db_steps_evolve [OF s]] show ?thesis
    by (blast intro: no_handler_keeps framework_reply_keeps)
qed

definition demo_web :: framework where
  "demo_web = \<lparr>route_request = dispatch, layers_answer = (\<lambda>_ _. None), path_text = Inr, path_uuid = Inr,
     json_register = (\<lambda>_. Inl (422, [])), json_rotate = (\<lambda>_. Inl (422, [])),
     json_transfer = (\<lambda>rq. if hr_body rq = [] then Inl (400, ''EOF'') else Inr (demo_upload (hr_body rq))),
     json_receipt = (\<lambda>_. Inl (422, [])), json_inbox = (\<lambda>_. Inl (422, [])),
     json_api_key = (\<lambda>_. Inr \<lparr>cr_customer_id = ''acme'', cr_name = ''ci'', cr_tier = ''team''\<rparr>),
     json_intent_sender = (\<lambda>_. Inl (422, [])), encode_metrics = (\<lambda>_. Inr []), verifying_key = id, signing = demo_sign,
     system_now = Some 1000\<rparr>"

definition demo_app_state :: AppState where
  "demo_app_state = \<lparr>as_scanner = [EicarScanner 0], as_policy = TierPolicy_evaluate (for_tier Dev), as_signer = None,
     as_endpoint_validator = \<lparr>va_permits = DEFAULT_PERMITS, va_budget = DEFAULT_BUDGET, va_http = ()\<rparr>, as_clock = None,
     as_admin_token = Some (replicate 32 (CHR ''k''))\<rparr>"

definition demo_call :: "string \<Rightarrow> string list \<Rightarrow> string option \<Rightarrow> bytes \<Rightarrow> cp_request" where
  "demo_call verb path auth body =
     \<lparr>hr_method = verb, hr_path = path, hr_header = (\<lambda>h. if h = ''authorization'' then auth else None), hr_body = body\<rparr>"

definition demo_cp :: "(MemoryAuditLog, MemoryBlobStore) cp_state" where
  "demo_cp = \<lparr>cp_app = demo_state [], cp_keys = []\<rparr>"

lemma demo_web_router: "web_router (route_request demo_web)"
  using reference.web_router_axioms by (simp add: demo_web_def)

lemma demo_dispatch:
  "dispatch public_routes ''POST'' [''v1'', ''transfers''] = Reached CreateTransfer [] False"
  "dispatch public_routes ''POST'' [''v1'', ''admin'', ''api-keys''] = Reached CreateApiKey [] True"
  by code_simp+

lemma demo_upload_request:
  "snd (app_request demo_web (build_app_with_cors []) demo_app_state demo_env [] (demo_call ''POST'' [''v1'', ''transfers''] None demo_blob) demo_cp)
     = demo_cp\<lparr>cp_app := snd (create_transfer (wire demo_web demo_app_state demo_env) (demo_upload demo_blob) (demo_state []))\<rparr>"
  by (simp add: app_request_def demo_web_def demo_call_def demo_dispatch behind_gate_def extracted_def on_app_def demo_cp_def
      demo_blob_def split: prod.splits sum.splits)

theorem http_requests_refine_witness:
  "db_step\<^sup>*\<^sup>* (db (demo_state []))
     (db (snd (create_transfer (wire demo_web demo_app_state demo_env) (demo_upload demo_blob) (demo_state []))))
   \<and> snd (app_request demo_web (build_app_with_cors []) demo_app_state demo_env [] (demo_call ''POST'' [''v1'', ''transfers''] None []) demo_cp)
     = demo_cp"
proof
  have "(app_step demo_web [] demo_app_state (\<lambda>E. True))\<^sup>*\<^sup>* demo_cp
      (demo_cp\<lparr>cp_app := snd (create_transfer (wire demo_web demo_app_state demo_env) (demo_upload demo_blob) (demo_state []))\<rparr>)"
    by (rule r_into_rtranclp, subst demo_upload_request [symmetric], rule app_step.request) simp
  from http_requests_refine [OF this] show "db_step\<^sup>*\<^sup>* (db (demo_state []))
     (db (snd (create_transfer (wire demo_web demo_app_state demo_env) (demo_upload demo_blob) (demo_state []))))"
    by (simp add: demo_cp_def)
  have "(app_step demo_web [] demo_app_state (\<lambda>E. True))\<^sup>*\<^sup>* demo_cp demo_cp" by simp
  moreover have "reaches_no_handler demo_web (build_app_with_cors []) (demo_call ''POST'' [''v1'', ''transfers''] None [])"
    by (simp add: reaches_no_handler_def demo_web_def demo_call_def demo_dispatch is_ok_iff)
  ultimately show "snd (app_request demo_web (build_app_with_cors []) demo_app_state demo_env []
      (demo_call ''POST'' [''v1'', ''transfers''] None []) demo_cp) = demo_cp"
    using http_requests_refine [of demo_web "[]" demo_app_state "\<lambda>E. True" demo_cp demo_cp] by blast
qed

section \<open>Administration\<close>

lemma admin_paths_gated:
  "list_all (\<lambda>r. seg_match (ro_path r) (''v1'' # ''admin'' # rest) \<noteq> None \<longrightarrow> ro_gated r) public_routes"
  by (simp add: public_routes_def health_router_def metrics_router_def agent_card_router_def v2_router_def
      v1_router_def nest_def route_layer_def agents_router_def transfers_router_def admin_router_def inbox_router_def at_path_def)

lemma dispatch_admin:
  "dispatch public_routes verb (''v1'' # ''admin'' # rest) \<in> {NoSuchRoute, WrongMethod True} \<union> range (\<lambda>(e, caps). Reached e caps True)"
proof (cases "sort_key rank (matching (''v1'' # ''admin'' # rest) public_routes)")
  case (Cons r rs)
  then have "r \<in> set (matching (''v1'' # ''admin'' # rest) public_routes)" by (metis list.set_intros(1) set_sort)
  then have "ro_gated r" using admin_paths_gated [of rest] by (auto simp: matching_def list_all_iff)
  with Cons show ?thesis by (auto simp: dispatch_def served_by_def split: option.splits)
qed (simp add: dispatch_def)

text \<open>
  C39: The administration is closed: a request below \<open>/v1/admin\<close> that does not carry the configured token
  is answered with 404 if there is no such route, and with 503, 401 or 403 by the gate otherwise, and
  changes nothing; and whatever its path, a request changes the table of the API keys only if it
  carries the token, then changes nothing else, and changes anything at all only if its method is
  \<open>POST\<close> or \<open>DELETE\<close>.  Relies on the documented route lookup of the framework.
\<close>

theorem http_administration:
  assumes "web_router (route_request W)"
    and "app_request W (build_app_with_cors origins) A E buf rq st = (resp, st')"
  defines "authorised \<equiv> \<exists>token. as_admin_token A = Some token \<and> hr_header rq ''authorization'' = Some (''Bearer '' @ token)
      \<and> 32 \<le> length token \<and> header_to_str (''Bearer '' @ token) \<noteq> None"
  shows "(hr_path rq = ''v1'' # ''admin'' # rest \<and> layers_answer W (ap_layers (build_app_with_cors origins)) rq = None \<and> \<not> authorised \<longrightarrow>
        st' = st \<and> (resp = FrameworkReply 404 [] \<or> (\<exists>c cd m. c \<in> {503, 401, 403} \<and> resp = AdministrationReply (AdminError c cd m))))
    \<and> (cp_keys st' \<noteq> cp_keys st \<longrightarrow> authorised \<and> cp_app st' = cp_app st)
    \<and> (hr_method rq \<notin> {''POST'', ''DELETE''} \<longrightarrow> st' = st)"
proof (intro conjI impI)
  let ?gate = "require_admin_token (as_admin_token A) (hr_header rq ''authorization'')"
  have gate: "?gate = Inr () \<longleftrightarrow> authorised" unfolding authorised_def by (rule require_admin_token_iff)
  assume c: "hr_path rq = ''v1'' # ''admin'' # rest \<and> layers_answer W (ap_layers (build_app_with_cors origins)) rq = None \<and> \<not> authorised"
  with gate obtain e where "?gate = Inl e" by (cases ?gate) auto
  moreover from require_admin_token_refusal [OF this] obtain n cd m where e: "n \<in> {503, 401, 403}" "e = AdminError n cd m" by blast
  moreover have "route_request W public_routes (hr_method rq) (hr_path rq)
      \<in> {NoSuchRoute, WrongMethod True} \<union> range (\<lambda>(e, caps). Reached e caps True)"
    using dispatch_admin [of "hr_method rq" rest] c web_router.route_request_dispatch [OF assms(1) public_routes_distinct] by simp
  ultimately have r: "st' = st \<and> (resp = FrameworkReply 404 [] \<or> resp = AdministrationReply (AdminError n cd m))"
    using assms(2) c by (auto simp: app_request_def behind_gate_def)
  then show "st' = st" by blast
  from r e(1) show "resp = FrameworkReply 404 [] \<or> (\<exists>c cd m. c \<in> {503, 401, 403} \<and> resp = AdministrationReply (AdminError c cd m))"
    by blast
qed (use app_request_keys [OF assms(1,2)] app_request_reads [OF assms(1,2)] in \<open>auto simp: authorised_def\<close>)

theorem http_administration_witness:
  "app_request demo_web (build_app_with_cors []) demo_app_state demo_env [] (demo_call ''POST'' [''v1'', ''admin'', ''api-keys''] None []) demo_cp
     = (AdministrationReply (AdminError 401 ''unauthorized'' ''missing or malformed bearer token''), demo_cp)"
proof -
  let ?rq = "demo_call ''POST'' [''v1'', ''admin'', ''api-keys''] None []"
  obtain resp st' where r: "app_request demo_web (build_app_with_cors []) demo_app_state demo_env [] ?rq demo_cp = (resp, st')"
    by fastforce
  moreover have "resp = AdministrationReply (AdminError 401 ''unauthorized'' ''missing or malformed bearer token'')"
    using r by (auto simp: app_request_def demo_web_def demo_call_def demo_dispatch behind_gate_def demo_app_state_def
        require_admin_token_def)
  moreover have "st' = demo_cp"
    using http_administration [OF demo_web_router r, of "[''api-keys'']"] by (simp add: demo_call_def demo_web_def)
  ultimately show ?thesis by simp
qed

section \<open>The started program\<close>

text \<open>
  C15: A control plane that \<open>main\<close> started keeps, over every sequence of HTTP requests and health passes, and
  whatever the file system does to its blobs: the schema of the database; an audit file that verifies,
  that extends the one at the start, and that a restart opens with the same chain; and a blob directory
  without the EICAR file, in temporary and partial files too, so that no download ever answers it.
  Relies on the format of the rows of the audit file, and on writes to that file that do not fail.
\<close>

theorem started_server_safe:
  assumes "start_control_plane CW dk = (Inr srv, dk')"
    and "(server_step W CW print_row srv)\<^sup>*\<^sup>* (boot_state srv d files keys) st"
    and "db_wf d" "malware_free files" "file_inv (cw_platform CW) (cw_parse_row CW) print_row (sv_audit srv)"
  shows "db_wf (db (cp_app st)) \<and> malware_free (blobs (cp_app st))
    \<and> FileAuditLog_verify_chain (cw_platform CW) (cw_parse_row CW) (audit (cp_app st)) = Inr ()
    \<and> (\<exists>new. file_events (cw_parse_row CW) (audit (cp_app st)) = file_events (cw_parse_row CW) (sv_audit srv) @ new)
    \<and> FileAuditLog_open (cw_platform CW) (cw_parse_row CW) (Some (fl_file (audit (cp_app st)))) = Inr (audit (cp_app st))
    \<and> (app_request W ap (server_app srv) (server_env CW print_row srv ff E) buf rq st = (DownloadReply x, st') \<longrightarrow>
        (\<exists>b. dl_blob_hex x = hex_enc (cw_platform CW) b \<and> \<not> sublist EICAR_SIGNATURE b))"
proof -
  have wf: "db_wf (db (cp_app st))"
    by (rule server_run_wf [OF assms(2)]) (simp add: boot_state_def assms(3))
  have free: "malware_free (blobs (cp_app st))"
    by (rule server_run_malware_free [OF assms(1,2)]) (simp add: boot_state_def assms(4))
  have "file_inv (cw_platform CW) (cw_parse_row CW) print_row (audit (cp_app st))
      \<and> (\<exists>new. file_events (cw_parse_row CW) (audit (cp_app st)) = file_events (cw_parse_row CW) (sv_audit srv) @ new)"
    using server_run_audit [OF assms(2)] assms(5) by (simp add: boot_state_def)
  moreover have "\<exists>b. dl_blob_hex x = hex_enc (cw_platform CW) b \<and> \<not> sublist EICAR_SIGNATURE b"
    if "app_request W ap (server_app srv) (server_env CW print_row srv ff E) buf rq st = (DownloadReply x, st')"
  proof -
    from that obtain t req s' where "download_transfer (wire W (server_app srv) (server_env CW print_row srv ff E)) t req (cp_app st) = (Inr x, s')"
      by (rule reply_download)
    from download_clean [OF this _ free, of "sv_blob_root srv" "ff_get ff"] show ?thesis by (simp add: wire_def server_env_def)
  qed
  ultimately show ?thesis using wf free by (auto simp: flog.inv_verifies file_reopen)
qed

definition demo_file_env :: "(FileAuditLog, file_system) env" where
  "demo_file_env = \<lparr>plat = demo_platform, clock = (\<lambda>_. demo_time), db_fault_at = (\<lambda>_. NoFault), dbe = demo_dbe,
     policy_evaluate = TierPolicy_evaluate (for_tier Dev), scanners = [], scan_millis = 0,
     audit_append = FileAuditLog_append demo_platform demo_print_row None, audit_now = (\<lambda>_. demo_time), audit_uuid = (\<lambda>_. ''a''),
     blob_put = FileBlobStore_put [] PutOk, blob_get = FileBlobStore_get [] None, blob_delete = FileBlobStore_delete [] None,
     uuid_simple = ''u1'', random16 = replicate 16 7, signer = None,
     skip_tunnel_validation = True, http_client_error = None,
     http_get = (\<lambda>_ _. http_result.HttpStatus 200 ''200 OK''), probe_late = (\<lambda>_. False), probe_timed_out = (\<lambda>_. False),
     probe_millis = (\<lambda>_. 0)\<rparr>"

definition demo_faults :: file_faults where
  "demo_faults = \<lparr>ff_put = PutOk, ff_get = None, ff_delete = None\<rparr>"

text \<open>The started program gets an upload of the EICAR file.\<close>

theorem started_server_safe_witness:
  "\<exists>srv st. fst (start_control_plane demo_cp_world demo_disk) = Inr srv
     \<and> st = snd (app_request demo_web (build_app_with_cors (cfg_cors_allowed_origins (sv_config srv))) (server_app srv)
         (server_env demo_cp_world demo_print_row srv demo_faults demo_file_env) []
         (demo_call ''POST'' [''v1'', ''transfers''] None EICAR_SIGNATURE) (boot_state srv (demo_db []) Map.empty []))
     \<and> db_wf (db (cp_app st)) \<and> malware_free (blobs (cp_app st))
     \<and> FileAuditLog_verify_chain demo_platform demo_parse_row (audit (cp_app st)) = Inr ()"
proof -
  obtain srv dk' where srv: "start_control_plane demo_cp_world demo_disk = (Inr srv, dk')"
    "sv_audit srv = \<lparr>fl_file = [], fl_head = GENESIS_HEAD, fl_len = 0\<rparr>"
    using demo_cp_starts by blast
  define st where "st = snd (app_request demo_web (build_app_with_cors (cfg_cors_allowed_origins (sv_config srv))) (server_app srv)
         (server_env demo_cp_world demo_print_row srv demo_faults demo_file_env) []
         (demo_call ''POST'' [''v1'', ''transfers''] None EICAR_SIGNATURE) (boot_state srv (demo_db []) Map.empty []))"
  have inv: "file_inv (cw_platform demo_cp_world) (cw_parse_row demo_cp_world) demo_print_row (sv_audit srv)"
    using file_inv_open_empty [OF demo_row_laws] srv(2) by (simp add: demo_cp_world_def)
  have run: "(server_step demo_web demo_cp_world demo_print_row srv)\<^sup>*\<^sup>* (boot_state srv (demo_db []) Map.empty []) st"
    unfolding st_def server_step_def by (rule r_into_rtranclp, rule app_step.request) blast
  have wf: "db_wf (demo_db [])" using demo_wf(1) by simp
  have free: "malware_free Map.empty" by (simp add: malware_free_def)
  from started_server_safe [OF srv(1) run wf free inv]
  have "db_wf (db (cp_app st)) \<and> malware_free (blobs (cp_app st))
      \<and> FileAuditLog_verify_chain demo_platform demo_parse_row (audit (cp_app st)) = Inr ()"
    by (simp add: demo_cp_world_def)
  with srv(1) st_def show ?thesis by (intro exI [of _ srv] exI [of _ st]) simp
qed

end
