(* ===== verification/IrohProxy.thy ===== *)
theory IrohProxy
  imports TunnelProviders "HOL-Library.Sublist"
begin

text \<open>
  The tasks behind a running Iroh tunnel (\<open>aex-tunnel/src/iroh.rs\<close>): the loop that accepts
  connections, the loop of each connection that accepts streams, and the task of each stream, which
  connects to the local port and copies bytes both ways.  The copying itself is \<open>tokio::io::copy\<close>:
  a step relation that meets the contract \<open>byte_copier\<close>.  The lemmas show that no byte is lost, made
  up or moved to another stream, when the task of a stream ends, and where it waits for ever: the end
  of one direction is not passed on.
\<close>

section \<open>Copying one way\<close>

datatype source_end = StillOpen | Finished | Broken

text \<open>\<open>co_sent\<close> is everything that the source handed over, \<open>co_buffer\<close> what is read and not yet written.\<close>

record copier =
  co_sent :: bytes
  co_unread :: bytes
  co_buffer :: bytes
  co_written :: bytes
  co_end :: source_end
  co_sink_ok :: bool
  co_done :: bool

definition fresh_copier :: copier where
  "fresh_copier = \<lparr>co_sent = [], co_unread = [], co_buffer = [], co_written = [], co_end = StillOpen, co_sink_ok = True, co_done = False\<rparr>"

definition work :: "copier \<Rightarrow> nat" where
  "work c = 2 * length (co_unread c) + length (co_buffer c) + (if co_done c then 0 else 1)"

text \<open>
  What is documented of \<open>copy\<close>: it reads and writes in order until the source ends, fails when a read
  or a write fails, neither closes the sink nor looks at it while there is nothing to write, and
  waits while there is nothing to do.
\<close>

locale byte_copier =
  fixes copy_step :: "copier \<Rightarrow> copier \<Rightarrow> bool"
  assumes not_after_done: "copy_step c c' \<Longrightarrow> \<not> co_done c"
    and surroundings: "copy_step c c' \<Longrightarrow> co_sent c' = co_sent c \<and> co_end c' = co_end c \<and> co_sink_ok c' = co_sink_ok c"
    and in_order: "copy_step c c' \<Longrightarrow> co_written c' @ co_buffer c' @ co_unread c' = co_written c @ co_buffer c @ co_unread c"
    and grows: "copy_step c c' \<Longrightarrow> prefix (co_written c) (co_written c')"
    and ends: "copy_step c c' \<Longrightarrow> co_done c' \<Longrightarrow>
      co_end c = Finished \<and> co_unread c' = [] \<and> co_buffer c' = [] \<or> co_end c = Broken \<or> \<not> co_sink_ok c"
    and enabled: "\<not> co_done c \<Longrightarrow> (\<exists>c'. copy_step c c') \<longleftrightarrow> co_unread c \<noteq> [] \<or> co_buffer c \<noteq> [] \<or> co_end c \<noteq> StillOpen"
    and advances: "copy_step c c' \<Longrightarrow> work c' < work c"

text \<open>A copier with a buffer of 8 KB, as in the crate.\<close>

inductive buffered_copy :: "copier \<Rightarrow> copier \<Rightarrow> bool" where
  reads: "\<not> co_done c \<Longrightarrow> 0 < n \<Longrightarrow> n \<le> length (co_unread c) \<Longrightarrow> length (co_buffer c) + n \<le> 8192 \<Longrightarrow>
    buffered_copy c (c\<lparr>co_unread := drop n (co_unread c), co_buffer := co_buffer c @ take n (co_unread c)\<rparr>)"
| writes: "\<not> co_done c \<Longrightarrow> co_sink_ok c \<Longrightarrow> 0 < n \<Longrightarrow> n \<le> length (co_buffer c) \<Longrightarrow>
    buffered_copy c (c\<lparr>co_buffer := drop n (co_buffer c), co_written := co_written c @ take n (co_buffer c)\<rparr>)"
| finish: "\<not> co_done c \<Longrightarrow> co_unread c = [] \<Longrightarrow> co_buffer c = [] \<Longrightarrow> co_end c = Finished \<Longrightarrow> buffered_copy c (c\<lparr>co_done := True\<rparr>)"
| read_error: "\<not> co_done c \<Longrightarrow> co_end c = Broken \<Longrightarrow> buffered_copy c (c\<lparr>co_done := True\<rparr>)"
| write_error: "\<not> co_done c \<Longrightarrow> \<not> co_sink_ok c \<Longrightarrow> co_buffer c \<noteq> [] \<Longrightarrow> buffered_copy c (c\<lparr>co_done := True\<rparr>)"

lemma buffered_copy_enabled:
  assumes "\<not> co_done c" "co_unread c \<noteq> [] \<or> co_buffer c \<noteq> [] \<or> co_end c \<noteq> StillOpen"
  shows "\<exists>c'. buffered_copy c c'"
proof (cases "co_buffer c = []")
  case True
  show ?thesis
  proof (cases "co_unread c = []")
    case unread: True
    with assms True show ?thesis by (cases "co_end c") (auto intro: finish read_error)
  next
    case False
    then have "buffered_copy c (c\<lparr>co_unread := drop 1 (co_unread c), co_buffer := co_buffer c @ take 1 (co_unread c)\<rparr>)"
      using assms True by (intro reads) (simp_all add: Suc_le_eq)
    then show ?thesis by blast
  qed
next
  case False
  show ?thesis
  proof (cases "co_sink_ok c")
    case True
    have "buffered_copy c (c\<lparr>co_buffer := drop (length (co_buffer c)) (co_buffer c),
        co_written := co_written c @ take (length (co_buffer c)) (co_buffer c)\<rparr>)"
      using assms True False by (intro writes) simp_all
    then show ?thesis by blast
  qed (use assms False in \<open>blast intro: write_error\<close>)
qed

interpretation buffered: byte_copier buffered_copy
proof unfold_locales
  fix c :: copier assume "\<not> co_done c"
  then show "(\<exists>c'. buffered_copy c c') \<longleftrightarrow> co_unread c \<noteq> [] \<or> co_buffer c \<noteq> [] \<or> co_end c \<noteq> StillOpen"
    using buffered_copy_enabled [of c] by (auto elim: buffered_copy.cases)
qed (auto elim!: buffered_copy.cases simp: work_def)

section \<open>One stream\<close>

text \<open>\<open>Refused\<close> is the early return when the local port does not accept, \<open>Joined\<close> the end of the join.\<close>

datatype stream_task = Dialing | Proxying | Refused | Joined

record stream =
  sm_task :: stream_task
  sm_up :: copier
  sm_down :: copier

definition fresh_stream :: stream where
  "fresh_stream = \<lparr>sm_task = Dialing, sm_up = fresh_copier, sm_down = fresh_copier\<rparr>"

inductive proxy_stream_to_tcp :: "(copier \<Rightarrow> copier \<Rightarrow> bool) \<Rightarrow> stream \<Rightarrow> stream \<Rightarrow> bool" for copy_step where
  connected: "sm_task s = Dialing \<Longrightarrow> proxy_stream_to_tcp copy_step s (s\<lparr>sm_task := Proxying\<rparr>)"
| refused: "sm_task s = Dialing \<Longrightarrow> proxy_stream_to_tcp copy_step s (s\<lparr>sm_task := Refused\<rparr>)"
| up: "sm_task s = Proxying \<Longrightarrow> copy_step (sm_up s) u \<Longrightarrow> proxy_stream_to_tcp copy_step s (s\<lparr>sm_up := u\<rparr>)"
| down: "sm_task s = Proxying \<Longrightarrow> copy_step (sm_down s) d \<Longrightarrow> proxy_stream_to_tcp copy_step s (s\<lparr>sm_down := d\<rparr>)"
| joined: "sm_task s = Proxying \<Longrightarrow> co_done (sm_up s) \<Longrightarrow> co_done (sm_down s) \<Longrightarrow>
    proxy_stream_to_tcp copy_step s (s\<lparr>sm_task := Joined\<rparr>)"

text \<open>What the two ends do: hand over bytes, finish, break off, stop taking bytes.\<close>

inductive source_step :: "copier \<Rightarrow> copier \<Rightarrow> bool" where
  sends: "co_end c = StillOpen \<Longrightarrow> source_step c (c\<lparr>co_sent := co_sent c @ xs, co_unread := co_unread c @ xs\<rparr>)"
| finishes: "co_end c = StillOpen \<Longrightarrow> source_step c (c\<lparr>co_end := Finished\<rparr>)"
| breaks: "source_step c (c\<lparr>co_end := Broken\<rparr>)"
| refuses: "source_step c (c\<lparr>co_sink_ok := False\<rparr>)"

inductive stream_step :: "(copier \<Rightarrow> copier \<Rightarrow> bool) \<Rightarrow> stream \<Rightarrow> stream \<Rightarrow> bool" for copy_step where
  task: "proxy_stream_to_tcp copy_step s s' \<Longrightarrow> stream_step copy_step s s'"
| remote_side: "source_step (sm_up s) u \<Longrightarrow> stream_step copy_step s (s\<lparr>sm_up := u\<rparr>)"
| local_side: "source_step (sm_down s) d \<Longrightarrow> stream_step copy_step s (s\<lparr>sm_down := d\<rparr>)"

definition copier_inv :: "copier \<Rightarrow> bool" where
  "copier_inv c \<longleftrightarrow> co_sent c = co_written c @ co_buffer c @ co_unread c
     \<and> (co_done c \<longrightarrow> co_end c = Finished \<and> co_unread c = [] \<and> co_buffer c = [] \<or> co_end c = Broken \<or> \<not> co_sink_ok c)"

definition stream_inv :: "stream \<Rightarrow> bool" where
  "stream_inv s \<longleftrightarrow> copier_inv (sm_up s) \<and> copier_inv (sm_down s)
     \<and> (sm_task s = Joined \<longrightarrow> co_done (sm_up s) \<and> co_done (sm_down s))"

lemma source_step_inv: "source_step c c' \<Longrightarrow> copier_inv c \<Longrightarrow> copier_inv c' \<and> co_done c' = co_done c"
  by (erule source_step.cases) (auto simp: copier_inv_def)

context byte_copier
begin

lemma copy_step_inv:
  assumes "copy_step c c'" "copier_inv c"
  shows "copier_inv c'"
  unfolding copier_inv_def using assms surroundings [OF assms(1)] in_order [OF assms(1)] ends [OF assms(1)]
  by (auto simp: copier_inv_def)

lemma stream_step_inv: "stream_step copy_step s s' \<Longrightarrow> stream_inv s \<Longrightarrow> stream_inv s'"
  by (erule stream_step.cases; (erule proxy_stream_to_tcp.cases)?)
    (auto simp: stream_inv_def dest: copy_step_inv source_step_inv)

lemma stream_run_inv: "(stream_step copy_step)\<^sup>*\<^sup>* fresh_stream s \<Longrightarrow> stream_inv s"
proof (induction rule: rtranclp_induct)
  case base
  show ?case by (simp add: stream_inv_def copier_inv_def fresh_stream_def fresh_copier_def)
qed (rule stream_step_inv)

text \<open>Nothing is lost, made up or reordered on the way, and a clean end means that everything arrived.\<close>

lemma stream_faithful:
  assumes "(stream_step copy_step)\<^sup>*\<^sup>* fresh_stream s"
  shows "prefix (co_written (sm_up s)) (co_sent (sm_up s)) \<and> prefix (co_written (sm_down s)) (co_sent (sm_down s))
    \<and> (sm_task s = Joined \<and> co_end (sm_up s) = Finished \<and> co_sink_ok (sm_up s) \<longrightarrow> co_written (sm_up s) = co_sent (sm_up s))
    \<and> (sm_task s = Joined \<and> co_end (sm_down s) = Finished \<and> co_sink_ok (sm_down s) \<longrightarrow> co_written (sm_down s) = co_sent (sm_down s))"
  using stream_run_inv [OF assms] by (auto simp: stream_inv_def copier_inv_def)

text \<open>If neither side is silent for ever, the task ends: it always has a step, and only finitely many.\<close>

lemma proxy_enabled:
  assumes "sm_task s = Proxying" "co_end (sm_up s) \<noteq> StillOpen" "co_end (sm_down s) \<noteq> StillOpen"
  shows "\<exists>s'. proxy_stream_to_tcp copy_step s s'"
proof (cases "co_done (sm_up s) \<and> co_done (sm_down s)")
  case False
  then have "(\<exists>u. copy_step (sm_up s) u) \<or> (\<exists>d. copy_step (sm_down s) d)" using enabled assms(2,3) by blast
  then show ?thesis using assms(1) by (blast intro: up down)
qed (use assms(1) in \<open>blast intro: joined\<close>)

lemma proxy_step_Proxying:
  assumes "proxy_stream_to_tcp copy_step s s'" "sm_task s = Proxying"
  shows "co_end (sm_up s') = co_end (sm_up s) \<and> co_end (sm_down s') = co_end (sm_down s) \<and> sm_task s' \<in> {Proxying, Joined}
    \<and> (sm_task s' = Proxying \<longrightarrow> work (sm_up s') + work (sm_down s') < work (sm_up s) + work (sm_down s))"
  using assms by (auto elim!: proxy_stream_to_tcp.cases dest: surroundings advances)

lemma proxy_ends:
  assumes "sm_task s = Proxying" "co_end (sm_up s) \<noteq> StillOpen" "co_end (sm_down s) \<noteq> StillOpen"
  shows "\<exists>s'. (proxy_stream_to_tcp copy_step)\<^sup>*\<^sup>* s s' \<and> sm_task s' = Joined"
  using assms
proof (induction "work (sm_up s) + work (sm_down s)" arbitrary: s rule: less_induct)
  case less
  from proxy_enabled [OF less.prems] obtain s1 where s1: "proxy_stream_to_tcp copy_step s s1" by blast
  note p = proxy_step_Proxying [OF s1 less.prems(1)]
  show ?case
  proof (cases "sm_task s1 = Proxying")
    case True
    with p less.hyps [of s1] less.prems show ?thesis
      by (metis converse_rtranclp_into_rtranclp s1)
  qed (use p s1 in blast)
qed

text \<open>
  A side that has finished is not told to the other: while the task waits for the answer of a local
  server that itself waits for the end of the request, no step is left.
\<close>

lemma half_close_waits:
  assumes "sm_task s = Proxying" "co_done (sm_up s)" "\<not> co_done (sm_down s)"
    and "co_end (sm_down s) = StillOpen" "co_unread (sm_down s) = []" "co_buffer (sm_down s) = []"
  shows "\<not> proxy_stream_to_tcp copy_step s s'"
proof
  assume "proxy_stream_to_tcp copy_step s s'"
  then have "copy_step (sm_up s) (sm_up s') \<or> copy_step (sm_down s) (sm_down s')"
    using assms(1,3) by (auto elim: proxy_stream_to_tcp.cases)
  then show False using not_after_done assms(2) enabled [OF assms(3)] assms(4-6) by blast
qed

end

section \<open>Connections and the accept loop\<close>

text \<open>A connection with the loop that accepts its streams, and an endpoint with the loop that accepts its connections.\<close>

record connection =
  cn_open :: bool
  cn_loop :: bool
  cn_streams :: "stream list"

record acceptor =
  ac_open :: bool
  ac_loop :: bool
  ac_conns :: "connection list"

definition accepted_connection :: connection where
  "accepted_connection = \<lparr>cn_open = True, cn_loop = True, cn_streams = []\<rparr>"

definition spawned_acceptor :: acceptor where
  "spawned_acceptor = \<lparr>ac_open = True, ac_loop = True, ac_conns = []\<rparr>"

inductive run_connection_streams :: "connection \<Rightarrow> connection \<Rightarrow> bool" where
  accept_bi: "cn_loop c \<Longrightarrow> cn_open c \<Longrightarrow> run_connection_streams c (c\<lparr>cn_streams := cn_streams c @ [fresh_stream]\<rparr>)"
| accept_bi_error: "cn_loop c \<Longrightarrow> \<not> cn_open c \<Longrightarrow> run_connection_streams c (c\<lparr>cn_loop := False\<rparr>)"

text \<open>A connection that fails while it is accepted leaves no trace.\<close>

inductive run_accept_loop :: "acceptor \<Rightarrow> acceptor \<Rightarrow> bool" where
  incoming: "ac_loop a \<Longrightarrow> ac_open a \<Longrightarrow> run_accept_loop a (a\<lparr>ac_conns := ac_conns a @ [accepted_connection]\<rparr>)"
| incoming_error: "ac_loop a \<Longrightarrow> ac_open a \<Longrightarrow> run_accept_loop a a"
| endpoint_closed: "ac_loop a \<Longrightarrow> \<not> ac_open a \<Longrightarrow> run_accept_loop a (a\<lparr>ac_loop := False\<rparr>)"

text \<open>What a stream sees when its connection is gone: no more bytes from the remote side, and none to it.\<close>

definition cut :: "stream \<Rightarrow> stream" where
  "cut s = s\<lparr>sm_up := (sm_up s)\<lparr>co_end := Broken\<rparr>, sm_down := (sm_down s)\<lparr>co_sink_ok := False\<rparr>\<rparr>"

definition lost :: "connection \<Rightarrow> connection" where
  "lost c = c\<lparr>cn_open := False, cn_streams := map cut (cn_streams c)\<rparr>"

text \<open>\<open>stop\<close> aborts the accept loop and closes the endpoint, and with it every connection; their tasks go on.\<close>

definition stop_acceptor :: "acceptor \<Rightarrow> acceptor" where
  "stop_acceptor a = \<lparr>ac_open = False, ac_loop = False, ac_conns = map lost (ac_conns a)\<rparr>"

inductive acceptor_step :: "(copier \<Rightarrow> copier \<Rightarrow> bool) \<Rightarrow> acceptor \<Rightarrow> acceptor \<Rightarrow> bool" for copy_step where
  accept_task: "run_accept_loop a a' \<Longrightarrow> acceptor_step copy_step a a'"
| connection_task: "i < length (ac_conns a) \<Longrightarrow> run_connection_streams (ac_conns a ! i) c \<Longrightarrow>
    acceptor_step copy_step a (a\<lparr>ac_conns := (ac_conns a)[i := c]\<rparr>)"
| stream_task: "i < length (ac_conns a) \<Longrightarrow> j < length (cn_streams (ac_conns a ! i)) \<Longrightarrow>
    stream_step copy_step (cn_streams (ac_conns a ! i) ! j) s \<Longrightarrow>
    acceptor_step copy_step a (a\<lparr>ac_conns := (ac_conns a)[i := (ac_conns a ! i)\<lparr>cn_streams := (cn_streams (ac_conns a ! i))[j := s]\<rparr>]\<rparr>)"
| peer_gone: "i < length (ac_conns a) \<Longrightarrow> acceptor_step copy_step a (a\<lparr>ac_conns := (ac_conns a)[i := lost (ac_conns a ! i)]\<rparr>)"
| stopped: "acceptor_step copy_step a (stop_acceptor a)"

text \<open>Every stream behaves as if it were alone.\<close>

definition streams_sound :: "(copier \<Rightarrow> copier \<Rightarrow> bool) \<Rightarrow> acceptor \<Rightarrow> bool" where
  "streams_sound copy_step a \<longleftrightarrow> (\<forall>c \<in> set (ac_conns a). \<forall>s \<in> set (cn_streams c). (stream_step copy_step)\<^sup>*\<^sup>* fresh_stream s)"

lemma cut_reached: "(stream_step copy_step)\<^sup>*\<^sup>* r s \<Longrightarrow> (stream_step copy_step)\<^sup>*\<^sup>* r (cut s)"
proof -
  let ?m = "s\<lparr>sm_up := (sm_up s)\<lparr>co_end := Broken\<rparr>\<rparr>"
  have "stream_step copy_step s ?m" by (rule remote_side) (rule breaks)
  moreover have "stream_step copy_step ?m (?m\<lparr>sm_down := (sm_down ?m)\<lparr>co_sink_ok := False\<rparr>\<rparr>)" by (rule local_side) (rule refuses)
  moreover have "?m\<lparr>sm_down := (sm_down ?m)\<lparr>co_sink_ok := False\<rparr>\<rparr> = cut s" by (simp add: cut_def)
  ultimately show "(stream_step copy_step)\<^sup>*\<^sup>* r s \<Longrightarrow> ?thesis"
    by (metis rtranclp.rtrancl_into_rtrancl)
qed

lemma lost_sound: "streams_sound copy_step a \<Longrightarrow> c \<in> set (ac_conns a) \<Longrightarrow>
    s \<in> set (cn_streams (lost c)) \<Longrightarrow> (stream_step copy_step)\<^sup>*\<^sup>* fresh_stream s"
  by (auto simp: streams_sound_def lost_def intro: cut_reached)

lemma acceptor_step_sound:
  assumes "acceptor_step copy_step a a'" "streams_sound copy_step a"
  shows "streams_sound copy_step a'"
  using assms(1)
proof cases
  case accept_task
  with assms(2) show ?thesis by (auto elim!: run_accept_loop.cases simp: streams_sound_def accepted_connection_def)
next
  case (connection_task i c)
  have "(stream_step copy_step)\<^sup>*\<^sup>* fresh_stream s" if "s \<in> set (cn_streams c)" for s
    using connection_task(2,3) that assms(2) nth_mem [OF connection_task(2)]
    by (fastforce elim!: run_connection_streams.cases simp: streams_sound_def)
  with assms(2) connection_task(1) show ?thesis
    by (auto simp: streams_sound_def dest!: subsetD [OF set_update_subset_insert])
next
  case (stream_task i j s)
  have "(stream_step copy_step)\<^sup>*\<^sup>* fresh_stream (cn_streams (ac_conns a ! i) ! j)"
    using stream_task(3) assms(2) nth_mem [OF stream_task(2)] nth_mem [OF stream_task(3)] by (auto simp: streams_sound_def)
  then have "(stream_step copy_step)\<^sup>*\<^sup>* fresh_stream s" using stream_task(4) by (rule rtranclp.rtrancl_into_rtrancl)
  with assms(2) stream_task(1) nth_mem [OF stream_task(2)] show ?thesis
    by (auto simp: streams_sound_def dest!: subsetD [OF set_update_subset_insert])
next
  case (peer_gone i)
  with assms(2) lost_sound [OF assms(2)] show ?thesis
    by (auto simp: streams_sound_def dest!: subsetD [OF set_update_subset_insert] intro: nth_mem)
next
  case stopped
  with lost_sound [OF assms(2)] show ?thesis by (auto simp: streams_sound_def stop_acceptor_def)
qed

lemma acceptor_run_sound: "(acceptor_step copy_step)\<^sup>*\<^sup>* spawned_acceptor a \<Longrightarrow> streams_sound copy_step a"
proof (induction rule: rtranclp_induct)
  case base
  show ?case by (simp add: streams_sound_def spawned_acceptor_def)
qed (rule acceptor_step_sound)

text \<open>
  Over any interleaving of the tasks of a running tunnel: the bytes of a stream arrive in order and on
  that stream alone, all of them if its task ends in order; the task ends once both sides have
  finished or broken off; but it waits for ever when the remote side has finished and a local server waits for
  the end of the request before it answers.
\<close>

theorem iroh_streams_faithful:
  assumes "byte_copier copy_step" "(acceptor_step copy_step)\<^sup>*\<^sup>* spawned_acceptor a"
    and "c \<in> set (ac_conns a)" "s \<in> set (cn_streams c)"
  shows "prefix (co_written (sm_up s)) (co_sent (sm_up s)) \<and> prefix (co_written (sm_down s)) (co_sent (sm_down s))
    \<and> (sm_task s = Joined \<and> co_end (sm_up s) = Finished \<and> co_sink_ok (sm_up s) \<longrightarrow> co_written (sm_up s) = co_sent (sm_up s))
    \<and> (sm_task s = Joined \<and> co_end (sm_down s) = Finished \<and> co_sink_ok (sm_down s) \<longrightarrow> co_written (sm_down s) = co_sent (sm_down s))
    \<and> (sm_task s = Proxying \<and> co_end (sm_up s) \<noteq> StillOpen \<and> co_end (sm_down s) \<noteq> StillOpen \<longrightarrow>
        (\<exists>s'. (proxy_stream_to_tcp copy_step)\<^sup>*\<^sup>* s s' \<and> sm_task s' = Joined))
    \<and> (sm_task s = Proxying \<and> co_done (sm_up s) \<and> \<not> co_done (sm_down s) \<and> co_end (sm_down s) = StillOpen
        \<and> co_unread (sm_down s) = [] \<and> co_buffer (sm_down s) = [] \<longrightarrow> (\<nexists>s'. proxy_stream_to_tcp copy_step s s'))"
proof -
  have s: "(stream_step copy_step)\<^sup>*\<^sup>* fresh_stream s"
    using acceptor_run_sound [OF assms(2)] assms(3,4) by (auto simp: streams_sound_def)
  show ?thesis
    using byte_copier.stream_faithful [OF assms(1) s] byte_copier.proxy_ends [OF assms(1), of s]
      byte_copier.half_close_waits [OF assms(1), of s] by blast
qed

text \<open>A request of one byte, all of it delivered, and a local server that waits for its end: nothing more happens.\<close>

definition one_byte :: "bytes \<Rightarrow> bytes \<Rightarrow> bytes \<Rightarrow> bool \<Rightarrow> stream" where
  "one_byte unread buffer written all_done = \<lparr>sm_task = Proxying, sm_up = \<lparr>co_sent = [1], co_unread = unread, co_buffer = buffer,
     co_written = written, co_end = Finished, co_sink_ok = True, co_done = all_done\<rparr>, sm_down = fresh_copier\<rparr>"

lemma one_byte_arrives: "(stream_step buffered_copy)\<^sup>*\<^sup>* fresh_stream (one_byte [] [] [1] True)"
proof -
  define s1 where "s1 = fresh_stream\<lparr>sm_task := Proxying\<rparr>"
  define s2 where "s2 = s1\<lparr>sm_up := (sm_up s1)\<lparr>co_sent := [1], co_unread := [1]\<rparr>\<rparr>"
  have h1: "stream_step buffered_copy fresh_stream s1"
    unfolding s1_def by (intro task connected) (simp add: fresh_stream_def)
  have h2: "stream_step buffered_copy s1 s2"
    unfolding s2_def using remote_side [OF sends [of "sm_up s1" "[1]"], of buffered_copy] by (simp add: s1_def fresh_stream_def fresh_copier_def)
  have h3: "stream_step buffered_copy s2 (one_byte [1] [] [] False)"
    using remote_side [OF finishes [of "sm_up s2"], of buffered_copy] by (simp add: s1_def s2_def one_byte_def fresh_stream_def fresh_copier_def)
  have h4: "stream_step buffered_copy (one_byte [1] [] [] False) (one_byte [] [1] [] False)"
    using task [OF up [of "one_byte [1] [] [] False" buffered_copy, OF _ reads [of "sm_up (one_byte [1] [] [] False)" 1]]] by (simp add: one_byte_def)
  have h5: "stream_step buffered_copy (one_byte [] [1] [] False) (one_byte [] [] [1] False)"
    using task [OF up [of "one_byte [] [1] [] False" buffered_copy, OF _ writes [of "sm_up (one_byte [] [1] [] False)" 1]]] by (simp add: one_byte_def)
  have h6: "stream_step buffered_copy (one_byte [] [] [1] False) (one_byte [] [] [1] True)"
    using task [OF up [of "one_byte [] [] [1] False" buffered_copy, OF _ finish [of "sm_up (one_byte [] [] [1] False)"]]] by (simp add: one_byte_def)
  note next_step = converse_rtranclp_into_rtranclp [where r = "stream_step buffered_copy"]
  show ?thesis
    by (rule next_step [OF h1 next_step [OF h2 next_step [OF h3 next_step [OF h4 next_step [OF h5 r_into_rtranclp [of "stream_step buffered_copy", OF h6]]]]]])
qed

lemma one_byte_waits: "\<not> proxy_stream_to_tcp buffered_copy (one_byte [] [] [1] True) s'"
  by (rule buffered.half_close_waits) (simp_all add: one_byte_def fresh_copier_def)

text \<open>After \<open>stop\<close> no connection and no stream is accepted any more.\<close>

definition all_stopped :: "acceptor \<Rightarrow> bool" where
  "all_stopped a \<longleftrightarrow> \<not> ac_open a \<and> \<not> ac_loop a \<and> list_all (\<lambda>c. \<not> cn_open c) (ac_conns a)"

lemma stop_stops: "all_stopped (stop_acceptor a)"
  by (simp add: all_stopped_def stop_acceptor_def lost_def list_all_iff)

lemma stopped_stays:
  assumes "acceptor_step copy_step a a'" "all_stopped a"
  shows "all_stopped a' \<and> map (length \<circ> cn_streams) (ac_conns a') = map (length \<circ> cn_streams) (ac_conns a)"
  using assms(1)
proof cases
  case accept_task
  with assms(2) show ?thesis by (auto elim!: run_accept_loop.cases simp: all_stopped_def)
next
  case (connection_task i c)
  with assms(2) have "\<not> cn_open c \<and> length (cn_streams c) = length (cn_streams (ac_conns a ! i))"
    by (auto elim!: run_connection_streams.cases simp: all_stopped_def list_all_length)
  with assms(2) connection_task(1,2) show ?thesis
    by (auto simp: all_stopped_def list_all_length nth_list_update map_update list_update_same_conv)
next
  case (stream_task i j s)
  with assms(2) show ?thesis
    by (auto simp: all_stopped_def list_all_length nth_list_update map_update list_update_same_conv)
next
  case (peer_gone i)
  with assms(2) show ?thesis
    by (auto simp: all_stopped_def lost_def list_all_length nth_list_update map_update list_update_same_conv)
next
  case stopped
  then show ?thesis using stop_stops by (simp add: stop_acceptor_def lost_def comp_def)
qed

end
