(* ===== verification/Spec2Isabelle.thy ===== *)
theory Spec2Isabelle
  imports CoreProperties ControlProperties RequestProperties NetworkProperties ServiceProperties HostProperties OperationProperties
    ServerProperties IrohProxy
begin

text \<open>
  Verification of AEX, the Agent Exchange Protocol (\<open>src/crates\<close>): agents register keys, send
  each other files through a control plane or directly from a data plane behind a tunnel, and
  every step leaves a record in a hash-chained audit log.

  \<^bold>\<open>The program and its model.\<close>  Fallible functions return the sum type of errors and values
  (\<open>bindE\<close> is the question mark operator); handlers with effects are state-passing actions
  (\<open>bindS\<close>) over records of the state; panics are values.  Machine integers are words of their
  width.  A theory models a component:

  \<^item> \<open>AexPrelude\<close>, \<open>TextOps\<close>, \<open>Platform\<close>: the monads, Rust strings (lists of bytes) and integer
    printing, UTF-8, trimming and splitting, and the functions of other crates (SHA-256,
    hexadecimal text, Ed25519, JSON) as parameters with the laws that the code relies on.
  \<^item> \<open>CoreTypes\<close>, \<open>Wire\<close>, \<open>WireV2\<close>, \<open>Capability\<close>, \<open>SignatureHex\<close>, \<open>Endpoint\<close>
    (\<open>aex-core/src\<close>): identifiers and DID URIs, every canonical byte string that is signed,
    capability sets, signatures, the debouncer of endpoint health.
  \<^item> \<open>Scanner\<close> (\<open>aex-scanner\<close>), \<open>Policy\<close> and \<open>Webhook\<close> (\<open>aex-policy\<close>), \<open>AuditLog\<close> and
    \<open>AuditFile\<close> (\<open>aex-audit\<close>), \<open>Billing\<close> (\<open>aex-billing\<close>).
  \<^item> \<open>Database\<close>, \<open>Blobs\<close>, \<open>ControlPlane\<close>, \<open>ApiErrors\<close>, \<open>Agents\<close>, \<open>EndpointValidator\<close>, \<open>Transfers\<close>,
    \<open>Inbox\<close>, \<open>HealthMonitor\<close>, \<open>ApiKeys\<close>, \<open>Deployment\<close> (\<open>aex-control-plane/src\<close>): the tables and
    their statements with the unique constraints of the migrations, the blob stores, each
    request handler with all its branches, the pass of the health monitor, administration, the
    signing key and the guarding parts of the configuration.  \<open>MonitorLoop\<close>, \<open>Routes\<close>,
    \<open>MetricsText\<close>, \<open>HttpService\<close> and \<open>ControlPlaneHost\<close>: the loop around the pass, the routers, the
    published metrics, a request from its route through gate, extractors and handler to its answer,
    and the program itself: its configuration and its start-up, step by step.
  \<^item> \<open>DataPlane\<close> (\<open>aex-data-plane/src\<close>): tickets, blob sources and the handler that serves a blob;
    \<open>DataPlaneHost\<close> (its \<open>main.rs\<close>): command line, options, transport, readiness check, output with
    the line of the network probe beside it, and the administration endpoint that inserts blobs while the
    server runs.
  \<^item> \<open>SafeHttp\<close>, \<open>Connectivity\<close>, \<open>NetClient\<close> (\<open>aex-net\<close>), \<open>Jws\<close> (\<open>aex-jws\<close>), \<open>Identity\<close>, \<open>DidWeb\<close>,
    \<open>ResolverChain\<close> (\<open>aex-identity\<close>), \<open>A2ABridge\<close> (\<open>aex-a2a-bridge\<close>), \<open>Tunnels\<close>,
    \<open>TunnelProviders\<close> and \<open>IrohProxy\<close> (\<open>aex-tunnel\<close>): what talks to strangers.  \<open>AddressText\<close> prints addresses.
  \<^item> \<open>Conformance\<close> (\<open>aex-conformance/src/lib.rs\<close>): the suite, run on the model of the stack it tests;
    \<open>CommandLines\<close> (\<open>main.rs\<close> of \<open>aex-cli\<close> and \<open>aex-conformance\<close>): output and exit codes.

  \<^bold>\<open>Interfaces.\<close>  Traits and shared contracts are locales, each interpreted on the model:
  \<open>line_message\<close> and \<open>message_families\<close> (canonical messages of both versions), \<open>audit_log\<close> and
  \<open>rekor_anchored\<close> (memory log, file log, anchored logs), \<open>rekor_submitter\<close> (stub and logging), \<open>blob_store\<close> and \<open>reliable_blob_store\<close>
  (memory and file), \<open>single_use\<close> (the nonce tables and the data plane's set), \<open>blocking_policy\<close>
  (the tier policy), \<open>identity_provider\<close> (four providers), \<open>tunnel_provider\<close> with its extension
  \<open>restartable_provider\<close> and the family \<open>tunnel_family\<close> over a changing world (six providers),
  and \<open>billing_provider\<close>.  Two locales state what is documented of code that is not in the repository:
  \<open>web_router\<close>, the route lookup of the web framework, and \<open>byte_copier\<close>, the copying of a stream; each is
  interpreted on a definition that does it.

  \<^bold>\<open>How the parts meet.\<close>  \<open>System\<close> is the control plane as a transition system: \<open>db_step\<close> is one
  statement on the database, so that a chain of steps is any interleaving of requests, and each
  handler refines such a chain.  \<open>TransferFlow\<close>, \<open>TransferCreation\<close> and \<open>Liveness\<close> say what a
  handler needs and changes, and when it must succeed.  \<open>ResolverChain\<close> interleaves concurrent
  calls at their awaits.  \<open>ServerRun\<close> wires the program as \<open>main.rs\<close> does and runs it: any sequence of
  HTTP requests and health passes on the file log, the blob directory and the four scanners.
  \<open>IrohProxy\<close> interleaves the tasks of all streams.  The theorems below join the control plane, which issues tickets, to
  the data plane, which honours them.

  \<^bold>\<open>What is shown.\<close>  \<open>CoreProperties\<close>: canonical messages are injective and the versions separate,
  the audit chain binds its events, health follows the history of probes, skew bounds.
  \<open>ControlProperties\<close>, \<open>RequestProperties\<close>, \<open>TransferProperties\<close>: the schema invariant under
  interleaving, refinement, life cycle of a transfer, who may cause what, exact conditions and
  effects of each request, screening of uploads, replays.  \<open>NetworkProperties\<close>: no connection to a
  forbidden address, exact verification of JWS (against a specification that shares no definition with
  the verifier) and of delegation chains, one key per peer, single flight and its lost wake-up.  \<open>ServiceProperties\<close>: administration, API keys, retries, webhooks,
  captive portals, tunnels, usage records, the signing key.  \<open>HostProperties\<close>: when the data plane
  comes up and what it says, that it sends no malware while blobs come before requests and that a
  rewritten blob escapes the scan, the states of tunnels, and that the conformance suite passes.
  \<open>OperationProperties\<close>: a restart keeps the signing key and the audit log, the health loop stops
  when told to, requests reach the same endpoint in whatever order routers are merged.
  \<open>ServerProperties\<close>: HTTP requests refine statements, what a request may change and who may administer,
  and what holds of the started program after any run.  \<open>IrohProxy\<close>: the bytes of a stream arrive in
  order and on that stream alone, when its task ends and where it waits for ever.
  \<open>Demo\<close> is a concrete run on which the witnesses stand.

  \<^bold>\<open>Bounds and assumptions.\<close>  Loops are recursive functions with a termination proof; no fuel is
  used.  The loop of the health monitor may run for ever and is a partial function, with a proof
  that it returns after a shutdown.  Cryptography is assumed only where a statement says so, as an explicit hypothesis: a made
  signature verifies, hexadecimal text round trips, digests have 32 bytes, and for the binding of
  the audit chain that the two histories do not collide under SHA-256.  Time, randomness, network
  answers and faults of the database or the file system are inputs, so that the theorems hold for
  all of them.  A statement on the database is atomic, as in the code, which uses single
  statements and one transaction.

  \<^bold>\<open>Not modelled.\<close>  Logging, signals and the parsing of arguments by libraries.  The text encoder of the
  metrics, the extractors of the web framework and what its layers answer on their own are parameters;
  a request that the timeout layer drops half done, and the cancellation of calls in general, are not
  modelled, nor is the percent encoding of paths.  The delays of retries are computed in floating point
  and are inputs.
\<close>

section \<open>From the control plane to the data plane\<close>

definition as_ticket :: "TicketResponse \<Rightarrow> Ticket" where
  "as_ticket t = \<lparr>ti_transfer_id = tk_transfer_id t, ti_recipient = tk_recipient t,
     ti_data_plane_url = tk_data_plane_url t, ti_expires = tk_expires t, ti_nonce = tk_nonce t,
     ti_signature = tk_signature t\<rparr>"

lemma issued_ticket_authentic_iff:
  assumes "issue_ticket E tid req s = (Inr t, s')" "hex_laws (plat E)" "signer E = Some sign"
    and "\<And>c. length (sign c) = 64 \<and> ed25519_verify (plat E) pk c (sign c)"
  shows "ticket_authentic (plat E) (TicketVerifier_new pk (tk_data_plane_url t)) now (as_ticket t)
    \<longleftrightarrow> sint now \<le> sint (now_unix E + 60 + 60)"
  using issue_ticket_Inr [OF assms(1)] assms(2-4)
  by (auto simp: ticket_authentic_def as_ticket_def TicketVerifier_new_def hex_laws_def)

text \<open>
  C6: A ticket that the control plane issues is honoured by the data plane it names, once: the first
  presentation succeeds iff it is made at most 120 seconds after the issue (60 seconds of validity and
  60 of tolerated skew), and every further one is refused as a replay.  Relies on Ed25519: a signature
  made with the key pair verifies.
\<close>

theorem issued_ticket_honoured_once:
  assumes "issue_ticket E tid req s = (Inr t, s')" "hex_laws (plat E)" "signer E = Some sign"
    and "\<forall>c. length (sign c) = 64 \<and> ed25519_verify (plat E) pk c (sign c)"
    and "\<bar>sint (now_unix E)\<bar> < 2 ^ 62" "tk_nonce t \<notin> used"
  shows "((\<exists>vt. verify_ticket (plat E) (TicketVerifier_new pk (tk_data_plane_url t)) now (as_ticket t) used
          = (Inr vt, insert (tk_nonce t) used) \<and> vt_transfer_id vt = tid \<and> vt_recipient vt = rq_recipient_agent_id req)
      \<longleftrightarrow> sint now \<le> sint (now_unix E) + 120)
    \<and> verify_ticket (plat E) v now' (as_ticket t) (insert (tk_nonce t) used) \<noteq> (Inr vt', used')"
proof -
  have "sint (now_unix E + 60 + 60) = sint (now_unix E + 120)" by (simp add: add.commute)
  also have "\<dots> = sint (now_unix E) + 120"
    using assms(5) by (simp add: sint_word_add signed_take_bit_int_eq_self)
  finally have exp: "sint (now_unix E + 60 + 60) = sint (now_unix E) + 120" .
  have "ti_nonce (as_ticket t) = tk_nonce t" "ti_transfer_id (as_ticket t) = tid"
    "ti_recipient (as_ticket t) = rq_recipient_agent_id req"
    using issue_ticket_Inr [OF assms(1)] by (auto simp: as_ticket_def)
  then show ?thesis
    using issued_ticket_authentic_iff [OF assms(1-3), of pk now] assms(4,6)
    unfolding exp verify_ticket_Inr_iff by auto
qed

theorem issued_ticket_honoured_once_witness:
  "\<exists>t s' vt used'. issue_ticket demo_env ''tx_0'' (demo_receipt ''tx_0'' ''request_ticket'') demo_tunnelled = (Inr t, s')
     \<and> verify_ticket demo_platform (TicketVerifier_new plane_pk ''https://t'') 1100 (as_ticket t) {} = (Inr vt, used')
     \<and> (\<nexists>vt used''. verify_ticket demo_platform (TicketVerifier_new plane_pk ''https://t'') 1100 (as_ticket t) used' = (Inr vt, used''))"
proof -
  obtain t s' where r: "issue_ticket demo_env ''tx_0'' (demo_receipt ''tx_0'' ''request_ticket'') demo_tunnelled = (Inr t, s')"
    using demo_tickets by blast
  have u: "tk_data_plane_url t = ''https://t''" using issue_ticket_Inr [OF r] by (auto simp: row_of_def)
  have sg: "\<forall>c. length (demo_sign plane_pk c) = 64 \<and> ed25519_verify (plat demo_env) plane_pk c (demo_sign plane_pk c)"
    by (simp add: demo_platform_def demo_sign_def demo_sha256_def plane_pk_def)
  note once = issued_ticket_honoured_once [OF r _ _ sg, of "{}" 1100, simplified u]
  have again: "verify_ticket demo_platform v n (as_ticket t) {tk_nonce t} \<noteq> (Inr vt, x)" for v n vt x
    using once [of v n vt x] demo_hex_laws by simp
  obtain vt where "verify_ticket demo_platform (TicketVerifier_new plane_pk ''https://t'') 1100 (as_ticket t) {} = (Inr vt, {tk_nonce t})"
    using once [of "TicketVerifier_new plane_pk []" 0] demo_hex_laws by auto
  with r again show ?thesis by blast
qed

section \<open>The data plane\<close>

text \<open>
  C7: The data plane sends a blob only on an authentic ticket: signed by the control plane, made out
  to this data plane and to the requested transfer, not expired beyond the skew, with a nonce not
  seen before; what it sends are the bytes of that transfer.
\<close>

theorem blob_needs_ticket:
  assumes "get_blob E t h s = (Sent resp, s')"
  shows "\<exists>tx ticket. h = Some (AsciiHeader tx) \<and> parse_ticket E tx = Inr ticket
    \<and> ticket_authentic (dp_plat E) (dp_verifier E) (dp_now E) ticket \<and> ti_transfer_id ticket = t
    \<and> ti_nonce ticket \<notin> used_nonces s \<and> ti_nonce ticket \<in> used_nonces s' \<and> src_bytes E 1 t = Inr (br_body resp)"
proof -
  from assms have sv: "serve E t h s = (Inr resp, s')" by (simp add: get_blob_Sent_iff)
  from serve_Inr [OF sv] obtain tx ticket where
    k: "h = Some (AsciiHeader tx)" "parse_ticket E tx = Inr ticket"
    "ticket_authentic (dp_plat E) (dp_verifier E) (dp_now E) ticket" "ti_transfer_id ticket = t"
    "ti_nonce ticket \<notin> used_nonces s" "src_bytes E 1 t = Inr (br_body resp)" by auto
  moreover have "ti_nonce ticket \<in> used_nonces s'"
    using served_nonce [OF assms] k by (auto simp: presented_nonce_def)
  ultimately show ?thesis by blast
qed

definition demo_plane :: dp_env where
  "demo_plane = \<lparr>dp_plat = demo_platform, dp_verifier = TicketVerifier_new plane_pk ''https://t'', dp_now = 1000,
     parse_ticket = (\<lambda>n. Inr (demo_ticket n)), header_value_ok = (\<lambda>_. True),
     src_metadata = (\<lambda>_. Inr \<lparr>bm_size = 3, bm_mime = ''text/plain'', bm_filename = ''f''\<rparr>),
     src_bytes = (\<lambda>_ _. Inr demo_blob), dp_scanner = Some [EicarScanner 0], dp_scan_millis = 0, verdict_text = (\<lambda>_. [])\<rparr>"

lemma demo_serves:
  assumes "valid_nonce n" "n \<notin> used_nonces s" "\<forall>r. scan_cache s ''tx_0'' \<noteq> Some (CachedBlocked r)"
  shows "\<exists>resp. get_blob demo_plane ''tx_0'' (Some (AsciiHeader n)) s
    = (Sent resp, \<lparr>used_nonces = insert n (used_nonces s), scan_cache = (scan_cache s)(''tx_0'' \<mapsto> CachedClean)\<rparr>)"
proof -
  have v: "verify_ticket demo_platform (TicketVerifier_new plane_pk ''https://t'') 1000 (demo_ticket n) (used_nonces s)
      = (Inr \<lparr>vt_transfer_id = ''tx_0'', vt_recipient = bob, vt_expires = 1060, vt_nonce = n\<rparr>, insert n (used_nonces s))"
    using assms(2) demo_ticket_authentic [OF assms(1)] unfolding verify_ticket_Inr_iff by (simp add: demo_ticket_def)
  have "\<not> scan_blocks [EicarScanner 0] m demo_blob" for m
    using sublist_length_le [of EICAR_SIGNATURE demo_blob]
    by (auto simp: scan_blocks_def Eicar_verdict dp_scan_input_def demo_blob_def EICAR_SIGNATURE_def as_bytes_def)
  then have c: "check_scan demo_plane ''tx_0'' m u = (Inr (), u\<lparr>scan_cache := (scan_cache u)(''tx_0'' \<mapsto> CachedClean)\<rparr>)"
    if "scan_cache u = scan_cache s" for m u
    using assms(3) that unfolding check_scan_Inr_iff
    by (cases u) (auto simp: demo_plane_def fun_upd_idem split: option.splits ScanVerdictCache.splits)
  show ?thesis
    unfolding get_blob_Sent_iff serve_def Let_def
    using v c by (auto simp: step_iffs demo_plane_def)
qed

theorem blob_needs_ticket_witness:
  "\<exists>resp s'. get_blob demo_plane ''tx_0'' (Some (AsciiHeader demo_nonce)) fresh_data_plane = (Sent resp, s')
     \<and> br_body resp = demo_blob \<and> demo_nonce \<in> used_nonces s'"
proof -
  obtain resp s' where r: "get_blob demo_plane ''tx_0'' (Some (AsciiHeader demo_nonce)) fresh_data_plane = (Sent resp, s')"
    using demo_serves [of demo_nonce fresh_data_plane] by (auto simp: fresh_data_plane_def)
  from blob_needs_ticket [OF r] r show ?thesis by (auto simp: demo_plane_def demo_ticket_def)
qed

text \<open>
  C8: Over any run of the data plane, no ticket nonce is served twice: two answered requests carry
  different nonces.
\<close>

theorem tickets_served_once:
  assumes "i < j" "j < length rs" "serve_all rs s ! i = Sent x" "serve_all rs s ! j = Sent y"
  shows "presented_nonce (rs ! i) \<noteq> presented_nonce (rs ! j)"
  using assms by (rule serve_all_once)

definition demo_requests :: "dp_request list" where
  "demo_requests = [(demo_plane, ''tx_0'', Some (AsciiHeader demo_nonce)),
     (demo_plane, ''tx_0'', Some (AsciiHeader (replicate 32 (CHR ''b''))))]"

lemma demo_requests_served:
  "\<exists>x y. serve_all demo_requests fresh_data_plane ! 0 = Sent x \<and> serve_all demo_requests fresh_data_plane ! 1 = Sent y"
proof -
  have b: "valid_nonce (replicate 32 (CHR ''b''))" "replicate 32 (CHR ''b'') \<noteq> demo_nonce" by code_simp+
  obtain x s1 where 1: "get_blob demo_plane ''tx_0'' (Some (AsciiHeader demo_nonce)) fresh_data_plane = (Sent x, s1)"
    "s1 = \<lparr>used_nonces = {demo_nonce}, scan_cache = [''tx_0'' \<mapsto> CachedClean]\<rparr>"
    using demo_serves [of demo_nonce fresh_data_plane] by (auto simp: fresh_data_plane_def)
  obtain y s2 where "get_blob demo_plane ''tx_0'' (Some (AsciiHeader (replicate 32 (CHR ''b'')))) s1 = (Sent y, s2)"
    using demo_serves [OF b(1), of s1] b(2) 1(2) by auto
  with 1 show ?thesis by (simp add: demo_requests_def)
qed

theorem tickets_served_once_witness:
  "(\<exists>x y. serve_all demo_requests fresh_data_plane ! 0 = Sent x \<and> serve_all demo_requests fresh_data_plane ! 1 = Sent y)
   \<and> presented_nonce (demo_requests ! 0) \<noteq> presented_nonce (demo_requests ! 1)"
  using demo_requests_served tickets_served_once [of 0 1 demo_requests fresh_data_plane] by (auto simp: demo_requests_def)

end
